(* ===== verification/Prelude.thy ===== *)
theory Prelude
  imports Main "HOL-Library.Word" "HOL-Library.Finite_Map" "HOL-Library.State_Monad"
    "HOL-Library.Monad_Syntax"
begin

text \<open>
  Shared vocabulary of the development: the pieces of Go that the sources use everywhere
  (machine integers, possibly nil maps, error values, the verbs of \<^verbatim>\<open>fmt.Sprintf\<close>), and the
  calculus in which stateful code is reasoned about.

  Stateful code is a value of type \<open>('w, 'a) state\<close> of \<open>HOL-Library.State_Monad\<close>, where \<open>'w\<close>
  is the world outside the process: the API servers, and whatever else acts on them between two
  calls. The type \<open>'w\<close> is never instantiated by the model. \<open>wp m Q s\<close> says that \<open>Q\<close> holds of the
  result and the final world when \<open>m\<close> is run from \<open>s\<close>; since HOL functions are total, it is a
  total-correctness statement.
\<close>

section \<open>Collections of facts\<close>

named_theorems wp_simps \<open>equations that push a weakest precondition through a program\<close>
named_theorems wp_intros \<open>rules that discharge the weakest precondition of a remote call\<close>
named_theorems keeps_intros \<open>rules that take a preserved property apart along a program\<close>
named_theorems str_defs \<open>string constants of the sources\<close>

section \<open>Machine integers\<close>

type_synonym int32 = "32 word"
type_synonym int64 = "64 word"

text \<open>The conversion \<^verbatim>\<open>int64(x)\<close> of an \<^verbatim>\<open>int32\<close> extends the sign.\<close>

definition int64_of_int32 :: "int32 \<Rightarrow> int64" where
  "int64_of_int32 p = word_of_int (sint p)"

lemma sint_int64_of_int32 [simp]: "sint (int64_of_int32 p) = sint p"
proof -
  have "- (2 ^ 31) \<le> sint p" "sint p < 2 ^ 31"
    using sint_greater_eq [of p] sint_less [of p] by simp_all
  then show ?thesis
    unfolding int64_of_int32_def sint_sbintrunc' by (simp add: signed_take_bit_int_eq_self)
qed

lemma int64_of_int32_inject: "int64_of_int32 p = int64_of_int32 q \<longleftrightarrow> p = q"
  by (metis sint_int64_of_int32 signed_word_eqI)

section \<open>Go maps\<close>

text \<open>
  A \<^verbatim>\<open>map[string]string\<close> is \<open>None\<close> when it is nil. Reading a missing key gives the zero value,
  and so does reading a nil map; assigning into a nil map panics.
\<close>

type_synonym go_map = "(string, string) fmap option"

definition map_entry :: "go_map \<Rightarrow> string \<Rightarrow> string option" where
  "map_entry m k = (case m of None \<Rightarrow> None | Some f \<Rightarrow> fmlookup f k)"

definition map_read :: "go_map \<Rightarrow> string \<Rightarrow> string" where
  "map_read m k = (case map_entry m k of None \<Rightarrow> '''' | Some v \<Rightarrow> v)"

definition map_len_pos :: "go_map \<Rightarrow> bool" where
  "map_len_pos m = (case m of None \<Rightarrow> False | Some f \<Rightarrow> f \<noteq> fmempty)"

definition map_assign :: "go_map \<Rightarrow> string \<Rightarrow> string \<Rightarrow> go_map option" where
  "map_assign m k v = (case m of None \<Rightarrow> None | Some f \<Rightarrow> Some (Some (fmupd k v f)))"

text \<open>\<^verbatim>\<open>for k, v := range src { dst[k] = v }\<close>, for a \<open>dst\<close> that is not nil.\<close>

definition map_copy :: "(string, string) fmap \<Rightarrow> go_map \<Rightarrow> (string, string) fmap" where
  "map_copy dst src = (case src of None \<Rightarrow> dst | Some f \<Rightarrow> dst ++\<^sub>f f)"

lemma map_entry_simps [simp]:
  "map_entry None k = None"
  "map_entry (Some f) k = fmlookup f k"
  by (simp_all add: map_entry_def)

lemma map_len_pos_simps [simp]:
  "\<not> map_len_pos None"
  "map_len_pos (Some f) \<longleftrightarrow> f \<noteq> fmempty"
  by (simp_all add: map_len_pos_def)

lemma map_entry_copy:
  "map_entry (Some (map_copy dst src)) k =
     (case map_entry src k of None \<Rightarrow> fmlookup dst k | Some v \<Rightarrow> Some v)"
proof (cases src)
  case None
  then show ?thesis by (simp add: map_copy_def)
next
  case (Some f)
  then show ?thesis
    by (cases "fmlookup f k") (simp_all add: map_copy_def fmdom_notI fmdomI)
qed

lemma not_map_len_pos: "\<not> map_len_pos m \<Longrightarrow> map_entry m k = None"
  by (cases m) auto

lemma fmupd_not_empty [simp]: "fmupd k v f \<noteq> fmempty" "fmempty \<noteq> fmupd k v f"
  by (metis fmempty_lookup fmupd_lookup option.distinct(1))+

text \<open>Equality up to the difference between a nil and an empty map.\<close>

definition map_same :: "go_map \<Rightarrow> go_map \<Rightarrow> bool" where
  "map_same a b = (case_option fmempty id a = case_option fmempty id b)"

lemma map_same_entry: "map_same a b \<longleftrightarrow> (\<forall>k. map_entry a k = map_entry b k)"
proof -
  have "fmlookup (case_option fmempty id m) k = map_entry m k" for m k
    by (cases m) auto
  then show ?thesis
    unfolding map_same_def by (metis fmap_ext)
qed

lemma map_same_refl [simp]: "map_same a a"
  by (simp add: map_same_def)

section \<open>Error values\<close>

text \<open>
  An error is either made in the sources by \<^verbatim>\<open>fmt.Errorf\<close>, with or without a wrapped cause, or
  comes back from an API call. Of an API error the sources only ask whether it is \<^verbatim>\<open>NotFound\<close>.
  \<open>GoPanic\<close> stands for a run-time panic.
\<close>

datatype go_error =
    Errorf string
  | Wrapf string go_error
  | ApiNotFound string
  | ApiError string
  | GoPanic string

primrec Error :: "go_error \<Rightarrow> string" where
  "Error (Errorf s) = s"
| "Error (Wrapf s e) = s @ '': '' @ Error e"
| "Error (ApiNotFound s) = s"
| "Error (ApiError s) = s"
| "Error (GoPanic s) = s"

primrec IsNotFound :: "go_error \<Rightarrow> bool" where
  "IsNotFound (Errorf s) = False"
| "IsNotFound (Wrapf s e) = IsNotFound e"
| "IsNotFound (ApiNotFound s) = True"
| "IsNotFound (ApiError s) = False"
| "IsNotFound (GoPanic s) = False"

definition IgnoreNotFound :: "go_error \<Rightarrow> go_error option" where
  "IgnoreNotFound e = (if IsNotFound e then None else Some e)"

text \<open>The error of a Go pair \<^verbatim>\<open>(value, error)\<close>, \<open>None\<close> for nil.\<close>

definition err_of :: "go_error + 'a \<Rightarrow> go_error option" where
  "err_of r = (case r of Inl e \<Rightarrow> Some e | Inr _ \<Rightarrow> None)"

lemma err_of_simps [simp]: "err_of (Inl e) = Some e" "err_of (Inr x) = None"
  by (simp_all add: err_of_def)

section \<open>The verbs of fmt.Sprintf\<close>

text \<open>\<^verbatim>\<open>%d\<close> of a number that is not negative.\<close>

fun itoa :: "nat \<Rightarrow> string" where
  "itoa n = (if n < 10 then [char_of (48 + n)] else itoa (n div 10) @ [char_of (48 + n mod 10)])"

declare itoa.simps [simp del]

text \<open>
  \<^verbatim>\<open>%q\<close>, on bytes: the quote and the backslash are escaped, the control characters below 32 and
  127 take their escape sequences, everything else is copied. (Go also escapes multi-byte
  characters that are not printable; those are copied here.)
\<close>

definition hex_digit :: "nat \<Rightarrow> char" where
  "hex_digit n = (if n < 10 then char_of (48 + n) else char_of (87 + n))"

definition quote_byte :: "char \<Rightarrow> string" where
  "quote_byte c = (let n = of_char c :: nat in
     if n = 34 then [CHR 0x5C, CHR 0x22]
     else if n = 92 then [CHR 0x5C, CHR 0x5C]
     else if n = 7 then [CHR 0x5C, CHR ''a'']
     else if n = 8 then [CHR 0x5C, CHR ''b'']
     else if n = 12 then [CHR 0x5C, CHR ''f'']
     else if n = 10 then [CHR 0x5C, CHR ''n'']
     else if n = 13 then [CHR 0x5C, CHR ''r'']
     else if n = 9 then [CHR 0x5C, CHR ''t'']
     else if n = 11 then [CHR 0x5C, CHR ''v'']
     else if n < 32 \<or> n = 127 then [CHR 0x5C, CHR ''x'', hex_digit (n div 16), hex_digit (n mod 16)]
     else [c])"

definition quote :: "string \<Rightarrow> string" where
  "quote s = [CHR 0x22] @ concat (map quote_byte s) @ [CHR 0x22]"

definition plain_char :: "char \<Rightarrow> bool" where
  "plain_char c = (let n = of_char c :: nat in 32 \<le> n \<and> n \<noteq> 34 \<and> n \<noteq> 92 \<and> n \<noteq> 127)"

lemma quote_byte_plain: "plain_char c \<Longrightarrow> quote_byte c = [c]"
  by (simp add: plain_char_def quote_byte_def Let_def)

lemma quote_plain:
  assumes "list_all plain_char s"
  shows "quote s = [CHR 0x22] @ s @ [CHR 0x22]"
proof -
  have "concat (map quote_byte s) = s"
    using assms by (induction s) (simp_all add: quote_byte_plain)
  then show ?thesis by (simp add: quote_def)
qed

section \<open>Splitting strings at a separator\<close>

lemma append_sep_inject:
  assumes "c \<notin> set a" "c \<notin> set b"
  shows "a @ c # x = b @ c # y \<longleftrightarrow> a = b \<and> x = y"
  using assms
proof (induction a arbitrary: b)
  case Nil
  then show ?case by (cases b) auto
next
  case (Cons h t)
  then show ?case by (cases b) auto
qed

section \<open>Programs over a world\<close>

text \<open>
  \<open>onOk m f\<close> is the Go idiom \<^verbatim>\<open>x, err := m; if err != nil { return err }; f(x)\<close>, and
  \<open>wrapErr\<close> is \<^verbatim>\<open>fmt.Errorf("...: %w", err)\<close> on the error path.
\<close>

definition onOk :: "('w, go_error + 'a) state \<Rightarrow> ('a \<Rightarrow> ('w, go_error + 'b) state) \<Rightarrow>
    ('w, go_error + 'b) state" where
  "onOk m f = do { r \<leftarrow> m; (case r of Inl e \<Rightarrow> State_Monad.return (Inl e) | Inr x \<Rightarrow> f x) }"

definition wrapErr :: "string \<Rightarrow> ('w, go_error + 'a) state \<Rightarrow> ('w, go_error + 'a) state" where
  "wrapErr s m = do { r \<leftarrow> m;
     State_Monad.return (case r of Inl e \<Rightarrow> Inl (Wrapf s e) | Inr x \<Rightarrow> Inr x) }"

definition wp :: "('w, 'a) state \<Rightarrow> ('a \<Rightarrow> 'w \<Rightarrow> bool) \<Rightarrow> 'w \<Rightarrow> bool" where
  "wp m Q s = (case run_state m s of (a, s') \<Rightarrow> Q a s')"

lemma wp_return [wp_simps]: "wp (State_Monad.return a) Q = Q a"
  by (simp add: wp_def State_Monad.return_def fun_eq_iff)

lemma wp_bind [wp_simps]: "wp (State_Monad.bind m f) Q s = wp m (\<lambda>a. wp (f a) Q) s"
  by (simp add: wp_def State_Monad.bind_def split: prod.splits)

lemma wp_onOk [wp_simps]:
  "wp (onOk m f) Q s = wp m (\<lambda>r. case r of Inl e \<Rightarrow> Q (Inl e) | Inr x \<Rightarrow> wp (f x) Q) s"
  unfolding onOk_def wp_bind
  by (rule arg_cong [where f = "\<lambda>Q. wp m Q s"]) (auto simp: wp_return fun_eq_iff split: sum.splits)

lemma wp_wrapErr [wp_simps]:
  "wp (wrapErr t m) Q s = wp m (\<lambda>r. case r of Inl e \<Rightarrow> Q (Inl (Wrapf t e)) | Inr x \<Rightarrow> Q (Inr x)) s"
  unfolding wrapErr_def wp_bind
  by (rule arg_cong [where f = "\<lambda>Q. wp m Q s"]) (auto simp: wp_return fun_eq_iff split: sum.splits)

lemma wp_if [wp_simps]: "wp (if b then m else n) Q s = (if b then wp m Q s else wp n Q s)"
  by simp

lemma wp_case_option [wp_simps]:
  "wp (case x of None \<Rightarrow> m | Some y \<Rightarrow> n y) Q s = (case x of None \<Rightarrow> wp m Q s | Some y \<Rightarrow> wp (n y) Q s)"
  by (simp split: option.splits)

lemma wp_case_sum [wp_simps]:
  "wp (case x of Inl e \<Rightarrow> m e | Inr y \<Rightarrow> n y) Q s = (case x of Inl e \<Rightarrow> wp (m e) Q s | Inr y \<Rightarrow> wp (n y) Q s)"
  by (simp split: sum.splits)

lemma wp_case_prod [wp_simps]:
  "wp (case x of (a, b) \<Rightarrow> m a b) Q s = (case x of (a, b) \<Rightarrow> wp (m a b) Q s)"
  by (simp split: prod.splits)

lemma wp_let [wp_simps]: "wp (let x = a in m x) Q s = (let x = a in wp (m x) Q s)"
  by simp

lemma wp_mono:
  assumes "wp m P s" "\<And>a w. P a w \<Longrightarrow> Q a w"
  shows "wp m Q s"
  using assms by (auto simp: wp_def split: prod.splits)

lemma wp_conj: "wp m (\<lambda>a w. P a w \<and> Q a w) s \<longleftrightarrow> wp m P s \<and> wp m Q s"
  by (auto simp: wp_def split: prod.splits)

lemma wp_True [simp]: "wp m (\<lambda>_ _. True) s"
  by (simp add: wp_def split: prod.splits)

lemma wp_run: "wp m Q s \<longleftrightarrow> Q (fst (run_state m s)) (snd (run_state m s))"
  by (simp add: wp_def split: prod.splits)

lemma wpI: "(\<And>a w. Q a w) \<Longrightarrow> wp m Q s"
  by (simp add: wp_def split: prod.splits)

section \<open>Preserved properties\<close>

text \<open>A program that preserves a property of the world, whatever it returns.\<close>

definition keeps :: "('w \<Rightarrow> bool) \<Rightarrow> ('w, 'a) state \<Rightarrow> bool" where
  "keeps J m = (\<forall>s. J s \<longrightarrow> wp m (\<lambda>_. J) s)"

lemma keeps_return [keeps_intros]: "keeps J (State_Monad.return a)"
  by (simp add: keeps_def wp_simps)

lemma keeps_bind [keeps_intros]:
  assumes "keeps J m" "\<And>a. keeps J (f a)"
  shows "keeps J (State_Monad.bind m f)"
  unfolding keeps_def wp_bind
proof (intro allI impI)
  fix s
  assume "J s"
  then have "wp m (\<lambda>_. J) s" using assms(1) by (simp add: keeps_def)
  then show "wp m (\<lambda>a. wp (f a) (\<lambda>_. J)) s" by (rule wp_mono) (use assms(2) in \<open>simp add: keeps_def\<close>)
qed

lemma keeps_cases [keeps_intros]:
  "keeps J m \<Longrightarrow> keeps J n \<Longrightarrow> keeps J (if b then m else n)"
  "keeps J m \<Longrightarrow> (\<And>y. keeps J (p y)) \<Longrightarrow> keeps J (case x of None \<Rightarrow> m | Some y \<Rightarrow> p y)"
  "(\<And>e. keeps J (q e)) \<Longrightarrow> (\<And>y. keeps J (p y)) \<Longrightarrow> keeps J (case z of Inl e \<Rightarrow> q e | Inr y \<Rightarrow> p y)"
  "(\<And>e y. keeps J (r e y)) \<Longrightarrow> keeps J (case u of (e, y) \<Rightarrow> r e y)"
  "(\<And>y. keeps J (p y)) \<Longrightarrow> keeps J (let y = a in p y)"
  by (auto simp: Let_def split: option.split sum.split prod.split)

lemma keeps_onOk [keeps_intros]: "keeps J m \<Longrightarrow> (\<And>a. keeps J (f a)) \<Longrightarrow> keeps J (onOk m f)"
  unfolding onOk_def by (intro keeps_bind keeps_cases keeps_return)

lemma keeps_wrapErr [keeps_intros]: "keeps J m \<Longrightarrow> keeps J (wrapErr t m)"
  unfolding wrapErr_def by (intro keeps_bind keeps_cases keeps_return)

end
