(* ===== verification/API_Types.thy ===== *)
theory API_Types
  imports Prelude
begin

text \<open>
  The custom resources of \<^verbatim>\<open>src/api/v1alpha1\<close>: one record per Go struct, with the struct's
  fields under a short prefix, an optional pointer as an \<open>option\<close>, an \<^verbatim>\<open>int32\<close> as a 32-bit word.
  Beside the structs stand the constants of the package, its few functions, and the admission
  rules (\<^verbatim>\<open>XValidation\<close>) that the markers on the machine types declare.

  \<open>ObjectMeta\<close>, \<open>Condition\<close>, \<open>APIEndpoint\<close> and \<open>MachineAddress\<close> are the Kubernetes and
  Cluster API structs the package embeds, with the fields that the sources use. Timestamps are
  left out of conditions: the sources neither read nor set them.
\<close>

section \<open>Structs of the Kubernetes and Cluster API packages\<close>

record OwnerReference =
  or_Kind :: string
  or_Name :: string
  or_UID :: string
  or_Controller :: bool

record ObjectMeta =
  om_Name :: string
  om_Namespace :: string
  om_Labels :: go_map
  om_Annotations :: go_map
  om_Finalizers :: "string list"
  om_DeletionTimestamp :: "int option"
  om_OwnerReferences :: "OwnerReference list"

record NamespacedName =
  nn_Namespace :: string
  nn_Name :: string

record Condition =
  cond_Type :: string
  cond_Status :: string
  cond_Reason :: string
  cond_Message :: string

record APIEndpoint =
  ep_Host :: string
  ep_Port :: int32

record MachineAddress =
  addr_Type :: string
  addr_Address :: string

text \<open>The zero value \<^verbatim>\<open>metav1.ObjectMeta{}\<close>.\<close>

definition empty_meta :: ObjectMeta where
  "empty_meta = \<lparr> om_Name = '''', om_Namespace = '''', om_Labels = None, om_Annotations = None,
     om_Finalizers = [], om_DeletionTimestamp = None, om_OwnerReferences = [] \<rparr>"

definition nn :: "string \<Rightarrow> string \<Rightarrow> NamespacedName" where
  "nn ns name = \<lparr> nn_Namespace = ns, nn_Name = name \<rparr>"

lemma nn_simps [simp]: "nn_Namespace (nn a b) = a" "nn_Name (nn a b) = b"
  by (simp_all add: nn_def)

definition ConditionTrue :: string where [str_defs]: "ConditionTrue = ''True''"
definition ConditionFalse :: string where [str_defs]: "ConditionFalse = ''False''"
definition MachineInternalIP :: string where [str_defs]: "MachineInternalIP = ''InternalIP''"
definition ClusterNameLabel :: string where [str_defs]: "ClusterNameLabel = ''cluster.x-k8s.io/cluster-name''"

section \<open>common\_types.go and conditions.go\<close>

record InitializationStatus =
  init_Provisioned :: "bool option"

definition ClusterFinalizer :: string where [str_defs]:
  "ClusterFinalizer = ''kubeswiftcluster.infrastructure.cluster.x-k8s.io/finalizer''"
definition MachineFinalizer :: string where [str_defs]:
  "MachineFinalizer = ''kubeswiftmachine.infrastructure.cluster.x-k8s.io/finalizer''"
definition ProviderIDScheme :: string where [str_defs]: "ProviderIDScheme = ''kubeswift''"

definition ReadyConditionType :: string where [str_defs]: "ReadyConditionType = ''Ready''"

definition WaitingForControlPlaneEndpointReason :: string where [str_defs]:
  "WaitingForControlPlaneEndpointReason = ''WaitingForControlPlaneEndpoint''"
definition ClusterProvisionedReason :: string where [str_defs]:
  "ClusterProvisionedReason = ''Provisioned''"
definition WaitingForEndpointServiceReason :: string where [str_defs]:
  "WaitingForEndpointServiceReason = ''WaitingForEndpointService''"
definition WaitingForClusterInfrastructureReason :: string where [str_defs]:
  "WaitingForClusterInfrastructureReason = ''WaitingForClusterInfrastructure''"
definition WaitingForBootstrapDataReason :: string where [str_defs]:
  "WaitingForBootstrapDataReason = ''WaitingForBootstrapData''"
definition VMProvisioningReason :: string where [str_defs]:
  "VMProvisioningReason = ''VMProvisioning''"
definition VMWaitingForReferencesReason :: string where [str_defs]:
  "VMWaitingForReferencesReason = ''VMWaitingForReferences''"
definition VMProvisionedReason :: string where [str_defs]:
  "VMProvisionedReason = ''VMProvisioned''"
definition VMFailedReason :: string where [str_defs]: "VMFailedReason = ''VMFailed''"

section \<open>kubeswiftmachine\_types.go\<close>

definition SwiftGuestBackendType :: string where [str_defs]: "SwiftGuestBackendType = ''SwiftGuest''"
definition GPUTierPCIe :: string where [str_defs]: "GPUTierPCIe = ''pcie''"

record SwiftGuestInterface =
  if_Name :: string
  if_NetworkRef :: string
  if_Primary :: bool

record SwiftGuestGPU =
  gpu_ResourceClaimTemplateName :: string
  gpu_ResourceClaimName :: string
  gpu_RequestName :: string
  gpu_GPUProfileRef :: string
  gpu_Tier :: string
  gpu_Hugepages :: string

record SwiftGuestBackend =
  sg_ImageRef :: string
  sg_GuestClassRef :: string
  sg_NetworkRef :: string
  sg_NodeNetworkRef :: string
  sg_Interfaces :: "SwiftGuestInterface list"
  sg_NodeName :: string
  sg_GPU :: "SwiftGuestGPU option"
  sg_StorageClassName :: string

record MachineBackend =
  mb_Type :: string
  mb_SwiftGuest :: "SwiftGuestBackend option"

record KubeSwiftMachineSpec =
  kms_ProviderID :: string
  kms_Backend :: MachineBackend

record KubeSwiftMachineStatus =
  kmt_Initialization :: InitializationStatus
  kmt_Addresses :: "MachineAddress list"
  kmt_FailureDomain :: string
  kmt_Conditions :: "Condition list"

record KubeSwiftMachine =
  ksm_Meta :: ObjectMeta
  ksm_Spec :: KubeSwiftMachineSpec
  ksm_Status :: KubeSwiftMachineStatus

section \<open>kubeswiftcluster\_types.go\<close>

definition EndpointModeExternal :: string where [str_defs]: "EndpointModeExternal = ''External''"
definition EndpointModeService :: string where [str_defs]: "EndpointModeService = ''Service''"
definition EndpointModeRoutableIP :: string where [str_defs]: "EndpointModeRoutableIP = ''RoutableIP''"
definition ControlPlanePoolLabelKey :: string where [str_defs]:
  "ControlPlanePoolLabelKey = ''swift.kubeswift.io/pool''"
definition APIServerPortName :: string where [str_defs]: "APIServerPortName = ''apiserver''"

definition ControlPlaneServiceSelectorValue :: "string \<Rightarrow> string" where
  "ControlPlaneServiceSelectorValue clusterName = clusterName @ ''-cp''"

record ControlPlaneServiceSpec =
  cps_Type :: string
  cps_Port :: int32
  cps_Annotations :: go_map
  cps_LoadBalancerClass :: "string option"

record ControlPlaneEndpointSpec =
  cpe_Mode :: string
  cpe_Service :: "ControlPlaneServiceSpec option"

record KubeSwiftClusterSpec =
  kcs_ControlPlaneEndpoint :: "APIEndpoint option"
  kcs_Endpoint :: "ControlPlaneEndpointSpec option"
  kcs_GuestNamespace :: string

record KubeSwiftClusterStatus =
  kct_Initialization :: InitializationStatus
  kct_Conditions :: "Condition list"

record KubeSwiftCluster =
  ksc_Meta :: ObjectMeta
  ksc_Spec :: KubeSwiftClusterSpec
  ksc_Status :: KubeSwiftClusterStatus

section \<open>Templates\<close>

record KubeSwiftMachineTemplateResource =
  kmr_Labels :: go_map
  kmr_Annotations :: go_map
  kmr_Spec :: KubeSwiftMachineSpec

record KubeSwiftMachineTemplateSpec =
  kmts_Template :: KubeSwiftMachineTemplateResource

record KubeSwiftMachineTemplate =
  kmtt_Meta :: ObjectMeta
  kmtt_Spec :: KubeSwiftMachineTemplateSpec

record KubeSwiftClusterTemplateResource =
  kcr_Labels :: go_map
  kcr_Annotations :: go_map
  kcr_Spec :: KubeSwiftClusterSpec

record KubeSwiftClusterTemplateSpec =
  kcts_Template :: KubeSwiftClusterTemplateResource

record KubeSwiftClusterTemplate =
  kctt_Meta :: ObjectMeta
  kctt_Spec :: KubeSwiftClusterTemplateSpec

section \<open>Condition getters and setters (conditions.go)\<close>

definition cluster_GetConditions :: "KubeSwiftCluster \<Rightarrow> Condition list" where
  "cluster_GetConditions c = kct_Conditions (ksc_Status c)"

definition cluster_SetConditions :: "KubeSwiftCluster \<Rightarrow> Condition list \<Rightarrow> KubeSwiftCluster" where
  "cluster_SetConditions c conditions = c\<lparr>ksc_Status := (ksc_Status c)\<lparr>kct_Conditions := conditions\<rparr>\<rparr>"

definition machine_GetConditions :: "KubeSwiftMachine \<Rightarrow> Condition list" where
  "machine_GetConditions m = kmt_Conditions (ksm_Status m)"

definition machine_SetConditions :: "KubeSwiftMachine \<Rightarrow> Condition list \<Rightarrow> KubeSwiftMachine" where
  "machine_SetConditions m conditions = m\<lparr>ksm_Status := (ksm_Status m)\<lparr>kmt_Conditions := conditions\<rparr>\<rparr>"

section \<open>Admission rules of the machine types\<close>

text \<open>
  The \<^verbatim>\<open>XValidation\<close> rules are evaluated by the API server on the JSON of an object, where an
  optional field may be absent or present with its zero value. A JSON interface and backend are
  records of options; \<open>decode_*\<close> is what the Go struct holds after decoding (an absent field is
  the zero value). \<open>cel_has\<close>, \<open>cel_size\<close> and \<open>cel_exists_one\<close> are the macros of the rules.
\<close>

record json_interface =
  ji_name :: string
  ji_networkRef :: "string option"
  ji_primary :: "bool option"

record json_backend =
  jb_networkRef :: "string option"
  jb_nodeNetworkRef :: "string option"
  jb_interfaces :: "json_interface list option"

definition cel_has :: "'a option \<Rightarrow> bool" where
  "cel_has x = (x \<noteq> None)"

definition cel_size :: "'a list option \<Rightarrow> nat" where
  "cel_size x = (case x of None \<Rightarrow> 0 | Some l \<Rightarrow> length l)"

definition cel_true :: "bool option \<Rightarrow> bool" where
  "cel_true x = (x = Some True)"

definition cel_exists_one :: "('a \<Rightarrow> bool) \<Rightarrow> 'a list \<Rightarrow> bool" where
  "cel_exists_one p l = (length (filter p l) = 1)"

definition cel_interface_rule :: "json_interface \<Rightarrow> bool" where
  "cel_interface_rule self =
     ((cel_has (ji_primary self) \<and> cel_true (ji_primary self)) \<or>
      (cel_has (ji_networkRef self) \<and> cel_size (ji_networkRef self) > 0))"

definition cel_interfaces_rule :: "json_interface list \<Rightarrow> bool" where
  "cel_interfaces_rule self =
     (length self = 0 \<or> cel_exists_one (\<lambda>i. cel_has (ji_primary i) \<and> cel_true (ji_primary i)) self)"

definition cel_backend_rule :: "json_backend \<Rightarrow> bool" where
  "cel_backend_rule self =
     (\<not> cel_has (jb_interfaces self) \<or> cel_size (jb_interfaces self) = 0 \<or>
      ((\<not> cel_has (jb_networkRef self) \<or> cel_size (jb_networkRef self) = 0) \<and>
       (\<not> cel_has (jb_nodeNetworkRef self) \<or> cel_size (jb_nodeNetworkRef self) = 0)))"

text \<open>A rule on a field is evaluated only when the field is present.\<close>

definition cel_admits :: "json_backend \<Rightarrow> bool" where
  "cel_admits j =
     (cel_backend_rule j \<and>
      (case jb_interfaces j of None \<Rightarrow> True
       | Some l \<Rightarrow> cel_interfaces_rule l \<and> list_all cel_interface_rule l))"

definition json_string :: "string option \<Rightarrow> string" where
  "json_string x = (case x of None \<Rightarrow> '''' | Some s \<Rightarrow> s)"

definition json_bool :: "bool option \<Rightarrow> bool" where
  "json_bool x = (case x of None \<Rightarrow> False | Some b \<Rightarrow> b)"

definition decode_SwiftGuestInterface :: "json_interface \<Rightarrow> SwiftGuestInterface" where
  "decode_SwiftGuestInterface j =
     \<lparr> if_Name = ji_name j, if_NetworkRef = json_string (ji_networkRef j),
       if_Primary = json_bool (ji_primary j) \<rparr>"

text \<open>The other fields of the backend, on which no rule depends, come from \<open>base\<close>.\<close>

definition decode_SwiftGuestBackend :: "SwiftGuestBackend \<Rightarrow> json_backend \<Rightarrow> SwiftGuestBackend" where
  "decode_SwiftGuestBackend base j =
     base\<lparr> sg_NetworkRef := json_string (jb_networkRef j),
           sg_NodeNetworkRef := json_string (jb_nodeNetworkRef j),
           sg_Interfaces := (case jb_interfaces j of None \<Rightarrow> []
                             | Some l \<Rightarrow> map decode_SwiftGuestInterface l) \<rparr>"

lemma cel_size_string [simp]: "cel_size s > 0 \<longleftrightarrow> json_string s \<noteq> ''''"
  by (simp add: cel_size_def json_string_def split: option.splits)

lemma cel_size_string_0 [simp]: "cel_size s = 0 \<longleftrightarrow> json_string s = ''''"
  by (simp add: cel_size_def json_string_def split: option.splits)

lemma cel_true_json_bool [simp]: "cel_true b \<longleftrightarrow> json_bool b"
  by (auto simp: cel_true_def json_bool_def split: option.splits)

lemma json_bool_has [simp]: "json_bool b \<Longrightarrow> cel_has b"
  by (auto simp: cel_has_def json_bool_def split: option.splits)

lemma json_string_has [simp]: "json_string s \<noteq> '''' \<Longrightarrow> cel_has s"
  by (auto simp: cel_has_def json_string_def split: option.splits)

section \<open>The conditions interface\<close>

text \<open>
  Both resources implement the getter and setter pair that Cluster API's condition helpers are
  written against. What those helpers rely on is a lens: what is set is what is read, and setting
  touches nothing else.
\<close>

locale conditions_object =
  fixes getc :: "'o \<Rightarrow> Condition list"
    and setc :: "'o \<Rightarrow> Condition list \<Rightarrow> 'o"
  assumes get_set: "getc (setc x cs) = cs"
    and set_get: "setc x (getc x) = x"
    and set_set: "setc (setc x cs) ds = setc x ds"
begin

text \<open>A helper that rewrites the list is determined by what it does to the list.\<close>

lemma setc_eq_iff: "setc x cs = setc x ds \<longleftrightarrow> cs = ds"
  by (metis get_set)

lemma update_update: "setc (setc x (f (getc x))) (g (getc (setc x (f (getc x))))) = setc x (g (f (getc x)))"
  by (simp add: get_set set_set)

lemma update_id: "f (getc x) = getc x \<Longrightarrow> setc x (f (getc x)) = x"
  by (simp add: set_get)

end

interpretation cluster_conds: conditions_object cluster_GetConditions cluster_SetConditions
  by unfold_locales (simp_all add: cluster_GetConditions_def cluster_SetConditions_def)

interpretation machine_conds: conditions_object machine_GetConditions machine_SetConditions
  by unfold_locales (simp_all add: machine_GetConditions_def machine_SetConditions_def)

end
