(* ===== verification/Platform.thy ===== *)
theory Platform
  imports API_Types
begin

text \<open>
  What the provider calls but does not contain: the Kubernetes and Cluster API Go packages and
  the API servers behind their clients. None of that code is under \<^verbatim>\<open>src/\<close>, so it enters the
  model as two parameters of every definition that uses it:
  \<^item> \<open>lib\<close>, the pure helpers (accessors of unstructured objects, semantic equality, finalizer and
    condition helpers, the pause and ownership predicates);
  \<^item> \<open>'w client\<close>, the calls that reach an API server, as programs over an unknown world \<open>'w\<close>.
    A call may fail in any way and may change the world in any way, since other controllers
    act between two calls.

  \<open>logged\<close> wraps a client so that the calls made are recorded in order; a theorem about the log of
  a program run with \<open>logged C\<close>, for an arbitrary \<open>C\<close>, holds for every behaviour of the servers.
  The documented behaviour that some theorems rely on is stated as locales over \<open>lib\<close> further down.
\<close>

section \<open>Unstructured objects\<close>

text \<open>The dynamic types that occur in a \<^verbatim>\<open>map[string]interface{}\<close> of the sources.\<close>

datatype val =
    VNil
  | VString string
  | VBool bool
  | VInt int64
  | VMap "(string, val) fmap"
  | VSlice "val list"

type_synonym json_obj = "(string, val) fmap"

text \<open>
  \<^verbatim>\<open>unstructured.Unstructured\<close>: a struct with the one field \<^verbatim>\<open>Object\<close>. A fresh one has a nil
  \<^verbatim>\<open>Object\<close>, which reads as the empty map; every object of the sources has its kind set before
  anything is written into \<^verbatim>\<open>Object\<close> directly.
\<close>

record Unstructured =
  u_Object :: json_obj

record GroupVersionKind =
  g_Group :: string
  g_Version :: string
  g_Kind :: string

section \<open>Structs of the other resources\<close>

datatype IntOrString = FromInt32 int32 | FromString string

record ServicePort =
  sp_Name :: string
  sp_Port :: int32
  sp_TargetPort :: IntOrString
  sp_Protocol :: string
  sp_NodePort :: int32

record LoadBalancerIngress =
  ing_IP :: string
  ing_Hostname :: string

record Service =
  svc_Meta :: ObjectMeta
  svc_Type :: string
  svc_Selector :: go_map
  svc_Ports :: "ServicePort list"
  svc_LoadBalancerClass :: "string option"
  svc_ClusterIP :: string
  svc_Ingress :: "LoadBalancerIngress list"

definition ServiceTypeClusterIP :: string where [str_defs]: "ServiceTypeClusterIP = ''ClusterIP''"
definition ServiceTypeLoadBalancer :: string where [str_defs]: "ServiceTypeLoadBalancer = ''LoadBalancer''"
definition ClusterIPNone :: string where [str_defs]: "ClusterIPNone = ''None''"
definition ProtocolTCP :: string where [str_defs]: "ProtocolTCP = ''TCP''"

text \<open>A Secret's \<^verbatim>\<open>Data\<close>, with the bytes of a value as a string.\<close>

record Secret =
  sec_Data :: go_map

record CAPICluster =
  cl_Meta :: ObjectMeta
  cl_InfrastructureRefName :: string
  cl_InfrastructureProvisioned :: "bool option"
  cl_Paused :: "bool option"

record CAPIMachine =
  ma_Meta :: ObjectMeta
  ma_DataSecretName :: "string option"
  ma_FailureDomain :: string

record Node =
  node_Name :: string
  node_ProviderID :: string

type_synonym rest_config = string
type_synonym clientset = string

record AdmissionRequest =
  ar_DryRun :: "bool option"
  ar_Operation :: string

text \<open>\<^verbatim>\<open>ctrl.Result\<close>, with the delay in nanoseconds, and what a reconciler returns with it.\<close>

record ctrl_Result =
  res_RequeueAfter :: int

type_synonym outcome = "ctrl_Result \<times> go_error option"

definition done_Result :: ctrl_Result where
  "done_Result = \<lparr> res_RequeueAfter = 0 \<rparr>"

section \<open>The pure helpers\<close>

record lib =
  u_SetGroupVersionKind :: "Unstructured \<Rightarrow> GroupVersionKind \<Rightarrow> Unstructured"
  u_SetNamespace :: "Unstructured \<Rightarrow> string \<Rightarrow> Unstructured"
  u_SetName :: "Unstructured \<Rightarrow> string \<Rightarrow> Unstructured"
  u_SetLabels :: "Unstructured \<Rightarrow> go_map \<Rightarrow> Unstructured"
  u_GetKind :: "Unstructured \<Rightarrow> string"
  u_GetNamespace :: "Unstructured \<Rightarrow> string"
  u_GetName :: "Unstructured \<Rightarrow> string"
  u_GetLabels :: "Unstructured \<Rightarrow> go_map"
  u_GetDeletionTimestamp :: "Unstructured \<Rightarrow> int option"
  IsZero :: "int option \<Rightarrow> bool"
  NestedString :: "json_obj \<Rightarrow> string list \<Rightarrow> string"
  NestedSlice :: "json_obj \<Rightarrow> string list \<Rightarrow> val list"
  NestedMap :: "json_obj \<Rightarrow> string list \<Rightarrow> json_obj option"
  RemoveNestedField :: "json_obj \<Rightarrow> string list \<Rightarrow> json_obj"
  SetNestedField :: "json_obj \<Rightarrow> val \<Rightarrow> string list \<Rightarrow> go_error + json_obj"
  EqObject :: "json_obj option \<Rightarrow> val \<Rightarrow> bool"
  EqString :: "string \<Rightarrow> string \<Rightarrow> bool"
  EqStringMap :: "go_map \<Rightarrow> go_map \<Rightarrow> bool"
  EqPorts :: "ServicePort list \<Rightarrow> ServicePort list \<Rightarrow> bool"
  EqStringPtr :: "string option \<Rightarrow> string option \<Rightarrow> bool"
  keyString :: "NamespacedName \<Rightarrow> string"
  AddFinalizer :: "string list \<Rightarrow> string \<Rightarrow> string list"
  RemoveFinalizer :: "string list \<Rightarrow> string \<Rightarrow> string list"
  conditions_Set :: "Condition list \<Rightarrow> Condition \<Rightarrow> Condition list"
  IsPaused :: "CAPICluster \<Rightarrow> ObjectMeta \<Rightarrow> bool"
  IsExternallyManaged :: "ObjectMeta \<Rightarrow> bool"
  IsControlPlaneMachine :: "CAPIMachine \<Rightarrow> bool"
  SetControllerReference :: "KubeSwiftCluster \<Rightarrow> Service \<Rightarrow> go_error + Service"
  RESTConfigFromKubeConfig :: "string \<Rightarrow> go_error + rest_config"
  NewForConfig :: "rest_config \<Rightarrow> go_error + clientset"
  IsDryRunRequest :: "AdmissionRequest \<Rightarrow> KubeSwiftMachineTemplate \<Rightarrow> bool"

text \<open>
  \<open>NestedString\<close>, \<open>NestedSlice\<close> and \<open>NestedMap\<close> are the first component of the package's
  functions of those names: every call site discards the other two. The finalizer and condition
  helpers are given on the list they rewrite; \<open>EqObject\<close> to \<open>EqStringPtr\<close> are
  \<^verbatim>\<open>apiequality.Semantic.DeepEqual\<close> at the types it is used at.
\<close>

section \<open>The client\<close>

record 'w client =
  c_GetMachine :: "NamespacedName \<Rightarrow> ('w, go_error + KubeSwiftMachine) state"
  c_GetCluster :: "NamespacedName \<Rightarrow> ('w, go_error + KubeSwiftCluster) state"
  c_GetSecret :: "NamespacedName \<Rightarrow> ('w, go_error + Secret) state"
  c_GetService :: "NamespacedName \<Rightarrow> ('w, go_error + Service) state"
  c_GetObject :: "Unstructured \<Rightarrow> NamespacedName \<Rightarrow> ('w, go_error + Unstructured) state"
  c_CreateObject :: "Unstructured \<Rightarrow> ('w, go_error + Unstructured) state"
  c_UpdateObject :: "Unstructured \<Rightarrow> ('w, go_error + Unstructured) state"
  c_DeleteObject :: "Unstructured \<Rightarrow> ('w, go_error + unit) state"
  c_CreateService :: "Service \<Rightarrow> ('w, go_error + Service) state"
  c_UpdateService :: "Service \<Rightarrow> ('w, go_error + Service) state"
  c_DeleteService :: "Service \<Rightarrow> ('w, go_error + unit) state"
  c_GetOwnerMachine :: "ObjectMeta \<Rightarrow> ('w, go_error + CAPIMachine option) state"
  c_GetClusterFromMetadata :: "ObjectMeta \<Rightarrow> ('w, go_error + CAPICluster) state"
  c_GetOwnerCluster :: "ObjectMeta \<Rightarrow> ('w, go_error + CAPICluster option) state"
  c_NewMachineHelper :: "KubeSwiftMachine \<Rightarrow> ('w, go_error + unit) state"
  c_PatchMachine :: "KubeSwiftMachine \<Rightarrow> KubeSwiftMachine \<Rightarrow> ('w, go_error + unit) state"
  c_NewClusterHelper :: "KubeSwiftCluster \<Rightarrow> ('w, go_error + unit) state"
  c_PatchCluster :: "KubeSwiftCluster \<Rightarrow> KubeSwiftCluster \<Rightarrow> ('w, go_error + unit) state"
  c_GetNode :: "clientset \<Rightarrow> string \<Rightarrow> ('w, go_error + Node) state"
  c_PatchNode :: "clientset \<Rightarrow> string \<Rightarrow> string \<Rightarrow> ('w, go_error + Node) state"

text \<open>
  A typed \<^verbatim>\<open>Get\<close> fills the object it is given, so it returns that object. \<^verbatim>\<open>Create\<close> and
  \<^verbatim>\<open>Update\<close> overwrite theirs with the server's answer, so they return it. \<open>c_PatchMachine\<close> and
  \<open>c_PatchCluster\<close> take the object as it was when the helper was made and as it is now.
\<close>

section \<open>Recorded calls\<close>

datatype api_call =
    CGetMachine NamespacedName
  | CGetCluster NamespacedName
  | CGetSecret NamespacedName
  | CGetService NamespacedName
  | CGetObject Unstructured NamespacedName
  | CCreateObject Unstructured
  | CUpdateObject Unstructured
  | CDeleteObject Unstructured
  | CCreateService Service
  | CUpdateService Service
  | CDeleteService Service
  | CGetOwnerMachine ObjectMeta
  | CGetClusterFromMetadata ObjectMeta
  | CGetOwnerCluster ObjectMeta
  | CNewMachineHelper KubeSwiftMachine
  | CPatchMachine KubeSwiftMachine KubeSwiftMachine
  | CNewClusterHelper KubeSwiftCluster
  | CPatchCluster KubeSwiftCluster KubeSwiftCluster
  | CGetNode clientset string
  | CPatchNode clientset string string

fun is_write :: "api_call \<Rightarrow> bool" where
  "is_write (CCreateObject u) = True"
| "is_write (CUpdateObject u) = True"
| "is_write (CDeleteObject u) = True"
| "is_write (CCreateService s) = True"
| "is_write (CUpdateService s) = True"
| "is_write (CDeleteService s) = True"
| "is_write (CPatchMachine a b) = True"
| "is_write (CPatchCluster a b) = True"
| "is_write (CPatchNode cs n p) = True"
| "is_write _ = False"

text \<open>
  How a call was answered, as far as the sources distinguish answers. The reads of the two resources
  and the lookups of the owning Cluster and Machine are recorded with what they found.
\<close>

datatype response = ROk | RNotFound | RError | RCluster CAPICluster | RMachine CAPIMachine
  | RInfraCluster KubeSwiftCluster | RInfraMachine KubeSwiftMachine

definition fail_response :: "go_error \<Rightarrow> response" where
  "fail_response e = (if IsNotFound e then RNotFound else RError)"

definition response_of :: "go_error + 'a \<Rightarrow> response" where
  "response_of r = (case r of Inr _ \<Rightarrow> ROk | Inl e \<Rightarrow> fail_response e)"

fun owner_response :: "('a \<Rightarrow> response) \<Rightarrow> go_error + 'a option \<Rightarrow> response" where
  "owner_response f (Inr (Some x)) = f x"
| "owner_response f (Inr None) = ROk"
| "owner_response f (Inl e) = fail_response e"

fun read_response :: "('a \<Rightarrow> response) \<Rightarrow> go_error + 'a \<Rightarrow> response" where
  "read_response f (Inr x) = f x"
| "read_response f (Inl e) = fail_response e"

lemma fail_response_simps [simp]:
  "IsNotFound e \<Longrightarrow> fail_response e = RNotFound"
  "\<not> IsNotFound e \<Longrightarrow> fail_response e = RError"
  "fail_response e \<noteq> ROk"
  by (simp_all add: fail_response_def)

lemma response_of_simps [simp]:
  "response_of (Inr x) = ROk"
  "response_of (Inl e) = fail_response e"
  by (simp_all add: response_of_def)

type_synonym call_log = "(api_call \<times> response) list"

abbreviation writes :: "call_log \<Rightarrow> api_call list" where
  "writes l \<equiv> filter is_write (map fst l)"

definition record_with :: "(go_error + 'a \<Rightarrow> response) \<Rightarrow> api_call \<Rightarrow> ('w, go_error + 'a) state \<Rightarrow>
    ('w \<times> call_log, go_error + 'a) state" where
  "record_with f c m = State (\<lambda>(w, l).
     case run_state m w of (a, w') \<Rightarrow> (a, (w', l @ [(c, f a)])))"

abbreviation record_call :: "api_call \<Rightarrow> ('w, go_error + 'a) state \<Rightarrow>
    ('w \<times> call_log, go_error + 'a) state" where
  "record_call \<equiv> record_with response_of"

definition logged :: "'w client \<Rightarrow> ('w \<times> call_log) client" where
  "logged C = \<lparr>
     c_GetMachine = (\<lambda>k. record_with (read_response RInfraMachine) (CGetMachine k) (c_GetMachine C k)),
     c_GetCluster = (\<lambda>k. record_with (read_response RInfraCluster) (CGetCluster k) (c_GetCluster C k)),
     c_GetSecret = (\<lambda>k. record_call (CGetSecret k) (c_GetSecret C k)),
     c_GetService = (\<lambda>k. record_call (CGetService k) (c_GetService C k)),
     c_GetObject = (\<lambda>u k. record_call (CGetObject u k) (c_GetObject C u k)),
     c_CreateObject = (\<lambda>u. record_call (CCreateObject u) (c_CreateObject C u)),
     c_UpdateObject = (\<lambda>u. record_call (CUpdateObject u) (c_UpdateObject C u)),
     c_DeleteObject = (\<lambda>u. record_call (CDeleteObject u) (c_DeleteObject C u)),
     c_CreateService = (\<lambda>s. record_call (CCreateService s) (c_CreateService C s)),
     c_UpdateService = (\<lambda>s. record_call (CUpdateService s) (c_UpdateService C s)),
     c_DeleteService = (\<lambda>s. record_call (CDeleteService s) (c_DeleteService C s)),
     c_GetOwnerMachine = (\<lambda>m. record_with (owner_response RMachine) (CGetOwnerMachine m) (c_GetOwnerMachine C m)),
     c_GetClusterFromMetadata =
       (\<lambda>m. record_with (read_response RCluster) (CGetClusterFromMetadata m) (c_GetClusterFromMetadata C m)),
     c_GetOwnerCluster = (\<lambda>m. record_with (owner_response RCluster) (CGetOwnerCluster m) (c_GetOwnerCluster C m)),
     c_NewMachineHelper = (\<lambda>m. record_call (CNewMachineHelper m) (c_NewMachineHelper C m)),
     c_PatchMachine = (\<lambda>a b. record_call (CPatchMachine a b) (c_PatchMachine C a b)),
     c_NewClusterHelper = (\<lambda>m. record_call (CNewClusterHelper m) (c_NewClusterHelper C m)),
     c_PatchCluster = (\<lambda>a b. record_call (CPatchCluster a b) (c_PatchCluster C a b)),
     c_GetNode = (\<lambda>cs n. record_call (CGetNode cs n) (c_GetNode C cs n)),
     c_PatchNode = (\<lambda>cs n p. record_call (CPatchNode cs n p) (c_PatchNode C cs n p)) \<rparr>"

lemma wp_record_with:
  assumes "\<And>a w'. Q a (w', snd s @ [(c, f a)])"
  shows "wp (record_with f c m) Q s"
  using assms by (cases s) (simp add: wp_def record_with_def split: prod.splits)

lemma wp_logged [wp_intros]:
  "(\<And>a w'. Q1 a (w', snd s @ [(CGetMachine k, read_response RInfraMachine a)])) \<Longrightarrow> wp (c_GetMachine (logged C) k) Q1 s"
  "(\<And>a w'. Q2 a (w', snd s @ [(CGetCluster k, read_response RInfraCluster a)])) \<Longrightarrow> wp (c_GetCluster (logged C) k) Q2 s"
  "(\<And>a w'. Q3 a (w', snd s @ [(CGetSecret k, response_of a)])) \<Longrightarrow> wp (c_GetSecret (logged C) k) Q3 s"
  "(\<And>a w'. Q4 a (w', snd s @ [(CGetService k, response_of a)])) \<Longrightarrow> wp (c_GetService (logged C) k) Q4 s"
  "(\<And>a w'. Q5 a (w', snd s @ [(CGetObject u k, response_of a)])) \<Longrightarrow> wp (c_GetObject (logged C) u k) Q5 s"
  "(\<And>a w'. Q5 a (w', snd s @ [(CCreateObject u, response_of a)])) \<Longrightarrow> wp (c_CreateObject (logged C) u) Q5 s"
  "(\<And>a w'. Q5 a (w', snd s @ [(CUpdateObject u, response_of a)])) \<Longrightarrow> wp (c_UpdateObject (logged C) u) Q5 s"
  "(\<And>a w'. Q6 a (w', snd s @ [(CDeleteObject u, response_of a)])) \<Longrightarrow> wp (c_DeleteObject (logged C) u) Q6 s"
  "(\<And>a w'. Q4 a (w', snd s @ [(CCreateService v, response_of a)])) \<Longrightarrow> wp (c_CreateService (logged C) v) Q4 s"
  "(\<And>a w'. Q4 a (w', snd s @ [(CUpdateService v, response_of a)])) \<Longrightarrow> wp (c_UpdateService (logged C) v) Q4 s"
  "(\<And>a w'. Q6 a (w', snd s @ [(CDeleteService v, response_of a)])) \<Longrightarrow> wp (c_DeleteService (logged C) v) Q6 s"
  "(\<And>a w'. Q7 a (w', snd s @ [(CGetOwnerMachine m, owner_response RMachine a)])) \<Longrightarrow> wp (c_GetOwnerMachine (logged C) m) Q7 s"
  "(\<And>a w'. Q8 a (w', snd s @ [(CGetClusterFromMetadata m, read_response RCluster a)])) \<Longrightarrow>
     wp (c_GetClusterFromMetadata (logged C) m) Q8 s"
  "(\<And>a w'. Q9 a (w', snd s @ [(CGetOwnerCluster m, owner_response RCluster a)])) \<Longrightarrow> wp (c_GetOwnerCluster (logged C) m) Q9 s"
  "(\<And>a w'. Q6 a (w', snd s @ [(CNewMachineHelper x, response_of a)])) \<Longrightarrow> wp (c_NewMachineHelper (logged C) x) Q6 s"
  "(\<And>a w'. Q6 a (w', snd s @ [(CPatchMachine x x', response_of a)])) \<Longrightarrow> wp (c_PatchMachine (logged C) x x') Q6 s"
  "(\<And>a w'. Q6 a (w', snd s @ [(CNewClusterHelper y, response_of a)])) \<Longrightarrow> wp (c_NewClusterHelper (logged C) y) Q6 s"
  "(\<And>a w'. Q6 a (w', snd s @ [(CPatchCluster y y', response_of a)])) \<Longrightarrow> wp (c_PatchCluster (logged C) y y') Q6 s"
  "(\<And>a w'. Q10 a (w', snd s @ [(CGetNode cs n, response_of a)])) \<Longrightarrow> wp (c_GetNode (logged C) cs n) Q10 s"
  "(\<And>a w'. Q10 a (w', snd s @ [(CPatchNode cs n p, response_of a)])) \<Longrightarrow> wp (c_PatchNode (logged C) cs n p) Q10 s"
  by (simp_all add: logged_def wp_record_with)

text \<open>
  Turns a lemma about the calls \<open>m\<close> makes into a rule of the same form as those of a single call.
\<close>

lemma wp_trace:
  assumes "wp m (\<lambda>r s'. \<exists>l. snd s' = snd s @ l \<and> T l r) s" "\<And>a w l. T l a \<Longrightarrow> Q a (w, snd s @ l)"
  shows "wp m Q s"
  using assms by (auto intro: wp_mono)

end
