(* ===== verification/Backend.thy ===== *)
theory Backend
  imports Platform
begin

text \<open>
  \<^verbatim>\<open>src/internal/backend/backend.go\<close>: the request and result structs and the Go interface
  \<^verbatim>\<open>Backend\<close>, a record of its three methods. The locale states what the machine controller
  relies on when it calls a backend; the SwiftGuest backend is shown to keep that contract in
  \<^verbatim>\<open>SwiftGuest_Backend\<close>.
\<close>

record ControlPlaneExposure =
  cx_PoolLabel :: string
  cx_Port :: int32

record Request =
  rq_Machine :: KubeSwiftMachine
  rq_Cluster :: "CAPICluster option"
  rq_CAPIMachine :: "CAPIMachine option"
  rq_BootstrapDataSecretName :: string
  rq_GuestNamespace :: string
  rq_ProviderID :: string
  rq_ControlPlaneExposure :: "ControlPlaneExposure option"

record Result =
  rs_Provisioned :: bool
  rs_Addresses :: "MachineAddress list"
  rs_Requeue :: bool
  rs_WaitingReason :: string
  rs_WaitingMessage :: string

text \<open>The zero value \<^verbatim>\<open>Result{}\<close>.\<close>

definition empty_Result :: Result where
  "empty_Result = \<lparr> rs_Provisioned = False, rs_Addresses = [], rs_Requeue = False,
     rs_WaitingReason = '''', rs_WaitingMessage = '''' \<rparr>"

definition BootstrapDataSecretKey :: string where [str_defs]: "BootstrapDataSecretKey = ''value''"

record 'w Backend =
  b_Type :: string
  b_Reconcile :: "Request \<Rightarrow> ('w, go_error + Result) state"
  b_Delete :: "Request \<Rightarrow> ('w, go_error + bool) state"

abbreviation rq_Name :: "Request \<Rightarrow> string" where
  "rq_Name req \<equiv> om_Name (ksm_Meta (rq_Machine req))"

section \<open>The contract of a backend\<close>

text \<open>
  A result that claims the machine is provisioned carries at least one address and every address
  in it is non-empty; one that does not claims no address and asks to be called again, and gives
  a message only together with a reason.
\<close>

definition result_ok :: "Result \<Rightarrow> bool" where
  "result_ok res =
     (if rs_Provisioned res
      then rs_Addresses res \<noteq> [] \<and> list_all (\<lambda>a. addr_Address a \<noteq> '''') (rs_Addresses res)
      else rs_Addresses res = [] \<and> rs_Requeue res \<and>
           (rs_WaitingReason res = '''' \<longrightarrow> rs_WaitingMessage res = ''''))"

locale machine_backend =
  fixes B :: "'w Backend"
  assumes reconcile_ok: "wp (b_Reconcile B req) (\<lambda>r _. case r of Inl e \<Rightarrow> True | Inr res \<Rightarrow> result_ok res) w"
begin

text \<open>How the caller uses the contract: any postcondition that holds for every error and for every
  admissible result holds after the call.\<close>

lemma reconcile_cases:
  assumes "\<And>e w'. Q (Inl e) w'" "\<And>res w'. result_ok res \<Longrightarrow> Q (Inr res) w'"
  shows "wp (b_Reconcile B req) Q w"
  by (rule wp_mono [OF reconcile_ok]) (auto simp: assms split: sum.splits)

end

end
