(* ===== verification/SwiftGuest_Validate.thy ===== *)
theory SwiftGuest_Validate
  imports Backend
begin

text \<open>
  The validation functions of \<^verbatim>\<open>src/internal/backend/swiftguest.go\<close>, which run before anything is
  created. A nil error is \<open>None\<close>. The lemmas say exactly which configurations pass, and that the
  interface check accepts the same objects as the admission rules on the API types.
\<close>

text \<open>The dash of the messages, U+2014 in UTF-8.\<close>

definition em_dash :: string where
  "em_dash = [CHR 0xE2, CHR 0x80, CHR 0x94]"

definition validatePlacement :: "SwiftGuestBackend \<Rightarrow> go_error option" where
  "validatePlacement cfg =
     (if sg_NodeName cfg \<noteq> '''' \<and> sg_GPU cfg \<noteq> None
      then Some (Errorf (''spec.backend.swiftGuest: nodeName cannot be combined with gpu '' @ em_dash @
        '' a GPU machine is placed by where its device is, and pinning the pod bypasses '' @
        ''the scheduler that allocates the claim''))
      else None)"

definition validateGPU :: "SwiftGuestGPU option \<Rightarrow> go_error option" where
  "validateGPU gpu = (case gpu of None \<Rightarrow> None | Some g \<Rightarrow>
     let n = fold (\<lambda>v set. if v \<noteq> '''' then set + 1 else set)
       [gpu_ResourceClaimTemplateName g, gpu_ResourceClaimName g, gpu_GPUProfileRef g] (0 :: nat)
     in if n \<noteq> 1
        then Some (Errorf (''spec.backend.swiftGuest.gpu: set exactly one of '' @
          ''resourceClaimTemplateName, resourceClaimName or gpuProfileRef''))
        else if gpu_Tier g \<noteq> '''' \<and> gpu_Tier g \<noteq> GPUTierPCIe
        then Some (Errorf (''spec.backend.swiftGuest.gpu.tier '' @ quote (gpu_Tier g) @ '': only '' @
          GPUTierPCIe @ '' is supported (hgx tiers need QEMU and a host Fabric Manager)''))
        else None)"

text \<open>The loop of \<^verbatim>\<open>validateInterfaces\<close>: the index, the count of primaries so far, the rest.\<close>

fun validateInterfaces_loop :: "nat \<Rightarrow> nat \<Rightarrow> SwiftGuestInterface list \<Rightarrow> go_error + nat" where
  "validateInterfaces_loop i primaries [] = Inr primaries"
| "validateInterfaces_loop i primaries (iface # rest) =
     (if if_Primary iface then validateInterfaces_loop (i + 1) (primaries + 1) rest
      else if if_NetworkRef iface = ''''
      then Inl (Errorf (''spec.backend.swiftGuest.interfaces['' @ itoa i @ ''] '' @
        quote (if_Name iface) @ '': a secondary interface must set networkRef''))
      else validateInterfaces_loop (i + 1) primaries rest)"

definition validateInterfaces :: "SwiftGuestBackend \<Rightarrow> go_error option" where
  "validateInterfaces cfg =
     (if sg_Interfaces cfg = [] then None
      else if sg_NetworkRef cfg \<noteq> '''' \<or> sg_NodeNetworkRef cfg \<noteq> ''''
      then Some (Errorf (''spec.backend.swiftGuest: interfaces cannot be combined with '' @
        ''networkRef or nodeNetworkRef''))
      else case validateInterfaces_loop 0 0 (sg_Interfaces cfg) of
        Inl e \<Rightarrow> Some e
      | Inr primaries \<Rightarrow>
          if primaries \<noteq> 1
          then Some (Errorf (''spec.backend.swiftGuest.interfaces: exactly one interface must be '' @
            ''primary, got '' @ itoa primaries))
          else None)"

fun primaryOnNAD_loop :: "SwiftGuestInterface list \<Rightarrow> bool" where
  "primaryOnNAD_loop [] = False"
| "primaryOnNAD_loop (iface # rest) =
     (if if_Primary iface then if_NetworkRef iface \<noteq> '''' else primaryOnNAD_loop rest)"

definition primaryOnNAD :: "SwiftGuestBackend \<Rightarrow> bool" where
  "primaryOnNAD cfg = (if sg_NetworkRef cfg \<noteq> '''' then True else primaryOnNAD_loop (sg_Interfaces cfg))"

section \<open>What passes\<close>

text \<open>The shape of an explicit interface list that validation accepts.\<close>

definition interfaces_ok :: "SwiftGuestInterface list \<Rightarrow> bool" where
  "interfaces_ok l = (length (filter if_Primary l) = 1 \<and>
     list_all (\<lambda>i. if_Primary i \<or> if_NetworkRef i \<noteq> '''') l)"

lemma validateInterfaces_loop_Inr:
  "validateInterfaces_loop i p l = Inr n \<longleftrightarrow>
     list_all (\<lambda>i. if_Primary i \<or> if_NetworkRef i \<noteq> '''') l \<and> n = p + length (filter if_Primary l)"
  by (induction i p l rule: validateInterfaces_loop.induct) auto

lemma validateInterfaces_None:
  "validateInterfaces cfg = None \<longleftrightarrow>
     sg_Interfaces cfg = [] \<or>
     sg_NetworkRef cfg = '''' \<and> sg_NodeNetworkRef cfg = '''' \<and> interfaces_ok (sg_Interfaces cfg)"
proof (cases "validateInterfaces_loop 0 0 (sg_Interfaces cfg)")
  case (Inl e)
  then have "\<not> interfaces_ok (sg_Interfaces cfg)"
    using validateInterfaces_loop_Inr [of 0 0 "sg_Interfaces cfg"] by (auto simp: interfaces_ok_def)
  with Inl show ?thesis by (simp add: validateInterfaces_def)
next
  case (Inr n)
  then show ?thesis
    using validateInterfaces_loop_Inr [of 0 0 "sg_Interfaces cfg" n]
    by (auto simp: validateInterfaces_def interfaces_ok_def)
qed

lemma primaryOnNAD_loop_iff:
  "length (filter if_Primary l) = 1 \<Longrightarrow>
     primaryOnNAD_loop l \<longleftrightarrow> (\<exists>i\<in>set l. if_Primary i \<and> if_NetworkRef i \<noteq> '''')"
proof (induction l)
  case Nil
  then show ?case by simp
next
  case (Cons a l)
  then show ?case by (auto simp: filter_empty_conv)
qed

text \<open>
  C22. The interface check of the backend is the admission rule. For every JSON a user can submit,
  with optional fields absent or present, the three \<^verbatim>\<open>XValidation\<close> rules on the machine types
  admit the object if and only if \<^verbatim>\<open>validateInterfaces\<close> accepts the struct it decodes to. The
  backstop for objects stored before the rules existed is neither weaker nor stronger than them.
\<close>

theorem validateInterfaces_iff_cel:
  "cel_admits j \<longleftrightarrow> validateInterfaces (decode_SwiftGuestBackend base j) = None"
proof (cases "jb_interfaces j")
  case None
  then show ?thesis
    by (simp add: cel_admits_def cel_backend_rule_def cel_has_def validateInterfaces_None
        decode_SwiftGuestBackend_def)
next
  case (Some l)
  have rule: "cel_interface_rule i \<longleftrightarrow>
      if_Primary (decode_SwiftGuestInterface i) \<or> if_NetworkRef (decode_SwiftGuestInterface i) \<noteq> ''''" for i
    by (auto simp: cel_interface_rule_def decode_SwiftGuestInterface_def)
  have prim: "length (filter if_Primary (map decode_SwiftGuestInterface l)) =
      length (filter (\<lambda>i. cel_has (ji_primary i) \<and> json_bool (ji_primary i)) l)"
    by (induction l) (auto simp: decode_SwiftGuestInterface_def)
  have "cel_interfaces_rule l \<and> list_all cel_interface_rule l \<longleftrightarrow>
      l = [] \<or> interfaces_ok (map decode_SwiftGuestInterface l)"
    using prim by (auto simp: cel_interfaces_rule_def cel_exists_one_def interfaces_ok_def rule list_all_iff)
  moreover have "cel_backend_rule j \<longleftrightarrow>
      l = [] \<or> json_string (jb_networkRef j) = '''' \<and> json_string (jb_nodeNetworkRef j) = ''''"
    using Some by (auto simp: cel_backend_rule_def cel_size_def [of "Some l"] cel_has_def json_string_def)
  ultimately show ?thesis
    using Some by (auto simp: cel_admits_def validateInterfaces_None decode_SwiftGuestBackend_def)
qed

text \<open>A GPU request that validation accepts.\<close>

definition gpu_ok :: "SwiftGuestGPU \<Rightarrow> bool" where
  "gpu_ok g = (length (filter (\<lambda>v. v \<noteq> '''')
       [gpu_ResourceClaimTemplateName g, gpu_ResourceClaimName g, gpu_GPUProfileRef g]) = 1 \<and>
     gpu_Tier g \<in> {'''', GPUTierPCIe})"

lemma validateGPU_None: "validateGPU gpu = None \<longleftrightarrow> (case gpu of None \<Rightarrow> True | Some g \<Rightarrow> gpu_ok g)"
  by (cases gpu) (auto simp: validateGPU_def gpu_ok_def Let_def)

lemma validatePlacement_None:
  "validatePlacement cfg = None \<longleftrightarrow> sg_NodeName cfg = '''' \<or> sg_GPU cfg = None"
  by (simp add: validatePlacement_def)

end
