(* ===== verification/Lib_Laws.thy ===== *)
theory Lib_Laws
  imports Platform
begin

text \<open>
  The documented behaviour of the packages behind \<open>lib\<close>, as locales that a theorem can take as a
  hypothesis (\<open>k8s_lib L\<close>), and a reference instance \<open>ref_lib\<close> on which all of them hold. Paths
  into unstructured content are read, written and removed as in the package's nested-field
  functions: a level that is not a map ends the walk.
\<close>

section \<open>Nested fields\<close>

fun nested_field :: "json_obj \<Rightarrow> string list \<Rightarrow> val option" where
  "nested_field m [] = Some (VMap m)"
| "nested_field m (k # ks) = (case fmlookup m k of None \<Rightarrow> None
     | Some v \<Rightarrow> if ks = [] then Some v
                 else (case v of VMap m' \<Rightarrow> nested_field m' ks | _ \<Rightarrow> None))"

fun set_field :: "json_obj \<Rightarrow> val \<Rightarrow> string list \<Rightarrow> json_obj option" where
  "set_field m v [] = None"
| "set_field m v (k # ks) =
     (if ks = [] then Some (fmupd k v m)
      else case fmlookup m k of
        None \<Rightarrow> map_option (\<lambda>m'. fmupd k (VMap m') m) (set_field fmempty v ks)
      | Some (VMap m1) \<Rightarrow> map_option (\<lambda>m'. fmupd k (VMap m') m) (set_field m1 v ks)
      | Some _ \<Rightarrow> None)"

fun remove_field :: "json_obj \<Rightarrow> string list \<Rightarrow> json_obj" where
  "remove_field m [] = m"
| "remove_field m (k # ks) =
     (if ks = [] then fmdrop k m
      else case fmlookup m k of
        Some (VMap m1) \<Rightarrow> fmupd k (VMap (remove_field m1 ks)) m
      | _ \<Rightarrow> m)"

text \<open>A field of the object's spec, the only place the sources remove or set a nested field in.\<close>

abbreviation spec_field :: "json_obj \<Rightarrow> string \<Rightarrow> val option" where
  "spec_field m k \<equiv> nested_field m [''spec'', k]"

lemma nested_field_2:
  "nested_field m [a, b] = (case fmlookup m a of Some (VMap m') \<Rightarrow> fmlookup m' b | _ \<Rightarrow> None)"
  by (auto split: option.splits val.splits)

lemma nested_field_fmupd_other: "k \<noteq> a \<Longrightarrow> nested_field (fmupd a v m) (k # ks) = nested_field m (k # ks)"
  by simp

lemma remove_field_2:
  "nested_field (remove_field m [a, b]) [c, d] = (if a = c \<and> b = d then None else nested_field m [c, d])"
  by (auto simp: nested_field_2 split: option.splits val.splits)

lemma set_field_2:
  "set_field m v [a, b] = Some m' \<Longrightarrow>
     nested_field m' [c, d] = (if a = c \<and> b = d then Some v else nested_field m [c, d])"
  by (auto simp: nested_field_2 split: option.splits val.splits if_splits)

text \<open>Every level above the last is a map or absent: the documented condition for setting a field.\<close>

definition settable :: "json_obj \<Rightarrow> string \<Rightarrow> bool" where
  "settable m a = (case fmlookup m a of None \<Rightarrow> True | Some (VMap _) \<Rightarrow> True | _ \<Rightarrow> False)"

lemma set_field_2_some: "settable m a \<longleftrightarrow> (\<exists>m'. set_field m v [a, b] = Some m')"
  by (auto simp: settable_def split: option.splits val.splits)

text \<open>Top-level keys other than the first of the path are untouched.\<close>

lemma set_field_other: "set_field m v (a # ks) = Some m' \<Longrightarrow> k \<noteq> a \<Longrightarrow> fmlookup m' k = fmlookup m k"
  by (auto split: option.splits val.splits if_splits)

lemma remove_field_other: "k \<noteq> a \<Longrightarrow> fmlookup (remove_field m (a # ks)) k = fmlookup m k"
  by (auto split: option.splits val.splits)

declare nested_field.simps [simp del] set_field.simps [simp del] remove_field.simps [simp del]

section \<open>The laws\<close>

text \<open>The metadata of an object is absent or a map, as in everything the packages build or decode.\<close>

definition meta_map :: "Unstructured \<Rightarrow> bool" where
  "meta_map u = settable (u_Object u) ''metadata''"

locale nested_lib =
  fixes L :: lib
  assumes nested_string: "NestedString L m p = (case nested_field m p of Some (VString s) \<Rightarrow> s | _ \<Rightarrow> '''')"
    and nested_slice: "NestedSlice L m p = (case nested_field m p of Some (VSlice s) \<Rightarrow> s | _ \<Rightarrow> [])"
    and nested_map: "NestedMap L m p = (case nested_field m p of Some (VMap s) \<Rightarrow> Some s | _ \<Rightarrow> None)"
    and remove_nested: "nested_field (RemoveNestedField L m [''spec'', b]) [c, d] =
      (if c = ''spec'' \<and> b = d then None else nested_field m [c, d])"
    and remove_nested_settable: "settable (RemoveNestedField L m [''spec'', b]) k \<longleftrightarrow> settable m k"
    and remove_nested_other:
      "k \<noteq> ''spec'' \<Longrightarrow> fmlookup (RemoveNestedField L m [''spec'', b]) k = fmlookup m k"
    and set_nested_ok: "settable m ''spec'' \<Longrightarrow> \<exists>m'. SetNestedField L m v [''spec'', b] = Inr m'"
    and set_nested: "SetNestedField L m v [''spec'', b] = Inr m' \<Longrightarrow>
      nested_field m' [c, d] = (if c = ''spec'' \<and> b = d then Some v else nested_field m [c, d])"
    and set_nested_other: "SetNestedField L m v [''spec'', b] = Inr m' \<Longrightarrow> k \<noteq> ''spec'' \<Longrightarrow>
      fmlookup m' k = fmlookup m k"

locale metadata_lib =
  fixes L :: lib
  assumes fresh: "u_GetLabels L \<lparr> u_Object = fmempty \<rparr> = None"
    and set_kind: "u_GetKind L (u_SetGroupVersionKind L u g) = g_Kind g"
    and kind_frame: "u_GetKind L (u_SetNamespace L u s) = u_GetKind L u"
      "u_GetKind L (u_SetName L u s) = u_GetKind L u"
      "u_GetKind L (u_SetLabels L u m) = u_GetKind L u"
    and set_namespace: "meta_map u \<Longrightarrow> u_GetNamespace L (u_SetNamespace L u s) = s"
    and set_name: "meta_map u \<Longrightarrow> u_GetName L (u_SetName L u s) = s"
    and set_labels: "meta_map u \<Longrightarrow> u_GetLabels L (u_SetLabels L u m) = m"
    and namespace_frame: "u_GetNamespace L (u_SetGroupVersionKind L u g) = u_GetNamespace L u"
      "u_GetNamespace L (u_SetName L u s) = u_GetNamespace L u"
      "u_GetNamespace L (u_SetLabels L u m) = u_GetNamespace L u"
    and name_frame: "u_GetName L (u_SetGroupVersionKind L u g) = u_GetName L u"
      "u_GetName L (u_SetNamespace L u s) = u_GetName L u"
      "u_GetName L (u_SetLabels L u m) = u_GetName L u"
    and labels_frame: "u_GetLabels L (u_SetGroupVersionKind L u g) = u_GetLabels L u"
      "u_GetLabels L (u_SetNamespace L u s) = u_GetLabels L u"
      "u_GetLabels L (u_SetName L u s) = u_GetLabels L u"
    and content_frame: "k \<notin> {''apiVersion'', ''kind''} \<Longrightarrow>
        fmlookup (u_Object (u_SetGroupVersionKind L u g)) k = fmlookup (u_Object u) k"
      "k \<noteq> ''metadata'' \<Longrightarrow> fmlookup (u_Object (u_SetNamespace L u s)) k = fmlookup (u_Object u) k"
      "k \<noteq> ''metadata'' \<Longrightarrow> fmlookup (u_Object (u_SetName L u s)) k = fmlookup (u_Object u) k"
      "k \<noteq> ''metadata'' \<Longrightarrow> fmlookup (u_Object (u_SetLabels L u m)) k = fmlookup (u_Object u) k"
    and meta_map_frame: "meta_map u \<Longrightarrow> meta_map (u_SetNamespace L u s)"
      "meta_map u \<Longrightarrow> meta_map (u_SetName L u s)"
      "meta_map u \<Longrightarrow> meta_map (u_SetLabels L u m)"
    and observe_metadata: "fmlookup (u_Object u) ''metadata'' = fmlookup (u_Object v) ''metadata'' \<Longrightarrow>
        u_GetNamespace L u = u_GetNamespace L v \<and> u_GetName L u = u_GetName L v \<and>
        u_GetLabels L u = u_GetLabels L v \<and> u_GetDeletionTimestamp L u = u_GetDeletionTimestamp L v"
    and observe_kind: "fmlookup (u_Object u) ''kind'' = fmlookup (u_Object v) ''kind'' \<Longrightarrow>
        u_GetKind L u = u_GetKind L v"
    and is_zero: "IsZero L None" "0 < t \<Longrightarrow> \<not> IsZero L (Some t)"

locale equality_lib =
  fixes L :: lib
  assumes eq_object: "EqObject L m v \<longleftrightarrow> v = VMap (case m of None \<Rightarrow> fmempty | Some f \<Rightarrow> f)"
    and eq_string: "EqString L a b \<longleftrightarrow> a = b"
    and eq_string_map: "EqStringMap L c d \<longleftrightarrow> map_same c d"
    and eq_ports: "EqPorts L p q \<longleftrightarrow> p = q"
    and eq_string_ptr: "EqStringPtr L x y \<longleftrightarrow> x = y"

definition condition_of :: "Condition list \<Rightarrow> string \<Rightarrow> Condition option" where
  "condition_of cs t = find (\<lambda>c. cond_Type c = t) cs"

locale objects_lib =
  fixes L :: lib
  assumes add_finalizer: "set (AddFinalizer L fs f) = insert f (set fs)"
    and add_finalizer_again: "f \<in> set fs \<Longrightarrow> AddFinalizer L fs f = fs"
    and remove_finalizer: "set (RemoveFinalizer L fs f) = set fs - {f}"
    and condition_set: "condition_of (conditions_Set L cs c) t =
        (if t = cond_Type c then Some c else condition_of cs t)"
    and condition_set_distinct: "distinct (map cond_Type cs) \<Longrightarrow> distinct (map cond_Type (conditions_Set L cs c))"
    and controller_reference: "SetControllerReference L owner s = Inr s' \<Longrightarrow>
        \<exists>refs. s' = s\<lparr>svc_Meta := (svc_Meta s)\<lparr>om_OwnerReferences := refs\<rparr>\<rparr>"
    and controller_reference_ok: "om_OwnerReferences (svc_Meta s) = [] \<Longrightarrow>
        om_Namespace (svc_Meta s) = om_Namespace (ksc_Meta owner) \<Longrightarrow>
        \<exists>s'. SetControllerReference L owner s = Inr s'"
    and controller_reference_owner: "SetControllerReference L owner s = Inr s' \<Longrightarrow>
        om_OwnerReferences (svc_Meta s) = [] \<Longrightarrow>
        \<exists>r. om_OwnerReferences (svc_Meta s') = [r] \<and> or_Controller r \<and> or_Kind r = ''KubeSwiftCluster'' \<and>
          or_Name r = om_Name (ksc_Meta owner)"

locale k8s_lib = nested_lib L + metadata_lib L + equality_lib L + objects_lib L for L :: lib
begin

text \<open>Writing a key outside the metadata leaves every accessor of the metadata alone.\<close>

lemma observe_fmupd:
  assumes "k \<noteq> ''metadata''"
  shows "u_GetNamespace L (u\<lparr>u_Object := fmupd k v (u_Object u)\<rparr>) = u_GetNamespace L u"
    "u_GetName L (u\<lparr>u_Object := fmupd k v (u_Object u)\<rparr>) = u_GetName L u"
    "u_GetLabels L (u\<lparr>u_Object := fmupd k v (u_Object u)\<rparr>) = u_GetLabels L u"
  using observe_metadata [of "u\<lparr>u_Object := fmupd k v (u_Object u)\<rparr>" u] assms by simp_all

lemma kind_fmupd: "k \<noteq> ''kind'' \<Longrightarrow> u_GetKind L (u\<lparr>u_Object := fmupd k v (u_Object u)\<rparr>) = u_GetKind L u"
  by (rule observe_kind) simp

lemma meta_map_fresh: "meta_map (u_SetGroupVersionKind L \<lparr> u_Object = fmempty \<rparr> g)"
  by (simp add: meta_map_def settable_def content_frame)

lemmas meta_simps = set_kind kind_frame set_namespace set_name set_labels namespace_frame name_frame
  labels_frame meta_map_frame meta_map_fresh fresh observe_fmupd kind_fmupd

end

end
