(* ===== verification/SwiftGuest_Render.thy ===== *)
theory SwiftGuest_Render
  imports SwiftGuest_Validate Lib_Laws
begin

text \<open>
  The pure part of \<^verbatim>\<open>src/internal/backend/swiftguest.go\<close> that builds the KubeSwift objects: the
  names and constants, \<^verbatim>\<open>seedProfileSpec\<close>, \<^verbatim>\<open>renderInterfaces\<close> and \<^verbatim>\<open>renderSwiftGuest\<close>, whose
  spec is put together by one definition per block of the source. \<open>renderSwiftGuest\<close> returns
  \<open>None\<close> where the source would assign into a nil map.
\<close>

section \<open>Constants\<close>

definition swiftGuestGVK :: GroupVersionKind where
  "swiftGuestGVK = \<lparr> g_Group = ''swift.kubeswift.io'', g_Version = ''v1alpha1'', g_Kind = ''SwiftGuest'' \<rparr>"

definition swiftSeedProfileGVK :: GroupVersionKind where
  "swiftSeedProfileGVK =
     \<lparr> g_Group = ''seed.kubeswift.io'', g_Version = ''v1alpha1'', g_Kind = ''SwiftSeedProfile'' \<rparr>"

definition MachineLabelKey :: string where [str_defs]:
  "MachineLabelKey = ''infrastructure.cluster.x-k8s.io/kubeswiftmachine''"
definition nameField :: string where [str_defs]: "nameField = ''name''"
definition primaryField :: string where [str_defs]: "primaryField = ''primary''"
definition primaryInterfaceName :: string where [str_defs]: "primaryInterfaceName = ''primary''"
definition mgmtInterfaceName :: string where [str_defs]: "mgmtInterfaceName = ''mgmt''"
definition natBinding :: string where [str_defs]: "natBinding = ''nat''"
definition resolvedCondition :: string where [str_defs]: "resolvedCondition = ''Resolved''"
definition primaryIPScopePod :: string where [str_defs]: "primaryIPScopePod = ''Pod''"

section \<open>Helpers\<close>

text \<open>A map literal \<^verbatim>\<open>map[string]interface{}{...}\<close> with distinct keys.\<close>

definition lit :: "(string \<times> val) list \<Rightarrow> val" where
  "lit kvs = VMap (fmap_of_list kvs)"

definition localRef :: "string \<Rightarrow> val" where
  "localRef name = lit [(nameField, VString name)]"

definition newUnstructured :: "lib \<Rightarrow> GroupVersionKind \<Rightarrow> Unstructured" where
  "newUnstructured L gvk = u_SetGroupVersionKind L \<lparr> u_Object = fmempty \<rparr> gvk"

definition NewSwiftGuestObject :: "lib \<Rightarrow> Unstructured" where
  "NewSwiftGuestObject L = newUnstructured L swiftGuestGVK"

definition seedName :: "string \<Rightarrow> string" where
  "seedName machineName = machineName @ ''-seed''"

definition setKubeSwiftLabels :: "lib \<Rightarrow> Unstructured \<Rightarrow> Request \<Rightarrow> Unstructured" where
  "setKubeSwiftLabels L u req =
     (let labels = (case u_GetLabels L u of None \<Rightarrow> fmempty | Some f \<Rightarrow> f);
          labels = (case rq_Cluster req of None \<Rightarrow> labels
                    | Some cluster \<Rightarrow> fmupd ClusterNameLabel (om_Name (cl_Meta cluster)) labels);
          labels = fmupd MachineLabelKey (rq_Name req) labels
      in u_SetLabels L u (Some labels))"

section \<open>The seed profile\<close>

definition userDataFrom :: "Request \<Rightarrow> val" where
  "userDataFrom req = lit [(''secretKeyRef'',
     lit [(nameField, VString (rq_BootstrapDataSecretName req)), (''key'', VString BootstrapDataSecretKey)])]"

definition seedProfileSpec :: "Request \<Rightarrow> json_obj" where
  "seedProfileSpec req = fmap_of_list
     [(''datasource'', VString ''NoCloud''),
      (''userDataFrom'', userDataFrom req),
      (''metaData'', VString (''instance-id: '' @ rq_Name req @ [CHR 0x0A] @
         ''local-hostname: '' @ rq_Name req @ [CHR 0x0A]))]"

section \<open>The guest\<close>

definition renderInterface :: "SwiftGuestInterface \<Rightarrow> val" where
  "renderInterface iface =
     (let m = fmap_of_list [(nameField, VString (if_Name iface))];
          m = (if if_Primary iface then fmupd primaryField (VBool True) m else m);
          m = (if if_NetworkRef iface \<noteq> '''' then fmupd ''networkRef'' (localRef (if_NetworkRef iface)) m else m)
      in VMap m)"

definition renderInterfaces :: "SwiftGuestInterface list \<Rightarrow> val list" where
  "renderInterfaces ifaces = map renderInterface ifaces"

definition render_base :: "Request \<Rightarrow> SwiftGuestBackend \<Rightarrow> json_obj" where
  "render_base req cfg = fmap_of_list
     [(''imageRef'', localRef (sg_ImageRef cfg)),
      (''guestClassRef'', localRef (sg_GuestClassRef cfg)),
      (''seedProfileRef'', localRef (seedName (rq_Name req)))]"

definition render_network :: "SwiftGuestBackend \<Rightarrow> json_obj \<Rightarrow> json_obj" where
  "render_network cfg spec =
     (if sg_Interfaces cfg \<noteq> [] then fmupd ''interfaces'' (VSlice (renderInterfaces (sg_Interfaces cfg))) spec
      else if sg_NetworkRef cfg \<noteq> '''' then
        fmupd ''interfaces'' (VSlice
          [lit [(nameField, VString primaryInterfaceName), (primaryField, VBool True),
                (''networkRef'', localRef (sg_NetworkRef cfg))]]) spec
      else if sg_NodeNetworkRef cfg \<noteq> '''' then
        fmupd ''interfaces'' (VSlice
          [lit [(nameField, VString mgmtInterfaceName), (primaryField, VBool True)],
           lit [(nameField, VString ''node''), (''networkRef'', localRef (sg_NodeNetworkRef cfg))]]) spec
      else spec)"

definition render_storage :: "SwiftGuestBackend \<Rightarrow> json_obj \<Rightarrow> json_obj" where
  "render_storage cfg spec =
     (if sg_StorageClassName cfg \<noteq> '''' then
        fmupd ''storage'' (lit [(''storageClassName'', VString (sg_StorageClassName cfg)),
          (''accessMode'', VString ''ReadWriteOnce'')]) spec
      else spec)"

definition render_placement :: "SwiftGuestBackend \<Rightarrow> json_obj \<Rightarrow> json_obj" where
  "render_placement cfg spec =
     (if sg_NodeName cfg \<noteq> '''' then fmupd ''nodeName'' (VString (sg_NodeName cfg)) spec else spec)"

definition gpu_claim :: "SwiftGuestGPU \<Rightarrow> json_obj" where
  "gpu_claim gpu =
     (let claim = fmempty;
          claim = (if gpu_ResourceClaimTemplateName gpu \<noteq> ''''
            then fmupd ''resourceClaimTemplateName'' (VString (gpu_ResourceClaimTemplateName gpu)) claim
            else if gpu_ResourceClaimName gpu \<noteq> ''''
            then fmupd ''resourceClaimName'' (VString (gpu_ResourceClaimName gpu)) claim else claim);
          claim = (if gpu_RequestName gpu \<noteq> ''''
            then fmupd ''requestName'' (VString (gpu_RequestName gpu)) claim else claim);
          claim = (if gpu_Tier gpu \<noteq> '''' then fmupd ''tier'' (VString (gpu_Tier gpu)) claim else claim)
      in if gpu_Hugepages gpu \<noteq> '''' then fmupd ''hugepages'' (VString (gpu_Hugepages gpu)) claim else claim)"

definition render_gpu :: "SwiftGuestBackend \<Rightarrow> json_obj \<Rightarrow> json_obj" where
  "render_gpu cfg spec = (case sg_GPU cfg of None \<Rightarrow> spec
     | Some gpu \<Rightarrow>
         if gpu_GPUProfileRef gpu \<noteq> '''' then fmupd ''gpuProfileRef'' (localRef (gpu_GPUProfileRef gpu)) spec
         else fmupd ''gpuResourceClaim'' (VMap (gpu_claim gpu)) spec)"

definition render_exposure :: "ControlPlaneExposure option \<Rightarrow> json_obj \<Rightarrow> json_obj" where
  "render_exposure exposure spec = (case exposure of None \<Rightarrow> spec
     | Some x \<Rightarrow>
         let port = int64_of_int32 (cx_Port x) in
         fmupd ''network'' (lit [(''binding'', VString natBinding),
           (''ports'', VSlice [lit [(nameField, VString APIServerPortName), (''port'', VInt port),
              (''targetPort'', VInt port)]])]) spec)"

definition renderSwiftGuest_spec :: "Request \<Rightarrow> SwiftGuestBackend \<Rightarrow> json_obj" where
  "renderSwiftGuest_spec req cfg =
     render_exposure (rq_ControlPlaneExposure req)
       (render_gpu cfg (render_placement cfg (render_storage cfg
          (render_network cfg (render_base req cfg)))))"

text \<open>\<^verbatim>\<open>u.Object["spec"] = spec\<close>.\<close>

definition put_spec :: "Unstructured \<Rightarrow> json_obj \<Rightarrow> Unstructured" where
  "put_spec u spec = u\<lparr>u_Object := fmupd ''spec'' (VMap spec) (u_Object u)\<rparr>"

definition renderSwiftGuest :: "lib \<Rightarrow> Request \<Rightarrow> SwiftGuestBackend \<Rightarrow> Unstructured option" where
  "renderSwiftGuest L req cfg =
     (let guest = newUnstructured L swiftGuestGVK;
          guest = u_SetNamespace L guest (rq_GuestNamespace req);
          guest = u_SetName L guest (rq_Name req);
          guest = setKubeSwiftLabels L guest req
      in case rq_ControlPlaneExposure req of
           None \<Rightarrow> Some (put_spec guest (renderSwiftGuest_spec req cfg))
         | Some x \<Rightarrow>
             (case map_assign (u_GetLabels L guest) ControlPlanePoolLabelKey (cx_PoolLabel x) of
                None \<Rightarrow> None
              | Some labels \<Rightarrow>
                  Some (put_spec (u_SetLabels L guest labels) (renderSwiftGuest_spec req cfg))))"

section \<open>What the rendered spec holds, key by key\<close>

text \<open>Each block of the source writes its own keys and leaves the others alone.\<close>

lemma render_frame:
  "k \<noteq> ''interfaces'' \<Longrightarrow> fmlookup (render_network cfg s) k = fmlookup s k"
  "k \<noteq> ''storage'' \<Longrightarrow> fmlookup (render_storage cfg s) k = fmlookup s k"
  "k \<noteq> ''nodeName'' \<Longrightarrow> fmlookup (render_placement cfg s) k = fmlookup s k"
  "k \<noteq> ''network'' \<Longrightarrow> fmlookup (render_exposure x s) k = fmlookup s k"
  by (simp_all add: render_network_def render_storage_def render_placement_def render_exposure_def Let_def
      split: option.split)

lemma render_gpu_lookup:
  "k \<notin> {''gpuProfileRef'', ''gpuResourceClaim''} \<Longrightarrow> fmlookup (render_gpu cfg s) k = fmlookup s k"
  "fmlookup (render_gpu cfg s) ''gpuProfileRef'' = (case sg_GPU cfg of None \<Rightarrow> fmlookup s ''gpuProfileRef''
     | Some gpu \<Rightarrow> if gpu_GPUProfileRef gpu = '''' then fmlookup s ''gpuProfileRef''
                   else Some (localRef (gpu_GPUProfileRef gpu)))"
  "fmlookup (render_gpu cfg s) ''gpuResourceClaim'' = (case sg_GPU cfg of None \<Rightarrow> fmlookup s ''gpuResourceClaim''
     | Some gpu \<Rightarrow> if gpu_GPUProfileRef gpu = '''' then Some (VMap (gpu_claim gpu))
                   else fmlookup s ''gpuResourceClaim'')"
  by (auto simp: render_gpu_def split: option.split)

lemma render_base_lookup:
  "k \<notin> {''imageRef'', ''guestClassRef'', ''seedProfileRef''} \<Longrightarrow> fmlookup (render_base req cfg) k = None"
  "fmlookup (render_base req cfg) ''imageRef'' = Some (localRef (sg_ImageRef cfg))"
  "fmlookup (render_base req cfg) ''guestClassRef'' = Some (localRef (sg_GuestClassRef cfg))"
  "fmlookup (render_base req cfg) ''seedProfileRef'' = Some (localRef (seedName (rq_Name req)))"
  by (auto simp: render_base_def)

lemmas render_lookups = render_frame render_gpu_lookup render_base_lookup

lemma spec_interfaces:
  "fmlookup (renderSwiftGuest_spec req cfg) ''interfaces'' =
     (if sg_Interfaces cfg \<noteq> [] then Some (VSlice (renderInterfaces (sg_Interfaces cfg)))
      else if sg_NetworkRef cfg \<noteq> '''' then Some (VSlice
          [lit [(nameField, VString primaryInterfaceName), (primaryField, VBool True),
                (''networkRef'', localRef (sg_NetworkRef cfg))]])
      else if sg_NodeNetworkRef cfg \<noteq> '''' then Some (VSlice
          [lit [(nameField, VString mgmtInterfaceName), (primaryField, VBool True)],
           lit [(nameField, VString ''node''), (''networkRef'', localRef (sg_NodeNetworkRef cfg))]])
      else None)"
proof -
  have "fmlookup (renderSwiftGuest_spec req cfg) ''interfaces'' =
      fmlookup (render_network cfg (render_base req cfg)) ''interfaces''"
    by (simp add: renderSwiftGuest_spec_def render_lookups)
  then show ?thesis by (simp add: render_network_def render_base_lookup)
qed

lemma spec_nodeName:
  "fmlookup (renderSwiftGuest_spec req cfg) ''nodeName'' =
     (if sg_NodeName cfg = '''' then None else Some (VString (sg_NodeName cfg)))"
proof -
  have "fmlookup (renderSwiftGuest_spec req cfg) ''nodeName'' =
      fmlookup (render_placement cfg (render_storage cfg (render_network cfg (render_base req cfg)))) ''nodeName''"
    by (simp add: renderSwiftGuest_spec_def render_lookups)
  then show ?thesis
    by (cases "sg_NodeName cfg = ''''") (simp_all add: render_placement_def render_lookups)
qed

lemma spec_gpu:
  "fmlookup (renderSwiftGuest_spec req cfg) ''gpuProfileRef'' =
     (case sg_GPU cfg of None \<Rightarrow> None
      | Some gpu \<Rightarrow> if gpu_GPUProfileRef gpu = '''' then None else Some (localRef (gpu_GPUProfileRef gpu)))"
  "fmlookup (renderSwiftGuest_spec req cfg) ''gpuResourceClaim'' =
     (case sg_GPU cfg of None \<Rightarrow> None
      | Some gpu \<Rightarrow> if gpu_GPUProfileRef gpu = '''' then Some (VMap (gpu_claim gpu)) else None)"
  by (cases "sg_GPU cfg"; simp add: renderSwiftGuest_spec_def render_lookups)+

lemma spec_network:
  "fmlookup (renderSwiftGuest_spec req cfg) ''network'' =
     (case rq_ControlPlaneExposure req of None \<Rightarrow> None
      | Some x \<Rightarrow> Some (lit [(''binding'', VString natBinding),
           (''ports'', VSlice [lit [(nameField, VString APIServerPortName),
              (''port'', VInt (int64_of_int32 (cx_Port x))),
              (''targetPort'', VInt (int64_of_int32 (cx_Port x)))]])]))"
  by (cases "rq_ControlPlaneExposure req")
    (simp_all add: renderSwiftGuest_spec_def render_exposure_def render_lookups Let_def)

lemma spec_refs:
  "fmlookup (renderSwiftGuest_spec req cfg) ''imageRef'' = Some (localRef (sg_ImageRef cfg))"
  "fmlookup (renderSwiftGuest_spec req cfg) ''guestClassRef'' = Some (localRef (sg_GuestClassRef cfg))"
  "fmlookup (renderSwiftGuest_spec req cfg) ''seedProfileRef'' = Some (localRef (seedName (rq_Name req)))"
  by (simp_all add: renderSwiftGuest_spec_def render_lookups)

lemmas spec_lookup = spec_interfaces spec_nodeName spec_gpu spec_network spec_refs

lemma claim_lookup:
  "fmlookup (gpu_claim gpu) ''resourceClaimTemplateName'' =
     (if gpu_ResourceClaimTemplateName gpu = '''' then None
      else Some (VString (gpu_ResourceClaimTemplateName gpu)))"
  "fmlookup (gpu_claim gpu) ''resourceClaimName'' =
     (if gpu_ResourceClaimTemplateName gpu = '''' \<and> gpu_ResourceClaimName gpu \<noteq> ''''
      then Some (VString (gpu_ResourceClaimName gpu)) else None)"
  by (simp_all add: gpu_claim_def Let_def)

section \<open>Reading a rendered interface list\<close>

definition iface_primary :: "val \<Rightarrow> bool" where
  "iface_primary v = (case v of VMap m \<Rightarrow> fmlookup m primaryField = Some (VBool True) | _ \<Rightarrow> False)"

definition iface_network :: "val \<Rightarrow> string option" where
  "iface_network v = (case v of VMap m \<Rightarrow>
     (case fmlookup m ''networkRef'' of Some (VMap r) \<Rightarrow>
        (case fmlookup r nameField of Some (VString s) \<Rightarrow> Some s | _ \<Rightarrow> None)
      | _ \<Rightarrow> None) | _ \<Rightarrow> None)"

lemma renderInterface_view:
  "iface_primary (renderInterface i) \<longleftrightarrow> if_Primary i"
  "iface_network (renderInterface i) = (if if_NetworkRef i = '''' then None else Some (if_NetworkRef i))"
  by (simp_all add: iface_primary_def iface_network_def renderInterface_def localRef_def lit_def str_defs Let_def)

lemma lit_view:
  "iface_primary (lit [(nameField, n), (primaryField, VBool True), (''networkRef'', localRef s)])"
  "iface_network (lit [(nameField, n), (primaryField, VBool True), (''networkRef'', localRef s)]) = Some s"
  "iface_primary (lit [(nameField, n), (primaryField, VBool True)])"
  "iface_network (lit [(nameField, n), (primaryField, VBool True)]) = None"
  "\<not> iface_primary (lit [(nameField, n), (''networkRef'', localRef s)])"
  "iface_network (lit [(nameField, n), (''networkRef'', localRef s)]) = Some s"
  by (simp_all add: iface_primary_def iface_network_def localRef_def lit_def str_defs)

text \<open>The interface list of a guest that KubeSwift can network: one primary, and a network for every
  other interface.\<close>

definition guest_interfaces_ok :: "val list \<Rightarrow> bool" where
  "guest_interfaces_ok l = (length (filter iface_primary l) = 1 \<and>
     list_all (\<lambda>v. iface_primary v \<or> iface_network v \<noteq> None) l)"

lemma guest_interfaces_ok_render: "guest_interfaces_ok (renderInterfaces l) \<longleftrightarrow> interfaces_ok l"
proof -
  have "length (filter iface_primary (map renderInterface l)) = length (filter if_Primary l)"
    by (induction l) (simp_all add: renderInterface_view)
  moreover have "list_all (\<lambda>v. iface_primary v \<or> iface_network v \<noteq> None) (map renderInterface l) \<longleftrightarrow>
      list_all (\<lambda>i. if_Primary i \<or> if_NetworkRef i \<noteq> '''') l"
    by (auto simp: list_all_iff renderInterface_view)
  ultimately show ?thesis
    by (simp add: guest_interfaces_ok_def interfaces_ok_def renderInterfaces_def)
qed

section \<open>The metadata of what is rendered\<close>

text \<open>The labels the provider stamps on a KubeSwift object, and those of a guest.\<close>

definition stamp_labels :: "Request \<Rightarrow> (string, string) fmap" where
  "stamp_labels req = fmupd MachineLabelKey (rq_Name req)
     (case rq_Cluster req of None \<Rightarrow> fmempty
      | Some cluster \<Rightarrow> fmupd ClusterNameLabel (om_Name (cl_Meta cluster)) fmempty)"

definition guest_labels :: "Request \<Rightarrow> (string, string) fmap" where
  "guest_labels req = (case rq_ControlPlaneExposure req of None \<Rightarrow> stamp_labels req
     | Some x \<Rightarrow> fmupd ControlPlanePoolLabelKey (cx_PoolLabel x) (stamp_labels req))"

lemma guest_labels_machine: "fmlookup (guest_labels req) MachineLabelKey = Some (rq_Name req)"
  by (simp add: guest_labels_def stamp_labels_def str_defs split: option.split)

lemma guest_labels_pool:
  "rq_ControlPlaneExposure req = Some x \<Longrightarrow>
     fmlookup (guest_labels req) ControlPlanePoolLabelKey = Some (cx_PoolLabel x)"
  by (simp add: guest_labels_def)

lemma guest_labels_no_pool:
  "rq_ControlPlaneExposure req = None \<Longrightarrow> fmlookup (guest_labels req) ControlPlanePoolLabelKey = None"
  by (simp add: guest_labels_def stamp_labels_def str_defs split: option.split)

text \<open>An object of the given identity, as the API server files it.\<close>

definition identified :: "lib \<Rightarrow> Unstructured \<Rightarrow> GroupVersionKind \<Rightarrow> string \<Rightarrow> string \<Rightarrow>
    (string, string) fmap \<Rightarrow> bool" where
  "identified L u g ns name labels =
     (u_GetKind L u = g_Kind g \<and> u_GetNamespace L u = ns \<and> u_GetName L u = name \<and>
      u_GetLabels L u = Some labels)"

context k8s_lib begin

lemma newUnstructured_meta [simp]:
  "meta_map (newUnstructured L g)" "u_GetLabels L (newUnstructured L g) = None"
  "u_GetKind L (newUnstructured L g) = g_Kind g"
  by (simp_all add: newUnstructured_def meta_simps)

lemma setKubeSwiftLabels_labels:
  assumes "meta_map u" "u_GetLabels L u = None"
  shows "u_GetLabels L (setKubeSwiftLabels L u req) = Some (stamp_labels req)"
  using assms by (simp add: setKubeSwiftLabels_def stamp_labels_def Let_def set_labels split: option.split)

lemma setKubeSwiftLabels_frame:
  "u_GetKind L (setKubeSwiftLabels L u req) = u_GetKind L u"
  "u_GetNamespace L (setKubeSwiftLabels L u req) = u_GetNamespace L u"
  "u_GetName L (setKubeSwiftLabels L u req) = u_GetName L u"
  "meta_map u \<Longrightarrow> meta_map (setKubeSwiftLabels L u req)"
  by (simp_all add: setKubeSwiftLabels_def Let_def meta_simps)

lemma put_spec_frame [simp]:
  "u_GetKind L (put_spec u s) = u_GetKind L u"
  "u_GetNamespace L (put_spec u s) = u_GetNamespace L u"
  "u_GetName L (put_spec u s) = u_GetName L u"
  "u_GetLabels L (put_spec u s) = u_GetLabels L u"
  by (simp_all add: put_spec_def observe_fmupd kind_fmupd)

lemma put_spec_spec: "nested_field (u_Object (put_spec u s)) [''spec'', k] = fmlookup s k"
  "fmlookup (u_Object (put_spec u s)) ''spec'' = Some (VMap s)"
  by (simp_all add: put_spec_def nested_field_2)

text \<open>No nil map is ever written: rendering succeeds, and the guest has its identity and labels.\<close>

lemma renderSwiftGuest_ok:
  obtains guest where "renderSwiftGuest L req cfg = Some guest"
    "identified L guest swiftGuestGVK (rq_GuestNamespace req) (rq_Name req) (guest_labels req)"
    "fmlookup (u_Object guest) ''spec'' = Some (VMap (renderSwiftGuest_spec req cfg))"
proof -
  define g where "g = setKubeSwiftLabels L
    (u_SetName L (u_SetNamespace L (newUnstructured L swiftGuestGVK) (rq_GuestNamespace req)) (rq_Name req)) req"
  have g: "identified L g swiftGuestGVK (rq_GuestNamespace req) (rq_Name req) (stamp_labels req)" "meta_map g"
    by (simp_all add: g_def identified_def setKubeSwiftLabels_labels setKubeSwiftLabels_frame meta_simps)
  show thesis
  proof (cases "rq_ControlPlaneExposure req")
    case None
    with g show thesis
      by (intro that [of "put_spec g (renderSwiftGuest_spec req cfg)"])
        (simp_all add: renderSwiftGuest_def Let_def g_def [symmetric] identified_def guest_labels_def put_spec_spec)
  next
    case (Some x)
    with g show thesis
      by (intro that [of "put_spec (u_SetLabels L g (Some (guest_labels req))) (renderSwiftGuest_spec req cfg)"])
        (simp_all add: renderSwiftGuest_def Let_def g_def [symmetric] identified_def guest_labels_def put_spec_spec
          map_assign_def meta_simps)
  qed
qed

end

end
