(* ===== verification/SwiftGuest_Backend.thy ===== *)
theory SwiftGuest_Backend
  imports SwiftGuest_Render Lib_Laws
begin

text \<open>
  The stateful part of \<^verbatim>\<open>src/internal/backend/swiftguest.go\<close>: \<^verbatim>\<open>Reconcile\<close>, \<^verbatim>\<open>Delete\<close> and the
  functions they call, as programs over the client. The last section interprets the backend
  contract of \<^verbatim>\<open>Backend\<close> on them.
\<close>

section \<open>Reading the guest's status\<close>

definition guestAddresses :: "lib \<Rightarrow> Unstructured \<Rightarrow> MachineAddress list" where
  "guestAddresses L guest =
     (let primaryIP = NestedString L (u_Object guest) [''status'', ''network'', ''primaryIP''] in
      if primaryIP = '''' then []
      else if NestedString L (u_Object guest) [''status'', ''network'', ''primaryIPScope''] = primaryIPScopePod
      then (let address = NestedString L (u_Object guest) [''status'', ''network'', ''podIP''] in
            if address = '''' then [] else [\<lparr> addr_Type = MachineInternalIP, addr_Address = address \<rparr>])
      else [\<lparr> addr_Type = MachineInternalIP, addr_Address = primaryIP \<rparr>])"

text \<open>The comma-ok type assertion \<^verbatim>\<open>x.(string)\<close>, on the value of a possibly missing key.\<close>

definition as_string :: "val option \<Rightarrow> string" where
  "as_string v = (case v of Some (VString s) \<Rightarrow> s | _ \<Rightarrow> '''')"

text \<open>The loop over the conditions: the message of the first one that holds the guest back.\<close>

fun unresolvedMessage_loop :: "val list \<Rightarrow> string option" where
  "unresolvedMessage_loop [] = None"
| "unresolvedMessage_loop (c # rest) =
     (case c of
        VMap cond \<Rightarrow>
          if fmlookup cond ''type'' \<noteq> Some (VString resolvedCondition) \<or>
             fmlookup cond ''status'' \<noteq> Some (VString ConditionFalse)
          then unresolvedMessage_loop rest
          else (let msg = as_string (fmlookup cond ''message'') in
                Some (if msg = '''' then as_string (fmlookup cond ''reason'') else msg))
      | _ \<Rightarrow> unresolvedMessage_loop rest)"

definition unresolvedMessage :: "lib \<Rightarrow> Unstructured \<Rightarrow> string option" where
  "unresolvedMessage L guest = unresolvedMessage_loop (NestedSlice L (u_Object guest) [''status'', ''conditions''])"

section \<open>Ensuring the seed profile and the guest\<close>

definition newSeedProfile :: "lib \<Rightarrow> Request \<Rightarrow> Unstructured" where
  "newSeedProfile L req =
     (let seed = newUnstructured L swiftSeedProfileGVK;
          seed = u_SetNamespace L seed (rq_GuestNamespace req);
          seed = u_SetName L seed (seedName (rq_Name req));
          seed = setKubeSwiftLabels L seed req
      in put_spec seed (seedProfileSpec req))"

definition migrateSeedProfile :: "lib \<Rightarrow> Request \<Rightarrow> Unstructured \<Rightarrow> (go_error + Unstructured) option" where
  "migrateSeedProfile L req existing =
     (let userData = NestedString L (u_Object existing) [''spec'', ''userData''];
          from = NestedMap L (u_Object existing) [''spec'', ''userDataFrom'']
      in if userData = '''' \<and> EqObject L from (userDataFrom req) then None
         else let obj = RemoveNestedField L (u_Object existing) [''spec'', ''userData''] in
           Some (case SetNestedField L obj (userDataFrom req) [''spec'', ''userDataFrom''] of
                   Inl e \<Rightarrow> Inl e
                 | Inr obj' \<Rightarrow> Inr (existing\<lparr>u_Object := obj'\<rparr>)))"

definition ensureSeedProfile :: "lib \<Rightarrow> 'w client \<Rightarrow> Request \<Rightarrow> ('w, go_error + unit) state" where
  "ensureSeedProfile L C req = do {
     r \<leftarrow> c_GetObject C (newUnstructured L swiftSeedProfileGVK) (nn (rq_GuestNamespace req) (seedName (rq_Name req)));
     (case r of
        Inr existing \<Rightarrow>
          (case migrateSeedProfile L req existing of
             None \<Rightarrow> State_Monad.return (Inr ())
           | Some (Inl e) \<Rightarrow> State_Monad.return (Inl e)
           | Some (Inr updated) \<Rightarrow> onOk (c_UpdateObject C updated) (\<lambda>_. State_Monad.return (Inr ())))
      | Inl err \<Rightarrow>
          if \<not> IsNotFound err then State_Monad.return (Inl err)
          else onOk (c_CreateObject C (newSeedProfile L req)) (\<lambda>_. State_Monad.return (Inr ()))) }"

definition ensureSwiftGuest :: "lib \<Rightarrow> 'w client \<Rightarrow> Request \<Rightarrow> SwiftGuestBackend \<Rightarrow>
    ('w, go_error + Unstructured) state" where
  "ensureSwiftGuest L C req cfg = do {
     r \<leftarrow> c_GetObject C (newUnstructured L swiftGuestGVK) (nn (rq_GuestNamespace req) (rq_Name req));
     (case r of
        Inr existing \<Rightarrow> State_Monad.return (Inr existing)
      | Inl err \<Rightarrow>
          if \<not> IsNotFound err then State_Monad.return (Inl err)
          else (case renderSwiftGuest L req cfg of
                  None \<Rightarrow> State_Monad.return (Inl (GoPanic ''assignment to entry in nil map''))
                | Some guest \<Rightarrow> c_CreateObject C guest)) }"

section \<open>Reconcile and Delete\<close>

text \<open>The checks that \<^verbatim>\<open>Reconcile\<close> makes before it touches the cluster, in order.\<close>

definition Reconcile_checks :: "Request \<Rightarrow> go_error + SwiftGuestBackend" where
  "Reconcile_checks req =
     (case mb_SwiftGuest (kms_Backend (ksm_Spec (rq_Machine req))) of
        None \<Rightarrow> Inl (Errorf (''spec.backend.swiftGuest must be set when backend.type is '' @
                  quote SwiftGuestBackendType))
      | Some cfg \<Rightarrow>
          if sg_ImageRef cfg = '''' \<or> sg_GuestClassRef cfg = ''''
          then Inl (Errorf ''spec.backend.swiftGuest.imageRef and guestClassRef are required'')
          else case validateGPU (sg_GPU cfg) of Some e \<Rightarrow> Inl e | None \<Rightarrow>
            (case validatePlacement cfg of Some e \<Rightarrow> Inl e | None \<Rightarrow>
              (case validateInterfaces cfg of Some e \<Rightarrow> Inl e | None \<Rightarrow>
                if rq_ControlPlaneExposure req \<noteq> None \<and> primaryOnNAD cfg
                then Inl (Errorf (''control-plane machine using Service-backed endpoint provisioning '' @
                  ''must not put its primary interface on a networkRef''))
                else Inr cfg)))"

definition guest_path :: "Request \<Rightarrow> string" where
  "guest_path req = rq_GuestNamespace req @ ''/'' @ rq_Name req"

text \<open>What \<^verbatim>\<open>Reconcile\<close> makes of the guest it found or created.\<close>

definition guest_result :: "lib \<Rightarrow> Request \<Rightarrow> Unstructured \<Rightarrow> go_error + Result" where
  "guest_result L req guest =
     (let phase = NestedString L (u_Object guest) [''status'', ''phase''] in
      if phase = ''Failed''
      then Inl (Errorf (''SwiftGuest '' @ guest_path req @ '' reported phase Failed''))
      else let addresses = guestAddresses L guest in
        if phase \<noteq> ''Running'' \<or> addresses = [] then
          (let res = empty_Result\<lparr>rs_Requeue := True\<rparr> in
           Inr (case unresolvedMessage L guest of
                  Some msg \<Rightarrow> res\<lparr> rs_WaitingReason := VMWaitingForReferencesReason,
                    rs_WaitingMessage := ''SwiftGuest '' @ guest_path req @
                      '' is waiting for its references: '' @ msg \<rparr>
                | None \<Rightarrow> res))
        else Inr (empty_Result\<lparr>rs_Provisioned := True, rs_Addresses := addresses\<rparr>))"

definition SwiftGuest_Reconcile :: "lib \<Rightarrow> 'w client \<Rightarrow> Request \<Rightarrow> ('w, go_error + Result) state" where
  "SwiftGuest_Reconcile L C req =
     (case Reconcile_checks req of
        Inl e \<Rightarrow> State_Monad.return (Inl e)
      | Inr cfg \<Rightarrow>
          onOk (wrapErr ''ensuring SwiftSeedProfile'' (ensureSeedProfile L C req)) (\<lambda>_.
          onOk (wrapErr ''ensuring SwiftGuest'' (ensureSwiftGuest L C req cfg)) (\<lambda>guest.
          State_Monad.return (guest_result L req guest))))"

definition seedToDelete :: "lib \<Rightarrow> Request \<Rightarrow> Unstructured" where
  "seedToDelete L req =
     u_SetName L (u_SetNamespace L (newUnstructured L swiftSeedProfileGVK) (rq_GuestNamespace req))
       (seedName (rq_Name req))"

definition SwiftGuest_Delete :: "lib \<Rightarrow> 'w client \<Rightarrow> Request \<Rightarrow> ('w, go_error + bool) state" where
  "SwiftGuest_Delete L C req = do {
     r \<leftarrow> c_GetObject C (newUnstructured L swiftGuestGVK) (nn (rq_GuestNamespace req) (rq_Name req));
     (case r of
        Inr guest \<Rightarrow>
          if IsZero L (u_GetDeletionTimestamp L guest) then do {
            d \<leftarrow> c_DeleteObject C guest;
            (case d of
               Inl err \<Rightarrow> if \<not> IsNotFound err then State_Monad.return (Inl (Wrapf ''deleting SwiftGuest'' err))
                         else State_Monad.return (Inr False)
             | Inr _ \<Rightarrow> State_Monad.return (Inr False)) }
          else State_Monad.return (Inr False)
      | Inl getErr \<Rightarrow>
          if \<not> IsNotFound getErr then State_Monad.return (Inl getErr)
          else do {
            d \<leftarrow> c_DeleteObject C (seedToDelete L req);
            (case d of
               Inl err \<Rightarrow> if \<not> IsNotFound err then State_Monad.return (Inl (Wrapf ''deleting SwiftSeedProfile'' err))
                         else State_Monad.return (Inr True)
             | Inr _ \<Rightarrow> State_Monad.return (Inr True)) }) }"

definition NewSwiftGuestBackend :: "lib \<Rightarrow> 'w client \<Rightarrow> 'w Backend" where
  "NewSwiftGuestBackend L C = \<lparr> b_Type = SwiftGuestBackendType,
     b_Reconcile = SwiftGuest_Reconcile L C, b_Delete = SwiftGuest_Delete L C \<rparr>"

section \<open>The backend keeps the contract\<close>

lemma guestAddresses_nonempty: "a \<in> set (guestAddresses L guest) \<Longrightarrow> addr_Address a \<noteq> ''''"
  by (auto simp: guestAddresses_def Let_def split: if_splits)

lemma guest_result_ok: "guest_result L req guest = Inr res \<Longrightarrow> result_ok res"
  by (auto simp: guest_result_def result_ok_def Let_def empty_Result_def list_all_iff VMWaitingForReferencesReason_def
      split: if_splits option.splits dest: guestAddresses_nonempty)

interpretation sg: machine_backend "NewSwiftGuestBackend L C" for L C
proof
  fix req w
  show "wp (b_Reconcile (NewSwiftGuestBackend L C) req)
      (\<lambda>r _. case r of Inl e \<Rightarrow> True | Inr res \<Rightarrow> result_ok res) w"
    by (auto simp: NewSwiftGuestBackend_def SwiftGuest_Reconcile_def wp_simps guest_result_ok
        split: sum.split intro!: wpI)
qed

section \<open>The calls the backend makes\<close>

text \<open>
  Traces of the two ensure functions and of \<^verbatim>\<open>Delete\<close>: which calls, in which order, with which
  answers, and what is returned. One rule per way through the code.
\<close>

definition seed_get :: "lib \<Rightarrow> Request \<Rightarrow> api_call" where
  "seed_get L req = CGetObject (newUnstructured L swiftSeedProfileGVK)
     (nn (rq_GuestNamespace req) (seedName (rq_Name req)))"

definition guest_get :: "lib \<Rightarrow> Request \<Rightarrow> api_call" where
  "guest_get L req = CGetObject (newUnstructured L swiftGuestGVK) (nn (rq_GuestNamespace req) (rq_Name req))"

inductive seed_trace :: "lib \<Rightarrow> Request \<Rightarrow> call_log \<Rightarrow> go_error + unit \<Rightarrow> bool" for L req where
  unreadable: "\<not> IsNotFound e \<Longrightarrow> seed_trace L req [(seed_get L req, RError)] (Inl e)"
| up_to_date: "migrateSeedProfile L req existing = None \<Longrightarrow>
    seed_trace L req [(seed_get L req, ROk)] (Inr ())"
| not_migratable: "migrateSeedProfile L req existing = Some (Inl e) \<Longrightarrow>
    seed_trace L req [(seed_get L req, ROk)] (Inl e)"
| migrated: "migrateSeedProfile L req existing = Some (Inr u) \<Longrightarrow>
    seed_trace L req [(seed_get L req, ROk), (CUpdateObject u, ROk)] (Inr ())"
| not_migrated: "migrateSeedProfile L req existing = Some (Inr u) \<Longrightarrow>
    seed_trace L req [(seed_get L req, ROk), (CUpdateObject u, fail_response e)] (Inl e)"
| created: "seed_trace L req
    [(seed_get L req, RNotFound), (CCreateObject (newSeedProfile L req), ROk)] (Inr ())"
| not_created: "seed_trace L req
    [(seed_get L req, RNotFound), (CCreateObject (newSeedProfile L req), fail_response e)] (Inl e)"

inductive guest_trace :: "lib \<Rightarrow> Request \<Rightarrow> SwiftGuestBackend \<Rightarrow> call_log \<Rightarrow> go_error + Unstructured \<Rightarrow> bool"
  for L req cfg where
  g_unreadable: "\<not> IsNotFound e \<Longrightarrow> guest_trace L req cfg [(guest_get L req, RError)] (Inl e)"
| g_found: "guest_trace L req cfg [(guest_get L req, ROk)] (Inr existing)"
| g_panic: "renderSwiftGuest L req cfg = None \<Longrightarrow>
    guest_trace L req cfg [(guest_get L req, RNotFound)] (Inl (GoPanic ''assignment to entry in nil map''))"
| g_created: "renderSwiftGuest L req cfg = Some guest \<Longrightarrow>
    guest_trace L req cfg [(guest_get L req, RNotFound), (CCreateObject guest, ROk)] (Inr answer)"
| g_not_created: "renderSwiftGuest L req cfg = Some guest \<Longrightarrow>
    guest_trace L req cfg [(guest_get L req, RNotFound), (CCreateObject guest, fail_response e)] (Inl e)"

inductive delete_trace :: "lib \<Rightarrow> Request \<Rightarrow> call_log \<Rightarrow> go_error + bool \<Rightarrow> bool" for L req where
  d_unreadable: "\<not> IsNotFound e \<Longrightarrow> delete_trace L req [(guest_get L req, RError)] (Inl e)"
| d_terminating: "\<not> IsZero L (u_GetDeletionTimestamp L guest) \<Longrightarrow>
    delete_trace L req [(guest_get L req, ROk)] (Inr False)"
| d_guest: "IsZero L (u_GetDeletionTimestamp L guest) \<Longrightarrow> resp \<noteq> RError \<Longrightarrow>
    delete_trace L req [(guest_get L req, ROk), (CDeleteObject guest, resp)] (Inr False)"
| d_guest_failed: "IsZero L (u_GetDeletionTimestamp L guest) \<Longrightarrow> \<not> IsNotFound e \<Longrightarrow>
    delete_trace L req [(guest_get L req, ROk), (CDeleteObject guest, RError)]
      (Inl (Wrapf ''deleting SwiftGuest'' e))"
| d_seed: "resp \<noteq> RError \<Longrightarrow>
    delete_trace L req [(guest_get L req, RNotFound), (CDeleteObject (seedToDelete L req), resp)] (Inr True)"
| d_seed_failed: "\<not> IsNotFound e \<Longrightarrow>
    delete_trace L req [(guest_get L req, RNotFound), (CDeleteObject (seedToDelete L req), RError)]
      (Inl (Wrapf ''deleting SwiftSeedProfile'' e))"

lemma g_create:
  "renderSwiftGuest L req cfg = Some guest \<Longrightarrow>
     guest_trace L req cfg [(guest_get L req, RNotFound), (CCreateObject guest, response_of r)] r"
  by (cases r) (auto intro: guest_trace.intros)

inductive_cases seed_traceE: "seed_trace L req l r"
inductive_cases guest_traceE: "guest_trace L req cfg l r"
inductive_cases delete_traceE: "delete_trace L req l r"
inductive_simps delete_done: "delete_trace L req l (Inr True)"

lemma ensureSeedProfile_trace:
  "wp (ensureSeedProfile L (logged C) req) (\<lambda>r s'. \<exists>l. snd s' = snd s @ l \<and> seed_trace L req l r) s"
  unfolding ensureSeedProfile_def
  by (auto simp: wp_simps seed_get_def [symmetric] split: sum.split option.split
      intro!: wp_logged seed_trace.intros)

lemma ensureSwiftGuest_trace:
  "wp (ensureSwiftGuest L (logged C) req cfg) (\<lambda>r s'. \<exists>l. snd s' = snd s @ l \<and> guest_trace L req cfg l r) s"
  unfolding ensureSwiftGuest_def
  by (auto simp: wp_simps guest_get_def [symmetric] split: sum.split option.split
      intro!: wp_logged guest_trace.intros g_create)

lemma SwiftGuest_Delete_trace:
  "wp (SwiftGuest_Delete L (logged C) req) (\<lambda>r s'. \<exists>l. snd s' = snd s @ l \<and> delete_trace L req l r) s"
  unfolding SwiftGuest_Delete_def
  by (auto simp: wp_simps guest_get_def [symmetric] split: sum.split
      intro!: wp_logged delete_trace.intros)

lemmas ensureSeedProfile_wp = wp_trace [OF ensureSeedProfile_trace]
lemmas ensureSwiftGuest_wp = wp_trace [OF ensureSwiftGuest_trace]
lemmas SwiftGuest_Delete_wp = wp_trace [OF SwiftGuest_Delete_trace]

end
