(* ===== verification/Api_Server.thy ===== *)
theory Api_Server
  imports Lib_Laws
begin

text \<open>
  What an API server does for a client that is alone and never loses a call: the contract under
  which the development proves that reconciling converges. A server is seen through the objects
  it stores, by kind, namespace and name, and the Services it stores, by namespace and name.
  Deleting an object removes it, or marks it for deletion when something still holds it.
\<close>

type_synonym object_key = "string \<times> string \<times> string"

definition object_key :: "lib \<Rightarrow> Unstructured \<Rightarrow> object_key" where
  "object_key L u = (u_GetKind L u, u_GetNamespace L u, u_GetName L u)"

text \<open>What the server keeps of a submitted object: its identity, its labels and its spec.\<close>

definition object_kept :: "lib \<Rightarrow> Unstructured \<Rightarrow> Unstructured \<Rightarrow> bool" where
  "object_kept L u v = (object_key L v = object_key L u \<and> u_GetLabels L v = u_GetLabels L u \<and>
     fmlookup (u_Object v) ''spec'' = fmlookup (u_Object u) ''spec'')"

definition service_key :: "Service \<Rightarrow> string \<times> string" where
  "service_key s = (om_Namespace (svc_Meta s), om_Name (svc_Meta s))"

text \<open>
  What the server keeps of a submitted Service. It may assign node ports where none was asked
  for, and it assigns a cluster IP to a Service that has none.
\<close>

definition port_kept :: "ServicePort \<Rightarrow> ServicePort \<Rightarrow> bool" where
  "port_kept p q = (q\<lparr>sp_NodePort := sp_NodePort p\<rparr> = p \<and>
     (if sp_NodePort p = 0 then True else sp_NodePort q = sp_NodePort p))"

definition service_kept :: "Service \<Rightarrow> Service \<Rightarrow> bool" where
  "service_kept s t = (svc_Meta t = svc_Meta s \<and> svc_Type t = svc_Type s \<and>
     svc_Selector t = svc_Selector s \<and> list_all2 port_kept (svc_Ports s) (svc_Ports t) \<and>
     svc_LoadBalancerClass t = svc_LoadBalancerClass s \<and>
     svc_ClusterIP t \<noteq> '''' \<and>
     (if svc_ClusterIP s = '''' then svc_ClusterIP t \<noteq> ClusterIPNone else svc_ClusterIP t = svc_ClusterIP s) \<and>
     svc_Ingress t = svc_Ingress s)"

locale object_server = k8s_lib L for L :: lib +
  fixes C :: "'w client"
    and objs :: "'w \<Rightarrow> object_key \<Rightarrow> Unstructured option"
  assumes filed: "objs w key = Some x \<Longrightarrow> object_key L x = key"
    and get_object: "wp (c_GetObject C u k) (\<lambda>r w'. w' = w \<and>
      (case objs w (u_GetKind L u, nn_Namespace k, nn_Name k) of
         None \<Rightarrow> (\<exists>e. r = Inl e \<and> IsNotFound e) | Some x \<Rightarrow> r = Inr x)) w"
    and create_object: "objs w (object_key L u) = None \<Longrightarrow>
      wp (c_CreateObject C u) (\<lambda>r w'. \<exists>x. r = Inr x \<and> object_kept L u x \<and>
        objs w' = (objs w)(object_key L u := Some x)) w"
    and update_object: "objs w (object_key L u) \<noteq> None \<Longrightarrow>
      wp (c_UpdateObject C u) (\<lambda>r w'. \<exists>x. r = Inr x \<and> object_kept L u x \<and>
        objs w' = (objs w)(object_key L u := Some x)) w"
    and delete_object: "wp (c_DeleteObject C u) (\<lambda>r w'.
      case objs w (object_key L u) of
        None \<Rightarrow> w' = w \<and> (\<exists>e. r = Inl e \<and> IsNotFound e)
      | Some x \<Rightarrow> r = Inr () \<and> (objs w' = (objs w)(object_key L u := None) \<or>
          (\<exists>y. objs w' = (objs w)(object_key L u := Some y) \<and> \<not> IsZero L (u_GetDeletionTimestamp L y)))) w"
begin

lemma get_object_cases:
  assumes "\<And>e. objs w (u_GetKind L u, nn_Namespace k, nn_Name k) = None \<Longrightarrow> IsNotFound e \<Longrightarrow> Q (Inl e) w"
    and "\<And>x. objs w (u_GetKind L u, nn_Namespace k, nn_Name k) = Some x \<Longrightarrow> Q (Inr x) w"
  shows "wp (c_GetObject C u k) Q w"
  by (rule wp_mono [OF get_object]) (use assms in \<open>auto split: option.splits\<close>)

lemma create_object_cases:
  assumes "objs w (object_key L u) = None"
    and "\<And>x w'. object_kept L u x \<Longrightarrow> objs w' = (objs w)(object_key L u := Some x) \<Longrightarrow> Q (Inr x) w'"
  shows "wp (c_CreateObject C u) Q w"
  by (rule wp_mono [OF create_object [OF assms(1)]]) (use assms(2) in auto)

lemma update_object_cases:
  assumes "objs w (object_key L u) \<noteq> None"
    and "\<And>x w'. object_kept L u x \<Longrightarrow> objs w' = (objs w)(object_key L u := Some x) \<Longrightarrow> Q (Inr x) w'"
  shows "wp (c_UpdateObject C u) Q w"
  by (rule wp_mono [OF update_object [OF assms(1)]]) (use assms(2) in auto)

end

locale service_server =
  fixes C :: "'w client"
    and svcs :: "'w \<Rightarrow> string \<times> string \<Rightarrow> Service option"
  assumes get_service: "wp (c_GetService C k) (\<lambda>r w'. w' = w \<and>
      (case svcs w (nn_Namespace k, nn_Name k) of
         None \<Rightarrow> (\<exists>e. r = Inl e \<and> IsNotFound e) | Some x \<Rightarrow> r = Inr x)) w"
    and create_service: "svcs w (service_key s) = None \<Longrightarrow>
      wp (c_CreateService C s) (\<lambda>r w'. \<exists>x. r = Inr x \<and> service_kept s x \<and>
        svcs w' = (svcs w)(service_key s := Some x)) w"
    and update_service: "svcs w (service_key s) \<noteq> None \<Longrightarrow>
      wp (c_UpdateService C s) (\<lambda>r w'. \<exists>x. r = Inr x \<and> service_kept s x \<and>
        svcs w' = (svcs w)(service_key s := Some x)) w"
    and delete_service: "wp (c_DeleteService C s) (\<lambda>r w'.
      case svcs w (service_key s) of
        None \<Rightarrow> w' = w \<and> (\<exists>e. r = Inl e \<and> IsNotFound e)
      | Some x \<Rightarrow> r = Inr () \<and> svcs w' = (svcs w)(service_key s := None)) w"
begin

lemma get_service_cases:
  assumes "\<And>e. svcs w (nn_Namespace k, nn_Name k) = None \<Longrightarrow> IsNotFound e \<Longrightarrow> Q (Inl e) w"
    and "\<And>x. svcs w (nn_Namespace k, nn_Name k) = Some x \<Longrightarrow> Q (Inr x) w"
  shows "wp (c_GetService C k) Q w"
  by (rule wp_mono [OF get_service]) (use assms in \<open>auto split: option.splits\<close>)

lemma create_service_cases:
  assumes "svcs w (service_key s) = None"
    and "\<And>x w'. service_kept s x \<Longrightarrow> svcs w' = (svcs w)(service_key s := Some x) \<Longrightarrow> Q (Inr x) w'"
  shows "wp (c_CreateService C s) Q w"
  by (rule wp_mono [OF create_service [OF assms(1)]]) (use assms(2) in auto)

lemma update_service_cases:
  assumes "svcs w (service_key s) \<noteq> None"
    and "\<And>x w'. service_kept s x \<Longrightarrow> svcs w' = (svcs w)(service_key s := Some x) \<Longrightarrow> Q (Inr x) w'"
  shows "wp (c_UpdateService C s) Q w"
  by (rule wp_mono [OF update_service [OF assms(1)]]) (use assms(2) in auto)

end

text \<open>
  The workload cluster, seen through its Nodes. Reading a Secret of the management cluster changes
  nothing there; a merge patch whose document is \<^verbatim>\<open>{"spec":{"providerID":"s"}}\<close>, with \<open>s\<close> free of
  characters that JSON escapes, sets that field if the call succeeds. The API server may refuse it.
\<close>

definition dquoted :: "string \<Rightarrow> string" where
  "dquoted s = [CHR 0x22] @ s @ [CHR 0x22]"

definition providerID_document :: "string \<Rightarrow> string" where
  "providerID_document s = ''{'' @ dquoted ''spec'' @ '':{'' @ dquoted ''providerID'' @ '':'' @ dquoted s @ ''}}''"

locale node_server =
  fixes C :: "'w client"
    and nodes :: "'w \<Rightarrow> string \<Rightarrow> Node option"
  assumes get_secret_nodes: "wp (c_GetSecret C k) (\<lambda>r w'. nodes w' = nodes w) w"
    and get_node: "wp (c_GetNode C cs n) (\<lambda>r w'. nodes w' = nodes w \<and>
      (case r of Inl e \<Rightarrow> True | Inr x \<Rightarrow> nodes w n = Some x)) w"
    and patch_node: "list_all plain_char s \<Longrightarrow> wp (c_PatchNode C cs n (providerID_document s)) (\<lambda>r w'.
      case r of Inl e \<Rightarrow> nodes w' = nodes w
      | Inr x \<Rightarrow> \<exists>node. nodes w n = Some node \<and> nodes w' = (nodes w)(n := Some (node\<lparr>node_ProviderID := s\<rparr>))) w"
begin

lemma get_secret_cases:
  assumes "\<And>r w'. nodes w' = nodes w \<Longrightarrow> Q r w'"
  shows "wp (c_GetSecret C k) Q w"
  by (rule wp_mono [OF get_secret_nodes]) (use assms in auto)

lemma get_node_cases:
  assumes "\<And>e w'. nodes w' = nodes w \<Longrightarrow> Q (Inl e) w'"
    and "\<And>x w'. nodes w' = nodes w \<Longrightarrow> nodes w n = Some x \<Longrightarrow> Q (Inr x) w'"
  shows "wp (c_GetNode C cs n) Q w"
  by (rule wp_mono [OF get_node]) (use assms in \<open>auto split: sum.splits\<close>)

lemma patch_node_cases:
  assumes "list_all plain_char s" "\<And>e w'. nodes w' = nodes w \<Longrightarrow> Q (Inl e) w'"
    and "\<And>x node w'. nodes w n = Some node \<Longrightarrow> nodes w' = (nodes w)(n := Some (node\<lparr>node_ProviderID := s\<rparr>)) \<Longrightarrow>
      Q (Inr x) w'"
  shows "wp (c_PatchNode C cs n (providerID_document s)) Q w"
  by (rule wp_mono [OF patch_node [OF assms(1)]]) (use assms(2,3) in \<open>auto split: sum.splits\<close>)

end

end
