(* ===== verification/Ref_Lib.thy ===== *)
theory Ref_Lib
  imports Lib_Laws
begin

text \<open>
  A reference instance of \<open>lib\<close>: metadata lives under the key \<^verbatim>\<open>metadata\<close> of an object, equality
  is equality up to nil maps, conditions are replaced in place or appended. It shows that the laws
  of \<^verbatim>\<open>Lib_Laws\<close> hold together, and it is what the witnesses of the development run on.
\<close>

definition ref_set :: "Unstructured \<Rightarrow> string list \<Rightarrow> val \<Rightarrow> Unstructured" where
  "ref_set u p v = (case set_field (u_Object u) v p of None \<Rightarrow> u | Some m \<Rightarrow> u\<lparr>u_Object := m\<rparr>)"

definition ref_string :: "json_obj \<Rightarrow> string list \<Rightarrow> string" where
  "ref_string m p = (case nested_field m p of Some (VString s) \<Rightarrow> s | _ \<Rightarrow> '''')"

definition ref_SetLabels :: "Unstructured \<Rightarrow> go_map \<Rightarrow> Unstructured" where
  "ref_SetLabels u m = (case m of
     None \<Rightarrow> u\<lparr>u_Object := remove_field (u_Object u) [''metadata'', ''labels'']\<rparr>
   | Some f \<Rightarrow> ref_set u [''metadata'', ''labels''] (VMap (fmmap VString f)))"

primrec val_str :: "val \<Rightarrow> string" where
  "val_str VNil = ''''"
| "val_str (VString s) = s"
| "val_str (VBool b) = ''''"
| "val_str (VInt i) = ''''"
| "val_str (VMap m) = ''''"
| "val_str (VSlice l) = ''''"

definition ref_GetLabels :: "Unstructured \<Rightarrow> go_map" where
  "ref_GetLabels u = (case nested_field (u_Object u) [''metadata'', ''labels''] of
     Some (VMap f) \<Rightarrow> Some (fmmap val_str f) | _ \<Rightarrow> None)"

fun ref_conditions_Set :: "Condition list \<Rightarrow> Condition \<Rightarrow> Condition list" where
  "ref_conditions_Set [] c = [c]"
| "ref_conditions_Set (d # ds) c = (if cond_Type d = cond_Type c then c # ds else d # ref_conditions_Set ds c)"

definition ref_owner :: "KubeSwiftCluster \<Rightarrow> OwnerReference" where
  "ref_owner ksc = \<lparr> or_Kind = ''KubeSwiftCluster'', or_Name = om_Name (ksc_Meta ksc), or_UID = '''',
     or_Controller = True \<rparr>"

definition ref_SetControllerReference :: "KubeSwiftCluster \<Rightarrow> Service \<Rightarrow> go_error + Service" where
  "ref_SetControllerReference ksc s =
     (if om_Namespace (svc_Meta s) \<noteq> om_Namespace (ksc_Meta ksc) \<or>
         list_ex or_Controller (om_OwnerReferences (svc_Meta s))
      then Inl (Errorf ''cannot set controller reference'')
      else Inr (s\<lparr>svc_Meta := (svc_Meta s)\<lparr>om_OwnerReferences :=
             om_OwnerReferences (svc_Meta s) @ [ref_owner ksc]\<rparr>\<rparr>))"

definition has_key :: "go_map \<Rightarrow> string \<Rightarrow> bool" where
  "has_key m k = (map_entry m k \<noteq> None)"

definition ref_lib :: lib where
  "ref_lib = \<lparr>
     u_SetGroupVersionKind = (\<lambda>u g. u\<lparr>u_Object := fmupd ''kind'' (VString (g_Kind g))
       (fmupd ''apiVersion'' (VString (g_Group g @ ''/'' @ g_Version g)) (u_Object u))\<rparr>),
     u_SetNamespace = (\<lambda>u s. ref_set u [''metadata'', ''namespace''] (VString s)),
     u_SetName = (\<lambda>u s. ref_set u [''metadata'', ''name''] (VString s)),
     u_SetLabels = ref_SetLabels,
     u_GetKind = (\<lambda>u. ref_string (u_Object u) [''kind'']),
     u_GetNamespace = (\<lambda>u. ref_string (u_Object u) [''metadata'', ''namespace'']),
     u_GetName = (\<lambda>u. ref_string (u_Object u) [''metadata'', ''name'']),
     u_GetLabels = ref_GetLabels,
     u_GetDeletionTimestamp = (\<lambda>u. case nested_field (u_Object u) [''metadata'', ''deletionTimestamp''] of
       Some (VInt t) \<Rightarrow> Some (sint t) | _ \<Rightarrow> None),
     IsZero = (\<lambda>t. t = None \<or> t = Some 0),
     NestedString = ref_string,
     NestedSlice = (\<lambda>m p. case nested_field m p of Some (VSlice s) \<Rightarrow> s | _ \<Rightarrow> []),
     NestedMap = (\<lambda>m p. case nested_field m p of Some (VMap s) \<Rightarrow> Some s | _ \<Rightarrow> None),
     RemoveNestedField = remove_field,
     SetNestedField = (\<lambda>m v p. case set_field m v p of
       None \<Rightarrow> Inl (Errorf ''value cannot be set'') | Some m' \<Rightarrow> Inr m'),
     EqObject = (\<lambda>m v. v = VMap (case m of None \<Rightarrow> fmempty | Some f \<Rightarrow> f)),
     EqString = (=),
     EqStringMap = map_same,
     EqPorts = (=),
     EqStringPtr = (=),
     keyString = (\<lambda>k. nn_Namespace k @ ''/'' @ nn_Name k),
     AddFinalizer = (\<lambda>fs f. if f \<in> set fs then fs else fs @ [f]),
     RemoveFinalizer = (\<lambda>fs f. filter (\<lambda>g. g \<noteq> f) fs),
     conditions_Set = ref_conditions_Set,
     IsPaused = (\<lambda>cl m. cl_Paused cl = Some True \<or> has_key (om_Annotations m) ''cluster.x-k8s.io/paused''),
     IsExternallyManaged = (\<lambda>m. has_key (om_Annotations m) ''cluster.x-k8s.io/managed-by''),
     IsControlPlaneMachine = (\<lambda>m. has_key (om_Labels (ma_Meta m)) ''cluster.x-k8s.io/control-plane''),
     SetControllerReference = ref_SetControllerReference,
     RESTConfigFromKubeConfig = Inr,
     NewForConfig = Inr,
     IsDryRunRequest = (\<lambda>r t. ar_DryRun r = Some True \<and>
       has_key (om_Annotations (kmtt_Meta t)) ''topology.cluster.x-k8s.io/dry-run'') \<rparr>"

section \<open>The laws hold on the instance\<close>

lemma ref_set_2:
  assumes "settable (u_Object u) a"
  shows "nested_field (u_Object (ref_set u [a, b] v)) [c, d] =
    (if a = c \<and> b = d then Some v else nested_field (u_Object u) [c, d])"
proof -
  obtain m' where m': "set_field (u_Object u) v [a, b] = Some m'"
    using assms set_field_2_some by blast
  then have "u_Object (ref_set u [a, b] v) = m'" by (simp add: ref_set_def)
  then show ?thesis using set_field_2 [OF m'] by simp
qed

text \<open>Reading another field of the metadata, whether or not the write succeeded.\<close>

lemma ref_set_frame:
  assumes "b \<noteq> d"
  shows "nested_field (u_Object (ref_set u [a, b] v)) [c, d] = nested_field (u_Object u) [c, d]"
proof (cases "set_field (u_Object u) v [a, b]")
  case None
  then show ?thesis by (simp add: ref_set_def)
next
  case (Some m')
  then show ?thesis using set_field_2 [OF Some] assms by (simp add: ref_set_def)
qed

lemma ref_set_other: "k \<noteq> a \<Longrightarrow> fmlookup (u_Object (ref_set u [a, b] v)) k = fmlookup (u_Object u) k"
  by (cases "set_field (u_Object u) v [a, b]")
    (simp_all add: ref_set_def set_field_other)

lemma ref_set_settable: "settable (u_Object u) a \<Longrightarrow> settable (u_Object (ref_set u [a, b] v)) a"
  by (auto simp: ref_set_def settable_def set_field.simps split: option.splits val.splits)

lemma nested_field_1: "nested_field m [a] = fmlookup m a"
  by (simp add: nested_field.simps split: option.splits)

lemma remove_field_settable: "settable (remove_field m [a, b]) k \<longleftrightarrow> settable m k"
  by (auto simp: settable_def remove_field.simps split: option.splits val.splits)

lemma fmmap_val_str: "fmmap val_str (fmmap VString f) = f"
  by (rule fmap_ext) (simp add: option.map_comp o_def option.map_ident)

lemma ref_SetLabels_frame:
  "d \<noteq> ''labels'' \<Longrightarrow> nested_field (u_Object (ref_SetLabels u m)) [c, d] = nested_field (u_Object u) [c, d]"
  "k \<noteq> ''metadata'' \<Longrightarrow> fmlookup (u_Object (ref_SetLabels u m)) k = fmlookup (u_Object u) k"
  "settable (u_Object u) ''metadata'' \<Longrightarrow> settable (u_Object (ref_SetLabels u m)) ''metadata''"
  by (cases m; simp add: ref_SetLabels_def ref_set_frame remove_field_2 ref_set_other remove_field_other
      ref_set_settable remove_field_settable)+

lemma ref_GetLabels_SetLabels:
  "settable (u_Object u) ''metadata'' \<Longrightarrow> ref_GetLabels (ref_SetLabels u m) = m"
  by (cases m) (simp_all add: ref_SetLabels_def ref_GetLabels_def ref_set_2 remove_field_2 fmmap_val_str)

lemma ref_GetLabels_frame:
  "b \<noteq> ''labels'' \<Longrightarrow> ref_GetLabels (ref_set u [a, b] v) = ref_GetLabels u"
  "k \<noteq> ''metadata'' \<Longrightarrow> ref_GetLabels (u\<lparr>u_Object := fmupd k x m\<rparr>) = ref_GetLabels (u\<lparr>u_Object := m\<rparr>)"
  "ref_GetLabels \<lparr> u_Object = fmempty \<rparr> = None"
  by (simp_all add: ref_GetLabels_def ref_set_frame nested_field_fmupd_other)
    (simp add: nested_field_2)

lemma ref_conditions_types: "cond_Type ` set (ref_conditions_Set cs c) = insert (cond_Type c) (cond_Type ` set cs)"
  by (induction cs) auto

lemma ref_conditions_distinct: "distinct (map cond_Type cs) \<Longrightarrow> distinct (map cond_Type (ref_conditions_Set cs c))"
  by (induction cs) (auto simp: ref_conditions_types)

lemma ref_condition_of: "condition_of (ref_conditions_Set cs c) t = (if t = cond_Type c then Some c else condition_of cs t)"
  by (induction cs) (auto simp: condition_of_def)

lemma nested_ref: "nested_lib ref_lib"
proof
  show "\<exists>m'. SetNestedField ref_lib m v [''spec'', b] = Inr m'" if "settable m ''spec''" for m v b
    using set_field_2_some [THEN iffD1, OF that, of v b] by (auto simp: ref_lib_def)
next
  fix m m' v b c d k
  assume "SetNestedField ref_lib m v [''spec'', b] = Inr m'"
  then have *: "set_field m v [''spec'', b] = Some m'"
    by (simp add: ref_lib_def split: option.splits)
  show "nested_field m' [c, d] = (if c = ''spec'' \<and> b = d then Some v else nested_field m [c, d])"
    using set_field_2 [OF *, of c d] by auto
  show "fmlookup m' k = fmlookup m k" if "k \<noteq> ''spec''"
    using set_field_other [OF *] that .
qed (auto simp add: ref_lib_def ref_string_def remove_field_2 remove_field_settable remove_field_other)

lemma metadata_ref: "metadata_lib ref_lib"
proof
  show "u_GetNamespace ref_lib u = u_GetNamespace ref_lib v \<and> u_GetName ref_lib u = u_GetName ref_lib v \<and>
      u_GetLabels ref_lib u = u_GetLabels ref_lib v \<and>
      u_GetDeletionTimestamp ref_lib u = u_GetDeletionTimestamp ref_lib v"
    if "fmlookup (u_Object u) ''metadata'' = fmlookup (u_Object v) ''metadata''" for u v
    using that by (simp add: ref_lib_def ref_string_def ref_GetLabels_def nested_field_2)
qed (auto simp add: ref_lib_def ref_string_def ref_GetLabels_SetLabels ref_SetLabels_frame ref_set_2 ref_set_frame
    ref_set_other ref_set_settable meta_map_def nested_field_1 nested_field_fmupd_other ref_GetLabels_frame)

lemma equality_ref: "equality_lib ref_lib"
  by unfold_locales (simp_all add: ref_lib_def)

lemma objects_ref: "objects_lib ref_lib"
proof
  show "\<exists>refs. s' = s\<lparr>svc_Meta := (svc_Meta s)\<lparr>om_OwnerReferences := refs\<rparr>\<rparr>"
    if "SetControllerReference ref_lib owner s = Inr s'" for owner s s'
    using that by (auto simp: ref_lib_def ref_SetControllerReference_def split: if_splits)
qed (auto simp: ref_lib_def ref_condition_of ref_conditions_distinct ref_SetControllerReference_def ref_owner_def
    split: if_splits)

interpretation ref: k8s_lib ref_lib
  by (intro k8s_lib.intro nested_ref metadata_ref equality_ref objects_ref)

lemma k8s_lib_ref: "k8s_lib ref_lib"
  by (rule ref.k8s_lib_axioms)

end
