(* ===== verification/Mem_Server.thy ===== *)
theory Mem_Server
  imports Api_Server Ref_Lib
begin

text \<open>
  An in-memory API server, in the role that the fake client of controller-runtime has in the
  repository's tests: it stores objects by kind, namespace and name, answers \<^verbatim>\<open>NotFound\<close> for what
  it does not hold, and assigns a cluster IP to a Service that has none. It instantiates the
  contracts of \<^verbatim>\<open>Api_Server\<close>, and it is the world in which the witnesses run.
\<close>

record store =
  st_objects :: "object_key \<Rightarrow> Unstructured option"
  st_services :: "string \<times> string \<Rightarrow> Service option"
  st_secrets :: "string \<times> string \<Rightarrow> Secret option"
  st_machines :: "string \<times> string \<Rightarrow> KubeSwiftMachine option"
  st_clusters :: "string \<times> string \<Rightarrow> KubeSwiftCluster option"
  st_capi_machines :: "string \<times> string \<Rightarrow> CAPIMachine option"
  st_capi_clusters :: "string \<times> string \<Rightarrow> CAPICluster option"
  st_nodes :: "string \<Rightarrow> Node option"

definition empty_store :: store where
  "empty_store = \<lparr> st_objects = (\<lambda>_. None), st_services = (\<lambda>_. None), st_secrets = (\<lambda>_. None),
     st_machines = (\<lambda>_. None), st_clusters = (\<lambda>_. None), st_capi_machines = (\<lambda>_. None),
     st_capi_clusters = (\<lambda>_. None), st_nodes = (\<lambda>_. None) \<rparr>"

definition nn_pair :: "NamespacedName \<Rightarrow> string \<times> string" where
  "nn_pair k = (nn_Namespace k, nn_Name k)"

definition answer :: "'a option \<Rightarrow> go_error + 'a" where
  "answer x = (case x of None \<Rightarrow> Inl (ApiNotFound ''not found'') | Some y \<Rightarrow> Inr y)"

definition mem_read :: "(store \<Rightarrow> 'a option) \<Rightarrow> (store, go_error + 'a) state" where
  "mem_read f = State (\<lambda>w. (answer (f w), w))"

definition meta_key :: "ObjectMeta \<Rightarrow> string \<times> string" where
  "meta_key m = (om_Namespace m, om_Name m)"

definition owner_name :: "string \<Rightarrow> ObjectMeta \<Rightarrow> string option" where
  "owner_name kind m = map_option or_Name (find (\<lambda>r. or_Kind r = kind) (om_OwnerReferences m))"

definition assign_ip :: "Service \<Rightarrow> Service" where
  "assign_ip s = (if svc_ClusterIP s = '''' then s\<lparr>svc_ClusterIP := ''10.96.0.10''\<rparr> else s)"

text \<open>The objects the server holds, each filed under its own key.\<close>

definition mem_objs :: "lib \<Rightarrow> store \<Rightarrow> object_key \<Rightarrow> Unstructured option" where
  "mem_objs L w k = (case st_objects w k of None \<Rightarrow> None
     | Some x \<Rightarrow> if object_key L x = k then Some x else None)"

definition mem_CreateObject :: "lib \<Rightarrow> Unstructured \<Rightarrow> (store, go_error + Unstructured) state" where
  "mem_CreateObject L u = State (\<lambda>w.
     if mem_objs L w (object_key L u) \<noteq> None then (Inl (ApiError ''already exists''), w)
     else (Inr u, w\<lparr>st_objects := (st_objects w)(object_key L u := Some u)\<rparr>))"

definition mem_UpdateObject :: "lib \<Rightarrow> Unstructured \<Rightarrow> (store, go_error + Unstructured) state" where
  "mem_UpdateObject L u = State (\<lambda>w.
     if mem_objs L w (object_key L u) = None then (Inl (ApiNotFound ''not found''), w)
     else (Inr u, w\<lparr>st_objects := (st_objects w)(object_key L u := Some u)\<rparr>))"

definition mem_DeleteObject :: "lib \<Rightarrow> Unstructured \<Rightarrow> (store, go_error + unit) state" where
  "mem_DeleteObject L u = State (\<lambda>w.
     if mem_objs L w (object_key L u) = None then (Inl (ApiNotFound ''not found''), w)
     else (Inr (), w\<lparr>st_objects := (st_objects w)(object_key L u := None)\<rparr>))"

definition mem_CreateService :: "Service \<Rightarrow> (store, go_error + Service) state" where
  "mem_CreateService s = State (\<lambda>w.
     if st_services w (service_key s) \<noteq> None then (Inl (ApiError ''already exists''), w)
     else (Inr (assign_ip s), w\<lparr>st_services := (st_services w)(service_key s := Some (assign_ip s))\<rparr>))"

definition mem_UpdateService :: "Service \<Rightarrow> (store, go_error + Service) state" where
  "mem_UpdateService s = State (\<lambda>w.
     if st_services w (service_key s) = None then (Inl (ApiNotFound ''not found''), w)
     else (Inr (assign_ip s), w\<lparr>st_services := (st_services w)(service_key s := Some (assign_ip s))\<rparr>))"

definition mem_DeleteService :: "Service \<Rightarrow> (store, go_error + unit) state" where
  "mem_DeleteService s = State (\<lambda>w.
     if st_services w (service_key s) = None then (Inl (ApiNotFound ''not found''), w)
     else (Inr (), w\<lparr>st_services := (st_services w)(service_key s := None)\<rparr>))"

text \<open>
  A patch replaces the stored object. Of a machine it never touches the deletion timestamp, and the finalizers
  only if the patching client changed them. One that drops the last finalizer of an object marked for
  deletion removes it.
\<close>

definition mem_machines :: "store \<Rightarrow> string \<times> string \<Rightarrow> KubeSwiftMachine option" where
  "mem_machines w k = (case st_machines w k of None \<Rightarrow> None
     | Some x \<Rightarrow> if meta_key (ksm_Meta x) = k then Some x else None)"

definition patched_machine :: "KubeSwiftMachine \<Rightarrow> KubeSwiftMachine \<Rightarrow> KubeSwiftMachine \<Rightarrow> KubeSwiftMachine" where
  "patched_machine a b x = b\<lparr>ksm_Meta := (ksm_Meta b)\<lparr>
     om_Finalizers := (if om_Finalizers (ksm_Meta a) = om_Finalizers (ksm_Meta b) then om_Finalizers (ksm_Meta x)
       else om_Finalizers (ksm_Meta b)),
     om_DeletionTimestamp := om_DeletionTimestamp (ksm_Meta x)\<rparr>\<rparr>"

definition mem_PatchMachine :: "lib \<Rightarrow> KubeSwiftMachine \<Rightarrow> KubeSwiftMachine \<Rightarrow> (store, go_error + unit) state" where
  "mem_PatchMachine L a b = State (\<lambda>w. case mem_machines w (meta_key (ksm_Meta b)) of
     None \<Rightarrow> (Inl (ApiNotFound ''not found''), w)
   | Some x \<Rightarrow> let y = patched_machine a b x in
       (Inr (), w\<lparr>st_machines := (st_machines w)(meta_key (ksm_Meta b) :=
         (if \<not> IsZero L (om_DeletionTimestamp (ksm_Meta y)) \<and> om_Finalizers (ksm_Meta y) = [] then None else Some y))\<rparr>))"

definition mem_PatchCluster :: "KubeSwiftCluster \<Rightarrow> KubeSwiftCluster \<Rightarrow> (store, go_error + unit) state" where
  "mem_PatchCluster a b = State (\<lambda>w.
     if st_clusters w (meta_key (ksc_Meta b)) = None then (Inl (ApiNotFound ''not found''), w)
     else (Inr (), w\<lparr>st_clusters := (st_clusters w)(meta_key (ksc_Meta b) :=
       (if om_DeletionTimestamp (ksc_Meta b) \<noteq> None \<and> om_Finalizers (ksc_Meta b) = [] then None else Some b))\<rparr>))"

text \<open>The merge patch of the workload Node is a constant frame around the quoted provider ID.\<close>

definition patched_id :: "string \<Rightarrow> string" where
  "patched_id p = (let body = drop 23 p in take (length body - 3) body)"

definition mem_PatchNode :: "string \<Rightarrow> string \<Rightarrow> (store, go_error + Node) state" where
  "mem_PatchNode n p = State (\<lambda>w. case st_nodes w n of
     None \<Rightarrow> (Inl (ApiNotFound ''not found''), w)
   | Some node \<Rightarrow> let node' = node\<lparr>node_ProviderID := patched_id p\<rparr> in
       (Inr node', w\<lparr>st_nodes := (st_nodes w)(n := Some node')\<rparr>))"

definition mem_GetOwner :: "string \<Rightarrow> (store \<Rightarrow> string \<times> string \<Rightarrow> 'a option) \<Rightarrow> ObjectMeta \<Rightarrow>
    (store, go_error + 'a option) state" where
  "mem_GetOwner kind f m = State (\<lambda>w. case owner_name kind m of
     None \<Rightarrow> (Inr None, w)
   | Some n \<Rightarrow> (case f w (om_Namespace m, n) of
       None \<Rightarrow> (Inl (ApiNotFound ''not found''), w) | Some x \<Rightarrow> (Inr (Some x), w)))"

definition mem_GetClusterFromMetadata :: "ObjectMeta \<Rightarrow> (store, go_error + CAPICluster) state" where
  "mem_GetClusterFromMetadata m = State (\<lambda>w. case map_entry (om_Labels m) ClusterNameLabel of
     None \<Rightarrow> (Inl (Errorf ''no cluster label''), w)
   | Some n \<Rightarrow> (answer (st_capi_clusters w (om_Namespace m, n)), w))"

definition mem_client :: "lib \<Rightarrow> store client" where
  "mem_client L = \<lparr>
     c_GetMachine = (\<lambda>k. mem_read (\<lambda>w. mem_machines w (nn_pair k))),
     c_GetCluster = (\<lambda>k. mem_read (\<lambda>w. st_clusters w (nn_pair k))),
     c_GetSecret = (\<lambda>k. mem_read (\<lambda>w. st_secrets w (nn_pair k))),
     c_GetService = (\<lambda>k. mem_read (\<lambda>w. st_services w (nn_pair k))),
     c_GetObject = (\<lambda>u k. mem_read (\<lambda>w. mem_objs L w (u_GetKind L u, nn_Namespace k, nn_Name k))),
     c_CreateObject = mem_CreateObject L,
     c_UpdateObject = mem_UpdateObject L,
     c_DeleteObject = mem_DeleteObject L,
     c_CreateService = mem_CreateService,
     c_UpdateService = mem_UpdateService,
     c_DeleteService = mem_DeleteService,
     c_GetOwnerMachine = mem_GetOwner ''Machine'' st_capi_machines,
     c_GetClusterFromMetadata = mem_GetClusterFromMetadata,
     c_GetOwnerCluster = mem_GetOwner ''Cluster'' st_capi_clusters,
     c_NewMachineHelper = (\<lambda>_. State_Monad.return (Inr ())),
     c_PatchMachine = mem_PatchMachine L,
     c_NewClusterHelper = (\<lambda>_. State_Monad.return (Inr ())),
     c_PatchCluster = mem_PatchCluster,
     c_GetNode = (\<lambda>_ n. mem_read (\<lambda>w. st_nodes w n)),
     c_PatchNode = (\<lambda>_ n p. mem_PatchNode n p) \<rparr>"

lemma object_kept_refl [simp]: "object_kept L u u"
  by (simp add: object_kept_def)

lemma service_kept_assign: "service_kept s (assign_ip s)"
  by (auto simp: service_kept_def assign_ip_def port_kept_def list.rel_refl str_defs)

lemma mem_objs_update:
  "object_key L u = k \<Longrightarrow> mem_objs L (w\<lparr>st_objects := (st_objects w)(k \<mapsto> u)\<rparr>) = (mem_objs L w)(k \<mapsto> u)"
  "mem_objs L (w\<lparr>st_objects := (st_objects w)(k := None)\<rparr>) = (mem_objs L w)(k := None)"
  by (auto simp: mem_objs_def fun_eq_iff)

interpretation mem: object_server ref_lib "mem_client ref_lib" "mem_objs ref_lib"
proof (unfold_locales, goal_cases)
  case (1 w k x)
  then show ?case by (auto simp: mem_objs_def split: option.splits if_splits)
qed (auto simp: mem_client_def wp_def mem_read_def answer_def mem_CreateObject_def mem_UpdateObject_def
    mem_DeleteObject_def mem_objs_update split: option.splits)

interpretation mem_svc: service_server "mem_client L" st_services for L
  by unfold_locales
    (auto simp: mem_client_def wp_def mem_read_def answer_def nn_pair_def mem_CreateService_def
      mem_UpdateService_def mem_DeleteService_def service_kept_assign split: option.splits)

lemma patched_id_document: "patched_id (providerID_document s) = s"
  by (simp add: patched_id_def providerID_document_def dquoted_def)

interpretation mem_node: node_server "mem_client L" st_nodes for L
  by unfold_locales
    (auto simp: mem_client_def wp_def mem_read_def answer_def mem_PatchNode_def patched_id_document Let_def
      split: option.splits)

section \<open>Running a program\<close>

lemmas mem_run = wp_def State_Monad.bind_def State_Monad.return_def logged_def record_with_def mem_client_def
  mem_read_def answer_def nn_pair_def nn_def mem_GetOwner_def mem_GetClusterFromMetadata_def owner_name_def has_key_def
  meta_key_def mem_DeleteService_def mem_DeleteObject_def mem_PatchCluster_def mem_PatchMachine_def mem_objs_def
  mem_machines_def patched_machine_def Let_def
  empty_store_def

end
