(* ===== verification/Samples.thy ===== *)
theory Samples
  imports Backend Mem_Server
begin

text \<open>
  Concrete objects on which the witnesses are evaluated: a worker machine \<^verbatim>\<open>w-0\<close> and a
  control-plane machine \<^verbatim>\<open>cp-0\<close> of a cluster \<^verbatim>\<open>demo\<close> in namespace \<^verbatim>\<open>ns\<close>.
\<close>

definition ex_meta :: "string \<Rightarrow> ObjectMeta" where
  "ex_meta n = empty_meta\<lparr>om_Name := n, om_Namespace := ''ns''\<rparr>"

definition ex_cfg :: SwiftGuestBackend where
  "ex_cfg = \<lparr> sg_ImageRef = ''ubuntu-noble'', sg_GuestClassRef = ''capi-worker'', sg_NetworkRef = '''',
     sg_NodeNetworkRef = '''', sg_Interfaces = [], sg_NodeName = '''', sg_GPU = None, sg_StorageClassName = '''' \<rparr>"

definition ex_gpu :: SwiftGuestGPU where
  "ex_gpu = \<lparr> gpu_ResourceClaimTemplateName = ''gpu-template'', gpu_ResourceClaimName = '''',
     gpu_RequestName = '''', gpu_GPUProfileRef = '''', gpu_Tier = ''pcie'', gpu_Hugepages = '''' \<rparr>"

definition ex_status :: KubeSwiftMachineStatus where
  "ex_status = \<lparr> kmt_Initialization = \<lparr> init_Provisioned = None \<rparr>, kmt_Addresses = [],
     kmt_FailureDomain = '''', kmt_Conditions = [] \<rparr>"

definition ex_machine :: "string \<Rightarrow> SwiftGuestBackend option \<Rightarrow> KubeSwiftMachine" where
  "ex_machine n cfg = \<lparr> ksm_Meta = ex_meta n,
     ksm_Spec = \<lparr> kms_ProviderID = '''', kms_Backend = \<lparr> mb_Type = ''SwiftGuest'', mb_SwiftGuest = cfg \<rparr> \<rparr>,
     ksm_Status = ex_status \<rparr>"

definition ex_capi_cluster :: CAPICluster where
  "ex_capi_cluster = \<lparr> cl_Meta = ex_meta ''demo'', cl_InfrastructureRefName = ''demo'',
     cl_InfrastructureProvisioned = Some True, cl_Paused = None \<rparr>"

definition ex_capi_machine :: "string \<Rightarrow> CAPIMachine" where
  "ex_capi_machine n = \<lparr> ma_Meta = ex_meta n, ma_DataSecretName = Some ''boot'', ma_FailureDomain = ''fd-1'' \<rparr>"

definition ex_exposure :: ControlPlaneExposure where
  "ex_exposure = \<lparr> cx_PoolLabel = ''demo-cp'', cx_Port = 6443 \<rparr>"

definition ex_req :: "string \<Rightarrow> SwiftGuestBackend option \<Rightarrow> ControlPlaneExposure option \<Rightarrow> Request" where
  "ex_req n cfg x = \<lparr> rq_Machine = ex_machine n cfg, rq_Cluster = Some ex_capi_cluster,
     rq_CAPIMachine = Some (ex_capi_machine n), rq_BootstrapDataSecretName = ''boot'',
     rq_GuestNamespace = ''ns'', rq_ProviderID = ''kubeswift://ns/'' @ n, rq_ControlPlaneExposure = x \<rparr>"

definition ex_cluster :: "ControlPlaneEndpointSpec option \<Rightarrow> KubeSwiftCluster" where
  "ex_cluster e = \<lparr> ksc_Meta = ex_meta ''demo'',
     ksc_Spec = \<lparr> kcs_ControlPlaneEndpoint = None, kcs_Endpoint = e, kcs_GuestNamespace = '''' \<rparr>,
     ksc_Status = \<lparr> kct_Initialization = \<lparr> init_Provisioned = None \<rparr>, kct_Conditions = [] \<rparr> \<rparr>"

definition ex_service_mode :: ControlPlaneEndpointSpec where
  "ex_service_mode = \<lparr> cpe_Mode = ''Service'', cpe_Service = None \<rparr>"

text \<open>A world in which the cluster, with an endpoint Service, is being deleted.\<close>

definition ex_deleting_cluster :: KubeSwiftCluster where
  "ex_deleting_cluster = (ex_cluster (Some ex_service_mode))\<lparr>ksc_Meta := (ex_meta ''demo'')\<lparr>
     om_Finalizers := [ClusterFinalizer], om_DeletionTimestamp := Some 1,
     om_OwnerReferences := [\<lparr> or_Kind = ''Cluster'', or_Name = ''demo'', or_UID = ''u1'', or_Controller = True \<rparr>]\<rparr>\<rparr>"

definition ex_deleting_store :: store where
  "ex_deleting_store = empty_store\<lparr>st_clusters := (\<lambda>k. if k = (''ns'', ''demo'') then Some ex_deleting_cluster else None),
     st_capi_clusters := (\<lambda>k. if k = (''ns'', ''demo'') then Some ex_capi_cluster else None)\<rparr>"

lemmas ex_defs = ex_cluster_def ex_service_mode_def ex_meta_def empty_meta_def ex_cfg_def ex_gpu_def ex_status_def ex_machine_def ex_capi_cluster_def
  ex_capi_machine_def ex_exposure_def ex_req_def

end
