(* ===== verification/SwiftGuest_Props.thy ===== *)
theory SwiftGuest_Props
  imports SwiftGuest_Backend Samples
begin

text \<open>
  The properties of the SwiftGuest backend: what it accepts, what it renders for what it accepts,
  which calls it makes in which order, and how it reads the state of the guest. The statements
  about calls hold for every client, that is for every way in which the API server and the other
  controllers can behave.
\<close>

section \<open>Accepted requests\<close>

text \<open>The configurations the backend works on, without reference to the order of its checks.\<close>

definition acceptable :: "Request \<Rightarrow> SwiftGuestBackend \<Rightarrow> bool" where
  "acceptable req cfg =
     (mb_SwiftGuest (kms_Backend (ksm_Spec (rq_Machine req))) = Some cfg \<and>
      sg_ImageRef cfg \<noteq> '''' \<and> sg_GuestClassRef cfg \<noteq> '''' \<and>
      (case sg_GPU cfg of None \<Rightarrow> True | Some g \<Rightarrow> gpu_ok g \<and> sg_NodeName cfg = '''') \<and>
      (sg_Interfaces cfg = [] \<or>
       sg_NetworkRef cfg = '''' \<and> sg_NodeNetworkRef cfg = '''' \<and> interfaces_ok (sg_Interfaces cfg)) \<and>
      (case rq_ControlPlaneExposure req of None \<Rightarrow> True | Some x \<Rightarrow> \<not> primaryOnNAD cfg))"

lemma Reconcile_checks_Inr: "Reconcile_checks req = Inr cfg \<longleftrightarrow> acceptable req cfg"
proof (cases "mb_SwiftGuest (kms_Backend (ksm_Spec (rq_Machine req)))")
  case None
  then show ?thesis by (simp add: Reconcile_checks_def acceptable_def)
next
  case (Some c)
  have "Reconcile_checks req = Inr cfg \<longleftrightarrow> c = cfg \<and> sg_ImageRef c \<noteq> '''' \<and> sg_GuestClassRef c \<noteq> '''' \<and>
      validateGPU (sg_GPU c) = None \<and> validatePlacement c = None \<and> validateInterfaces c = None \<and>
      (rq_ControlPlaneExposure req = None \<or> \<not> primaryOnNAD c)"
    using Some by (auto simp: Reconcile_checks_def split: option.split)
  then show ?thesis
    using Some
    by (auto simp: acceptable_def validateGPU_None validatePlacement_None validateInterfaces_None split: option.splits)
qed

text \<open>
  C21. A request the backend does not accept is refused before anything is touched: whatever the API
  server would do, the result is an error and not a single call is made. Refused are exactly the
  requests that fail one of these: the configuration is present with an image and a class, at most
  one well-formed GPU reference and no pinned node with it, a well-formed interface list, and no
  primary interface on a NAD when the API server is exposed through the Service.
\<close>

theorem Reconcile_rejects_untouched:
  assumes "\<nexists>cfg. acceptable req cfg"
  shows "wp (SwiftGuest_Reconcile L (logged C) req) (\<lambda>r s'. (\<exists>e. r = Inl e) \<and> s' = s) s"
proof -
  obtain e where "Reconcile_checks req = Inl e"
    using assms Reconcile_checks_Inr by (cases "Reconcile_checks req") auto
  then show ?thesis by (simp add: SwiftGuest_Reconcile_def wp_simps)
qed

theorem Reconcile_rejects_untouched_witness:
  "wp (SwiftGuest_Reconcile ref_lib (logged (mem_client ref_lib))
     (ex_req ''w-0'' (Some (ex_cfg\<lparr>sg_GPU := Some ex_gpu, sg_NodeName := ''node-1''\<rparr>)) None))
     (\<lambda>r s'. (\<exists>e. r = Inl e) \<and> s' = (empty_store, [])) (empty_store, [])"
  by (rule Reconcile_rejects_untouched) (simp add: acceptable_def ex_defs)

section \<open>What is rendered for an accepted request\<close>

text \<open>
  The shape KubeSwift needs of a guest spec: an interface list, if there is one, has one primary
  and a network for every other interface; a pinned node and a GPU exclude each other; at most one
  of the two GPU fields is present, and a claim names exactly one of template and claim.
\<close>

definition guest_spec_ok :: "json_obj \<Rightarrow> bool" where
  "guest_spec_ok spec =
     ((case fmlookup spec ''interfaces'' of None \<Rightarrow> True
       | Some (VSlice l) \<Rightarrow> guest_interfaces_ok l | Some _ \<Rightarrow> False) \<and>
      (case (fmlookup spec ''gpuProfileRef'', fmlookup spec ''gpuResourceClaim'') of
         (None, None) \<Rightarrow> True
       | (Some (VMap r), None) \<Rightarrow> fmlookup spec ''nodeName'' = None \<and> fmlookup r nameField \<noteq> Some (VString '''')
       | (None, Some (VMap c)) \<Rightarrow> fmlookup spec ''nodeName'' = None \<and>
           (fmlookup c ''resourceClaimTemplateName'' = None) \<noteq> (fmlookup c ''resourceClaimName'' = None)
       | _ \<Rightarrow> False))"

lemma render_interfaces_ok:
  assumes "sg_Interfaces cfg = [] \<or> interfaces_ok (sg_Interfaces cfg)"
  shows "case fmlookup (renderSwiftGuest_spec req cfg) ''interfaces'' of None \<Rightarrow> True
    | Some (VSlice l) \<Rightarrow> guest_interfaces_ok l | Some _ \<Rightarrow> False"
  using assms by (auto simp: spec_interfaces guest_interfaces_ok_render) (simp_all add: guest_interfaces_ok_def lit_view)

text \<open>
  C19. For every request the backend accepts, the guest spec it renders has the shape KubeSwift needs,
  whichever of the three network settings, placement and GPU settings the machine uses.
\<close>

theorem rendered_spec_ok:
  assumes "acceptable req cfg"
  shows "guest_spec_ok (renderSwiftGuest_spec req cfg)"
proof -
  have ifs: "sg_Interfaces cfg = [] \<or> interfaces_ok (sg_Interfaces cfg)"
    and gpu: "\<And>g. sg_GPU cfg = Some g \<Longrightarrow> gpu_ok g \<and> sg_NodeName cfg = ''''"
    using assms by (auto simp: acceptable_def split: option.splits)
  show ?thesis
    unfolding guest_spec_ok_def using render_interfaces_ok [OF ifs] gpu
    by (cases "sg_GPU cfg")
      (auto simp: spec_gpu spec_nodeName claim_lookup gpu_ok_def localRef_def lit_def split: if_splits)
qed

theorem rendered_spec_ok_witness:
  "guest_spec_ok (renderSwiftGuest_spec
     (ex_req ''w-0'' (Some (ex_cfg\<lparr>sg_GPU := Some ex_gpu, sg_NodeNetworkRef := ''udn''\<rparr>)) None)
     (ex_cfg\<lparr>sg_GPU := Some ex_gpu, sg_NodeNetworkRef := ''udn''\<rparr>))"
  by (rule rendered_spec_ok) (simp add: acceptable_def ex_defs gpu_ok_def GPUTierPCIe_def)

lemma render_primary_local:
  assumes nad: "\<not> primaryOnNAD cfg" and ifs: "sg_Interfaces cfg = [] \<or> interfaces_ok (sg_Interfaces cfg)"
  shows "case fmlookup (renderSwiftGuest_spec req cfg) ''interfaces'' of
    Some (VSlice l) \<Rightarrow> list_all (\<lambda>v. \<not> iface_primary v \<or> iface_network v = None) l | _ \<Rightarrow> True"
proof -
  have "list_all (\<lambda>v. \<not> iface_primary v \<or> iface_network v = None) (renderInterfaces (sg_Interfaces cfg))"
    using nad ifs primaryOnNAD_loop_iff [of "sg_Interfaces cfg"]
    by (auto simp: primaryOnNAD_def interfaces_ok_def renderInterfaces_def list_all_iff renderInterface_view
        split: if_splits)
  then show ?thesis
    using nad by (auto simp: spec_interfaces lit_view primaryOnNAD_def split: if_splits)
qed

text \<open>
  C20. A control-plane machine behind the endpoint Service is reachable there: for every accepted
  request with an exposure, the rendered guest binds the API-server port by NAT, with the port
  unchanged as a signed number on both sides of the forwarding, and whatever interface list it
  has, its primary interface is not on a NAD.
\<close>

theorem rendered_exposure:
  assumes "acceptable req cfg" "rq_ControlPlaneExposure req = Some x"
  shows "\<exists>net p. fmlookup (renderSwiftGuest_spec req cfg) ''network'' = Some (VMap net) \<and>
      fmlookup net ''binding'' = Some (VString natBinding) \<and>
      fmlookup net ''ports'' = Some (VSlice [VMap p]) \<and>
      fmlookup p nameField = Some (VString APIServerPortName) \<and>
      (\<exists>port. fmlookup p ''port'' = Some (VInt port) \<and> fmlookup p ''targetPort'' = Some (VInt port) \<and>
              sint port = sint (cx_Port x)) \<and>
      (case fmlookup (renderSwiftGuest_spec req cfg) ''interfaces'' of
         Some (VSlice l) \<Rightarrow> list_all (\<lambda>v. \<not> iface_primary v \<or> iface_network v = None) l | _ \<Rightarrow> True)"
proof -
  have "case fmlookup (renderSwiftGuest_spec req cfg) ''interfaces'' of
      Some (VSlice l) \<Rightarrow> list_all (\<lambda>v. \<not> iface_primary v \<or> iface_network v = None) l | _ \<Rightarrow> True"
    using assms by (intro render_primary_local) (auto simp: acceptable_def)
  with assms(2) show ?thesis
    by (simp add: spec_network lit_def nameField_def)
qed

theorem rendered_exposure_witness:
  "\<exists>net p. fmlookup (renderSwiftGuest_spec (ex_req ''cp-0'' (Some ex_cfg) (Some ex_exposure)) ex_cfg) ''network''
        = Some (VMap net) \<and>
      fmlookup net ''binding'' = Some (VString natBinding) \<and>
      fmlookup net ''ports'' = Some (VSlice [VMap p]) \<and>
      fmlookup p nameField = Some (VString APIServerPortName) \<and>
      (\<exists>port. fmlookup p ''port'' = Some (VInt port) \<and> fmlookup p ''targetPort'' = Some (VInt port) \<and>
              sint port = sint (cx_Port ex_exposure)) \<and>
      (case fmlookup (renderSwiftGuest_spec (ex_req ''cp-0'' (Some ex_cfg) (Some ex_exposure)) ex_cfg) ''interfaces'' of
         Some (VSlice l) \<Rightarrow> list_all (\<lambda>v. \<not> iface_primary v \<or> iface_network v = None) l | _ \<Rightarrow> True)"
  by (rule rendered_exposure) (simp_all add: acceptable_def ex_defs primaryOnNAD_def)

section \<open>The calls of Reconcile\<close>

inductive reconcile_trace :: "lib \<Rightarrow> Request \<Rightarrow> call_log \<Rightarrow> go_error + Result \<Rightarrow> bool" for L req where
  rejected: "Reconcile_checks req = Inl e \<Longrightarrow> reconcile_trace L req [] (Inl e)"
| seed_failed: "Reconcile_checks req = Inr cfg \<Longrightarrow> seed_trace L req l (Inl e) \<Longrightarrow>
    reconcile_trace L req l (Inl (Wrapf ''ensuring SwiftSeedProfile'' e))"
| guest_failed: "Reconcile_checks req = Inr cfg \<Longrightarrow> seed_trace L req l (Inr ()) \<Longrightarrow>
    guest_trace L req cfg l' (Inl e) \<Longrightarrow>
    reconcile_trace L req (l @ l') (Inl (Wrapf ''ensuring SwiftGuest'' e))"
| observed: "Reconcile_checks req = Inr cfg \<Longrightarrow> seed_trace L req l (Inr ()) \<Longrightarrow>
    guest_trace L req cfg l' (Inr guest) \<Longrightarrow> reconcile_trace L req (l @ l') (guest_result L req guest)"

lemma SwiftGuest_Reconcile_trace:
  "wp (SwiftGuest_Reconcile L (logged C) req) (\<lambda>r s'. \<exists>l. snd s' = snd s @ l \<and> reconcile_trace L req l r) s"
  unfolding SwiftGuest_Reconcile_def
  by (auto simp: wp_simps split: sum.split intro!: reconcile_trace.rejected ensureSeedProfile_wp ensureSwiftGuest_wp)
    (rule reconcile_trace.intros; assumption)+

lemmas SwiftGuest_Reconcile_wp = wp_trace [OF SwiftGuest_Reconcile_trace]

inductive_cases reconcile_traceE: "reconcile_trace L req l r"

text \<open>The calls that may be made for the seed profile and for the guest.\<close>

definition seed_call :: "lib \<Rightarrow> Request \<Rightarrow> api_call \<Rightarrow> bool" where
  "seed_call L req c = (c = seed_get L req \<or> c = CCreateObject (newSeedProfile L req) \<or>
     (\<exists>existing u. migrateSeedProfile L req existing = Some (Inr u) \<and> c = CUpdateObject u))"

definition guest_call :: "lib \<Rightarrow> Request \<Rightarrow> SwiftGuestBackend \<Rightarrow> api_call \<Rightarrow> bool" where
  "guest_call L req cfg c = (c = guest_get L req \<or>
     (\<exists>guest. renderSwiftGuest L req cfg = Some guest \<and> c = CCreateObject guest))"

lemma seed_trace_calls:
  "seed_trace L req l r \<Longrightarrow> list_all (seed_call L req) (map fst l) \<and> length (writes l) \<le> 1 \<and>
     (r = Inr () \<longrightarrow> l \<noteq> [] \<and> snd (last l) = ROk)"
  by (erule seed_trace.cases) (auto simp: seed_call_def seed_get_def)

lemma guest_trace_calls:
  "guest_trace L req cfg l r \<Longrightarrow> list_all (guest_call L req cfg) (map fst l) \<and> length (writes l) \<le> 1 \<and> l \<noteq> []"
  by (erule guest_trace.cases) (auto simp: guest_call_def guest_get_def)

text \<open>
  C12. Order of the calls of \<^verbatim>\<open>Reconcile\<close>, for every behaviour of the API server: first the calls for
  the seed profile, then those for the guest, and the guest is not even looked up unless the last
  call for the seed profile succeeded. At most one write is made for each; an existing guest is
  never updated, and nothing is ever deleted. If the result is not an error, both have been made.
\<close>

theorem Reconcile_order:
  "wp (SwiftGuest_Reconcile L (logged C) req) (\<lambda>r s'. \<exists>seed guest. snd s' = snd s @ seed @ guest \<and>
      list_all (seed_call L req) (map fst seed) \<and> length (writes seed) \<le> 1 \<and>
      (if guest = [] then (\<exists>e. r = Inl e)
       else seed \<noteq> [] \<and> snd (last seed) = ROk \<and> length (writes guest) \<le> 1 \<and>
         (\<exists>cfg. acceptable req cfg \<and> list_all (guest_call L req cfg) (map fst guest)))) s"
proof (rule SwiftGuest_Reconcile_wp, erule reconcile_trace.cases, goal_cases)
  case 1
  then show ?case by (intro exI [of _ "[]"]) simp
next
  case (2 r w l cfg l1 e)
  then show ?case using seed_trace_calls [of L req l1] by (intro exI [of _ l1] exI [of _ "[]"]) auto
next
  case (3 r w l cfg l1 l2 e)
  then show ?case
    using seed_trace_calls [of L req l1] guest_trace_calls [of L req cfg l2]
    by (intro exI [of _ l1] exI [of _ l2]) (auto simp: Reconcile_checks_Inr)
next
  case (4 r w l cfg l1 l2 guest)
  then show ?case
    using seed_trace_calls [of L req l1] guest_trace_calls [of L req cfg l2]
    by (intro exI [of _ l1] exI [of _ l2]) (auto simp: Reconcile_checks_Inr)
qed

section \<open>Credentials\<close>

text \<open>No user data is stored in the object, at any place the provider writes to.\<close>

definition no_inline_credentials :: "Unstructured \<Rightarrow> bool" where
  "no_inline_credentials u = (spec_field (u_Object u) ''userData'' = None)"

definition names_bootstrap_secret :: "Request \<Rightarrow> Unstructured \<Rightarrow> bool" where
  "names_bootstrap_secret req u = (spec_field (u_Object u) ''userDataFrom'' = Some (userDataFrom req))"

context k8s_lib begin

lemma newSeedProfile_credentials:
  "no_inline_credentials (newSeedProfile L req)" "names_bootstrap_secret req (newSeedProfile L req)"
  by (simp_all add: newSeedProfile_def Let_def no_inline_credentials_def names_bootstrap_secret_def put_spec_spec
      seedProfileSpec_def)

lemma migrateSeedProfile_credentials:
  "migrateSeedProfile L req existing = Some (Inr u) \<Longrightarrow> no_inline_credentials u \<and> names_bootstrap_secret req u"
  by (auto simp: migrateSeedProfile_def Let_def no_inline_credentials_def names_bootstrap_secret_def
      set_nested remove_nested split: if_splits sum.splits)

lemma renderSwiftGuest_credentials:
  "renderSwiftGuest L req cfg = Some guest \<Longrightarrow> no_inline_credentials guest"
  by (rule renderSwiftGuest_ok [of req cfg])
    (simp add: no_inline_credentials_def nested_field_2 renderSwiftGuest_spec_def render_lookups)

lemma eq_userDataFrom:
  "EqObject L (NestedMap L m p) (userDataFrom req) \<longleftrightarrow> nested_field m p = Some (userDataFrom req)"
  by (auto simp: nested_map eq_object userDataFrom_def lit_def split: option.split val.split)

lemma migrateSeedProfile_None:
  "migrateSeedProfile L req existing = None \<longleftrightarrow>
     names_bootstrap_secret req existing \<and> NestedString L (u_Object existing) [''spec'', ''userData''] = ''''"
  by (auto simp: migrateSeedProfile_def Let_def names_bootstrap_secret_def eq_userDataFrom)

end

lemma seed_trace_call: "seed_trace L req l r \<Longrightarrow> (c, b) \<in> set l \<Longrightarrow> seed_call L req c"
  using seed_trace_calls [of L req l r] by (auto simp: list_all_iff)

lemma guest_trace_call: "guest_trace L req cfg l r \<Longrightarrow> (c, b) \<in> set l \<Longrightarrow> guest_call L req cfg c"
  using guest_trace_calls [of L req cfg l r] by (auto simp: list_all_iff)

lemma reconcile_trace_calls:
  "reconcile_trace L req l r \<Longrightarrow> c \<in> set (map fst l) \<Longrightarrow> seed_call L req c \<or> (\<exists>cfg. guest_call L req cfg c)"
  by (erule reconcile_trace.cases) (auto simp del: image_iff dest: seed_trace_call guest_trace_call)

text \<open>A write of \<open>Reconcile\<close> that stores no credentials.\<close>

definition credential_free :: "lib \<Rightarrow> Request \<Rightarrow> api_call \<Rightarrow> bool" where
  "credential_free L req c = (\<exists>u. (c = CCreateObject u \<or> c = CUpdateObject u) \<and> no_inline_credentials u \<and>
     (names_bootstrap_secret req u \<or> (\<exists>cfg. renderSwiftGuest L req cfg = Some u)))"

lemma seed_call_credential_free:
  assumes "k8s_lib L" "seed_call L req c" "is_write c"
  shows "credential_free L req c"
  using assms(2,3) k8s_lib.newSeedProfile_credentials [OF assms(1)]
    k8s_lib.migrateSeedProfile_credentials [OF assms(1)]
  by (auto simp: seed_call_def seed_get_def credential_free_def)

lemma guest_call_credential_free:
  assumes "k8s_lib L" "guest_call L req cfg c" "is_write c"
  shows "credential_free L req c"
  using assms(2,3) k8s_lib.renderSwiftGuest_credentials [OF assms(1)]
  by (auto simp: guest_call_def guest_get_def credential_free_def)

text \<open>
  C9. The bootstrap credentials are handed over by reference. Whatever the API server does and
  whatever an earlier version of the provider left in the seed profile, every object that
  \<^verbatim>\<open>Reconcile\<close> writes has no user data in its spec, every seed profile it writes refers to the
  machine's bootstrap Secret by name and key, and the Secret itself is never read.
\<close>

theorem credentials_by_reference:
  assumes "k8s_lib L"
  shows "wp (SwiftGuest_Reconcile L (logged C) req) (\<lambda>r s'. \<exists>l. snd s' = snd s @ l \<and>
      (\<forall>c \<in> set (map fst l). \<forall>k. c \<noteq> CGetSecret k) \<and>
      (\<forall>c \<in> set (writes l). credential_free L req c)) s"
proof (rule SwiftGuest_Reconcile_wp, intro exI conjI ballI)
  fix r w l c
  assume t: "reconcile_trace L req l r"
  show "snd (w, snd s @ l) = snd s @ l" by simp
  show "\<forall>k. c \<noteq> CGetSecret k" if "c \<in> set (map fst l)"
    using reconcile_trace_calls [OF t that]
    by (auto simp: seed_call_def guest_call_def seed_get_def guest_get_def)
  show "credential_free L req c" if "c \<in> set (writes l)"
    using reconcile_trace_calls [OF t, of c] that seed_call_credential_free [OF assms, of req c]
      guest_call_credential_free [OF assms, of req _ c]
    by auto
qed

theorem credentials_by_reference_witness:
  "wp (SwiftGuest_Reconcile ref_lib (logged (mem_client ref_lib)) (ex_req ''w-0'' (Some ex_cfg) None))
    (\<lambda>r s'. \<exists>l. snd s' = snd (empty_store, []) @ l \<and>
      (\<forall>c \<in> set (map fst l). \<forall>k. c \<noteq> CGetSecret k) \<and>
      (\<forall>c \<in> set (writes l). credential_free ref_lib (ex_req ''w-0'' (Some ex_cfg) None) c)) (empty_store, [])"
  by (rule credentials_by_reference [OF k8s_lib_ref])

section \<open>Deleting\<close>



section \<open>Reading the guest\<close>

text \<open>The address at which the node of a guest is reachable, from the guest's status.\<close>

definition text_at :: "json_obj \<Rightarrow> string list \<Rightarrow> string" where
  "text_at m p = (case nested_field m p of Some (VString s) \<Rightarrow> s | _ \<Rightarrow> '''')"

definition node_address :: "json_obj \<Rightarrow> string" where
  "node_address m =
     (if text_at m [''status'', ''network'', ''primaryIP''] \<noteq> '''' \<and>
         text_at m [''status'', ''network'', ''primaryIPScope''] = ''Pod''
      then text_at m [''status'', ''network'', ''podIP'']
      else text_at m [''status'', ''network'', ''primaryIP''])"

text \<open>A status condition saying that a reference of the guest is missing.\<close>

definition unresolved :: "val \<Rightarrow> bool" where
  "unresolved c = (case c of VMap m \<Rightarrow>
     fmlookup m ''type'' = Some (VString ''Resolved'') \<and> fmlookup m ''status'' = Some (VString ''False'')
   | _ \<Rightarrow> False)"

definition status_conditions :: "json_obj \<Rightarrow> val list" where
  "status_conditions m = (case nested_field m [''status'', ''conditions''] of Some (VSlice s) \<Rightarrow> s | _ \<Rightarrow> [])"

text \<open>What such a condition says: its message, or its reason if it has no message.\<close>

definition condition_text :: "val \<Rightarrow> string" where
  "condition_text c = (case c of VMap m \<Rightarrow>
     (case fmlookup m ''message'' of Some (VString (x # xs)) \<Rightarrow> x # xs
      | _ \<Rightarrow> (case fmlookup m ''reason'' of Some (VString s) \<Rightarrow> s | _ \<Rightarrow> ''''))
   | _ \<Rightarrow> '''')"

lemma unresolvedMessage_loop_find: "unresolvedMessage_loop cs = map_option condition_text (find unresolved cs)"
proof (induction cs)
  case (Cons c cs)
  then show ?case
    by (auto simp: unresolved_def condition_text_def as_string_def Let_def resolvedCondition_def ConditionFalse_def
        split: val.splits option.splits list.splits)
qed simp

context k8s_lib begin

lemma guestAddresses_node_address:
  "guestAddresses L guest = (if node_address (u_Object guest) = '''' then []
     else [\<lparr> addr_Type = MachineInternalIP, addr_Address = node_address (u_Object guest) \<rparr>])"
  by (simp add: guestAddresses_def node_address_def text_at_def nested_string primaryIPScopePod_def Let_def)

lemma unresolvedMessage_find:
  "unresolvedMessage L guest = map_option condition_text (find unresolved (status_conditions (u_Object guest)))"
  by (simp add: unresolvedMessage_def unresolvedMessage_loop_find nested_slice status_conditions_def)

end
text \<open>
  C17. How the state of the guest becomes the state of the machine. A guest that reports failure is
  an error that names it. A guest is taken as provisioned exactly when it is running and its node
  is reachable, with that one address: the primary IP, or the pod's IP when the primary IP is only
  valid inside the pod (and then never the primary IP, even if the pod has none yet). Everything
  else is looked at again, and the result says that the guest waits for its references exactly
  when its status has an unresolved-reference condition, in the words of the first one.
\<close>

theorem guest_observed:
  assumes "k8s_lib L"
  shows "guest_result L req guest =
    (let m = u_Object guest; phase = text_at m [''status'', ''phase''] in
     if phase = ''Failed''
     then Inl (Errorf (''SwiftGuest '' @ guest_path req @ '' reported phase Failed''))
     else if phase = ''Running'' \<and> node_address m \<noteq> ''''
     then Inr (empty_Result\<lparr>rs_Provisioned := True,
            rs_Addresses := [\<lparr> addr_Type = MachineInternalIP, addr_Address = node_address m \<rparr>]\<rparr>)
     else Inr (case find unresolved (status_conditions m) of
         Some c \<Rightarrow> empty_Result\<lparr>rs_Requeue := True, rs_WaitingReason := VMWaitingForReferencesReason,
            rs_WaitingMessage := ''SwiftGuest '' @ guest_path req @ '' is waiting for its references: '' @
              condition_text c\<rparr>
       | None \<Rightarrow> empty_Result\<lparr>rs_Requeue := True\<rparr>))"
proof -
  have phase: "NestedString L (u_Object guest) [''status'', ''phase''] = text_at (u_Object guest) [''status'', ''phase'']"
    by (simp add: text_at_def nested_lib.nested_string [OF k8s_lib.axioms(1) [OF assms]])
  show ?thesis
    unfolding guest_result_def phase k8s_lib.guestAddresses_node_address [OF assms]
      k8s_lib.unresolvedMessage_find [OF assms]
    by (auto simp: Let_def split: option.split)
qed

definition ex_guest :: Unstructured where
  "ex_guest = \<lparr> u_Object = fmap_of_list [(''status'', lit [(''phase'', VString ''Running''),
     (''network'', lit [(''primaryIP'', VString ''192.168.99.2''), (''primaryIPScope'', VString ''Pod''),
        (''podIP'', VString ''10.244.1.7'')])])] \<rparr>"

theorem guest_observed_witness:
  "guest_result ref_lib (ex_req ''w-0'' (Some ex_cfg) None) ex_guest =
     Inr (empty_Result\<lparr>rs_Provisioned := True,
       rs_Addresses := [\<lparr> addr_Type = MachineInternalIP, addr_Address = ''10.244.1.7'' \<rparr>]\<rparr>)"
  unfolding guest_observed [OF k8s_lib_ref]
  by (simp add: Let_def ex_guest_def lit_def text_at_def node_address_def nested_field.simps)

section \<open>What the backend does not use\<close>

text \<open>
  C31. The provider ID has no influence on the guest: whatever ID the controller hands over, the
  backend behaves in the same way, in its calls, in what it creates and in what it returns. The ID
  reaches the node through the patch of the workload Node alone.
\<close>

theorem backend_ignores_providerID:
  "SwiftGuest_Reconcile L C (req\<lparr>rq_ProviderID := pid\<rparr>) = SwiftGuest_Reconcile L C req \<and>
   SwiftGuest_Delete L C (req\<lparr>rq_ProviderID := pid\<rparr>) = SwiftGuest_Delete L C req"
proof -
  let ?req = "req\<lparr>rq_ProviderID := pid\<rparr>"
  have labels: "setKubeSwiftLabels L u ?req = setKubeSwiftLabels L u req" for u
    by (simp add: setKubeSwiftLabels_def)
  have specs: "seedProfileSpec ?req = seedProfileSpec req" "renderSwiftGuest_spec ?req cfg = renderSwiftGuest_spec req cfg"
    "migrateSeedProfile L ?req x = migrateSeedProfile L req x" for cfg x
    by (simp_all add: seedProfileSpec_def userDataFrom_def renderSwiftGuest_spec_def render_base_def migrateSeedProfile_def)
  have objects: "newSeedProfile L ?req = newSeedProfile L req" "renderSwiftGuest L ?req cfg = renderSwiftGuest L req cfg" for cfg
    unfolding newSeedProfile_def renderSwiftGuest_def labels specs by simp_all
  have seed: "ensureSeedProfile L C ?req = ensureSeedProfile L C req"
    unfolding ensureSeedProfile_def objects specs by simp
  have guest: "ensureSwiftGuest L C ?req cfg = ensureSwiftGuest L C req cfg" for cfg
    unfolding ensureSwiftGuest_def objects by simp

  have path: "guest_path ?req = guest_path req" by (simp add: guest_path_def)
  have result: "guest_result L (req\<lparr>rq_ProviderID := pid\<rparr>) guest = guest_result L req guest" for guest
    by (simp only: guest_result_def path)
  have fields: "rq_ControlPlaneExposure ?req = rq_ControlPlaneExposure req" "rq_Machine ?req = rq_Machine req"
    "rq_GuestNamespace ?req = rq_GuestNamespace req"
    by simp_all
  show ?thesis
    by (simp only: SwiftGuest_Reconcile_def SwiftGuest_Delete_def Reconcile_checks_def seedToDelete_def
        seed guest result fields)
qed

text \<open>
  C32. The backend keeps the contract of its interface, whatever the client does: a result that says
  the machine is provisioned has at least one address and no empty one, and one that does not has
  no address, asks to be called again and gives a message only together with a reason.
\<close>

theorem backend_keeps_contract:
  "wp (SwiftGuest_Reconcile L C req) (\<lambda>r _. case r of Inl e \<Rightarrow> True | Inr res \<Rightarrow> result_ok res) w"
  using sg.reconcile_ok [of L C req w] by (simp add: NewSwiftGuestBackend_def)

end
