(* ===== verification/Workload_Node.thy ===== *)
theory Workload_Node
  imports Api_Server Samples
begin

text \<open>
  \<^verbatim>\<open>src/internal/controller/workload_node.go\<close>: setting the provider ID of the workload cluster's
  Node. The Go pair \<^verbatim>\<open>(patched, err)\<close> is a sum, since every error path returns \<^verbatim>\<open>false\<close>. The
  kubeconfig parser and the clientset constructor belong to client-go and are fields of \<open>lib\<close>.
\<close>

definition providerID_patch :: "string \<Rightarrow> string" where
  "providerID_patch providerID =
     ''{'' @ dquoted ''spec'' @ '':{'' @ dquoted ''providerID'' @ '':'' @ quote providerID @ ''}}''"

definition kubeconfig_key :: "CAPICluster \<Rightarrow> NamespacedName" where
  "kubeconfig_key cluster = nn (om_Namespace (cl_Meta cluster)) (om_Name (cl_Meta cluster) @ ''-kubeconfig'')"

text \<open>The part of \<^verbatim>\<open>ensureNodeProviderID\<close> after the clientset is built.\<close>

definition patchNodeProviderID :: "'w client \<Rightarrow> clientset \<Rightarrow> string \<Rightarrow> string \<Rightarrow> ('w, go_error + bool) state" where
  "patchNodeProviderID C cs nodeName providerID = do {
     r \<leftarrow> c_GetNode C cs nodeName;
     (case r of
        Inl err \<Rightarrow> State_Monad.return (Inr False)
      | Inr node \<Rightarrow>
          if node_ProviderID node = providerID then State_Monad.return (Inr True)
          else if node_ProviderID node \<noteq> '''' then State_Monad.return (Inr True)
          else do {
            p \<leftarrow> c_PatchNode C cs nodeName (providerID_patch providerID);
            State_Monad.return (case p of
               Inl err \<Rightarrow> Inl (Wrapf (''patching Node '' @ nodeName @ '' providerID'') err)
             | Inr _ \<Rightarrow> Inr True) }) }"

definition ensureNodeProviderID :: "lib \<Rightarrow> 'w client \<Rightarrow> CAPICluster \<Rightarrow> string \<Rightarrow> string \<Rightarrow>
    ('w, go_error + bool) state" where
  "ensureNodeProviderID L C cluster nodeName providerID = do {
     r \<leftarrow> c_GetSecret C (kubeconfig_key cluster);
     (case r of
        Inl err \<Rightarrow> State_Monad.return (if IsNotFound err then Inr False
          else Inl (Wrapf (''reading workload kubeconfig secret '' @ keyString L (kubeconfig_key cluster)) err))
      | Inr secret \<Rightarrow>
          (case map_entry (sec_Data secret) ''value'' of
             None \<Rightarrow> State_Monad.return (Inl (Errorf (''workload kubeconfig secret '' @
               keyString L (kubeconfig_key cluster) @ '' has no 'value' key'')))
           | Some data \<Rightarrow>
               (case RESTConfigFromKubeConfig L data of
                  Inl err \<Rightarrow> State_Monad.return
                    (Inl (Wrapf (''parsing workload kubeconfig '' @ keyString L (kubeconfig_key cluster)) err))
                | Inr restCfg \<Rightarrow>
                    (case NewForConfig L restCfg of
                       Inl err \<Rightarrow> State_Monad.return (Inl (Wrapf ''building workload client'' err))
                     | Inr cs \<Rightarrow> patchNodeProviderID C cs nodeName providerID)))) }"

section \<open>The patch document\<close>

lemma providerID_patch_plain: "list_all plain_char s \<Longrightarrow> providerID_patch s = providerID_document s"
  by (simp add: providerID_patch_def providerID_document_def dquoted_def quote_plain)

section \<open>What happens to the Node\<close>

context node_server begin

lemma patchNodeProviderID_effect:
  assumes "list_all plain_char pid" "pid \<noteq> ''''"
  shows "wp (patchNodeProviderID C cs n pid) (\<lambda>r w'. nodes w' = nodes w \<and> (r = Inr True \<longrightarrow>
        (\<exists>node. nodes w n = Some node \<and> node_ProviderID node \<noteq> '''')) \<or>
      r = Inr True \<and> (\<exists>node. nodes w n = Some node \<and> node_ProviderID node = '''' \<and>
        nodes w' = (nodes w)(n := Some (node\<lparr>node_ProviderID := pid\<rparr>)))) w"
  unfolding patchNodeProviderID_def wp_bind
  by (rule get_node_cases)
    (use assms in \<open>auto simp: wp_simps providerID_patch_plain intro!: patch_node_cases\<close>)

lemma ensureNodeProviderID_effect:
  assumes "list_all plain_char pid" "pid \<noteq> ''''"
  shows "wp (ensureNodeProviderID L C cluster n pid) (\<lambda>r w'. nodes w' = nodes w \<and> (r = Inr True \<longrightarrow>
        (\<exists>node. nodes w n = Some node \<and> node_ProviderID node \<noteq> '''')) \<or>
      r = Inr True \<and> (\<exists>node. nodes w n = Some node \<and> node_ProviderID node = '''' \<and>
        nodes w' = (nodes w)(n := Some (node\<lparr>node_ProviderID := pid\<rparr>)))) w"
  unfolding ensureNodeProviderID_def wp_bind
  by (rule get_secret_cases)
    (auto simp: wp_simps split: sum.split option.split intro!: wp_mono [OF patchNodeProviderID_effect [OF assms]])

end

text \<open>
  C18. The workload Node. Whatever goes wrong on the way, at most the one Node of that name changes,
  and only from having no provider ID to having the requested one; a Node that already has an ID,
  equal or not, is left alone. Success is reported only if the Node exists and has an ID now.
\<close>

theorem node_providerID_set_once:
  assumes "node_server C nodes" "list_all plain_char pid" "pid \<noteq> ''''"
  shows "wp (ensureNodeProviderID L C cluster n pid) (\<lambda>r w'.
      (\<forall>m. nodes w' m \<noteq> nodes w m \<longrightarrow> m = n \<and> r = Inr True \<and> (\<exists>node. nodes w n = Some node \<and>
         node_ProviderID node = '''' \<and> nodes w' n = Some (node\<lparr>node_ProviderID := pid\<rparr>))) \<and>
      (r = Inr True \<longrightarrow> (\<exists>node. nodes w' n = Some node \<and> node_ProviderID node \<noteq> ''''))) w"
  by (rule wp_mono [OF node_server.ensureNodeProviderID_effect [OF assms]])
    (use assms(3) in \<open>auto split: if_splits\<close>)

definition ex_node_store :: store where
  "ex_node_store = empty_store\<lparr>
     st_nodes := (\<lambda>n. if n = ''w-0'' then Some \<lparr> node_Name = ''w-0'', node_ProviderID = '''' \<rparr> else None),
     st_secrets := (\<lambda>k. if k = (''ns'', ''demo-kubeconfig'')
       then Some \<lparr> sec_Data = Some (fmap_of_list [(''value'', ''kubeconfig'')]) \<rparr> else None)\<rparr>"

theorem node_providerID_set_once_witness:
  "wp (ensureNodeProviderID ref_lib (mem_client ref_lib) ex_capi_cluster ''w-0'' ''kubeswift://ns/w-0'') (\<lambda>r w'.
      (\<forall>m. st_nodes w' m \<noteq> st_nodes ex_node_store m \<longrightarrow> m = ''w-0'' \<and> r = Inr True \<and>
         (\<exists>node. st_nodes ex_node_store ''w-0'' = Some node \<and> node_ProviderID node = '''' \<and>
            st_nodes w' ''w-0'' = Some (node\<lparr>node_ProviderID := ''kubeswift://ns/w-0''\<rparr>))) \<and>
      (r = Inr True \<longrightarrow> (\<exists>node. st_nodes w' ''w-0'' = Some node \<and> node_ProviderID node \<noteq> ''''))) ex_node_store"
  by (rule node_providerID_set_once [OF mem_node.node_server_axioms]) (simp_all add: plain_char_def)

section \<open>The calls\<close>

definition node_call :: "CAPICluster \<Rightarrow> string \<Rightarrow> api_call \<Rightarrow> bool" where
  "node_call cluster n c = (c = CGetSecret (kubeconfig_key cluster) \<or>
     (\<exists>cs. c = CGetNode cs n) \<or> (\<exists>cs p. c = CPatchNode cs n p))"

lemma ensureNodeProviderID_trace:
  "wp (ensureNodeProviderID L (logged C) cluster n pid)
     (\<lambda>r s'. \<exists>l. snd s' = snd s @ l \<and> list_all (\<lambda>c. node_call cluster n (fst c)) l) s"
  unfolding ensureNodeProviderID_def patchNodeProviderID_def
  by (auto simp: wp_simps node_call_def split: sum.split option.split intro!: wp_logged)

lemmas ensureNodeProviderID_wp = wp_trace [OF ensureNodeProviderID_trace]

end
