(* ===== verification/Endpoint_Service.thy ===== *)
theory Endpoint_Service
  imports Lib_Laws Api_Server
begin

text \<open>
  \<^verbatim>\<open>src/internal/controller/endpoint_service.go\<close>: the Service in front of the control-plane guests
  of a cluster whose endpoint mode is \<^verbatim>\<open>Service\<close>. The methods of the reconciler take the object
  they mutate and return it updated beside their own result.
\<close>

section \<open>Configuration\<close>

definition defaultAPIServerPort :: int32 where
  "defaultAPIServerPort = 6443"

definition controlPlaneServiceName :: "KubeSwiftCluster \<Rightarrow> string" where
  "controlPlaneServiceName ksc = om_Name (ksc_Meta ksc) @ ''-cp''"

definition serviceCfg :: "KubeSwiftCluster \<Rightarrow> ControlPlaneServiceSpec option" where
  "serviceCfg ksc = (case kcs_Endpoint (ksc_Spec ksc) of None \<Rightarrow> None | Some endpoint \<Rightarrow> cpe_Service endpoint)"

definition controlPlaneServicePort :: "KubeSwiftCluster \<Rightarrow> int32" where
  "controlPlaneServicePort ksc = (case serviceCfg ksc of None \<Rightarrow> defaultAPIServerPort
     | Some cfg \<Rightarrow> if cps_Port cfg \<noteq> 0 then cps_Port cfg else defaultAPIServerPort)"

definition controlPlaneServiceType :: "KubeSwiftCluster \<Rightarrow> string" where
  "controlPlaneServiceType ksc = (case serviceCfg ksc of None \<Rightarrow> ServiceTypeClusterIP
     | Some cfg \<Rightarrow> if cps_Type cfg \<noteq> '''' then cps_Type cfg else ServiceTypeClusterIP)"

section \<open>The desired Service\<close>

definition buildControlPlaneService :: "KubeSwiftCluster \<Rightarrow> CAPICluster \<Rightarrow> Service" where
  "buildControlPlaneService ksc cluster =
     (let port = controlPlaneServicePort ksc;
          svc = \<lparr> svc_Meta = empty_meta\<lparr>om_Name := controlPlaneServiceName ksc,
                    om_Namespace := om_Namespace (ksc_Meta ksc),
                    om_Labels := Some (fmap_of_list [(ClusterNameLabel, om_Name (cl_Meta cluster))])\<rparr>,
                  svc_Type = controlPlaneServiceType ksc,
                  svc_Selector = Some (fmap_of_list
                    [(ControlPlanePoolLabelKey, ControlPlaneServiceSelectorValue (om_Name (cl_Meta cluster)))]),
                  svc_Ports = [\<lparr> sp_Name = APIServerPortName, sp_Port = port, sp_TargetPort = FromInt32 port,
                    sp_Protocol = ProtocolTCP, sp_NodePort = 0 \<rparr>],
                  svc_LoadBalancerClass = None, svc_ClusterIP = '''', svc_Ingress = [] \<rparr>
      in case serviceCfg ksc of None \<Rightarrow> svc
         | Some cfg \<Rightarrow>
             let svc = (if map_len_pos (cps_Annotations cfg)
                        then svc\<lparr>svc_Meta := (svc_Meta svc)\<lparr>om_Annotations := cps_Annotations cfg\<rparr>\<rparr> else svc)
             in if svc_Type svc = ServiceTypeLoadBalancer \<and> cps_LoadBalancerClass cfg \<noteq> None
                then svc\<lparr>svc_LoadBalancerClass := cps_LoadBalancerClass cfg\<rparr> else svc)"

text \<open>The loop over the existing ports that collects the assigned node ports, later ports last.\<close>

definition nodePortsByName :: "ServicePort list \<Rightarrow> (string, int32) fmap" where
  "nodePortsByName existing = foldl (\<lambda>byName p. if sp_NodePort p \<noteq> 0
     then fmupd (sp_Name p) (sp_NodePort p) byName else byName) fmempty existing"

definition mergeServicePorts :: "ServicePort list \<Rightarrow> ServicePort list \<Rightarrow> ServicePort list" where
  "mergeServicePorts existing desired =
     (let byName = nodePortsByName existing in
      map (\<lambda>p. case fmlookup byName (sp_Name p) of
                 Some np \<Rightarrow> if sp_NodePort p = 0 then p\<lparr>sp_NodePort := np\<rparr> else p
               | None \<Rightarrow> p) desired)"

text \<open>The object of the update: the existing Service with the fields the provider owns replaced.\<close>

definition updatedService :: "Service \<Rightarrow> Service \<Rightarrow> Service" where
  "updatedService existing desired =
     (let updated = existing\<lparr>svc_Type := svc_Type desired, svc_Selector := svc_Selector desired,
            svc_Ports := mergeServicePorts (svc_Ports existing) (svc_Ports desired)\<rparr>;
          updated = (if svc_Type desired = ServiceTypeLoadBalancer
            then updated\<lparr>svc_LoadBalancerClass := svc_LoadBalancerClass desired\<rparr> else updated)
      in if map_len_pos (om_Annotations (svc_Meta desired))
         then updated\<lparr>svc_Meta := (svc_Meta updated)\<lparr>om_Annotations := Some (map_copy
                (case om_Annotations (svc_Meta updated) of None \<Rightarrow> fmempty | Some a \<Rightarrow> a)
                (om_Annotations (svc_Meta desired)))\<rparr>\<rparr>
         else updated)"

definition sameService :: "lib \<Rightarrow> Service \<Rightarrow> Service \<Rightarrow> bool" where
  "sameService L existing updated =
     (EqString L (svc_Type existing) (svc_Type updated) \<and>
      EqStringMap L (svc_Selector existing) (svc_Selector updated) \<and>
      EqPorts L (svc_Ports existing) (svc_Ports updated) \<and>
      EqStringPtr L (svc_LoadBalancerClass existing) (svc_LoadBalancerClass updated) \<and>
      EqStringMap L (om_Annotations (svc_Meta existing)) (om_Annotations (svc_Meta updated)))"

section \<open>The methods\<close>

definition ensureControlPlaneService :: "lib \<Rightarrow> 'w client \<Rightarrow> KubeSwiftCluster \<Rightarrow> CAPICluster \<Rightarrow>
    ('w, go_error + Service) state" where
  "ensureControlPlaneService L C ksc cluster =
     (case SetControllerReference L ksc (buildControlPlaneService ksc cluster) of
        Inl e \<Rightarrow> State_Monad.return (Inl e)
      | Inr desired \<Rightarrow> do {
          r \<leftarrow> c_GetService C (nn (om_Namespace (svc_Meta desired)) (om_Name (svc_Meta desired)));
          (case r of
             Inl err \<Rightarrow> if IsNotFound err then c_CreateService C desired else State_Monad.return (Inl err)
           | Inr existing \<Rightarrow>
               let updated = updatedService existing desired in
               if sameService L existing updated then State_Monad.return (Inr existing)
               else c_UpdateService C updated) })"

text \<open>The loop over the ingress points of a load balancer.\<close>

fun ingressAddress :: "LoadBalancerIngress list \<Rightarrow> string \<times> bool" where
  "ingressAddress [] = ('''', False)"
| "ingressAddress (ing # rest) =
     (if ing_IP ing \<noteq> '''' then (ing_IP ing, True)
      else if ing_Hostname ing \<noteq> '''' then (ing_Hostname ing, True)
      else ingressAddress rest)"

definition controlPlaneServiceAddress :: "Service \<Rightarrow> string \<times> bool" where
  "controlPlaneServiceAddress svc =
     (if svc_Type svc = ServiceTypeLoadBalancer then ingressAddress (svc_Ingress svc)
      else if svc_ClusterIP svc \<noteq> '''' \<and> svc_ClusterIP svc \<noteq> ClusterIPNone then (svc_ClusterIP svc, True)
      else ('''', False))"

text \<open>The object handed to \<^verbatim>\<open>Delete\<close>: a Service with nothing but its name and namespace.\<close>

definition controlPlaneServiceRef :: "KubeSwiftCluster \<Rightarrow> Service" where
  "controlPlaneServiceRef ksc =
     \<lparr> svc_Meta = empty_meta\<lparr>om_Name := controlPlaneServiceName ksc, om_Namespace := om_Namespace (ksc_Meta ksc)\<rparr>,
       svc_Type = '''', svc_Selector = None, svc_Ports = [], svc_LoadBalancerClass = None,
       svc_ClusterIP = '''', svc_Ingress = [] \<rparr>"

definition deleteControlPlaneService :: "'w client \<Rightarrow> KubeSwiftCluster \<Rightarrow> ('w, go_error option) state" where
  "deleteControlPlaneService C ksc = do {
     r \<leftarrow> c_DeleteService C (controlPlaneServiceRef ksc);
     State_Monad.return (case r of
        Inl err \<Rightarrow> if \<not> IsNotFound err then Some (Wrapf ''deleting control-plane Service'' err) else None
      | Inr _ \<Rightarrow> None) }"

text \<open>The statements that \<^verbatim>\<open>markClusterProvisioned\<close> and \<^verbatim>\<open>markClusterNotProvisioned\<close> share.\<close>

definition setReady :: "lib \<Rightarrow> KubeSwiftCluster \<Rightarrow> bool \<Rightarrow> Condition \<Rightarrow> KubeSwiftCluster" where
  "setReady L ksc b c =
     (let ksc = ksc\<lparr>ksc_Status := (ksc_Status ksc)\<lparr>kct_Initialization := \<lparr> init_Provisioned = Some b \<rparr>\<rparr>\<rparr>
      in cluster_SetConditions ksc (conditions_Set L (cluster_GetConditions ksc) c))"

definition markClusterProvisioned :: "lib \<Rightarrow> KubeSwiftCluster \<Rightarrow> KubeSwiftCluster" where
  "markClusterProvisioned L ksc = setReady L ksc True
     \<lparr> cond_Type = ReadyConditionType, cond_Status = ConditionTrue, cond_Reason = ClusterProvisionedReason,
       cond_Message = '''' \<rparr>"

definition markClusterNotProvisioned :: "lib \<Rightarrow> KubeSwiftCluster \<Rightarrow> string \<Rightarrow> string \<Rightarrow> KubeSwiftCluster" where
  "markClusterNotProvisioned L ksc reason message = setReady L ksc False
     \<lparr> cond_Type = ReadyConditionType, cond_Status = ConditionFalse, cond_Reason = reason,
       cond_Message = message \<rparr>"

text \<open>What \<^verbatim>\<open>reconcileServiceEndpoint\<close> does with the Service it has ensured.\<close>

definition adoptService :: "lib \<Rightarrow> KubeSwiftCluster \<Rightarrow> Service \<Rightarrow> KubeSwiftCluster" where
  "adoptService L ksc svc =
     (case controlPlaneServiceAddress svc of (host, ready) \<Rightarrow>
        if \<not> ready
        then markClusterNotProvisioned L ksc WaitingForEndpointServiceReason
               (''Waiting for Service '' @ om_Namespace (svc_Meta svc) @ ''/'' @ om_Name (svc_Meta svc) @
                '' to get an address'')
        else markClusterProvisioned L (ksc\<lparr>ksc_Spec := (ksc_Spec ksc)\<lparr>kcs_ControlPlaneEndpoint :=
               Some \<lparr> ep_Host = host, ep_Port = controlPlaneServicePort ksc \<rparr>\<rparr>\<rparr>))"

definition reconcileServiceEndpoint :: "lib \<Rightarrow> 'w client \<Rightarrow> KubeSwiftCluster \<Rightarrow> CAPICluster \<Rightarrow>
    ('w, KubeSwiftCluster \<times> outcome) state" where
  "reconcileServiceEndpoint L C ksc cluster = do {
     r \<leftarrow> ensureControlPlaneService L C ksc cluster;
     State_Monad.return (case r of
        Inl err \<Rightarrow> (ksc, done_Result, Some (Wrapf ''ensuring control-plane Service'' err))
      | Inr svc \<Rightarrow> (adoptService L ksc svc, done_Result, None)) }"

section \<open>Ports\<close>

text \<open>The node port assigned to a port of the given name, 0 if none is.\<close>

definition nodePortOf :: "ServicePort list \<Rightarrow> string \<Rightarrow> int32" where
  "nodePortOf ports n = (case filter (\<lambda>p. sp_Name p = n \<and> sp_NodePort p \<noteq> 0) ports of
     [] \<Rightarrow> 0 | p # ps \<Rightarrow> sp_NodePort (last (p # ps)))"

lemma nodePortsByName_lookup:
  "fmlookup (nodePortsByName ports) n = (if nodePortOf ports n = 0 then None else Some (nodePortOf ports n))"
proof (induction ports rule: rev_induct)
  case Nil
  then show ?case by (simp add: nodePortsByName_def nodePortOf_def)
next
  case (snoc q ports)
  have "nodePortsByName (ports @ [q]) = (if sp_NodePort q \<noteq> 0
      then fmupd (sp_Name q) (sp_NodePort q) (nodePortsByName ports) else nodePortsByName ports)"
    by (simp add: nodePortsByName_def)
  moreover have "nodePortOf (ports @ [q]) n = (if sp_Name q = n \<and> sp_NodePort q \<noteq> 0 then sp_NodePort q
      else nodePortOf ports n)"
    by (cases "filter (\<lambda>p. sp_Name p = n \<and> sp_NodePort p \<noteq> 0) ports") (simp_all add: nodePortOf_def)
  ultimately show ?case using snoc.IH by simp
qed

lemma mergeServicePorts_eq:
  "mergeServicePorts existing desired = map (\<lambda>p. if sp_NodePort p \<noteq> 0 then p
     else p\<lparr>sp_NodePort := nodePortOf existing (sp_Name p)\<rparr>) desired"
  by (auto simp: mergeServicePorts_def nodePortsByName_lookup Let_def)

text \<open>
  C24. Merging ports keeps every desired port in its place, with its name, port, target and protocol.
  A port that asks for a node port keeps it; any other gets the node port that the API server
  last assigned to an existing port of the same name, or none if there is none.
\<close>

theorem mergeServicePorts_carries_nodePorts:
  "mergeServicePorts existing desired = map (\<lambda>p. if sp_NodePort p \<noteq> 0 then p
     else p\<lparr>sp_NodePort := nodePortOf existing (sp_Name p)\<rparr>) desired"
  by (rule mergeServicePorts_eq)

section \<open>The address\<close>

lemma ingressAddress_ready: "ingressAddress l = (host, ready) \<Longrightarrow> (ready \<longleftrightarrow> host \<noteq> '''') \<and>
    (ready \<longleftrightarrow> (\<exists>ing \<in> set l. ing_IP ing \<noteq> '''' \<or> ing_Hostname ing \<noteq> ''''))"
  by (induction l) (auto split: if_splits)

lemma controlPlaneServiceAddress_ready:
  "controlPlaneServiceAddress svc = (host, ready) \<Longrightarrow> ready \<longleftrightarrow> host \<noteq> ''''"
  by (auto simp: controlPlaneServiceAddress_def dest: ingressAddress_ready split: if_splits)

section \<open>What the Service is for\<close>

text \<open>The Service selects the cluster's control-plane guests and forwards to their API server.\<close>

definition endpointPort :: "KubeSwiftCluster \<Rightarrow> int32 \<Rightarrow> ServicePort" where
  "endpointPort ksc nodePort = \<lparr> sp_Name = APIServerPortName, sp_Port = controlPlaneServicePort ksc,
     sp_TargetPort = FromInt32 (controlPlaneServicePort ksc), sp_Protocol = ProtocolTCP, sp_NodePort = nodePort \<rparr>"

definition configured_annotations :: "KubeSwiftCluster \<Rightarrow> go_map" where
  "configured_annotations ksc = (case serviceCfg ksc of None \<Rightarrow> None | Some cfg \<Rightarrow> cps_Annotations cfg)"

definition serves_endpoint :: "KubeSwiftCluster \<Rightarrow> CAPICluster \<Rightarrow> Service \<Rightarrow> bool" where
  "serves_endpoint ksc cluster svc =
     (svc_Type svc = controlPlaneServiceType ksc \<and>
      (\<forall>k. map_entry (svc_Selector svc) k = (if k = ControlPlanePoolLabelKey
         then Some (ControlPlaneServiceSelectorValue (om_Name (cl_Meta cluster))) else None)) \<and>
      (\<exists>nodePort. svc_Ports svc = [endpointPort ksc nodePort]) \<and>
      (svc_Type svc = ServiceTypeLoadBalancer \<longrightarrow>
         svc_LoadBalancerClass svc = (case serviceCfg ksc of None \<Rightarrow> None | Some cfg \<Rightarrow> cps_LoadBalancerClass cfg)) \<and>
      (\<forall>k v. map_entry (configured_annotations ksc) k = Some v \<longrightarrow> map_entry (om_Annotations (svc_Meta svc)) k = Some v))"

text \<open>What an update leaves alone: everything the API server and other controllers put there.\<close>

definition preserves :: "KubeSwiftCluster \<Rightarrow> Service \<Rightarrow> Service \<Rightarrow> bool" where
  "preserves ksc old svc =
     ((svc_ClusterIP old \<noteq> '''' \<longrightarrow> svc_ClusterIP svc = svc_ClusterIP old) \<and>
      svc_Ingress svc = svc_Ingress old \<and>
      svc_Meta svc = (svc_Meta old)\<lparr>om_Annotations := om_Annotations (svc_Meta svc)\<rparr> \<and>
      (\<forall>k. map_entry (configured_annotations ksc) k = None \<longrightarrow>
         map_entry (om_Annotations (svc_Meta svc)) k = map_entry (om_Annotations (svc_Meta old)) k) \<and>
      (nodePortOf (svc_Ports old) APIServerPortName \<noteq> 0 \<longrightarrow>
         svc_Ports svc = [endpointPort ksc (nodePortOf (svc_Ports old) APIServerPortName)]))"

lemma buildControlPlaneService_fields:
  fixes ksc cluster
  defines "b \<equiv> buildControlPlaneService ksc cluster"
  shows "svc_Type b = controlPlaneServiceType ksc"
    "svc_Selector b = Some (fmap_of_list
       [(ControlPlanePoolLabelKey, ControlPlaneServiceSelectorValue (om_Name (cl_Meta cluster)))])"
    "svc_Ports b = [endpointPort ksc 0]"
    "om_Name (svc_Meta b) = controlPlaneServiceName ksc" "om_Namespace (svc_Meta b) = om_Namespace (ksc_Meta ksc)"
    "om_OwnerReferences (svc_Meta b) = []" "svc_ClusterIP b = ''''" "svc_Ingress b = []"
    "map_entry (om_Annotations (svc_Meta b)) k = map_entry (configured_annotations ksc) k"
  by (auto simp: b_def buildControlPlaneService_def Let_def endpointPort_def empty_meta_def configured_annotations_def
      not_map_len_pos split: option.split)

lemma buildControlPlaneService_class:
  "svc_Type (buildControlPlaneService ksc cluster) = ServiceTypeLoadBalancer \<Longrightarrow>
   svc_LoadBalancerClass (buildControlPlaneService ksc cluster) =
     (case serviceCfg ksc of None \<Rightarrow> None | Some cfg \<Rightarrow> cps_LoadBalancerClass cfg)"
  unfolding buildControlPlaneService_fields
  by (cases "serviceCfg ksc") (auto simp: buildControlPlaneService_def Let_def)

text \<open>The Service with its owner reference, which is all that \<^verbatim>\<open>SetControllerReference\<close> adds.\<close>

definition owned :: "Service \<Rightarrow> OwnerReference list \<Rightarrow> Service" where
  "owned s refs = s\<lparr>svc_Meta := (svc_Meta s)\<lparr>om_OwnerReferences := refs\<rparr>\<rparr>"

lemma owned_simps [simp]:
  "svc_Type (owned s refs) = svc_Type s" "svc_Selector (owned s refs) = svc_Selector s"
  "svc_Ports (owned s refs) = svc_Ports s" "svc_LoadBalancerClass (owned s refs) = svc_LoadBalancerClass s"
  "svc_ClusterIP (owned s refs) = svc_ClusterIP s" "om_Annotations (svc_Meta (owned s refs)) = om_Annotations (svc_Meta s)"
  "om_Name (svc_Meta (owned s refs)) = om_Name (svc_Meta s)"
  "om_Namespace (svc_Meta (owned s refs)) = om_Namespace (svc_Meta s)"
  by (simp_all add: owned_def)

definition wanted :: "KubeSwiftCluster \<Rightarrow> CAPICluster \<Rightarrow> Service \<Rightarrow> bool" where
  "wanted ksc cluster desired = (\<exists>refs. desired = owned (buildControlPlaneService ksc cluster) refs)"

lemma wanted_desired:
  assumes "objects_lib L"
  obtains desired where "SetControllerReference L ksc (buildControlPlaneService ksc cluster) = Inr desired"
    "wanted ksc cluster desired"
proof -
  obtain d where d: "SetControllerReference L ksc (buildControlPlaneService ksc cluster) = Inr d"
    using objects_lib.controller_reference_ok [OF assms] by (metis buildControlPlaneService_fields(5,6))
  then show thesis
    using objects_lib.controller_reference [OF assms d] that unfolding wanted_def owned_def by blast
qed

lemma wanted_serves: "wanted ksc cluster desired \<Longrightarrow> serves_endpoint ksc cluster desired"
  by (auto simp: wanted_def serves_endpoint_def buildControlPlaneService_fields(1-3,9) buildControlPlaneService_class)

lemma updatedService_fields:
  "svc_Type (updatedService e d) = svc_Type d" "svc_Selector (updatedService e d) = svc_Selector d"
  "svc_Ports (updatedService e d) = mergeServicePorts (svc_Ports e) (svc_Ports d)"
  "svc_LoadBalancerClass (updatedService e d) = (if svc_Type d = ServiceTypeLoadBalancer
     then svc_LoadBalancerClass d else svc_LoadBalancerClass e)"
  "svc_ClusterIP (updatedService e d) = svc_ClusterIP e" "svc_Ingress (updatedService e d) = svc_Ingress e"
  "svc_Meta (updatedService e d) = (svc_Meta e)\<lparr>om_Annotations := om_Annotations (svc_Meta (updatedService e d))\<rparr>"
  by (simp_all add: updatedService_def Let_def)

lemma updatedService_annotations:
  "map_entry (om_Annotations (svc_Meta (updatedService e d))) k =
     (case map_entry (om_Annotations (svc_Meta d)) k of
        None \<Rightarrow> map_entry (om_Annotations (svc_Meta e)) k | Some v \<Rightarrow> Some v)"
  by (cases "om_Annotations (svc_Meta e)")
    (auto simp: updatedService_def Let_def map_entry_copy [unfolded map_entry_simps] not_map_len_pos split: option.split)

lemma updatedService_serves:
  assumes "wanted ksc cluster d"
  shows "serves_endpoint ksc cluster (updatedService e d)" "preserves ksc e (updatedService e d)"
proof -
  obtain refs where d: "d = owned (buildControlPlaneService ksc cluster) refs"
    using assms by (auto simp: wanted_def)
  have ports: "svc_Ports (updatedService e d) = [endpointPort ksc (nodePortOf (svc_Ports e) APIServerPortName)]"
    by (simp add: updatedService_fields d buildControlPlaneService_fields mergeServicePorts_eq endpointPort_def)
  have annotations: "map_entry (om_Annotations (svc_Meta d)) k = map_entry (configured_annotations ksc) k" for k
    by (simp add: d buildControlPlaneService_fields)
  show "serves_endpoint ksc cluster (updatedService e d)"
    unfolding serves_endpoint_def updatedService_annotations ports annotations
    by (auto simp: updatedService_fields d buildControlPlaneService_fields(1,2) buildControlPlaneService_class)
  show "preserves ksc e (updatedService e d)"
    unfolding preserves_def updatedService_annotations annotations ports
    by (auto simp: updatedService_fields(5,6) updatedService_fields(7) [symmetric])
qed

text \<open>The comparison that decides whether to write is exact.\<close>

lemma sameService_iff:
  assumes "equality_lib L" "wanted ksc cluster d"
  shows "sameService L e (updatedService e d) \<longleftrightarrow> serves_endpoint ksc cluster e"
proof
  assume same: "sameService L e (updatedService e d)"
  note eqs = same [unfolded sameService_def equality_lib.eq_string [OF assms(1)] equality_lib.eq_string_map [OF assms(1)]
      equality_lib.eq_ports [OF assms(1)] equality_lib.eq_string_ptr [OF assms(1)] map_same_entry]
  show "serves_endpoint ksc cluster e"
    using updatedService_serves(1) [OF assms(2), of e] eqs unfolding serves_endpoint_def by metis
next
  assume serves: "serves_endpoint ksc cluster e"
  then obtain np where np: "svc_Ports e = [endpointPort ksc np]" by (auto simp: serves_endpoint_def)
  obtain refs where d: "d = owned (buildControlPlaneService ksc cluster) refs"
    using assms(2) by (auto simp: wanted_def)
  have "mergeServicePorts (svc_Ports e) (svc_Ports d) = svc_Ports e"
    by (simp add: np d buildControlPlaneService_fields mergeServicePorts_eq nodePortOf_def endpointPort_def)
  moreover have "svc_LoadBalancerClass e = svc_LoadBalancerClass (updatedService e d)"
    using serves unfolding serves_endpoint_def updatedService_fields d
    by (simp add: buildControlPlaneService_fields buildControlPlaneService_class)
  moreover have "map_entry (om_Annotations (svc_Meta e)) k = map_entry (om_Annotations (svc_Meta (updatedService e d))) k" for k
    using serves
    by (auto simp: updatedService_annotations d buildControlPlaneService_fields serves_endpoint_def split: option.split)
  ultimately show "sameService L e (updatedService e d)"
    using serves
    by (simp add: sameService_def serves_endpoint_def equality_lib.eq_string [OF assms(1)]
        equality_lib.eq_string_map [OF assms(1)] equality_lib.eq_ports [OF assms(1)]
        equality_lib.eq_string_ptr [OF assms(1)] map_same_entry updatedService_fields(1-3)
        d buildControlPlaneService_fields(1,2))
qed

section \<open>Against a server\<close>

lemma kept_endpointPort:
  "list_all2 port_kept [endpointPort ksc np] qs \<longleftrightarrow>
     (\<exists>np'. qs = [endpointPort ksc np'] \<and> (np \<noteq> 0 \<longrightarrow> np' = np))"
proof
  assume "list_all2 port_kept [endpointPort ksc np] qs"
  then obtain q where q: "qs = [q]" "port_kept (endpointPort ksc np) q"
    by (cases qs) auto
  then have "q = endpointPort ksc (sp_NodePort q)"
    by (cases q) (simp add: port_kept_def endpointPort_def)
  with q show "\<exists>np'. qs = [endpointPort ksc np'] \<and> (np \<noteq> 0 \<longrightarrow> np' = np)"
    by (intro exI [of _ "sp_NodePort q"]) (auto simp: port_kept_def endpointPort_def)
qed (auto simp: port_kept_def endpointPort_def)

lemma kept_serves:
  assumes "service_kept s t" "serves_endpoint ksc cluster s"
  shows "serves_endpoint ksc cluster t"
  using assms by (auto simp: serves_endpoint_def service_kept_def kept_endpointPort)

lemma kept_preserves:
  assumes "service_kept s t" "preserves ksc old s"
  shows "preserves ksc old t"
  using assms by (auto simp: preserves_def service_kept_def kept_endpointPort split: if_splits)

definition endpoint_key :: "KubeSwiftCluster \<Rightarrow> string \<times> string" where
  "endpoint_key ksc = (om_Namespace (ksc_Meta ksc), controlPlaneServiceName ksc)"

lemma preserves_refl: "serves_endpoint ksc cluster s \<Longrightarrow> preserves ksc s s"
  by (auto simp: preserves_def serves_endpoint_def nodePortOf_def endpointPort_def split: if_splits)

lemma preserves_key: "preserves ksc old s \<Longrightarrow> service_key s = service_key old"
  by (auto simp: preserves_def service_key_def)
   (metis ObjectMeta.select_convs ObjectMeta.surjective ObjectMeta.update_convs(4))+

context service_server begin

lemma ensureControlPlaneService_effect:
  assumes "k8s_lib L" "\<And>k s. svcs w k = Some s \<Longrightarrow> service_key s = k"
  shows "wp (ensureControlPlaneService L C ksc cluster) (\<lambda>r w'. \<exists>svc. r = Inr svc \<and>
      svcs w' = (svcs w)(endpoint_key ksc := Some svc) \<and> serves_endpoint ksc cluster svc \<and>
      (\<forall>old. svcs w (endpoint_key ksc) = Some old \<longrightarrow> preserves ksc old svc)) w"
proof -
  have libs: "objects_lib L" "equality_lib L"
    using assms(1) by (simp_all add: k8s_lib_def)
  obtain d where d: "SetControllerReference L ksc (buildControlPlaneService ksc cluster) = Inr d" "wanted ksc cluster d"
    using wanted_desired [OF libs(1)] by blast
  then have k: "service_key d = endpoint_key ksc" "om_Namespace (svc_Meta d) = fst (endpoint_key ksc)"
    "om_Name (svc_Meta d) = snd (endpoint_key ksc)"
    by (auto simp: wanted_def service_key_def endpoint_key_def buildControlPlaneService_fields)
  show ?thesis
    unfolding ensureControlPlaneService_def d(1) sum.case wp_bind
  proof (rule get_service_cases, goal_cases)
    case (1 e)
    then have none: "svcs w (endpoint_key ksc) = None" by (simp add: k)
    have "serves_endpoint ksc cluster x" if "service_kept d x" for x
      using kept_serves [OF that wanted_serves [OF d(2)]] .
    with 1 none show ?case by (auto simp: wp_simps k intro!: create_service_cases)
  next
    case (2 e)
    then have e: "svcs w (endpoint_key ksc) = Some e" by (simp add: k)
    note new = updatedService_serves [OF d(2), of e]
    have key: "service_key (updatedService e d) = endpoint_key ksc"
      using preserves_key [OF new(2)] assms(2) [OF e] by simp
    show ?case
    proof (cases "serves_endpoint ksc cluster e")
      case True
      then show ?thesis
        using e preserves_refl by (auto simp: wp_simps Let_def sameService_iff [OF libs(2) d(2)])
    next
      case False
      then show ?thesis
        using e key kept_serves [OF _ new(1)] kept_preserves [OF _ new(2)]
        by (auto simp: wp_simps Let_def sameService_iff [OF libs(2) d(2)] intro!: update_service_cases)
    qed
  qed
qed

lemma ensureControlPlaneService_stable:
  assumes "k8s_lib L" "svcs w (endpoint_key ksc) = Some svc" "serves_endpoint ksc cluster svc"
  shows "wp (ensureControlPlaneService L C ksc cluster) (\<lambda>r w'. r = Inr svc \<and> w' = w) w"
proof -
  have libs: "objects_lib L" "equality_lib L"
    using assms(1) by (simp_all add: k8s_lib_def)
  obtain d where d: "SetControllerReference L ksc (buildControlPlaneService ksc cluster) = Inr d" "wanted ksc cluster d"
    using wanted_desired [OF libs(1)] by blast
  then have k: "om_Namespace (svc_Meta d) = fst (endpoint_key ksc)" "om_Name (svc_Meta d) = snd (endpoint_key ksc)"
    by (auto simp: wanted_def endpoint_key_def buildControlPlaneService_fields)
  show ?thesis
    unfolding ensureControlPlaneService_def d(1) sum.case wp_bind
    by (rule get_service_cases)
      (use assms k in \<open>auto simp: wp_simps Let_def sameService_iff [OF libs(2) d(2)]\<close>)
qed

end

section \<open>The calls of ensureControlPlaneService\<close>

inductive service_trace :: "lib \<Rightarrow> KubeSwiftCluster \<Rightarrow> CAPICluster \<Rightarrow> call_log \<Rightarrow> go_error + Service \<Rightarrow> bool"
  for L ksc cluster where
  s_unowned: "SetControllerReference L ksc (buildControlPlaneService ksc cluster) = Inl e \<Longrightarrow>
    service_trace L ksc cluster [] (Inl e)"
| s_unreadable: "SetControllerReference L ksc (buildControlPlaneService ksc cluster) = Inr d \<Longrightarrow> \<not> IsNotFound e \<Longrightarrow>
    service_trace L ksc cluster [(CGetService (nn (om_Namespace (svc_Meta d)) (om_Name (svc_Meta d))), RError)] (Inl e)"
| s_create: "SetControllerReference L ksc (buildControlPlaneService ksc cluster) = Inr d \<Longrightarrow>
    service_trace L ksc cluster [(CGetService (nn (om_Namespace (svc_Meta d)) (om_Name (svc_Meta d))), RNotFound),
      (CCreateService d, response_of r)] r"
| s_same: "SetControllerReference L ksc (buildControlPlaneService ksc cluster) = Inr d \<Longrightarrow>
    sameService L e (updatedService e d) \<Longrightarrow>
    service_trace L ksc cluster [(CGetService (nn (om_Namespace (svc_Meta d)) (om_Name (svc_Meta d))), ROk)] (Inr e)"
| s_update: "SetControllerReference L ksc (buildControlPlaneService ksc cluster) = Inr d \<Longrightarrow>
    \<not> sameService L e (updatedService e d) \<Longrightarrow>
    service_trace L ksc cluster [(CGetService (nn (om_Namespace (svc_Meta d)) (om_Name (svc_Meta d))), ROk),
      (CUpdateService (updatedService e d), response_of r)] r"

lemma ensureControlPlaneService_trace:
  "wp (ensureControlPlaneService L (logged C) ksc cluster)
     (\<lambda>r s'. \<exists>l. snd s' = snd s @ l \<and> service_trace L ksc cluster l r) s"
  unfolding ensureControlPlaneService_def
  by (auto simp: wp_simps Let_def split: sum.split intro!: wp_logged service_trace.s_unowned)
    (rule service_trace.intros; assumption)+

lemmas ensureControlPlaneService_wp = wp_trace [OF ensureControlPlaneService_trace]

lemma service_trace_no_patch:
  "service_trace L ksc cluster l r \<Longrightarrow> \<forall>c \<in> fst ` set l. (\<exists>k. c = CGetService k) \<or>
     (\<exists>s. c = CCreateService s \<or> c = CUpdateService s)"
  by (erule service_trace.cases) auto

end
