(* ===== verification/Machine_Controller.thy ===== *)
theory Machine_Controller
  imports SwiftGuest_Props Workload_Node Endpoint_Service
begin

text \<open>
  \<^verbatim>\<open>src/internal/controller/kubeswiftmachine_controller.go\<close>: the reconciler of
  \<^verbatim>\<open>KubeSwiftMachine\<close>. The two branches take the backend as an argument, as the Go methods take
  the interface; \<open>backendFor\<close> picks it. The object that the Go code mutates through its pointer is
  returned by each branch together with the result, and the deferred patch receives it.
\<close>

section \<open>Small operations\<close>

definition machineRequeueAfter :: int where
  "machineRequeueAfter = 15 * 1000000000"

definition requeue_Result :: ctrl_Result where
  "requeue_Result = \<lparr> res_RequeueAfter = machineRequeueAfter \<rparr>"

definition machine_setReady :: "lib \<Rightarrow> KubeSwiftMachine \<Rightarrow> bool \<Rightarrow> Condition \<Rightarrow> KubeSwiftMachine" where
  "machine_setReady L ksm b c =
     (let ksm = ksm\<lparr>ksm_Status := (ksm_Status ksm)\<lparr>kmt_Initialization := \<lparr> init_Provisioned = Some b \<rparr>\<rparr>\<rparr>
      in machine_SetConditions ksm (conditions_Set L (machine_GetConditions ksm) c))"

definition notReady :: "lib \<Rightarrow> KubeSwiftMachine \<Rightarrow> string \<Rightarrow> string \<Rightarrow> KubeSwiftMachine" where
  "notReady L ksm reason message = machine_setReady L ksm False
     \<lparr> cond_Type = ReadyConditionType, cond_Status = ConditionFalse, cond_Reason = reason, cond_Message = message \<rparr>"

definition machine_AddFinalizer :: "lib \<Rightarrow> KubeSwiftMachine \<Rightarrow> KubeSwiftMachine" where
  "machine_AddFinalizer L ksm = ksm\<lparr>ksm_Meta := (ksm_Meta ksm)\<lparr>om_Finalizers :=
     AddFinalizer L (om_Finalizers (ksm_Meta ksm)) MachineFinalizer\<rparr>\<rparr>"

definition machine_RemoveFinalizer :: "lib \<Rightarrow> KubeSwiftMachine \<Rightarrow> KubeSwiftMachine" where
  "machine_RemoveFinalizer L ksm = ksm\<lparr>ksm_Meta := (ksm_Meta ksm)\<lparr>om_Finalizers :=
     RemoveFinalizer L (om_Finalizers (ksm_Meta ksm)) MachineFinalizer\<rparr>\<rparr>"

definition providerID_of :: "string \<Rightarrow> string \<Rightarrow> string" where
  "providerID_of guestNamespace name = ProviderIDScheme @ ''://'' @ guestNamespace @ ''/'' @ name"

definition swiftGuestToKubeSwiftMachine :: "lib \<Rightarrow> Unstructured \<Rightarrow> NamespacedName list" where
  "swiftGuestToKubeSwiftMachine L guest =
     (let name = map_read (u_GetLabels L guest) MachineLabelKey in
      if name = '''' then [] else [nn (u_GetNamespace L guest) name])"

definition backendFor :: "lib \<Rightarrow> 'w client \<Rightarrow> string \<Rightarrow> go_error + 'w Backend" where
  "backendFor L C t = (if t = SwiftGuestBackendType then Inr (NewSwiftGuestBackend L C)
     else Inl (Errorf (''unsupported machine backend type '' @ quote t)))"

section \<open>Reading what the machine depends on\<close>

definition bootstrap_key :: "CAPIMachine \<Rightarrow> string \<Rightarrow> NamespacedName" where
  "bootstrap_key machine secretName = nn (om_Namespace (ma_Meta machine)) secretName"

definition checkBootstrapData :: "lib \<Rightarrow> 'w client \<Rightarrow> CAPIMachine \<Rightarrow> string \<Rightarrow> ('w, go_error option) state" where
  "checkBootstrapData L C machine secretName = do {
     r \<leftarrow> c_GetSecret C (bootstrap_key machine secretName);
     State_Monad.return (case r of
        Inl err \<Rightarrow> Some (Wrapf (''reading bootstrap data secret '' @ keyString L (bootstrap_key machine secretName)) err)
      | Inr secret \<Rightarrow>
          if map_entry (sec_Data secret) BootstrapDataSecretKey = None
          then Some (Errorf (''bootstrap data secret '' @ keyString L (bootstrap_key machine secretName) @
                 '' has no '' @ quote BootstrapDataSecretKey @ '' key''))
          else None) }"

definition controlPlaneExposure :: "lib \<Rightarrow> 'w client \<Rightarrow> CAPIMachine \<Rightarrow> CAPICluster \<Rightarrow>
    ('w, go_error + ControlPlaneExposure option) state" where
  "controlPlaneExposure L C machine cluster =
     (if \<not> IsControlPlaneMachine L machine \<or> cl_InfrastructureRefName cluster = ''''
      then State_Monad.return (Inr None)
      else do {
        let key = nn (om_Namespace (cl_Meta cluster)) (cl_InfrastructureRefName cluster);
        r \<leftarrow> c_GetCluster C key;
        State_Monad.return (case r of
           Inl err \<Rightarrow> Inl (Wrapf (''reading KubeSwiftCluster '' @ keyString L key) err)
         | Inr ksc \<Rightarrow>
             (case kcs_Endpoint (ksc_Spec ksc) of
                None \<Rightarrow> Inr None
              | Some ep \<Rightarrow>
                  if cpe_Mode ep \<noteq> EndpointModeService then Inr None
                  else let port = (case cpe_Service ep of None \<Rightarrow> defaultAPIServerPort
                         | Some svc \<Rightarrow> if cps_Port svc \<noteq> 0 then cps_Port svc else defaultAPIServerPort)
                       in Inr (Some \<lparr> cx_PoolLabel = ControlPlaneServiceSelectorValue (om_Name (cl_Meta cluster)),
                            cx_Port = port \<rparr>))) })"

section \<open>The branches\<close>

definition machine_request :: "KubeSwiftMachine \<Rightarrow> CAPIMachine \<Rightarrow> CAPICluster \<Rightarrow> string \<Rightarrow>
    ControlPlaneExposure option \<Rightarrow> Request" where
  "machine_request ksm machine cluster secretName exposure =
     \<lparr> rq_Machine = ksm, rq_Cluster = Some cluster, rq_CAPIMachine = Some machine,
       rq_BootstrapDataSecretName = secretName, rq_GuestNamespace = om_Namespace (ksm_Meta ksm),
       rq_ProviderID = providerID_of (om_Namespace (ksm_Meta ksm)) (om_Name (ksm_Meta ksm)),
       rq_ControlPlaneExposure = exposure \<rparr>"

definition delete_request :: "KubeSwiftMachine \<Rightarrow> CAPIMachine \<Rightarrow> CAPICluster \<Rightarrow> Request" where
  "delete_request ksm machine cluster =
     \<lparr> rq_Machine = ksm, rq_Cluster = Some cluster, rq_CAPIMachine = Some machine,
       rq_BootstrapDataSecretName = '''', rq_GuestNamespace = om_Namespace (ksm_Meta ksm),
       rq_ProviderID = '''', rq_ControlPlaneExposure = None \<rparr>"

text \<open>The object after a backend result that is not provisioned, and after one that is.\<close>

definition machineWaiting :: "lib \<Rightarrow> KubeSwiftMachine \<Rightarrow> Result \<Rightarrow> KubeSwiftMachine" where
  "machineWaiting L ksm result =
     (if rs_WaitingReason result \<noteq> '''' then notReady L ksm (rs_WaitingReason result) (rs_WaitingMessage result)
      else notReady L ksm VMProvisioningReason ''Waiting for the backing VM to be running with an address'')"

definition machineProvisioned :: "lib \<Rightarrow> KubeSwiftMachine \<Rightarrow> CAPIMachine \<Rightarrow> Result \<Rightarrow> KubeSwiftMachine" where
  "machineProvisioned L ksm machine result =
     (let ksm = ksm\<lparr>ksm_Spec := (ksm_Spec ksm)\<lparr>kms_ProviderID :=
            providerID_of (om_Namespace (ksm_Meta ksm)) (om_Name (ksm_Meta ksm))\<rparr>\<rparr>;
          ksm = ksm\<lparr>ksm_Status := (ksm_Status ksm)\<lparr>kmt_Addresses := rs_Addresses result,
            kmt_FailureDomain := ma_FailureDomain machine\<rparr>\<rparr>
      in machine_setReady L ksm True
           \<lparr> cond_Type = ReadyConditionType, cond_Status = ConditionTrue, cond_Reason = VMProvisionedReason,
             cond_Message = '''' \<rparr>)"

definition machine_reconcileNormal :: "lib \<Rightarrow> 'w client \<Rightarrow> 'w Backend \<Rightarrow> KubeSwiftMachine \<Rightarrow> CAPIMachine \<Rightarrow>
    CAPICluster \<Rightarrow> ('w, KubeSwiftMachine \<times> outcome) state" where
  "machine_reconcileNormal L C b ksm0 machine cluster =
     (let ksm = machine_AddFinalizer L ksm0 in
      if cl_InfrastructureProvisioned cluster \<noteq> Some True
      then State_Monad.return (notReady L ksm WaitingForClusterInfrastructureReason
             ''Waiting for the cluster infrastructure to be ready'', done_Result, None)
      else (case ma_DataSecretName machine of
        None \<Rightarrow> State_Monad.return (notReady L ksm WaitingForBootstrapDataReason
             ''Waiting for the bootstrap data secret'', done_Result, None)
      | Some secretName \<Rightarrow> do {
          err \<leftarrow> checkBootstrapData L C machine secretName;
          (case err of
             Some e \<Rightarrow> State_Monad.return (ksm, done_Result, Some e)
           | None \<Rightarrow> do {
               x \<leftarrow> controlPlaneExposure L C machine cluster;
               (case x of
                  Inl e \<Rightarrow> State_Monad.return (ksm, done_Result, Some e)
                | Inr exposure \<Rightarrow> do {
                    r \<leftarrow> b_Reconcile b (machine_request ksm machine cluster secretName exposure);
                    (case r of
                       Inl e \<Rightarrow> State_Monad.return (notReady L ksm VMFailedReason (Error e), done_Result, Some e)
                     | Inr result \<Rightarrow>
                         if \<not> rs_Provisioned result
                         then State_Monad.return (machineWaiting L ksm result, requeue_Result, None)
                         else do {
                           p \<leftarrow> ensureNodeProviderID L C cluster (om_Name (ksm_Meta ksm))
                                  (providerID_of (om_Namespace (ksm_Meta ksm)) (om_Name (ksm_Meta ksm)));
                           State_Monad.return (machineProvisioned L ksm machine result,
                             (case p of Inl e \<Rightarrow> (done_Result, Some e)
                              | Inr patched \<Rightarrow> if \<not> patched then (requeue_Result, None) else (done_Result, None))) }) }) }) }))"

definition machine_reconcileDelete :: "lib \<Rightarrow> 'w Backend \<Rightarrow> KubeSwiftMachine \<Rightarrow> CAPIMachine \<Rightarrow> CAPICluster \<Rightarrow>
    ('w, KubeSwiftMachine \<times> outcome) state" where
  "machine_reconcileDelete L b ksm machine cluster = do {
     r \<leftarrow> b_Delete b (delete_request ksm machine cluster);
     State_Monad.return (case r of
        Inl e \<Rightarrow> (ksm, done_Result, Some e)
      | Inr done \<Rightarrow> if \<not> done then (ksm, requeue_Result, None)
                    else (machine_RemoveFinalizer L ksm, done_Result, None)) }"

definition machine_deferPatch :: "'w client \<Rightarrow> KubeSwiftMachine \<Rightarrow>
    ('w, KubeSwiftMachine \<times> outcome) state \<Rightarrow> ('w, outcome) state" where
  "machine_deferPatch C before body = do {
     r \<leftarrow> body;
     (case r of (ksm, res, rerr) \<Rightarrow> do {
        p \<leftarrow> c_PatchMachine C before ksm;
        State_Monad.return (res, case rerr of Some e \<Rightarrow> Some e | None \<Rightarrow> err_of p) }) }"

definition Machine_Reconcile :: "lib \<Rightarrow> 'w client \<Rightarrow> NamespacedName \<Rightarrow> ('w, outcome) state" where
  "Machine_Reconcile L C req = do {
     r \<leftarrow> c_GetMachine C req;
     (case r of
        Inl err \<Rightarrow> State_Monad.return (done_Result, IgnoreNotFound err)
      | Inr ksm \<Rightarrow> do {
          o1 \<leftarrow> c_GetOwnerMachine C (ksm_Meta ksm);
          (case o1 of
             Inl err \<Rightarrow> State_Monad.return (done_Result, Some err)
           | Inr None \<Rightarrow> State_Monad.return (done_Result, None)
           | Inr (Some machine) \<Rightarrow> do {
               o2 \<leftarrow> c_GetClusterFromMetadata C (ksm_Meta ksm);
               (case o2 of
                  Inl err \<Rightarrow> State_Monad.return (done_Result, None)
                | Inr cluster \<Rightarrow>
                    if IsPaused L cluster (ksm_Meta ksm) then State_Monad.return (done_Result, None)
                    else (case backendFor L C (mb_Type (kms_Backend (ksm_Spec ksm))) of
                       Inl err \<Rightarrow> State_Monad.return (done_Result, Some err)
                     | Inr b \<Rightarrow> do {
                         h \<leftarrow> c_NewMachineHelper C ksm;
                         (case h of
                            Inl err \<Rightarrow> State_Monad.return (done_Result, Some err)
                          | Inr _ \<Rightarrow> machine_deferPatch C ksm
                              (if \<not> IsZero L (om_DeletionTimestamp (ksm_Meta ksm))
                               then machine_reconcileDelete L b ksm machine cluster
                               else machine_reconcileNormal L C b ksm machine cluster)) })) }) }) }"

end
