(* ===== verification/Preservation.thy ===== *)
theory Preservation
  imports Machine_Controller
begin

text \<open>
  A client whose calls preserve a property of the world makes the programs that use it preserve the
  property. The three locales follow the parts of the machine reconciler: the backend, the patch of the workload
  Node, and the whole.
\<close>

locale preserving_objects =
  fixes C :: "'w client" and J :: "'w \<Rightarrow> bool"
  assumes objects_keep: "keeps J (c_GetObject C u k)" "keeps J (c_CreateObject C u)" "keeps J (c_UpdateObject C u)"
begin

lemma reconcile_keeps: "keeps J (SwiftGuest_Reconcile L C req)"
  unfolding SwiftGuest_Reconcile_def ensureSeedProfile_def ensureSwiftGuest_def by (intro keeps_intros objects_keep)

end

locale preserving_workload =
  fixes C :: "'w client" and J :: "'w \<Rightarrow> bool"
  assumes workload_keeps: "keeps J (c_GetSecret C k)" "keeps J (c_GetNode C cs n)" "keeps J (c_PatchNode C cs n p)"
begin

lemma node_keeps: "keeps J (ensureNodeProviderID L C cluster name i)"
  unfolding ensureNodeProviderID_def patchNodeProviderID_def by (intro keeps_intros workload_keeps)

end

locale preserving_client = preserving_objects C J + preserving_workload C J for C :: "'w client" and J :: "'w \<Rightarrow> bool" +
  assumes calls_keep:
    "keeps J (c_GetMachine C k)" "keeps J (c_GetCluster C k)" "keeps J (c_DeleteObject C u)"
    "keeps J (c_GetOwnerMachine C m)" "keeps J (c_GetClusterFromMetadata C m)"
    "keeps J (c_NewMachineHelper C a)" "keeps J (c_PatchMachine C a b)"
begin

lemma delete_keeps: "keeps J (SwiftGuest_Delete L C req)"
  unfolding SwiftGuest_Delete_def by (intro keeps_intros objects_keep calls_keep)

lemma methods_keep: "keeps J (b_Reconcile (NewSwiftGuestBackend L C) req)" "keeps J (b_Delete (NewSwiftGuestBackend L C) req)"
  by (simp_all add: NewSwiftGuestBackend_def reconcile_keeps delete_keeps)

lemma reads_keep: "keeps J (checkBootstrapData L C machine n)" "keeps J (controlPlaneExposure L C machine cluster)"
  unfolding checkBootstrapData_def controlPlaneExposure_def by (intro keeps_intros calls_keep workload_keeps)+

lemma branches_keep:
  "keeps J (machine_reconcileNormal L C (NewSwiftGuestBackend L C) ksm machine cluster)"
  "keeps J (machine_reconcileDelete L (NewSwiftGuestBackend L C) ksm machine cluster)"
  unfolding machine_reconcileNormal_def machine_reconcileDelete_def
  by (intro keeps_intros calls_keep methods_keep reads_keep node_keeps)+

lemma backendFor_keeps:
  "(\<And>e. keeps J (q e)) \<Longrightarrow> keeps J (p (NewSwiftGuestBackend L C)) \<Longrightarrow>
     keeps J (case backendFor L C t of Inl e \<Rightarrow> q e | Inr b \<Rightarrow> p b)"
  by (simp add: backendFor_def)

lemma Machine_Reconcile_keeps: "keeps J (Machine_Reconcile L C req)"
  unfolding Machine_Reconcile_def machine_deferPatch_def
  by (intro backendFor_keeps keeps_intros calls_keep branches_keep)

end

end
