(* ===== verification/Machine_Trace.thy ===== *)
theory Machine_Trace
  imports Machine_Controller
begin

text \<open>
  The calls of the machine reconciler, for any backend whose own calls are described by two
  relations, and what is returned and patched at the end of them. The interpretation at the end
  puts the SwiftGuest backend in that place.
\<close>

section \<open>A backend and its calls\<close>

text \<open>The calls a backend may make: on the KubeSwift objects only.\<close>

definition object_call :: "api_call \<Rightarrow> bool" where
  "object_call c = (case c of CGetObject _ _ \<Rightarrow> True | CCreateObject _ \<Rightarrow> True | CUpdateObject _ \<Rightarrow> True
     | CDeleteObject _ \<Rightarrow> True | _ \<Rightarrow> False)"

type_synonym 'r backend_trace = "Request \<Rightarrow> call_log \<Rightarrow> go_error + 'r \<Rightarrow> bool"

definition cluster_read :: "api_call \<Rightarrow> bool" where
  "cluster_read c = (\<exists>k. c = CGetCluster k)"

inductive machine_body :: "lib \<Rightarrow> Result backend_trace \<Rightarrow> bool backend_trace \<Rightarrow> KubeSwiftMachine \<Rightarrow>
    CAPIMachine \<Rightarrow> CAPICluster \<Rightarrow> call_log \<Rightarrow> KubeSwiftMachine \<Rightarrow> outcome \<Rightarrow> bool"
  for L Rt Dt ksm machine cluster where
  mb_delete_failed: "\<not> IsZero L (om_DeletionTimestamp (ksm_Meta ksm)) \<Longrightarrow>
    Dt (delete_request ksm machine cluster) l (Inl e) \<Longrightarrow>
    machine_body L Rt Dt ksm machine cluster l ksm (done_Result, Some e)"
| mb_deleting: "\<not> IsZero L (om_DeletionTimestamp (ksm_Meta ksm)) \<Longrightarrow>
    Dt (delete_request ksm machine cluster) l (Inr False) \<Longrightarrow>
    machine_body L Rt Dt ksm machine cluster l ksm (requeue_Result, None)"
| mb_deleted: "\<not> IsZero L (om_DeletionTimestamp (ksm_Meta ksm)) \<Longrightarrow>
    Dt (delete_request ksm machine cluster) l (Inr True) \<Longrightarrow>
    machine_body L Rt Dt ksm machine cluster l (machine_RemoveFinalizer L ksm) (done_Result, None)"
| mb_no_infrastructure: "IsZero L (om_DeletionTimestamp (ksm_Meta ksm)) \<Longrightarrow>
    cl_InfrastructureProvisioned cluster \<noteq> Some True \<Longrightarrow>
    machine_body L Rt Dt ksm machine cluster [] (notReady L (machine_AddFinalizer L ksm)
      WaitingForClusterInfrastructureReason ''Waiting for the cluster infrastructure to be ready'') (done_Result, None)"
| mb_no_bootstrap: "IsZero L (om_DeletionTimestamp (ksm_Meta ksm)) \<Longrightarrow> cl_InfrastructureProvisioned cluster = Some True \<Longrightarrow>
    ma_DataSecretName machine = None \<Longrightarrow>
    machine_body L Rt Dt ksm machine cluster [] (notReady L (machine_AddFinalizer L ksm)
      WaitingForBootstrapDataReason ''Waiting for the bootstrap data secret'') (done_Result, None)"
| mb_unready: "IsZero L (om_DeletionTimestamp (ksm_Meta ksm)) \<Longrightarrow> cl_InfrastructureProvisioned cluster = Some True \<Longrightarrow>
    ma_DataSecretName machine = Some secretName \<Longrightarrow> list_all (\<lambda>c. cluster_read (fst c)) l \<Longrightarrow>
    machine_body L Rt Dt ksm machine cluster ((CGetSecret (bootstrap_key machine secretName), resp) # l)
      (machine_AddFinalizer L ksm) (done_Result, Some e)"
| mb_failed: "IsZero L (om_DeletionTimestamp (ksm_Meta ksm)) \<Longrightarrow> cl_InfrastructureProvisioned cluster = Some True \<Longrightarrow>
    ma_DataSecretName machine = Some secretName \<Longrightarrow> list_all (\<lambda>c. cluster_read (fst c)) l \<Longrightarrow>
    Rt (machine_request (machine_AddFinalizer L ksm) machine cluster secretName exposure) l' (Inl e) \<Longrightarrow>
    machine_body L Rt Dt ksm machine cluster ((CGetSecret (bootstrap_key machine secretName), ROk) # l @ l')
      (notReady L (machine_AddFinalizer L ksm) VMFailedReason (Error e)) (done_Result, Some e)"
| mb_waiting: "IsZero L (om_DeletionTimestamp (ksm_Meta ksm)) \<Longrightarrow> cl_InfrastructureProvisioned cluster = Some True \<Longrightarrow>
    ma_DataSecretName machine = Some secretName \<Longrightarrow> list_all (\<lambda>c. cluster_read (fst c)) l \<Longrightarrow>
    Rt (machine_request (machine_AddFinalizer L ksm) machine cluster secretName exposure) l' (Inr result) \<Longrightarrow>
    \<not> rs_Provisioned result \<Longrightarrow>
    machine_body L Rt Dt ksm machine cluster ((CGetSecret (bootstrap_key machine secretName), ROk) # l @ l')
      (machineWaiting L (machine_AddFinalizer L ksm) result) (requeue_Result, None)"
| mb_provisioned: "IsZero L (om_DeletionTimestamp (ksm_Meta ksm)) \<Longrightarrow> cl_InfrastructureProvisioned cluster = Some True \<Longrightarrow>
    ma_DataSecretName machine = Some secretName \<Longrightarrow> list_all (\<lambda>c. cluster_read (fst c)) l \<Longrightarrow>
    Rt (machine_request (machine_AddFinalizer L ksm) machine cluster secretName exposure) l' (Inr result) \<Longrightarrow>
    rs_Provisioned result \<Longrightarrow> list_all (\<lambda>c. node_call cluster (om_Name (ksm_Meta ksm)) (fst c)) l'' \<Longrightarrow>
    machine_body L Rt Dt ksm machine cluster ((CGetSecret (bootstrap_key machine secretName), ROk) # l @ l' @ l'')
      (machineProvisioned L (machine_AddFinalizer L ksm) machine result)
      (case p of Inl e \<Rightarrow> (done_Result, Some e)
       | Inr patched \<Rightarrow> if patched then (done_Result, None) else (requeue_Result, None))"

lemma controlPlaneExposure_trace:
  "wp (controlPlaneExposure L (logged C) machine cluster)
     (\<lambda>r s'. \<exists>l. snd s' = snd s @ l \<and> list_all (\<lambda>c. cluster_read (fst c)) l) s"
  unfolding controlPlaneExposure_def
  by (auto simp: wp_simps cluster_read_def split: sum.split option.split intro!: wp_logged)

lemmas controlPlaneExposure_wp = wp_trace [OF controlPlaneExposure_trace]

definition machine_branch :: "lib \<Rightarrow> 'w client \<Rightarrow> 'w Backend \<Rightarrow> KubeSwiftMachine \<Rightarrow> CAPIMachine \<Rightarrow> CAPICluster \<Rightarrow>
    ('w, KubeSwiftMachine \<times> outcome) state" where
  "machine_branch L C b ksm machine cluster =
     (if \<not> IsZero L (om_DeletionTimestamp (ksm_Meta ksm)) then machine_reconcileDelete L b ksm machine cluster
      else machine_reconcileNormal L C b ksm machine cluster)"

locale traced_backend =
  fixes B :: "('w \<times> call_log) Backend" and Rt :: "Result backend_trace" and Dt :: "bool backend_trace"
  assumes trace_ok: "Rt req l (Inr result) \<Longrightarrow> result_ok result"
    and trace_objects: "Rt req l r \<Longrightarrow> c \<in> set l \<Longrightarrow> object_call (fst c)"
      "Dt req l r' \<Longrightarrow> c \<in> set l \<Longrightarrow> object_call (fst c)"
    and reconcile_calls: "wp (b_Reconcile B req) (\<lambda>r s'. \<exists>l. snd s' = snd s @ l \<and> Rt req l r) s"
    and delete_calls: "wp (b_Delete B req) (\<lambda>r s'. \<exists>l. snd s' = snd s @ l \<and> Dt req l r) s"
begin

lemma reconcileDelete_trace:
  assumes "\<not> IsZero L (om_DeletionTimestamp (ksm_Meta ksm))"
  shows "wp (machine_reconcileDelete L B ksm machine cluster) (\<lambda>r s'. \<exists>l. snd s' = snd s @ l \<and>
     machine_body L Rt Dt ksm machine cluster l (fst r) (snd r)) s"
  unfolding machine_reconcileDelete_def
  by (auto simp: wp_simps split: sum.split intro!: wp_trace [OF delete_calls])
    (rule machine_body.intros, rule assms, assumption)+

lemma reconcileNormal_trace:
  assumes live: "IsZero L (om_DeletionTimestamp (ksm_Meta ksm))"
  shows "wp (machine_reconcileNormal L (logged C) B ksm machine cluster) (\<lambda>r s'. \<exists>l. snd s' = snd s @ l \<and>
     machine_body L Rt Dt ksm machine cluster l (fst r) (snd r)) s"
proof (cases "cl_InfrastructureProvisioned cluster = Some True \<and> ma_DataSecretName machine \<noteq> None")
  case False
  then show ?thesis
    by (auto simp: machine_reconcileNormal_def wp_simps Let_def intro!: machine_body.intros(4,5) [OF live])
next
  case True
  then obtain n where n: "cl_InfrastructureProvisioned cluster = Some True" "ma_DataSecretName machine = Some n" by auto
  have name [simp]: "om_Name (ksm_Meta (machine_AddFinalizer L ksm)) = om_Name (ksm_Meta ksm)"
    by (simp add: machine_AddFinalizer_def)
  note unready = mb_unready [OF live n, where Rt = Rt and Dt = Dt]
    and failed = mb_failed [OF live n, where Rt = Rt and Dt = Dt]
    and waiting = mb_waiting [OF live n, where Rt = Rt and Dt = Dt]
    and provisioned = mb_provisioned [OF live n, where Rt = Rt and Dt = Dt]
  show ?thesis
    unfolding machine_reconcileNormal_def checkBootstrapData_def
    by (auto simp: wp_simps n Let_def split: sum.split
        intro!: wp_logged controlPlaneExposure_wp wp_trace [OF reconcile_calls] ensureNodeProviderID_wp
          unready [where l = "[]", simplified])
      (auto intro: unready failed waiting provisioned [where p = "Inl e" for e, simplified]
        provisioned [where p = "Inr True", simplified] provisioned [where p = "Inr False", simplified])
qed

lemma machine_branch_trace:
  "wp (machine_branch L (logged C) B ksm machine cluster) (\<lambda>r s'. \<exists>l. snd s' = snd s @ l \<and>
     machine_body L Rt Dt ksm machine cluster l (fst r) (snd r)) s"
  by (simp add: machine_branch_def reconcileDelete_trace reconcileNormal_trace)

end

text \<open>A backend described by its calls keeps the contract the controller relies on.\<close>

sublocale traced_backend \<subseteq> machine_backend B
proof
  fix req w
  show "wp (b_Reconcile B req) (\<lambda>r _. case r of Inl e \<Rightarrow> True | Inr res \<Rightarrow> result_ok res) w"
    by (rule wp_mono [OF reconcile_calls]) (auto split: sum.split dest: trace_ok)
qed

section \<open>The SwiftGuest backend\<close>

lemma reconcile_trace_ok: "reconcile_trace L req l (Inr result) \<Longrightarrow> result_ok result"
  by (erule reconcile_trace.cases) (auto dest: guest_result_ok [OF sym])

lemma reconcile_trace_objects: "reconcile_trace L req l r \<Longrightarrow> c \<in> set l \<Longrightarrow> object_call (fst c)"
  by (drule reconcile_trace_calls [of L req l r "fst c"])
    (auto simp: seed_call_def guest_call_def seed_get_def guest_get_def object_call_def)

lemma delete_trace_objects: "delete_trace L req l r \<Longrightarrow> c \<in> set l \<Longrightarrow> object_call (fst c)"
  by (erule delete_trace.cases) (auto simp: guest_get_def object_call_def)

interpretation sgt: traced_backend "NewSwiftGuestBackend L (logged C)" "reconcile_trace L" "delete_trace L" for L C
  by unfold_locales
    (auto simp: NewSwiftGuestBackend_def intro: reconcile_trace_ok reconcile_trace_objects delete_trace_objects
      SwiftGuest_Reconcile_trace SwiftGuest_Delete_trace)

abbreviation guest_body :: "lib \<Rightarrow> KubeSwiftMachine \<Rightarrow> CAPIMachine \<Rightarrow> CAPICluster \<Rightarrow> call_log \<Rightarrow> KubeSwiftMachine \<Rightarrow>
    outcome \<Rightarrow> bool" where
  "guest_body L \<equiv> machine_body L (reconcile_trace L) (delete_trace L)"

section \<open>The calls of Reconcile\<close>

definition machine_prefix :: "NamespacedName \<Rightarrow> KubeSwiftMachine \<Rightarrow> CAPIMachine \<Rightarrow> CAPICluster \<Rightarrow> call_log" where
  "machine_prefix req ksm machine cluster = [(CGetMachine req, RInfraMachine ksm), (CGetOwnerMachine (ksm_Meta ksm), RMachine machine),
     (CGetClusterFromMetadata (ksm_Meta ksm), RCluster cluster), (CNewMachineHelper ksm, ROk)]"

inductive machine_trace :: "lib \<Rightarrow> NamespacedName \<Rightarrow> call_log \<Rightarrow> outcome \<Rightarrow> bool" for L req where
  mt_idle: "list_all (\<lambda>c. \<not> is_write (fst c)) l \<Longrightarrow> machine_trace L req l (done_Result, e)"
| mt_run: "\<not> IsPaused L cluster (ksm_Meta ksm) \<Longrightarrow> mb_Type (kms_Backend (ksm_Spec ksm)) = SwiftGuestBackendType \<Longrightarrow>
    guest_body L ksm machine cluster l ksm' out \<Longrightarrow>
    machine_trace L req (machine_prefix req ksm machine cluster @ l @ [(CPatchMachine ksm ksm', response_of p)])
      (fst out, case snd out of Some e \<Rightarrow> Some e | None \<Rightarrow> err_of (p :: go_error + unit))"

lemma Machine_Reconcile_trace:
  "wp (Machine_Reconcile L (logged C) req) (\<lambda>r s'. \<exists>l. snd s' = snd s @ l \<and> machine_trace L req l r) s"
proof -
  have run: "wp (machine_deferPatch (logged C) ksm
      (machine_branch L (logged C) (NewSwiftGuestBackend L (logged C)) ksm machine cluster))
      (\<lambda>r s'. \<exists>l. snd s' = snd s @ l \<and> machine_trace L req l r) (w, snd s @ machine_prefix req ksm machine cluster)"
    if "\<not> IsPaused L cluster (ksm_Meta ksm)" "mb_Type (kms_Backend (ksm_Spec ksm)) = SwiftGuestBackendType"
    for ksm machine cluster w
    unfolding machine_deferPatch_def
    by (auto simp: wp_simps intro!: wp_trace [OF sgt.machine_branch_trace] wp_logged
        mt_run [OF that, of machine _ _ "(a, b)" for a b, simplified])
  show ?thesis
    unfolding Machine_Reconcile_def machine_branch_def [symmetric]
    by (auto simp: wp_simps backendFor_def split: sum.split option.split intro!: wp_logged machine_trace.mt_idle
        run [unfolded machine_prefix_def, simplified])
qed

lemmas Machine_Reconcile_wp = wp_trace [OF Machine_Reconcile_trace]

end
