(* ===== verification/SwiftGuest_Converge.thy ===== *)
theory SwiftGuest_Converge
  imports SwiftGuest_Props
begin

text \<open>
  What the backend achieves against an API server that keeps the contract of \<^verbatim>\<open>Api_Server\<close>: one
  \<^verbatim>\<open>Reconcile\<close> brings the two KubeSwift objects into being and a second one changes nothing;
  \<^verbatim>\<open>Delete\<close> takes them away again, the guest first.
\<close>

section \<open>Where the objects live\<close>

definition seed_key :: "Request \<Rightarrow> object_key" where
  "seed_key req = (g_Kind swiftSeedProfileGVK, rq_GuestNamespace req, seedName (rq_Name req))"

definition guest_key :: "Request \<Rightarrow> object_key" where
  "guest_key req = (g_Kind swiftGuestGVK, rq_GuestNamespace req, rq_Name req)"

lemma keys_distinct [simp]: "seed_key req \<noteq> guest_key req'" "guest_key req' \<noteq> seed_key req"
  by (simp_all add: seed_key_def guest_key_def swiftSeedProfileGVK_def swiftGuestGVK_def)

text \<open>A seed profile that \<^verbatim>\<open>Reconcile\<close> leaves as it is, and a guest as it is first submitted.\<close>

definition seed_current :: "lib \<Rightarrow> Request \<Rightarrow> Unstructured \<Rightarrow> bool" where
  "seed_current L req x = (names_bootstrap_secret req x \<and>
     NestedString L (u_Object x) [''spec'', ''userData''] = '''')"

definition fresh_guest :: "lib \<Rightarrow> Request \<Rightarrow> SwiftGuestBackend \<Rightarrow> Unstructured \<Rightarrow> bool" where
  "fresh_guest L req cfg g =
     (identified L g swiftGuestGVK (rq_GuestNamespace req) (rq_Name req) (guest_labels req) \<and>
      fmlookup (u_Object g) ''spec'' = Some (VMap (renderSwiftGuest_spec req cfg)))"

context object_server begin

lemma seed_current_migrated: "migrateSeedProfile L req x = None \<longleftrightarrow> seed_current L req x"
  by (simp add: migrateSeedProfile_None seed_current_def)

lemma seed_current_kept:
  assumes "object_kept L u x" "no_inline_credentials u" "names_bootstrap_secret req u"
  shows "seed_current L req x"
  using assms
  by (auto simp: object_kept_def seed_current_def no_inline_credentials_def names_bootstrap_secret_def
      nested_field_2 nested_string)

lemma newSeedProfile_key: "object_key L (newSeedProfile L req) = seed_key req"
  by (simp add: object_key_def seed_key_def newSeedProfile_def Let_def setKubeSwiftLabels_frame meta_simps)

lemma seedToDelete_key: "object_key L (seedToDelete L req) = seed_key req"
  by (simp add: object_key_def seed_key_def seedToDelete_def meta_simps)

lemma migrateSeedProfile_key:
  assumes "migrateSeedProfile L req existing = Some (Inr u)"
  shows "object_key L u = object_key L existing"
proof -
  obtain m where m: "u = existing\<lparr>u_Object := m\<rparr>"
    "SetNestedField L (RemoveNestedField L (u_Object existing) [''spec'', ''userData'']) (userDataFrom req)
      [''spec'', ''userDataFrom''] = Inr m"
    using assms by (auto simp: migrateSeedProfile_def Let_def split: if_splits sum.splits)
  have "fmlookup (u_Object u) k = fmlookup (u_Object existing) k" if "k \<noteq> ''spec''" for k
    using set_nested_other [OF m(2) that] remove_nested_other [OF that] by (simp add: m(1))
  then show ?thesis
    using observe_metadata [of u existing] observe_kind [of u existing] by (simp add: object_key_def)
qed

lemma migrateSeedProfile_succeeds:
  assumes "settable (u_Object existing) ''spec''"
  shows "migrateSeedProfile L req existing \<noteq> Some (Inl e)"
proof -
  obtain m where "SetNestedField L (RemoveNestedField L (u_Object existing) [''spec'', ''userData'']) (userDataFrom req)
      [''spec'', ''userDataFrom''] = Inr m"
    using set_nested_ok assms remove_nested_settable by blast
  then show ?thesis by (simp add: migrateSeedProfile_def Let_def)
qed

lemma ensureSeedProfile_effect:
  assumes "\<And>x. objs w (seed_key req) = Some x \<Longrightarrow> settable (u_Object x) ''spec''"
  shows "wp (ensureSeedProfile L C req) (\<lambda>r w'. r = Inr () \<and>
      (\<exists>x. objs w' = (objs w)(seed_key req := Some x) \<and> seed_current L req x)) w"
  unfolding ensureSeedProfile_def wp_bind
proof (rule get_object_cases, goal_cases)
  case (1 e)
  then have "objs w (seed_key req) = None" by (simp add: seed_key_def)
  with 1 show ?case
    by (auto simp: wp_simps newSeedProfile_key intro!: create_object_cases)
      (metis seed_current_kept newSeedProfile_credentials)
next
  case (2 existing)
  then have x: "objs w (seed_key req) = Some existing" by (simp add: seed_key_def)
  show ?case
  proof (cases "migrateSeedProfile L req existing")
    case None
    moreover from None have "seed_current L req existing" by (simp add: seed_current_migrated)
    ultimately show ?thesis using x by (auto simp: wp_simps intro!: exI [of _ existing])
  next
    case (Some r)
    then obtain u where u: "migrateSeedProfile L req existing = Some (Inr u)"
      using migrateSeedProfile_succeeds assms [OF x] by (cases r) auto
    have k: "object_key L u = seed_key req"
      using migrateSeedProfile_key [OF u] filed [OF x] by simp
    show ?thesis
      using migrateSeedProfile_credentials [OF u] x k
      by (auto simp: u wp_simps intro!: update_object_cases seed_current_kept)
  qed
qed

lemma ensureSeedProfile_stable:
  assumes "objs w (seed_key req) = Some x" "seed_current L req x"
  shows "wp (ensureSeedProfile L C req) (\<lambda>r w'. r = Inr () \<and> w' = w) w"
  unfolding ensureSeedProfile_def wp_bind
  by (rule get_object_cases)
    (use assms in \<open>auto simp: seed_key_def wp_simps seed_current_migrated [symmetric]\<close>)

lemma ensureSwiftGuest_effect:
  "wp (ensureSwiftGuest L C req cfg) (\<lambda>r w'. \<exists>g. r = Inr g \<and> objs w' = (objs w)(guest_key req := Some g) \<and>
     (if objs w (guest_key req) = None then fresh_guest L req cfg g
      else w' = w \<and> objs w (guest_key req) = Some g)) w"
  unfolding ensureSwiftGuest_def wp_bind
proof (rule get_object_cases, goal_cases)
  case (1 e)
  obtain guest where g: "renderSwiftGuest L req cfg = Some guest" "fresh_guest L req cfg guest"
    by (rule renderSwiftGuest_ok [of req cfg]) (simp add: fresh_guest_def)
  have k: "object_key L guest = guest_key req"
    using g(2) by (simp add: fresh_guest_def identified_def object_key_def guest_key_def)
  have "fresh_guest L req cfg x" if "object_kept L guest x" for x
    using g(2) that by (simp add: fresh_guest_def identified_def object_kept_def object_key_def)
  with 1 g k show ?case
    by (auto simp: wp_simps guest_key_def intro!: create_object_cases)
next
  case (2 existing)
  then show ?case by (auto simp: wp_simps guest_key_def)
qed

lemma Reconcile_effect:
  assumes "acceptable req cfg" "\<And>x. objs w (seed_key req) = Some x \<Longrightarrow> settable (u_Object x) ''spec''"
  shows "wp (SwiftGuest_Reconcile L C req) (\<lambda>r w'. \<exists>seed guest.
      objs w' = (objs w)(seed_key req := Some seed, guest_key req := Some guest) \<and> seed_current L req seed \<and>
      (if objs w (guest_key req) = None then fresh_guest L req cfg guest else objs w (guest_key req) = Some guest) \<and>
      r = guest_result L req guest) w"
  unfolding SwiftGuest_Reconcile_def Reconcile_checks_Inr [THEN iffD2, OF assms(1)] sum.case wp_onOk wp_wrapErr
  by (rule wp_mono [OF ensureSeedProfile_effect [OF assms(2)]], assumption,
      auto simp: wp_simps intro!: wp_mono [OF ensureSwiftGuest_effect] split: if_splits) metis+

lemma Reconcile_stable:
  assumes "acceptable req cfg" "objs w (seed_key req) = Some seed" "seed_current L req seed"
    "objs w (guest_key req) = Some guest"
  shows "wp (SwiftGuest_Reconcile L C req) (\<lambda>r w'. r = guest_result L req guest \<and> w' = w) w"
  unfolding SwiftGuest_Reconcile_def Reconcile_checks_Inr [THEN iffD2, OF assms(1)] sum.case wp_onOk wp_wrapErr
  by (rule wp_mono [OF ensureSeedProfile_stable [OF assms(2,3)]],
      use assms(4) in \<open>auto simp: wp_simps intro!: wp_mono [OF ensureSwiftGuest_effect]\<close>)

end

text \<open>
  C6. Convergence. Against a server that keeps its contract, one \<^verbatim>\<open>Reconcile\<close> of an accepted
  request leaves exactly two objects written: a seed profile that refers to the bootstrap Secret
  (created, migrated from an older form, or found so), and the guest, which is as rendered if there
  was none and is otherwise the one that was there, untouched. The result is read off that guest,
  and running \<^verbatim>\<open>Reconcile\<close> again returns the same result and changes nothing.
\<close>

theorem Reconcile_converges:
  assumes "object_server L C objs" "acceptable req cfg"
    and "\<And>x. objs w (seed_key req) = Some x \<Longrightarrow> settable (u_Object x) ''spec''"
  shows "wp (SwiftGuest_Reconcile L C req) (\<lambda>r w'. \<exists>seed guest.
      objs w' = (objs w)(seed_key req := Some seed, guest_key req := Some guest) \<and> seed_current L req seed \<and>
      (if objs w (guest_key req) = None then fresh_guest L req cfg guest else objs w (guest_key req) = Some guest) \<and>
      r = guest_result L req guest \<and>
      wp (SwiftGuest_Reconcile L C req) (\<lambda>r' w''. r' = r \<and> w'' = w') w') w"
proof (rule wp_mono [OF object_server.Reconcile_effect [OF assms]], assumption, elim exE conjE)
  fix r w' seed guest
  assume *: "objs w' = (objs w)(seed_key req := Some seed, guest_key req := Some guest)" "seed_current L req seed"
    "r = guest_result L req guest"
  have "wp (SwiftGuest_Reconcile L C req) (\<lambda>r w''. r = guest_result L req guest \<and> w'' = w') w'"
    by (rule object_server.Reconcile_stable [OF assms(1,2)]) (use * in auto)
  with * show "if objs w (guest_key req) = None then fresh_guest L req cfg guest else objs w (guest_key req) = Some guest \<Longrightarrow>
    \<exists>seed guest.
      objs w' = (objs w)(seed_key req := Some seed, guest_key req := Some guest) \<and> seed_current L req seed \<and>
      (if objs w (guest_key req) = None then fresh_guest L req cfg guest else objs w (guest_key req) = Some guest) \<and>
      r = guest_result L req guest \<and>
      wp (SwiftGuest_Reconcile L C req) (\<lambda>r' w''. r' = r \<and> w'' = w') w'"
    by blast
qed

theorem Reconcile_converges_witness:
  "wp (SwiftGuest_Reconcile ref_lib (mem_client ref_lib) (ex_req ''w-0'' (Some ex_cfg) None)) (\<lambda>r w'. \<exists>seed guest.
      mem_objs ref_lib w' = (mem_objs ref_lib empty_store)(seed_key (ex_req ''w-0'' (Some ex_cfg) None) := Some seed,
         guest_key (ex_req ''w-0'' (Some ex_cfg) None) := Some guest) \<and>
      seed_current ref_lib (ex_req ''w-0'' (Some ex_cfg) None) seed \<and>
      (if mem_objs ref_lib empty_store (guest_key (ex_req ''w-0'' (Some ex_cfg) None)) = None
       then fresh_guest ref_lib (ex_req ''w-0'' (Some ex_cfg) None) ex_cfg guest
       else mem_objs ref_lib empty_store (guest_key (ex_req ''w-0'' (Some ex_cfg) None)) = Some guest) \<and>
      r = guest_result ref_lib (ex_req ''w-0'' (Some ex_cfg) None) guest \<and>
      wp (SwiftGuest_Reconcile ref_lib (mem_client ref_lib) (ex_req ''w-0'' (Some ex_cfg) None))
        (\<lambda>r' w''. r' = r \<and> w'' = w') w') empty_store"
  by (rule Reconcile_converges [OF mem.object_server_axioms])
    (simp_all add: acceptable_def ex_defs mem_objs_def empty_store_def)

section \<open>Deleting\<close>

text \<open>An object is on its way out: gone, or marked for deletion.\<close>

definition leaving :: "lib \<Rightarrow> Unstructured option \<Rightarrow> bool" where
  "leaving L x = (case x of None \<Rightarrow> True | Some u \<Rightarrow> \<not> IsZero L (u_GetDeletionTimestamp L u))"

context object_server begin

lemma delete_object_cases:
  assumes "\<And>e. objs w (object_key L u) = None \<Longrightarrow> IsNotFound e \<Longrightarrow> Q (Inl e) w"
    and "\<And>x w'. objs w (object_key L u) = Some x \<Longrightarrow> objs w' = (objs w)(object_key L u := None) \<Longrightarrow> Q (Inr ()) w'"
    and "\<And>x y w'. objs w (object_key L u) = Some x \<Longrightarrow> objs w' = (objs w)(object_key L u := Some y) \<Longrightarrow>
      \<not> IsZero L (u_GetDeletionTimestamp L y) \<Longrightarrow> Q (Inr ()) w'"
  shows "wp (c_DeleteObject C u) Q w"
  by (rule wp_mono [OF delete_object]) (use assms in \<open>auto split: option.splits\<close>)

lemma Delete_effect:
  "wp (SwiftGuest_Delete L C req) (\<lambda>r w'.
     if objs w (guest_key req) = None
     then r = Inr True \<and> leaving L (objs w' (seed_key req)) \<and> (\<forall>k. k \<noteq> seed_key req \<longrightarrow> objs w' k = objs w k)
     else r = Inr False \<and> leaving L (objs w' (guest_key req)) \<and> (\<forall>k. k \<noteq> guest_key req \<longrightarrow> objs w' k = objs w k)) w"
  unfolding SwiftGuest_Delete_def wp_bind
proof (rule get_object_cases, goal_cases)
  case (1 e)
  then have "objs w (guest_key req) = None" by (simp add: guest_key_def)
  with 1 show ?case
    by (auto simp: wp_simps leaving_def seedToDelete_key intro!: delete_object_cases)
next
  case (2 guest)
  then have g: "objs w (guest_key req) = Some guest" by (simp add: guest_key_def)
  with filed [OF g] show ?case
    by (auto simp: wp_simps leaving_def intro!: delete_object_cases)
qed

end

text \<open>
  C23. Progress of \<^verbatim>\<open>Delete\<close> against a server that keeps its contract: while the guest exists a call
  makes sure that it is gone or marked for deletion, touches nothing else and asks to be called
  again; once the guest is gone a call does the same for the seed profile and reports that the
  infrastructure is deleted.
\<close>

theorem Delete_converges:
  assumes "object_server L C objs"
  shows "wp (SwiftGuest_Delete L C req) (\<lambda>r w'.
     if objs w (guest_key req) = None
     then r = Inr True \<and> leaving L (objs w' (seed_key req)) \<and> (\<forall>k. k \<noteq> seed_key req \<longrightarrow> objs w' k = objs w k)
     else r = Inr False \<and> leaving L (objs w' (guest_key req)) \<and> (\<forall>k. k \<noteq> guest_key req \<longrightarrow> objs w' k = objs w k)) w"
  by (rule object_server.Delete_effect [OF assms])

theorem Delete_converges_witness:
  "wp (SwiftGuest_Delete ref_lib (mem_client ref_lib) (ex_req ''w-0'' (Some ex_cfg) None)) (\<lambda>r w'. r = Inr True)
     empty_store"
  by (rule wp_mono [OF Delete_converges [OF mem.object_server_axioms]])
    (simp add: mem_objs_def empty_store_def)

end
