(* ===== verification/Machine_Props.thy ===== *)
theory Machine_Props
  imports Machine_Trace SwiftGuest_Converge
begin

text \<open>
  The properties of the machine reconciler with the SwiftGuest backend. Except where a server
  contract is named, they hold for every client.
\<close>

section \<open>The deferred patch\<close>

definition body_call :: "CAPICluster \<Rightarrow> KubeSwiftMachine \<Rightarrow> api_call \<Rightarrow> bool" where
  "body_call cluster ksm c = (object_call c \<or> cluster_read c \<or> (\<exists>k. c = CGetSecret k) \<or>
     node_call cluster (om_Name (ksm_Meta ksm)) c)"

lemma object_traces:
  "reconcile_trace L req l r \<Longrightarrow> list_all (\<lambda>c. object_call (fst c)) l"
  "delete_trace L req l r' \<Longrightarrow> list_all (\<lambda>c. object_call (fst c)) l"
  unfolding list_all_iff using reconcile_trace_objects delete_trace_objects by blast+

lemma list_all_weaken: "list_all P l \<Longrightarrow> (\<And>x. P x \<Longrightarrow> Q x) \<Longrightarrow> list_all Q l"
  by (auto simp: list_all_iff)

lemma machine_body_calls:
  assumes "guest_body L ksm machine cluster l ksm' out"
  shows "list_all (\<lambda>c. body_call cluster ksm (fst c)) l"
  using assms
  by cases (auto dest!: object_traces elim!: list_all_weaken simp: body_call_def)

lemma machine_body_no_patch:
  assumes "guest_body L ksm machine cluster l ksm' out"
  shows "(CPatchMachine a b, resp) \<notin> set l"
  using machine_body_calls [OF assms]
  by (auto simp: list_all_iff body_call_def object_call_def cluster_read_def node_call_def)

lemma machine_trace_patch:
  assumes "machine_trace L req log r" "(CPatchMachine ksm ksm', resp) \<in> set log"
  obtains cluster machine body out where "\<not> IsPaused L cluster (ksm_Meta ksm)"
    "mb_Type (kms_Backend (ksm_Spec ksm)) = SwiftGuestBackendType"
    "guest_body L ksm machine cluster body ksm' out"
    "log = machine_prefix req ksm machine cluster @ body @ [(CPatchMachine ksm ksm', resp)]"
    "fst r = fst out" "snd out \<noteq> None \<Longrightarrow> snd r = snd out" "snd r = None \<Longrightarrow> resp = ROk \<and> snd out = None"
  using assms(1)
proof cases
  case (mt_idle e)
  then show thesis using assms(2) by (auto simp: list_all_iff)
next
  case (mt_run cluster ksm1 machine l ksm2 out p)
  have "(CPatchMachine ksm ksm', resp) \<notin> set l" "(CPatchMachine ksm ksm', resp) \<notin> set (machine_prefix req ksm1 machine cluster)"
    using machine_body_no_patch [OF mt_run(5)] by (simp_all add: machine_prefix_def)
  then have eq: "ksm1 = ksm" "ksm2 = ksm'" "resp = response_of p"
    using mt_run(1) assms(2) by auto
  show thesis
    by (rule that [of cluster machine l out]) (use mt_run eq in \<open>auto split: option.splits; cases p; simp\<close>)+
qed

text \<open>
  C14. What the machine reconciler may touch, for every behaviour of the API servers. A run that
  writes anything has read a machine that is not paused and whose backend type is supported, and
  its last call is the one patch of that machine, whatever happened before it; the other writes
  are to the machine's KubeSwift objects and to the workload Node of the machine's name. A run that
  reports no error and wrote anything has had its patch accepted.
\<close>

theorem Machine_Reconcile_guarded:
  "wp (Machine_Reconcile L (logged C) req) (\<lambda>r s'. \<exists>l. snd s' = snd s @ l \<and>
     (writes l = [] \<or>
      (\<exists>ksm machine cluster ksm' body resp. \<not> IsPaused L cluster (ksm_Meta ksm) \<and>
         mb_Type (kms_Backend (ksm_Spec ksm)) = SwiftGuestBackendType \<and>
         l = machine_prefix req ksm machine cluster @ body @ [(CPatchMachine ksm ksm', resp)] \<and>
         (\<forall>c \<in> set (writes body). object_call c \<or> (\<exists>cs p. c = CPatchNode cs (om_Name (ksm_Meta ksm)) p)) \<and>
         (snd r = None \<longrightarrow> resp = ROk)))) s"
proof (rule Machine_Reconcile_wp, rule exI, rule conjI [rotated])
  fix r w l
  assume t: "machine_trace L req l r"
  then show "writes l = [] \<or>
      (\<exists>ksm machine cluster ksm' body resp. \<not> IsPaused L cluster (ksm_Meta ksm) \<and>
         mb_Type (kms_Backend (ksm_Spec ksm)) = SwiftGuestBackendType \<and>
         l = machine_prefix req ksm machine cluster @ body @ [(CPatchMachine ksm ksm', resp)] \<and>
         (\<forall>c \<in> set (writes body). object_call c \<or> (\<exists>cs p. c = CPatchNode cs (om_Name (ksm_Meta ksm)) p)) \<and>
         (snd r = None \<longrightarrow> resp = ROk))"
  proof cases
    case (mt_idle e)
    then show ?thesis by (auto simp: list_all_iff filter_empty_conv)
  next
    case (mt_run cluster ksm machine body ksm' out p)
    have "object_call c \<or> (\<exists>cs p. c = CPatchNode cs (om_Name (ksm_Meta ksm)) p)" if "c \<in> set (writes body)" for c
      using machine_body_calls [OF mt_run(5)] that
      by (auto simp: list_all_iff body_call_def cluster_read_def node_call_def)
    then show ?thesis
      using mt_run by (cases p; cases "snd out") auto
  qed
qed simp

section \<open>Deletion\<close>

lemma machine_setReady_keeps [simp]:
  "ksm_Meta (machine_setReady L k b c) = ksm_Meta k" "ksm_Spec (machine_setReady L k b c) = ksm_Spec k"
  "kmt_Addresses (ksm_Status (machine_setReady L k b c)) = kmt_Addresses (ksm_Status k)"
  by (simp_all add: machine_setReady_def Let_def machine_SetConditions_def)

lemma machine_keeps [simp]:
  "ksm_Meta (notReady L k a b) = ksm_Meta k" "ksm_Meta (machineWaiting L k res) = ksm_Meta k"
  "ksm_Meta (machineProvisioned L k machine res) = ksm_Meta k"
  "ksm_Spec (notReady L k a b) = ksm_Spec k" "ksm_Spec (machineWaiting L k res) = ksm_Spec k"
  "kmt_Addresses (ksm_Status (notReady L k a b)) = kmt_Addresses (ksm_Status k)"
  "kmt_Addresses (ksm_Status (machineWaiting L k res)) = kmt_Addresses (ksm_Status k)"
  "ksm_Spec (machine_AddFinalizer L k) = ksm_Spec k" "ksm_Status (machine_AddFinalizer L k) = ksm_Status k"
  "om_Name (ksm_Meta (machine_AddFinalizer L k)) = om_Name (ksm_Meta k)"
  "om_Namespace (ksm_Meta (machine_AddFinalizer L k)) = om_Namespace (ksm_Meta k)"
  by (simp_all add: notReady_def machineWaiting_def machineProvisioned_def machine_AddFinalizer_def Let_def)

lemma machine_AddFinalizer_finalizers:
  "objects_lib L \<Longrightarrow> MachineFinalizer \<in> set (om_Finalizers (ksm_Meta (machine_AddFinalizer L ksm)))"
  by (simp add: machine_AddFinalizer_def objects_lib.add_finalizer)

lemma machine_body_live:
  assumes "objects_lib L" "guest_body L ksm machine cluster l ksm' out" "IsZero L (om_DeletionTimestamp (ksm_Meta ksm))"
  shows "MachineFinalizer \<in> set (om_Finalizers (ksm_Meta ksm'))"
  using assms(2) by cases (use assms(3) machine_AddFinalizer_finalizers [OF assms(1)] in auto)

text \<open>The lookup of the machine's guest, and the deletion of its seed profile.\<close>

definition guest_lookup :: "lib \<Rightarrow> KubeSwiftMachine \<Rightarrow> api_call" where
  "guest_lookup L ksm = CGetObject (newUnstructured L swiftGuestGVK)
     (nn (om_Namespace (ksm_Meta ksm)) (om_Name (ksm_Meta ksm)))"

definition seed_deletion :: "lib \<Rightarrow> KubeSwiftMachine \<Rightarrow> api_call" where
  "seed_deletion L ksm = CDeleteObject (u_SetName L (u_SetNamespace L (newUnstructured L swiftSeedProfileGVK)
     (om_Namespace (ksm_Meta ksm))) (seedName (om_Name (ksm_Meta ksm))))"

lemma delete_request_calls:
  "guest_get L (delete_request ksm machine cluster) = guest_lookup L ksm"
  "CDeleteObject (seedToDelete L (delete_request ksm machine cluster)) = seed_deletion L ksm"
  by (simp_all add: guest_get_def seedToDelete_def delete_request_def guest_lookup_def seed_deletion_def)

text \<open>
  C1. The machine's finalizer comes off only after its guest: whenever a patch would drop the
  finalizer, the machine is being deleted, and the run looked up the guest of that namespace and
  name, found none, and then deleted its seed profile or found none. A run that still finds the
  guest patches the machine unchanged and, unless it fails, asks to be run again in 15 seconds.
\<close>

theorem machine_finalizer_guards_guest:
  assumes "k8s_lib L"
  shows "wp (Machine_Reconcile L (logged C) req) (\<lambda>r s'. \<exists>l. snd s' = snd s @ l \<and>
     (\<forall>ksm ksm' resp. (CPatchMachine ksm ksm', resp) \<in> set l \<longrightarrow>
        (MachineFinalizer \<in> set (om_Finalizers (ksm_Meta ksm)) - set (om_Finalizers (ksm_Meta ksm')) \<longrightarrow>
           \<not> IsZero L (om_DeletionTimestamp (ksm_Meta ksm)) \<and>
           (\<exists>machine cluster resp'. resp' \<noteq> RError \<and> l = machine_prefix req ksm machine cluster @ [(guest_lookup L ksm, RNotFound),
              (seed_deletion L ksm, resp'), (CPatchMachine ksm ksm', resp)])) \<and>
        (\<not> IsZero L (om_DeletionTimestamp (ksm_Meta ksm)) \<and> (guest_lookup L ksm, ROk) \<in> set l \<longrightarrow>
           ksm' = ksm \<and> (snd r \<noteq> None \<or> res_RequeueAfter (fst r) = 15 * 10 ^ 9)))) s"
proof (rule Machine_Reconcile_wp, rule exI, rule conjI [rotated], intro allI impI)
  fix r w l ksm ksm' resp
  assume t: "machine_trace L req l r" and p: "(CPatchMachine ksm ksm', resp) \<in> set l"
  obtain cluster machine body out where b: "guest_body L ksm machine cluster body ksm' out"
    "l = machine_prefix req ksm machine cluster @ body @ [(CPatchMachine ksm ksm', resp)]"
    "fst r = fst out" "snd out \<noteq> None \<Longrightarrow> snd r = snd out" "snd r = None \<Longrightarrow> resp = ROk \<and> snd out = None"
    using machine_trace_patch [OF t p] by metis
  have add: "\<And>k. MachineFinalizer \<in> set (om_Finalizers (ksm_Meta (machine_AddFinalizer L k)))"
    using assms machine_AddFinalizer_finalizers by (simp add: k8s_lib_def)
  have "\<not> IsZero L (om_DeletionTimestamp (ksm_Meta ksm)) \<and>
           (\<exists>machine cluster resp'. resp' \<noteq> RError \<and> l = machine_prefix req ksm machine cluster @ [(guest_lookup L ksm, RNotFound),
              (seed_deletion L ksm, resp'), (CPatchMachine ksm ksm', resp)])"
    if "MachineFinalizer \<in> set (om_Finalizers (ksm_Meta ksm)) - set (om_Finalizers (ksm_Meta ksm'))"
    using b(1) by cases (use that add in \<open>auto simp: b(2) delete_done delete_request_calls\<close>)
  moreover have "ksm' = ksm \<and> (snd r \<noteq> None \<or> res_RequeueAfter (fst r) = 15 * 10 ^ 9)"
    if "\<not> IsZero L (om_DeletionTimestamp (ksm_Meta ksm)) \<and> (guest_lookup L ksm, ROk) \<in> set l"
  proof -
    have found: "(guest_lookup L ksm, ROk) \<in> set body"
      using that by (simp add: b(2) machine_prefix_def guest_lookup_def)
    show ?thesis
      using b(1) by cases (use found that b(3,4) in
        \<open>auto simp: requeue_Result_def machineRequeueAfter_def delete_done delete_request_calls guest_lookup_def
          seed_deletion_def\<close>)
  qed
  ultimately show "(MachineFinalizer \<in> set (om_Finalizers (ksm_Meta ksm)) - set (om_Finalizers (ksm_Meta ksm')) \<longrightarrow>
           \<not> IsZero L (om_DeletionTimestamp (ksm_Meta ksm)) \<and>
           (\<exists>machine cluster resp'. resp' \<noteq> RError \<and> l = machine_prefix req ksm machine cluster @ [(guest_lookup L ksm, RNotFound),
              (seed_deletion L ksm, resp'), (CPatchMachine ksm ksm', resp)])) \<and>
        (\<not> IsZero L (om_DeletionTimestamp (ksm_Meta ksm)) \<and> (guest_lookup L ksm, ROk) \<in> set l \<longrightarrow>
           ksm' = ksm \<and> (snd r \<noteq> None \<or> res_RequeueAfter (fst r) = 15 * 10 ^ 9))"
    by blast
qed simp

text \<open>A world with the worker machine \<^verbatim>\<open>w-0\<close>, its owners and its bootstrap Secret.\<close>

definition ex_owned_machine :: "int option \<Rightarrow> KubeSwiftMachine" where
  "ex_owned_machine deleted = (ex_machine ''w-0'' (Some ex_cfg))\<lparr>ksm_Meta := (ex_meta ''w-0'')\<lparr>
     om_Labels := Some (fmap_of_list [(ClusterNameLabel, ''demo'')]), om_Finalizers := [MachineFinalizer],
     om_DeletionTimestamp := deleted,
     om_OwnerReferences := [\<lparr> or_Kind = ''Machine'', or_Name = ''w-0'', or_UID = ''u2'', or_Controller = True \<rparr>]\<rparr>\<rparr>"

definition ex_machine_store :: "int option \<Rightarrow> store" where
  "ex_machine_store deleted = ex_node_store\<lparr>
     st_machines := (\<lambda>k. if k = (''ns'', ''w-0'') then Some (ex_owned_machine deleted) else None),
     st_capi_machines := (\<lambda>k. if k = (''ns'', ''w-0'') then Some (ex_capi_machine ''w-0'') else None),
     st_capi_clusters := (\<lambda>k. if k = (''ns'', ''demo'') then Some ex_capi_cluster else None),
     st_secrets := (\<lambda>k. if k = (''ns'', ''boot'')
       then Some \<lparr> sec_Data = Some (fmap_of_list [(''value'', ''cloud-init'')]) \<rparr> else None)\<rparr>"

lemma ex_machine_deletion:
  "wp (Machine_Reconcile ref_lib (logged (mem_client ref_lib)) (nn ''ns'' ''w-0''))
     (\<lambda>r s'. \<exists>c. writes (snd s') = [c, CPatchMachine (ex_owned_machine (Some 1))
        (machine_RemoveFinalizer ref_lib (ex_owned_machine (Some 1)))]) (ex_machine_store (Some 1), [])"
  by (simp add: Machine_Reconcile_def machine_reconcileDelete_def machine_deferPatch_def backendFor_def
      NewSwiftGuestBackend_def SwiftGuest_Delete_def mem_run ex_machine_store_def ex_owned_machine_def ex_defs
      ex_node_store_def SwiftGuestBackendType_def delete_request_def ref_lib_def)

theorem Machine_Reconcile_guarded_witness:
  "wp (Machine_Reconcile ref_lib (logged (mem_client ref_lib)) (nn ''ns'' ''w-0''))
     (\<lambda>r s'. \<exists>ksm machine cluster ksm' body resp. \<not> IsPaused ref_lib cluster (ksm_Meta ksm) \<and>
        snd s' = machine_prefix (nn ''ns'' ''w-0'') ksm machine cluster @ body @ [(CPatchMachine ksm ksm', resp)])
     (ex_machine_store (Some 1), [])"
  by (rule wp_mono [OF wp_conj [THEN iffD2, OF conjI [OF Machine_Reconcile_guarded ex_machine_deletion]]]) fastforce

lemma patch_in_log:
  assumes "writes l = cs" "CPatchMachine a b \<in> set cs"
  obtains resp where "(CPatchMachine a b, resp) \<in> set l"
proof -
  have "CPatchMachine a b \<in> set (writes l)" using assms by simp
  then show thesis using that by auto
qed

theorem machine_finalizer_guards_guest_witness:
  "wp (Machine_Reconcile ref_lib (logged (mem_client ref_lib)) (nn ''ns'' ''w-0''))
     (\<lambda>r s'. \<exists>machine cluster resp resp'. snd s' =
        machine_prefix (nn ''ns'' ''w-0'') (ex_owned_machine (Some 1)) machine cluster @
        [(guest_lookup ref_lib (ex_owned_machine (Some 1)), RNotFound),
         (seed_deletion ref_lib (ex_owned_machine (Some 1)), resp'),
         (CPatchMachine (ex_owned_machine (Some 1)) (machine_RemoveFinalizer ref_lib (ex_owned_machine (Some 1))), resp)])
     (ex_machine_store (Some 1), [])"
proof (rule wp_mono [OF wp_conj [THEN iffD2, OF conjI [OF machine_finalizer_guards_guest [OF k8s_lib_ref] ex_machine_deletion]]],
    elim conjE exE, goal_cases)
  case (1 r s' l c)
  let ?old = "ex_owned_machine (Some 1)" and ?new = "machine_RemoveFinalizer ref_lib (ex_owned_machine (Some 1))"
  have "MachineFinalizer \<in> set (om_Finalizers (ksm_Meta ?old)) - set (om_Finalizers (ksm_Meta ?new))"
    by (simp add: ex_owned_machine_def machine_RemoveFinalizer_def ref_lib_def)
  moreover obtain resp where "(CPatchMachine ?old ?new, resp) \<in> set l"
    by (rule patch_in_log [of l "[c, CPatchMachine ?old ?new]"]) (use 1 in auto)
  ultimately have "\<exists>machine cluster resp'. resp' \<noteq> RError \<and> l = machine_prefix (nn ''ns'' ''w-0'') ?old machine cluster @
      [(guest_lookup ref_lib ?old, RNotFound), (seed_deletion ref_lib ?old, resp'), (CPatchMachine ?old ?new, resp)]"
    using 1 by blast
  then show ?case using 1 by auto
qed

section \<open>The reported state\<close>

definition machine_reports :: "KubeSwiftMachine \<Rightarrow> bool \<Rightarrow> bool" where
  "machine_reports ksm b =
     (init_Provisioned (kmt_Initialization (ksm_Status ksm)) = Some b \<and>
      (\<exists>c. condition_of (kmt_Conditions (ksm_Status ksm)) ReadyConditionType = Some c \<and>
           cond_Status c = (if b then ConditionTrue else ConditionFalse)))"

lemma machine_mark_reports:
  assumes "objects_lib L"
  shows "machine_reports (notReady L ksm a b) False" "machine_reports (machineWaiting L ksm res) False"
    "machine_reports (machineProvisioned L ksm machine res) True"
  by (simp_all add: machine_reports_def notReady_def machineWaiting_def machineProvisioned_def machine_setReady_def
      Let_def machine_SetConditions_def machine_GetConditions_def objects_lib.condition_set [OF assms])

lemma machineProvisioned_fields:
  "ksm_Spec (machineProvisioned L ksm machine res) = (ksm_Spec ksm)\<lparr>kms_ProviderID :=
     providerID_of (om_Namespace (ksm_Meta ksm)) (om_Name (ksm_Meta ksm))\<rparr>"
  "kmt_Addresses (ksm_Status (machineProvisioned L ksm machine res)) = rs_Addresses res"
  by (simp_all add: machineProvisioned_def Let_def)

text \<open>The three things a run can leave of a live machine.\<close>

definition machine_untouched :: "lib \<Rightarrow> KubeSwiftMachine \<Rightarrow> KubeSwiftMachine \<Rightarrow> bool" where
  "machine_untouched L ksm ksm' = (ksm' = machine_AddFinalizer L ksm)"

definition machine_not_ready :: "KubeSwiftMachine \<Rightarrow> KubeSwiftMachine \<Rightarrow> bool" where
  "machine_not_ready ksm ksm' = (machine_reports ksm' False \<and> ksm_Spec ksm' = ksm_Spec ksm \<and>
     kmt_Addresses (ksm_Status ksm') = kmt_Addresses (ksm_Status ksm))"

definition machine_provisioned :: "KubeSwiftMachine \<Rightarrow> KubeSwiftMachine \<Rightarrow> bool" where
  "machine_provisioned ksm ksm' = (machine_reports ksm' True \<and>
     ksm_Spec ksm' = (ksm_Spec ksm)\<lparr>kms_ProviderID :=
       ''kubeswift://'' @ om_Namespace (ksm_Meta ksm) @ ''/'' @ om_Name (ksm_Meta ksm)\<rparr> \<and>
     kmt_Addresses (ksm_Status ksm') \<noteq> [] \<and>
     list_all (\<lambda>a. addr_Address a \<noteq> '''') (kmt_Addresses (ksm_Status ksm')))"

lemma machine_body_state:
  assumes "objects_lib L" "guest_body L ksm machine cluster l ksm' out" "IsZero L (om_DeletionTimestamp (ksm_Meta ksm))"
  shows "machine_untouched L ksm ksm' \<and> snd out \<noteq> None \<or>
     machine_not_ready ksm ksm' \<and> (snd out \<noteq> None \<or> fst out = requeue_Result \<or> l = []) \<or>
     machine_provisioned ksm ksm'"
  using assms(2)
proof cases
  case mb_provisioned
  then have "machine_provisioned ksm ksm'"
    using reconcile_trace_ok
    by (auto simp: machine_provisioned_def machine_mark_reports [OF assms(1)] machineProvisioned_fields
        providerID_of_def ProviderIDScheme_def result_ok_def)
  then show ?thesis by simp
qed (use assms(3) in \<open>auto simp: machine_untouched_def machine_not_ready_def machine_mark_reports [OF assms(1)]\<close>)

text \<open>
  C5. What a live machine reports, for every behaviour of the API servers. Whenever the machine is
  patched and not being deleted it carries the finalizer, and it is in one of three states. Either
  one of its prerequisites could not be read, nothing else changed, and the error is returned. Or it
  is reported not ready, contract flag and condition agreeing, with its spec and addresses as they
  were, and it is looked at again after 15 seconds unless an error is returned or the backend was
  not reached. Or it is reported ready, with the provider ID that names its namespace and name
  and with at least one address, none of them empty.
\<close>

theorem machine_reported_state:
  assumes "k8s_lib L"
  shows "wp (Machine_Reconcile L (logged C) req) (\<lambda>r s'. \<exists>l. snd s' = snd s @ l \<and>
     (\<forall>ksm ksm' resp. (CPatchMachine ksm ksm', resp) \<in> set l \<and> IsZero L (om_DeletionTimestamp (ksm_Meta ksm)) \<longrightarrow>
        MachineFinalizer \<in> set (om_Finalizers (ksm_Meta ksm')) \<and>
        (machine_untouched L ksm ksm' \<and> snd r \<noteq> None \<or>
         machine_not_ready ksm ksm' \<and> (snd r \<noteq> None \<or> fst r = requeue_Result \<or>
           (\<exists>machine cluster. l = machine_prefix req ksm machine cluster @ [(CPatchMachine ksm ksm', resp)])) \<or>
         machine_provisioned ksm ksm'))) s"
proof (rule Machine_Reconcile_wp, rule exI, rule conjI [rotated], intro allI impI, elim conjE)
  fix r w l ksm ksm' resp
  assume t: "machine_trace L req l r" and p: "(CPatchMachine ksm ksm', resp) \<in> set l"
    and live: "IsZero L (om_DeletionTimestamp (ksm_Meta ksm))"
  have L: "objects_lib L" using assms by (simp add: k8s_lib_def)
  obtain cluster machine body out where b: "guest_body L ksm machine cluster body ksm' out"
    "l = machine_prefix req ksm machine cluster @ body @ [(CPatchMachine ksm ksm', resp)]"
    "fst r = fst out" "snd out \<noteq> None \<Longrightarrow> snd r = snd out"
    using machine_trace_patch [OF t p] by metis
  then show "MachineFinalizer \<in> set (om_Finalizers (ksm_Meta ksm')) \<and>
        (machine_untouched L ksm ksm' \<and> snd r \<noteq> None \<or>
         machine_not_ready ksm ksm' \<and> (snd r \<noteq> None \<or> fst r = requeue_Result \<or>
           (\<exists>machine cluster. l = machine_prefix req ksm machine cluster @ [(CPatchMachine ksm ksm', resp)])) \<or>
         machine_provisioned ksm ksm')"
    using machine_body_live [OF L b(1) live] machine_body_state [OF L b(1) live] by auto blast+
qed simp

text \<open>The same world before the cluster's infrastructure is provisioned.\<close>

definition ex_waiting_store :: store where
  "ex_waiting_store = (ex_machine_store None)\<lparr>st_capi_clusters := (\<lambda>k. if k = (''ns'', ''demo'')
     then Some (ex_capi_cluster\<lparr>cl_InfrastructureProvisioned := None\<rparr>) else None)\<rparr>"

definition ex_waiting_machine :: KubeSwiftMachine where
  "ex_waiting_machine = notReady ref_lib (machine_AddFinalizer ref_lib (ex_owned_machine None))
     WaitingForClusterInfrastructureReason ''Waiting for the cluster infrastructure to be ready''"

lemma ex_machine_waits:
  "wp (Machine_Reconcile ref_lib (logged (mem_client ref_lib)) (nn ''ns'' ''w-0''))
     (\<lambda>r s'. writes (snd s') = [CPatchMachine (ex_owned_machine None) ex_waiting_machine] \<and> snd r = None)
     (ex_waiting_store, [])"
  by (simp add: Machine_Reconcile_def machine_reconcileNormal_def machine_deferPatch_def backendFor_def
      mem_run ex_waiting_store_def ex_waiting_machine_def ex_machine_store_def ex_owned_machine_def ex_defs
      ex_node_store_def SwiftGuestBackendType_def ref_lib_def)

theorem machine_reported_state_witness:
  "wp (Machine_Reconcile ref_lib (logged (mem_client ref_lib)) (nn ''ns'' ''w-0''))
     (\<lambda>r s'. machine_not_ready (ex_owned_machine None) ex_waiting_machine \<or>
        machine_provisioned (ex_owned_machine None) ex_waiting_machine) (ex_waiting_store, [])"
proof (rule wp_mono [OF wp_conj [THEN iffD2, OF conjI [OF machine_reported_state [OF k8s_lib_ref] ex_machine_waits]]],
    elim conjE exE, goal_cases)
  case (1 r s' l)
  obtain resp where "(CPatchMachine (ex_owned_machine None) ex_waiting_machine, resp) \<in> set l"
    by (rule patch_in_log [of l]) (use 1 in auto)
  moreover have "IsZero ref_lib (om_DeletionTimestamp (ksm_Meta (ex_owned_machine None)))"
    by (simp add: ref_lib_def ex_owned_machine_def)
  ultimately show ?case using 1 by blast
qed

section \<open>What has to come first\<close>

lemma delete_trace_only_deletes: "delete_trace L req l r \<Longrightarrow> \<forall>c \<in> set (writes l). \<exists>u. c = CDeleteObject u"
  by (erule delete_trace.cases) (auto simp: guest_get_def)

lemma machine_body_deleting:
  assumes "guest_body L ksm machine cluster l ksm' out" "\<not> IsZero L (om_DeletionTimestamp (ksm_Meta ksm))"
  shows "\<exists>r. delete_trace L (delete_request ksm machine cluster) l r"
  using assms(1) by cases (use assms(2) in auto)

lemma machine_body_prerequisites:
  assumes "guest_body L ksm machine cluster l ksm' out" "IsZero L (om_DeletionTimestamp (ksm_Meta ksm))"
    "c \<in> set l" "object_call (fst c)"
  shows "\<exists>n post. cl_InfrastructureProvisioned cluster = Some True \<and> ma_DataSecretName machine = Some n \<and>
     l = (CGetSecret (bootstrap_key machine n), ROk) # post"
  using assms(1)
proof cases
  case (mb_unready n l')
  then show ?thesis using assms(3,4) by (auto simp: list_all_iff cluster_read_def object_call_def)
qed (use assms in auto)

text \<open>
  C13. Nothing is created too early, and nothing is created on the way out. If a run on a live machine
  makes any call on the machine's KubeSwift objects, then the cluster's infrastructure was reported
  provisioned, the Machine named its bootstrap Secret, and that Secret was read successfully before
  any such call. A run on a machine that is being deleted writes nothing but deletions and the patch.
\<close>

theorem machine_prerequisites:
  "wp (Machine_Reconcile L (logged C) req) (\<lambda>r s'. \<exists>l. snd s' = snd s @ l \<and>
     (\<forall>ksm ksm' resp. (CPatchMachine ksm ksm', resp) \<in> set l \<longrightarrow>
        (if IsZero L (om_DeletionTimestamp (ksm_Meta ksm))
         then (\<exists>c \<in> set l. object_call (fst c)) \<longrightarrow>
           (\<exists>machine cluster n post. cl_InfrastructureProvisioned cluster = Some True \<and> ma_DataSecretName machine = Some n \<and>
              l = machine_prefix req ksm machine cluster @ (CGetSecret (bootstrap_key machine n), ROk) # post)
         else \<forall>c \<in> set (writes l). (\<exists>u. c = CDeleteObject u) \<or> c = CPatchMachine ksm ksm'))) s"
proof (rule Machine_Reconcile_wp, rule exI, rule conjI [rotated], intro allI impI)
  fix r w l ksm ksm' resp
  assume t: "machine_trace L req l r" and p: "(CPatchMachine ksm ksm', resp) \<in> set l"
  obtain cluster machine body out where b: "guest_body L ksm machine cluster body ksm' out"
    "l = machine_prefix req ksm machine cluster @ body @ [(CPatchMachine ksm ksm', resp)]"
    using machine_trace_patch [OF t p] by metis
  show "if IsZero L (om_DeletionTimestamp (ksm_Meta ksm))
         then (\<exists>c \<in> set l. object_call (fst c)) \<longrightarrow>
           (\<exists>machine cluster n post. cl_InfrastructureProvisioned cluster = Some True \<and> ma_DataSecretName machine = Some n \<and>
              l = machine_prefix req ksm machine cluster @ (CGetSecret (bootstrap_key machine n), ROk) # post)
         else \<forall>c \<in> set (writes l). (\<exists>u. c = CDeleteObject u) \<or> c = CPatchMachine ksm ksm'"
  proof (cases "IsZero L (om_DeletionTimestamp (ksm_Meta ksm))")
    case True
    have "c \<in> set body" if "c \<in> set l" "object_call (fst c)" for c
      using that by (auto simp: b(2) machine_prefix_def object_call_def)
    then have pre: "\<exists>n post. cl_InfrastructureProvisioned cluster = Some True \<and> ma_DataSecretName machine = Some n \<and>
        body = (CGetSecret (bootstrap_key machine n), ROk) # post" if "\<exists>c \<in> set l. object_call (fst c)"
      using that machine_body_prerequisites [OF b(1) True] by blast
    have "\<exists>machine cluster n post. cl_InfrastructureProvisioned cluster = Some True \<and> ma_DataSecretName machine = Some n \<and>
        l = machine_prefix req ksm machine cluster @ (CGetSecret (bootstrap_key machine n), ROk) # post"
      if "\<exists>c \<in> set l. object_call (fst c)"
      using pre [OF that] unfolding b(2) by (metis append_Cons)
    then show ?thesis using True by simp
  next
    case False
    then have "\<forall>c \<in> set (writes body). \<exists>u. c = CDeleteObject u"
      using machine_body_deleting [OF b(1)] delete_trace_only_deletes by blast
    then show ?thesis
      using False by (auto simp: b(2) machine_prefix_def)
  qed
qed simp

theorem machine_prerequisites_witness:
  "wp (Machine_Reconcile ref_lib (logged (mem_client ref_lib)) (nn ''ns'' ''w-0''))
     (\<lambda>r s'. \<exists>c ksm ksm'. writes (snd s') = [c, CPatchMachine ksm ksm'] \<and>
        ((\<exists>u. c = CDeleteObject u) \<or> c = CPatchMachine ksm ksm')) (ex_machine_store (Some 1), [])"
proof (rule wp_mono [OF wp_conj [THEN iffD2, OF conjI [OF machine_prerequisites ex_machine_deletion]]], elim conjE exE)
  fix r s' l c
  let ?old = "ex_owned_machine (Some 1)" and ?new = "machine_RemoveFinalizer ref_lib (ex_owned_machine (Some 1))"
  assume s': "snd s' = snd (ex_machine_store (Some 1), []) @ l"
    and order: "\<forall>ksm ksm' resp. (CPatchMachine ksm ksm', resp) \<in> set l \<longrightarrow>
        (if IsZero ref_lib (om_DeletionTimestamp (ksm_Meta ksm))
         then (\<exists>c \<in> set l. object_call (fst c)) \<longrightarrow>
           (\<exists>machine cluster n post. cl_InfrastructureProvisioned cluster = Some True \<and> ma_DataSecretName machine = Some n \<and>
              l = machine_prefix (nn ''ns'' ''w-0'') ksm machine cluster @ (CGetSecret (bootstrap_key machine n), ROk) # post)
         else \<forall>c \<in> set (writes l). (\<exists>u. c = CDeleteObject u) \<or> c = CPatchMachine ksm ksm')"
    and w: "writes (snd s') = [c, CPatchMachine ?old ?new]"
  have l: "writes l = [c, CPatchMachine ?old ?new]" using s' w by simp
  then obtain resp where "(CPatchMachine ?old ?new, resp) \<in> set l"
    by (rule patch_in_log [where a = ?old and b = ?new]) auto
  moreover have "\<not> IsZero ref_lib (om_DeletionTimestamp (ksm_Meta ?old))"
    by (simp add: ref_lib_def ex_owned_machine_def)
  ultimately have "(\<exists>u. c = CDeleteObject u) \<or> c = CPatchMachine ?old ?new"
    using order l by (metis list.set_intros(1))
  then show "\<exists>c ksm ksm'. writes (snd s') = [c, CPatchMachine ksm ksm'] \<and>
        ((\<exists>u. c = CDeleteObject u) \<or> c = CPatchMachine ksm ksm')"
    using w by blast
qed

section \<open>Names\<close>

text \<open>
  C28. Provider IDs identify machines: for namespaces without a slash, which is every valid one, two
  machines have the same provider ID only if they have the same namespace and name.
\<close>

theorem providerID_identifies:
  assumes "CHR ''/'' \<notin> set ns" "CHR ''/'' \<notin> set ns'"
  shows "providerID_of ns name = providerID_of ns' name' \<longleftrightarrow> ns = ns' \<and> name = name'"
  using append_sep_inject [OF assms, of name name'] by (simp add: providerID_of_def)

theorem providerID_identifies_witness:
  "providerID_of ''ns'' ''w-0'' = providerID_of ''n'' ''s/w-0'' \<longleftrightarrow> ''ns'' = ''n'' \<and> ''w-0'' = ''s/w-0''"
  by (rule providerID_identifies) simp_all

text \<open>
  C25. The watch on guests leads back to the machine: the guest that is rendered for a machine maps to
  exactly that machine's namespace and name, and a guest without the provider's label maps to
  nothing.
\<close>

theorem watch_maps_back:
  assumes "k8s_lib L" "om_Name (ksm_Meta ksm) \<noteq> ''''"
  shows "(\<exists>guest. renderSwiftGuest L (machine_request ksm machine cluster secretName exposure) cfg = Some guest \<and>
       swiftGuestToKubeSwiftMachine L guest = [nn (om_Namespace (ksm_Meta ksm)) (om_Name (ksm_Meta ksm))]) \<and>
     (map_entry (u_GetLabels L other) MachineLabelKey = None \<longrightarrow> swiftGuestToKubeSwiftMachine L other = [])"
proof -
  let ?req = "machine_request ksm machine cluster secretName exposure"
  obtain guest where g: "renderSwiftGuest L ?req cfg = Some guest"
    "identified L guest swiftGuestGVK (rq_GuestNamespace ?req) (rq_Name ?req) (guest_labels ?req)"
    using k8s_lib.renderSwiftGuest_ok [OF assms(1)] by metis
  have "swiftGuestToKubeSwiftMachine L guest = [nn (om_Namespace (ksm_Meta ksm)) (om_Name (ksm_Meta ksm))]"
    using g(2) assms(2) guest_labels_machine [of ?req]
    by (simp add: swiftGuestToKubeSwiftMachine_def identified_def map_read_def Let_def machine_request_def)
  then show ?thesis
    using g(1) by (auto simp: swiftGuestToKubeSwiftMachine_def map_read_def)
qed

theorem watch_maps_back_witness:
  "(\<exists>guest. renderSwiftGuest ref_lib (machine_request (ex_machine ''w-0'' (Some ex_cfg)) (ex_capi_machine ''w-0'')
        ex_capi_cluster ''boot'' None) ex_cfg = Some guest \<and>
       swiftGuestToKubeSwiftMachine ref_lib guest = [nn ''ns'' ''w-0'']) \<and>
     swiftGuestToKubeSwiftMachine ref_lib ex_guest = []"
  using watch_maps_back [OF k8s_lib_ref, of "ex_machine ''w-0'' (Some ex_cfg)" "ex_capi_machine ''w-0''"
      ex_capi_cluster "''boot''" None ex_cfg ex_guest]
  by (simp add: ex_defs ex_guest_def ref_lib_def ref_GetLabels_def nested_field.simps)

section \<open>Where the guests live\<close>

definition in_namespace :: "lib \<Rightarrow> string \<Rightarrow> api_call \<Rightarrow> bool" where
  "in_namespace L ns c = (case c of CGetObject u k \<Rightarrow> nn_Namespace k = ns
     | CCreateObject u \<Rightarrow> u_GetNamespace L u = ns | _ \<Rightarrow> True)"

context k8s_lib begin

lemma seed_call_namespace: "seed_call L req c \<Longrightarrow> in_namespace L (rq_GuestNamespace req) c"
  by (auto simp: seed_call_def seed_get_def in_namespace_def newSeedProfile_def Let_def setKubeSwiftLabels_frame meta_simps)

lemma guest_call_namespace: "guest_call L req cfg c \<Longrightarrow> in_namespace L (rq_GuestNamespace req) c"
  by (rule renderSwiftGuest_ok [of req cfg])
    (auto simp: guest_call_def guest_get_def in_namespace_def identified_def)

lemma reconcile_trace_namespace:
  "reconcile_trace L req l r \<Longrightarrow> list_all (\<lambda>c. in_namespace L (rq_GuestNamespace req) (fst c)) l"
  using reconcile_trace_calls [of L req l r] seed_call_namespace guest_call_namespace
  by (fastforce simp: list_all_iff)

lemma delete_trace_namespace:
  "delete_trace L req l r \<Longrightarrow> list_all (\<lambda>c. in_namespace L (rq_GuestNamespace req) (fst c)) l"
  by (erule delete_trace.cases) (auto simp: guest_get_def in_namespace_def)

lemma machine_body_namespace:
  assumes "guest_body L ksm machine cluster l ksm' out"
  shows "list_all (\<lambda>c. in_namespace L (om_Namespace (ksm_Meta ksm)) (fst c)) l"
proof -
  have other: "list_all (\<lambda>c. in_namespace L ns (fst c)) l"
    if "list_all (\<lambda>c. cluster_read (fst c)) l \<or> list_all (\<lambda>c. node_call cluster n (fst c)) l" for ns l n
    using that by (auto simp: list_all_iff cluster_read_def node_call_def in_namespace_def)
  have requests: "rq_GuestNamespace (machine_request (machine_AddFinalizer L ksm) machine cluster s x) = om_Namespace (ksm_Meta ksm)"
    "rq_GuestNamespace (delete_request ksm machine cluster) = om_Namespace (ksm_Meta ksm)" for s x
    by (simp_all add: machine_request_def delete_request_def)
  have secret: "in_namespace L ns (CGetSecret k)" for ns k by (simp add: in_namespace_def)
  show ?thesis
    using assms
    by cases (auto simp: requests secret dest!: reconcile_trace_namespace delete_trace_namespace intro: other)
qed

end

text \<open>
  C29. Guests and seed profiles are looked up and created in the namespace of the machine itself,
  whatever namespace the cluster's \<^verbatim>\<open>spec.guestNamespace\<close> names.
\<close>

theorem guests_in_machine_namespace:
  assumes "k8s_lib L"
  shows "wp (Machine_Reconcile L (logged C) req) (\<lambda>r s'. \<exists>l. snd s' = snd s @ l \<and>
     (\<forall>ksm ksm' resp. (CPatchMachine ksm ksm', resp) \<in> set l \<longrightarrow>
        list_all (\<lambda>c. in_namespace L (om_Namespace (ksm_Meta ksm)) (fst c)) l)) s"
proof (rule Machine_Reconcile_wp, rule exI, rule conjI [rotated], intro allI impI)
  fix r w l ksm ksm' resp
  assume t: "machine_trace L req l r" and p: "(CPatchMachine ksm ksm', resp) \<in> set l"
  obtain cluster machine body out where b: "guest_body L ksm machine cluster body ksm' out"
    "l = machine_prefix req ksm machine cluster @ body @ [(CPatchMachine ksm ksm', resp)]"
    using machine_trace_patch [OF t p] by metis
  show "list_all (\<lambda>c. in_namespace L (om_Namespace (ksm_Meta ksm)) (fst c)) l"
    using k8s_lib.machine_body_namespace [OF assms b(1)] by (simp add: b(2) machine_prefix_def in_namespace_def)
qed simp

theorem guests_in_machine_namespace_witness:
  "wp (Machine_Reconcile ref_lib (logged (mem_client ref_lib)) (nn ''ns'' ''w-0'')) (\<lambda>r s'. \<exists>l.
     snd s' = snd (ex_machine_store None, []) @ l \<and>
     (\<forall>ksm ksm' resp. (CPatchMachine ksm ksm', resp) \<in> set l \<longrightarrow>
        list_all (\<lambda>c. in_namespace ref_lib (om_Namespace (ksm_Meta ksm)) (fst c)) l)) (ex_machine_store None, [])"
  by (rule guests_in_machine_namespace [OF k8s_lib_ref])

end
