(* ===== verification/Interference.thy ===== *)
theory Interference
  imports Preservation Machine_Props "HOL-Library.Sublist"
begin

text \<open>
  A run of the machine reconciler among others that act on the same API server. Preservation (theory
  \<^verbatim>\<open>Preservation\<close>), applied to the recording client, gives for every
  run the path of states that belongs to its log (locale \<open>effect_client\<close>), where what a call does to the
  state, and what others do before it, is a relation.
\<close>

section \<open>The states along a log\<close>

type_synonym 'v effect = "api_call \<Rightarrow> response \<Rightarrow> 'v \<Rightarrow> 'v \<Rightarrow> bool"

primrec path :: "'v effect \<Rightarrow> call_log \<Rightarrow> 'v \<Rightarrow> 'v \<Rightarrow> bool" where
  "path eff [] v v' = (v' = v)"
| "path eff (c # l) v v' = (\<exists>v1. eff (fst c) (snd c) v v1 \<and> path eff l v1 v')"

lemma path_append: "path eff (l @ l') v v' \<longleftrightarrow> (\<exists>v1. path eff l v v1 \<and> path eff l' v1 v')"
  by (induction l arbitrary: v) auto

lemma path_snoc: "path eff (l @ [(c, r)]) v v' \<longleftrightarrow> (\<exists>v1. path eff l v v1 \<and> eff c r v1 v')"
  by (simp add: path_append)

text \<open>A property that every call of a log preserves holds at its end.\<close>

lemma path_induct:
  assumes "path eff l v v'" "P v"
    and "\<And>c r v v'. (c, r) \<in> set l \<Longrightarrow> eff c r v v' \<Longrightarrow> P v \<Longrightarrow> P v'"
  shows "P v'"
  using assms by (induction l arbitrary: v) (auto, metis)

text \<open>The log since \<open>l0\<close> leads from the world \<open>w0\<close> to the present one.\<close>

definition on_path :: "'v effect \<Rightarrow> ('w \<Rightarrow> 'v) \<Rightarrow> 'w \<Rightarrow> call_log \<Rightarrow> 'w \<times> call_log \<Rightarrow> bool" where
  "on_path eff view w0 l0 s = (\<exists>l. snd s = l0 @ l \<and> path eff l (view w0) (view (fst s)))"

text \<open>A client each of whose calls acts on the part \<open>view\<close> of the world as \<open>eff\<close> says.\<close>

locale effect_client =
  fixes C :: "'w client" and view :: "'w \<Rightarrow> 'v" and eff :: "'v effect"
  assumes effects:
    "wp (c_GetMachine C k) (\<lambda>a w'. eff (CGetMachine k) (read_response RInfraMachine a) (view w) (view w')) w"
    "wp (c_GetCluster C k) (\<lambda>a w'. eff (CGetCluster k) (read_response RInfraCluster a) (view w) (view w')) w"
    "wp (c_GetSecret C k) (\<lambda>a w'. eff (CGetSecret k) (response_of a) (view w) (view w')) w"
    "wp (c_GetObject C u k) (\<lambda>a w'. eff (CGetObject u k) (response_of a) (view w) (view w')) w"
    "wp (c_CreateObject C u) (\<lambda>a w'. eff (CCreateObject u) (response_of a) (view w) (view w')) w"
    "wp (c_UpdateObject C u) (\<lambda>a w'. eff (CUpdateObject u) (response_of a) (view w) (view w')) w"
    "wp (c_DeleteObject C u) (\<lambda>a w'. eff (CDeleteObject u) (response_of a) (view w) (view w')) w"
    "wp (c_GetOwnerMachine C m) (\<lambda>a w'. eff (CGetOwnerMachine m) (owner_response RMachine a) (view w) (view w')) w"
    "wp (c_GetClusterFromMetadata C m)
       (\<lambda>a w'. eff (CGetClusterFromMetadata m) (read_response RCluster a) (view w) (view w')) w"
    "wp (c_NewMachineHelper C x) (\<lambda>a w'. eff (CNewMachineHelper x) (response_of a) (view w) (view w')) w"
    "wp (c_PatchMachine C x y) (\<lambda>a w'. eff (CPatchMachine x y) (response_of a) (view w) (view w')) w"
    "wp (c_GetNode C cs n) (\<lambda>a w'. eff (CGetNode cs n) (response_of a) (view w) (view w')) w"
    "wp (c_PatchNode C cs n p) (\<lambda>a w'. eff (CPatchNode cs n p) (response_of a) (view w) (view w')) w"
begin

lemma record_on_path:
  assumes "\<And>w. wp m (\<lambda>a w'. eff c (f a) (view w) (view w')) w"
  shows "keeps (on_path eff view w0 l0) (record_with f c m)"
  unfolding keeps_def
proof (intro allI impI)
  fix s
  assume "on_path eff view w0 l0 s"
  then obtain l where l: "snd s = l0 @ l" "path eff l (view w0) (view (fst s))" by (auto simp: on_path_def)
  obtain a w' where r: "run_state m (fst s) = (a, w')" by fastforce
  have "eff c (f a) (view (fst s)) (view w')" using assms [of "fst s"] by (simp add: wp_def r)
  with l have "on_path eff view w0 l0 (w', snd s @ [(c, f a)])" by (auto simp: on_path_def path_snoc)
  then show "wp (record_with f c m) (\<lambda>_. on_path eff view w0 l0) s"
    by (cases s) (use r in \<open>simp add: wp_def record_with_def\<close>)
qed

end

sublocale effect_client \<subseteq> preserving_client "logged C" "on_path eff view w0 l0" for w0 l0
  by unfold_locales (simp_all add: logged_def record_on_path effects)

context effect_client
begin

text \<open>Every run follows a path of states that its log describes, and its log is one of the traces.\<close>

lemma Machine_Reconcile_path:
  "wp (Machine_Reconcile L (logged C) req) (\<lambda>r s'. \<exists>l. snd s' = snd s @ l \<and> machine_trace L req l r \<and>
     path eff l (view (fst s)) (view (fst s'))) s"
proof -
  have "on_path eff view (fst s) (snd s) s" by (simp add: on_path_def)
  then have "wp (Machine_Reconcile L (logged C) req) (\<lambda>_. on_path eff view (fst s) (snd s)) s"
    using Machine_Reconcile_keeps unfolding keeps_def by blast
  then show ?thesis
    by (rule wp_mono [OF wp_conj [THEN iffD2, OF conjI [OF Machine_Reconcile_trace]]]) (auto simp: on_path_def)
qed

lemma Machine_Reconcile_runs:
  assumes "run_state (Machine_Reconcile L (logged C) req) (w, []) = (r, (w', l))"
  shows "machine_trace L req l r" "path eff l (view w) (view w')"
  using Machine_Reconcile_path [of L req "(w, [])"] assms by (auto simp: wp_def)

end

end
