(* ===== verification/Machine_Converge.thy ===== *)
theory Machine_Converge
  imports Machine_Props Preservation
begin

text \<open>
  What a run of the machine reconciler achieves against servers that answer: the contract
  \<open>machine_server\<close> adds the reads of a run and the patch of the machine to \<open>object_server\<close>. Nobody else
  acts during the run; what happens if others do is the subject of \<^verbatim>\<open>Lifecycle\<close>.
\<close>

section \<open>The contract\<close>

locale machine_server = object_server L C objs for L :: lib and C :: "'w client"
    and objs :: "'w \<Rightarrow> object_key \<Rightarrow> Unstructured option" +
  fixes mach :: "'w \<Rightarrow> NamespacedName \<Rightarrow> KubeSwiftMachine option"
  assumes get_machine: "mach w k = Some ksm \<Longrightarrow> wp (c_GetMachine C k) (\<lambda>r w'. r = Inr ksm \<and> w' = w) w"
    and new_helper: "wp (c_NewMachineHelper C ksm) (\<lambda>r w'. r = Inr () \<and> w' = w) w"
    and patch_machine: "mach w (nn (om_Namespace (ksm_Meta b)) (om_Name (ksm_Meta b))) = Some ksm \<Longrightarrow>
      IsZero L (om_DeletionTimestamp (ksm_Meta ksm)) \<Longrightarrow>
      wp (c_PatchMachine C a b) (\<lambda>r w'. r = Inr () \<and> objs w' = objs w \<and>
        (\<exists>ksm'. mach w' (nn (om_Namespace (ksm_Meta b)) (om_Name (ksm_Meta b))) = Some ksm' \<and>
          ksm_Spec ksm' = ksm_Spec b \<and> ksm_Status ksm' = ksm_Status b)) w"
    and objects_apart: "wp (c_CreateObject C u) (\<lambda>r w'. mach w' = mach w) w"
      "wp (c_UpdateObject C u) (\<lambda>r w'. mach w' = mach w) w"
    and workload_apart: "wp (c_GetSecret C sk) (\<lambda>r w'. w' = w) w"
      "wp (c_GetNode C cs n) (\<lambda>r w'. objs w' = objs w \<and> mach w' = mach w) w"
      "wp (c_PatchNode C cs n p) (\<lambda>r w'. objs w' = objs w \<and> mach w' = mach w) w"

text \<open>The backend leaves the machine alone, and the Node patch leaves everything of this cluster alone.\<close>

sublocale machine_server \<subseteq> backend_apart: preserving_objects C "\<lambda>w'. mach w' = mach w0" for w0
  by unfold_locales
    (auto simp: keeps_def intro: wp_mono [OF get_object] wp_mono [OF objects_apart(1)] wp_mono [OF objects_apart(2)])

sublocale machine_server \<subseteq> workload: preserving_workload C "\<lambda>w'. objs w' = objs w0 \<and> mach w' = mach w0" for w0
  by unfold_locales
    (auto simp: keeps_def intro: wp_mono [OF workload_apart(1)] wp_mono [OF workload_apart(2)] wp_mono [OF workload_apart(3)])

section \<open>One run\<close>

text \<open>What a run reads besides the machine: its owners, the name of its Secret, its exposure.\<close>

record inputs =
  in_machine :: CAPIMachine
  in_cluster :: CAPICluster
  in_secret :: string
  in_exposure :: "ControlPlaneExposure option"

definition run_inputs :: "lib \<Rightarrow> 'w client \<Rightarrow> 'w \<Rightarrow> KubeSwiftMachine \<Rightarrow> inputs \<Rightarrow> bool" where
  "run_inputs L C w ksm i =
     (wp (c_GetOwnerMachine C (ksm_Meta ksm)) (\<lambda>r w'. r = Inr (Some (in_machine i)) \<and> w' = w) w \<and>
      wp (c_GetClusterFromMetadata C (ksm_Meta ksm)) (\<lambda>r w'. r = Inr (in_cluster i) \<and> w' = w) w \<and>
      wp (checkBootstrapData L C (in_machine i) (in_secret i)) (\<lambda>r w'. r = None \<and> w' = w) w \<and>
      wp (controlPlaneExposure L C (in_machine i) (in_cluster i)) (\<lambda>r w'. r = Inr (in_exposure i) \<and> w' = w) w)"

text \<open>The conditions under which the machine is to be brought up.\<close>

definition startable :: "lib \<Rightarrow> KubeSwiftMachine \<Rightarrow> inputs \<Rightarrow> bool" where
  "startable L ksm i = (IsZero L (om_DeletionTimestamp (ksm_Meta ksm)) \<and> \<not> IsPaused L (in_cluster i) (ksm_Meta ksm) \<and>
     mb_Type (kms_Backend (ksm_Spec ksm)) = SwiftGuestBackendType \<and>
     cl_InfrastructureProvisioned (in_cluster i) = Some True \<and> ma_DataSecretName (in_machine i) = Some (in_secret i))"

definition run_request :: "lib \<Rightarrow> KubeSwiftMachine \<Rightarrow> inputs \<Rightarrow> Request" where
  "run_request L ksm i = machine_request (machine_AddFinalizer L ksm) (in_machine i) (in_cluster i) (in_secret i) (in_exposure i)"

text \<open>The machine reports what the guest shows, and unless that is final the run asks for another.\<close>

definition progressed :: "lib \<Rightarrow> Request \<Rightarrow> Unstructured \<Rightarrow> outcome \<Rightarrow> KubeSwiftMachine \<Rightarrow> bool" where
  "progressed L req g r m = (case guest_result L req g of
       Inl e \<Rightarrow> snd r = Some e \<and> machine_reports m False
     | Inr res \<Rightarrow> if rs_Provisioned res
         then machine_reports m True \<and> kms_ProviderID (ksm_Spec m) = rq_ProviderID req \<and>
           kmt_Addresses (ksm_Status m) = rs_Addresses res
         else machine_reports m False \<and> r = (requeue_Result, None))"

lemma progressed_cong: "ksm_Spec m = ksm_Spec m' \<Longrightarrow> ksm_Status m = ksm_Status m' \<Longrightarrow> progressed L req g r m = progressed L req g r m'"
  unfolding progressed_def machine_reports_def by (simp split: sum.split)

lemma progressed_failed: "objects_lib L \<Longrightarrow> guest_result L req g = Inl e \<Longrightarrow> progressed L req g (done_Result, Some e) (notReady L ksm a b)"
  by (simp add: progressed_def machine_mark_reports)

lemma progressed_waiting:
  "objects_lib L \<Longrightarrow> guest_result L req g = Inr res \<Longrightarrow> \<not> rs_Provisioned res \<Longrightarrow>
     progressed L req g (requeue_Result, None) (machineWaiting L ksm res)"
  by (simp add: progressed_def machine_mark_reports)

lemma progressed_ready:
  "objects_lib L \<Longrightarrow> guest_result L req g = Inr res \<Longrightarrow> rs_Provisioned res \<Longrightarrow>
     rq_ProviderID req = providerID_of (om_Namespace (ksm_Meta ksm)) (om_Name (ksm_Meta ksm)) \<Longrightarrow>
     progressed L req g out (machineProvisioned L ksm machine res)"
  by (simp add: progressed_def machine_mark_reports machineProvisioned_fields)

text \<open>The guest after a run, given what was there before.\<close>

definition guest_stands :: "lib \<Rightarrow> Request \<Rightarrow> SwiftGuestBackend \<Rightarrow> Unstructured option \<Rightarrow> Unstructured \<Rightarrow> bool" where
  "guest_stands L req cfg before g = (case before of None \<Rightarrow> fresh_guest L req cfg g | Some x \<Rightarrow> g = x)"

context machine_server
begin

lemma backend_run:
  assumes "acceptable req cfg" "\<And>x. objs w (seed_key req) = Some x \<Longrightarrow> settable (u_Object x) ''spec''"
  shows "wp (SwiftGuest_Reconcile L C req) (\<lambda>r w'. mach w' = mach w \<and> (\<exists>g. objs w' (guest_key req) = Some g \<and>
      guest_stands L req cfg (objs w (guest_key req)) g \<and> r = guest_result L req g)) w"
proof -
  have "wp (SwiftGuest_Reconcile L C req) (\<lambda>r w'. mach w' = mach w) w"
    using backend_apart.reconcile_keeps [of w] by (simp add: keeps_def)
  note both = wp_conj [THEN iffD2, OF conjI [OF this Reconcile_effect [OF assms]]]
  show ?thesis
    by (rule wp_mono [OF both]) (auto simp: guest_stands_def split: option.split if_splits)
qed

lemma node_run: "wp (ensureNodeProviderID L C cluster n i) (\<lambda>r w'. objs w' = objs w \<and> mach w' = mach w) w"
  using workload.node_keeps [of w] by (simp add: keeps_def)

lemma branch_progress:
  assumes inputs: "run_inputs L C w ksm i" and start: "startable L ksm i" and ok: "acceptable (run_request L ksm i) cfg"
    and seed: "\<And>x. objs w (seed_key (run_request L ksm i)) = Some x \<Longrightarrow> settable (u_Object x) ''spec''"
  shows "wp (machine_branch L C (NewSwiftGuestBackend L C) ksm (in_machine i) (in_cluster i)) (\<lambda>r w'. mach w' = mach w \<and>
     nn (om_Namespace (ksm_Meta (fst r))) (om_Name (ksm_Meta (fst r))) = nn (om_Namespace (ksm_Meta ksm)) (om_Name (ksm_Meta ksm)) \<and>
     (\<exists>g. objs w' (guest_key (run_request L ksm i)) = Some g \<and>
       guest_stands L (run_request L ksm i) cfg (objs w (guest_key (run_request L ksm i))) g \<and>
       progressed L (run_request L ksm i) g (snd r) (fst r))) w"
    (is "wp _ ?Q w")
proof -
  let ?req = "run_request L ksm i" and ?ksm = "machine_AddFinalizer L ksm"
  have lib: "objects_lib L" by unfold_locales
  have id: "rq_ProviderID ?req = providerID_of (om_Namespace (ksm_Meta ?ksm)) (om_Name (ksm_Meta ?ksm))"
    by (simp add: run_request_def machine_request_def)
  have known: "wp (checkBootstrapData L C (in_machine i) (in_secret i)) (\<lambda>r w'. r = None \<and> w' = w) w"
    "wp (controlPlaneExposure L C (in_machine i) (in_cluster i)) (\<lambda>r w'. r = Inr (in_exposure i) \<and> w' = w) w"
    using inputs by (simp_all add: run_inputs_def)
  have tail: "wp (case r of
       Inl e \<Rightarrow> State_Monad.return (notReady L ?ksm VMFailedReason (Error e), done_Result, Some e)
     | Inr result \<Rightarrow> if \<not> rs_Provisioned result then State_Monad.return (machineWaiting L ?ksm result, requeue_Result, None)
         else do { p \<leftarrow> ensureNodeProviderID L C (in_cluster i) (om_Name (ksm_Meta ?ksm))
                     (providerID_of (om_Namespace (ksm_Meta ?ksm)) (om_Name (ksm_Meta ?ksm)));
                   State_Monad.return (machineProvisioned L ?ksm (in_machine i) result,
                     (case p of Inl e \<Rightarrow> (done_Result, Some e)
                      | Inr patched \<Rightarrow> if \<not> patched then (requeue_Result, None) else (done_Result, None))) }) ?Q w1"
    if "mach w1 = mach w" "objs w1 (guest_key ?req) = Some g" "guest_stands L ?req cfg (objs w (guest_key ?req)) g"
      "guest_result L ?req g = r" for r w1 g
  proof (cases r)
    case (Inl e)
    with that show ?thesis by (simp add: wp_simps progressed_failed [OF lib])
  next
    case (Inr result)
    show ?thesis
    proof (cases "rs_Provisioned result")
      case False
      with Inr that show ?thesis by (simp add: wp_simps progressed_waiting [OF lib])
    next
      case True
      with Inr that show ?thesis
        by (auto simp: wp_simps progressed_ready [OF lib _ _ id] intro!: wp_mono [OF node_run])
    qed
  qed
  show ?thesis
    unfolding machine_branch_def machine_reconcileNormal_def using start
    by (auto simp: startable_def Let_def wp_simps NewSwiftGuestBackend_def run_request_def [symmetric] simp del: split_paired_All
        intro!: wp_mono [OF known(1)] wp_mono [OF known(2)] wp_mono [OF backend_run [OF ok seed]] tail)
qed

lemma patch_progress:
  assumes "mach w k = Some ksm" "IsZero L (om_DeletionTimestamp (ksm_Meta ksm))"
    "mach w1 = mach w" "nn (om_Namespace (ksm_Meta ksm')) (om_Name (ksm_Meta ksm')) = k"
    "objs w1 (guest_key req) = Some g" "guest_stands L req cfg before g" "progressed L req g (res, rerr) ksm'"
  shows "wp (c_PatchMachine C ksm ksm') (\<lambda>p w'. \<exists>g m. objs w' (guest_key req) = Some g \<and> guest_stands L req cfg before g \<and>
     mach w' k = Some m \<and> progressed L req g (res, case rerr of Some e \<Rightarrow> Some e | None \<Rightarrow> err_of p) m) w1"
proof -
  have "wp (c_PatchMachine C ksm ksm') (\<lambda>r w'. r = Inr () \<and> objs w' = objs w1 \<and>
      (\<exists>ksm2. mach w' k = Some ksm2 \<and> ksm_Spec ksm2 = ksm_Spec ksm' \<and> ksm_Status ksm2 = ksm_Status ksm')) w1"
    using patch_machine [of w1 ksm' ksm ksm] assms(1-4) by simp
  moreover have "progressed L req g (res, rerr) ksm2"
    if "ksm_Spec ksm2 = ksm_Spec ksm'" "ksm_Status ksm2 = ksm_Status ksm'" for ksm2
    using progressed_cong [OF that] assms(7) by simp
  ultimately show ?thesis
    using assms(5,6) by (cases rerr) (auto elim!: wp_mono)
qed

lemma Machine_Reconcile_progress:
  assumes m: "mach w k = Some ksm" "nn (om_Namespace (ksm_Meta ksm)) (om_Name (ksm_Meta ksm)) = k"
    and inputs: "run_inputs L C w ksm i" and start: "startable L ksm i" and ok: "acceptable (run_request L ksm i) cfg"
    and seed: "\<And>x. objs w (seed_key (run_request L ksm i)) = Some x \<Longrightarrow> settable (u_Object x) ''spec''"
  shows "wp (Machine_Reconcile L C k) (\<lambda>r w'. \<exists>g m. objs w' (guest_key (run_request L ksm i)) = Some g \<and>
     guest_stands L (run_request L ksm i) cfg (objs w (guest_key (run_request L ksm i))) g \<and>
     mach w' k = Some m \<and> progressed L (run_request L ksm i) g r m) w"
    (is "wp _ ?Q w")
proof -
  let ?req = "run_request L ksm i"
  have known: "wp (c_GetOwnerMachine C (ksm_Meta ksm)) (\<lambda>r w'. r = Inr (Some (in_machine i)) \<and> w' = w) w"
    "wp (c_GetClusterFromMetadata C (ksm_Meta ksm)) (\<lambda>r w'. r = Inr (in_cluster i) \<and> w' = w) w"
    using inputs by (simp_all add: run_inputs_def)
  have facts: "\<not> IsPaused L (in_cluster i) (ksm_Meta ksm)" "mb_Type (kms_Backend (ksm_Spec ksm)) = SwiftGuestBackendType"
    "IsZero L (om_DeletionTimestamp (ksm_Meta ksm))"
    using start by (simp_all add: startable_def)
  note patch = patch_progress [where w = w and k = k and ksm = ksm and req = ?req and cfg = cfg, OF m(1) facts(3)]
  have deferred: "wp (machine_deferPatch C ksm (machine_branch L C (NewSwiftGuestBackend L C) ksm (in_machine i) (in_cluster i))) ?Q w"
    unfolding machine_deferPatch_def wp_bind
  proof (rule wp_mono [OF branch_progress [OF inputs start ok seed]], assumption, elim conjE exE)
    fix r :: "KubeSwiftMachine \<times> outcome" and w1 g
    obtain ksm' res rerr where r: "r = (ksm', res, rerr)" by (metis prod.exhaust)
    assume "mach w1 = mach w" "nn (om_Namespace (ksm_Meta (fst r))) (om_Name (ksm_Meta (fst r))) =
        nn (om_Namespace (ksm_Meta ksm)) (om_Name (ksm_Meta ksm))" "objs w1 (guest_key ?req) = Some g"
      "guest_stands L ?req cfg (objs w (guest_key ?req)) g" "progressed L ?req g (snd r) (fst r)"
    then show "wp (case r of (ksm', res, rerr) \<Rightarrow> do {
        p \<leftarrow> c_PatchMachine C ksm ksm';
        State_Monad.return (res, case rerr of Some e \<Rightarrow> Some e | None \<Rightarrow> err_of p) }) ?Q w1"
      unfolding r prod.case wp_bind wp_return using patch [where ksm' = ksm' and g = g and res = res and rerr = rerr] m(2) by simp
  qed
  show ?thesis
    unfolding Machine_Reconcile_def machine_branch_def [symmetric]
    by (auto simp: wp_simps backendFor_def facts
        intro!: wp_mono [OF get_machine [OF m(1)]] wp_mono [OF known(1)] wp_mono [OF known(2)] wp_mono [OF new_helper] wp_mono [OF deferred])
qed

end

section \<open>The in-memory server\<close>

definition mem_mach :: "store \<Rightarrow> NamespacedName \<Rightarrow> KubeSwiftMachine option" where
  "mem_mach w k = mem_machines w (nn_pair k)"

lemma mem_patch_live:
  assumes "mem_mach w (nn (om_Namespace (ksm_Meta b)) (om_Name (ksm_Meta b))) = Some ksm"
    "IsZero ref_lib (om_DeletionTimestamp (ksm_Meta ksm))"
  shows "wp (mem_PatchMachine ref_lib a b) (\<lambda>r w'. r = Inr () \<and> mem_objs ref_lib w' = mem_objs ref_lib w \<and>
     (\<exists>ksm'. mem_mach w' (nn (om_Namespace (ksm_Meta b)) (om_Name (ksm_Meta b))) = Some ksm' \<and>
        ksm_Spec ksm' = ksm_Spec b \<and> ksm_Status ksm' = ksm_Status b)) w"
  using assms
  by (simp add: mem_mach_def nn_pair_def nn_def wp_def mem_PatchMachine_def meta_key_def [symmetric] Let_def patched_machine_def)
    (simp add: mem_machines_def mem_objs_def meta_key_def fun_eq_iff)

interpretation mem_machine: machine_server ref_lib "mem_client ref_lib" "mem_objs ref_lib" mem_mach
  by unfold_locales
    (auto simp: mem_client_def mem_patch_live,
      auto simp: wp_def mem_read_def answer_def mem_mach_def State_Monad.return_def mem_CreateObject_def mem_UpdateObject_def
        mem_PatchNode_def Let_def mem_machines_def mem_objs_def fun_eq_iff split: option.splits)

section \<open>Progress\<close>

text \<open>
  C4. Every run brings a machine forward. For a live machine that is not paused, has an accepted backend
  configuration and whose cluster infrastructure and bootstrap Secret are ready, one run
  against servers that answer leaves the guest in place, as rendered if there was none and untouched
  otherwise, and the stored machine reports exactly what that guest shows: ready, with the guest's addresses and
  the provider ID, as soon as the guest runs with an address; otherwise not ready, with the error
  returned if the guest failed and another run requested in 15 seconds if it has not come up yet.
\<close>

theorem machine_run_progress:
  assumes "machine_server L C objs mach" "mach w k = Some ksm" "nn (om_Namespace (ksm_Meta ksm)) (om_Name (ksm_Meta ksm)) = k"
    "run_inputs L C w ksm i" "startable L ksm i" "acceptable (run_request L ksm i) cfg"
    and "\<And>x. objs w (seed_key (run_request L ksm i)) = Some x \<Longrightarrow> settable (u_Object x) ''spec''"
  shows "wp (Machine_Reconcile L C k) (\<lambda>r w'. \<exists>g m. objs w' (guest_key (run_request L ksm i)) = Some g \<and>
     guest_stands L (run_request L ksm i) cfg (objs w (guest_key (run_request L ksm i))) g \<and>
     mach w' k = Some m \<and> progressed L (run_request L ksm i) g r m) w"
  using assms by (rule machine_server.Machine_Reconcile_progress)

definition ex_inputs :: inputs where
  "ex_inputs = \<lparr> in_machine = ex_capi_machine ''w-0'', in_cluster = ex_capi_cluster, in_secret = ''boot'', in_exposure = None \<rparr>"

text \<open>The example machine satisfies the conditions.\<close>

lemma ex_starts:
  "mem_mach (ex_machine_store None) (nn ''ns'' ''w-0'') = Some (ex_owned_machine None)"
  "nn (om_Namespace (ksm_Meta (ex_owned_machine None))) (om_Name (ksm_Meta (ex_owned_machine None))) = nn ''ns'' ''w-0''"
  "run_inputs ref_lib (mem_client ref_lib) (ex_machine_store None) (ex_owned_machine None) ex_inputs"
  "startable ref_lib (ex_owned_machine None) ex_inputs"
  "acceptable (run_request ref_lib (ex_owned_machine None) ex_inputs) ex_cfg"
  "mem_objs ref_lib (ex_machine_store None) key = None"
  by (simp_all add: mem_mach_def mem_run ex_machine_store_def ex_owned_machine_def ex_defs ex_node_store_def ex_inputs_def
      run_inputs_def checkBootstrapData_def controlPlaneExposure_def bootstrap_key_def startable_def acceptable_def run_request_def
      machine_request_def ref_lib_def SwiftGuestBackendType_def BootstrapDataSecretKey_def machine_AddFinalizer_def)

theorem machine_run_progress_witness:
  "wp (Machine_Reconcile ref_lib (mem_client ref_lib) (nn ''ns'' ''w-0''))
     (\<lambda>r w'. \<exists>g m. mem_objs ref_lib w' (guest_key (run_request ref_lib (ex_owned_machine None) ex_inputs)) = Some g \<and>
        mem_mach w' (nn ''ns'' ''w-0'') = Some m \<and>
        progressed ref_lib (run_request ref_lib (ex_owned_machine None) ex_inputs) g r m) (ex_machine_store None)"
  by (rule wp_mono [OF machine_run_progress [OF mem_machine.machine_server_axioms ex_starts(1-5)]])
    (use ex_starts(6) in auto)

end
