(* ===== verification/Cluster_Controller.thy ===== *)
theory Cluster_Controller
  imports Endpoint_Service Samples
begin

text \<open>
  \<^verbatim>\<open>src/internal/controller/kubeswiftcluster_controller.go\<close>: the reconciler of
  \<^verbatim>\<open>KubeSwiftCluster\<close>. \<^verbatim>\<open>Reconcile\<close> reads the object, leaves it alone while it has no owner, is
  managed elsewhere or is paused, and otherwise runs one of the two branches and patches the
  object with whatever the branch made of it, on every way out (the deferred function).
\<close>

definition endpointMode :: "KubeSwiftCluster \<Rightarrow> string" where
  "endpointMode ksc = (case kcs_Endpoint (ksc_Spec ksc) of None \<Rightarrow> EndpointModeExternal
     | Some endpoint \<Rightarrow> if cpe_Mode endpoint = '''' then EndpointModeExternal else cpe_Mode endpoint)"

definition cluster_AddFinalizer :: "lib \<Rightarrow> KubeSwiftCluster \<Rightarrow> KubeSwiftCluster" where
  "cluster_AddFinalizer L ksc = ksc\<lparr>ksc_Meta := (ksc_Meta ksc)\<lparr>om_Finalizers :=
     AddFinalizer L (om_Finalizers (ksc_Meta ksc)) ClusterFinalizer\<rparr>\<rparr>"

definition cluster_RemoveFinalizer :: "lib \<Rightarrow> KubeSwiftCluster \<Rightarrow> KubeSwiftCluster" where
  "cluster_RemoveFinalizer L ksc = ksc\<lparr>ksc_Meta := (ksc_Meta ksc)\<lparr>om_Finalizers :=
     RemoveFinalizer L (om_Finalizers (ksc_Meta ksc)) ClusterFinalizer\<rparr>\<rparr>"

definition cluster_reconcileNormal :: "lib \<Rightarrow> 'w client \<Rightarrow> KubeSwiftCluster \<Rightarrow> CAPICluster \<Rightarrow>
    ('w, KubeSwiftCluster \<times> outcome) state" where
  "cluster_reconcileNormal L C ksc cluster =
     (let ksc = cluster_AddFinalizer L ksc in
      if endpointMode ksc = EndpointModeService then reconcileServiceEndpoint L C ksc cluster
      else State_Monad.return (
        if (case kcs_ControlPlaneEndpoint (ksc_Spec ksc) of None \<Rightarrow> True | Some ep \<Rightarrow> ep_Host ep = '''')
        then (markClusterNotProvisioned L ksc WaitingForControlPlaneEndpointReason
                ''Waiting for spec.controlPlaneEndpoint to be set'', done_Result, None)
        else (markClusterProvisioned L ksc, done_Result, None)))"

definition cluster_reconcileDelete :: "lib \<Rightarrow> 'w client \<Rightarrow> KubeSwiftCluster \<Rightarrow>
    ('w, KubeSwiftCluster \<times> outcome) state" where
  "cluster_reconcileDelete L C ksc = do {
     err \<leftarrow> deleteControlPlaneService C ksc;
     State_Monad.return (case err of
        Some e \<Rightarrow> (ksc, done_Result, Some e)
      | None \<Rightarrow> (cluster_RemoveFinalizer L ksc, done_Result, None)) }"

text \<open>The deferred patch: its error is returned only if there is no other.\<close>

definition cluster_deferPatch :: "'w client \<Rightarrow> KubeSwiftCluster \<Rightarrow>
    ('w, KubeSwiftCluster \<times> outcome) state \<Rightarrow> ('w, outcome) state" where
  "cluster_deferPatch C before body = do {
     r \<leftarrow> body;
     (case r of (ksc, res, rerr) \<Rightarrow> do {
        p \<leftarrow> c_PatchCluster C before ksc;
        State_Monad.return (res, case rerr of Some e \<Rightarrow> Some e | None \<Rightarrow> err_of p) }) }"

definition Cluster_Reconcile :: "lib \<Rightarrow> 'w client \<Rightarrow> NamespacedName \<Rightarrow> ('w, outcome) state" where
  "Cluster_Reconcile L C req = do {
     r \<leftarrow> c_GetCluster C req;
     (case r of
        Inl err \<Rightarrow> State_Monad.return (done_Result, IgnoreNotFound err)
      | Inr ksc \<Rightarrow> do {
          o1 \<leftarrow> c_GetOwnerCluster C (ksc_Meta ksc);
          (case o1 of
             Inl err \<Rightarrow> State_Monad.return (done_Result, Some err)
           | Inr None \<Rightarrow> State_Monad.return (done_Result, None)
           | Inr (Some cluster) \<Rightarrow>
               if IsExternallyManaged L (ksc_Meta ksc) then State_Monad.return (done_Result, None)
               else if IsPaused L cluster (ksc_Meta ksc) then State_Monad.return (done_Result, None)
               else do {
                 h \<leftarrow> c_NewClusterHelper C ksc;
                 (case h of
                    Inl err \<Rightarrow> State_Monad.return (done_Result, Some err)
                  | Inr _ \<Rightarrow> cluster_deferPatch C ksc
                      (if \<not> IsZero L (om_DeletionTimestamp (ksc_Meta ksc)) then cluster_reconcileDelete L C ksc
                       else cluster_reconcileNormal L C ksc cluster)) }) }) }"

section \<open>The endpoint Service converges\<close>



section \<open>The calls of Reconcile\<close>

text \<open>The branch taken, as the calls it makes, the object it leaves and the error it returns.\<close>

inductive cluster_body :: "lib \<Rightarrow> KubeSwiftCluster \<Rightarrow> CAPICluster \<Rightarrow> call_log \<Rightarrow> KubeSwiftCluster \<Rightarrow>
    go_error option \<Rightarrow> bool" for L ksc cluster where
  cb_deleted: "\<not> IsZero L (om_DeletionTimestamp (ksc_Meta ksc)) \<Longrightarrow> resp \<noteq> RError \<Longrightarrow>
    cluster_body L ksc cluster [(CDeleteService (controlPlaneServiceRef ksc), resp)] (cluster_RemoveFinalizer L ksc) None"
| cb_not_deleted: "\<not> IsZero L (om_DeletionTimestamp (ksc_Meta ksc)) \<Longrightarrow>
    cluster_body L ksc cluster [(CDeleteService (controlPlaneServiceRef ksc), RError)] ksc (Some e)"
| cb_service: "IsZero L (om_DeletionTimestamp (ksc_Meta ksc)) \<Longrightarrow> endpointMode ksc = EndpointModeService \<Longrightarrow>
    service_trace L (cluster_AddFinalizer L ksc) cluster l (Inr svc) \<Longrightarrow>
    cluster_body L ksc cluster l (adoptService L (cluster_AddFinalizer L ksc) svc) None"
| cb_no_service: "IsZero L (om_DeletionTimestamp (ksc_Meta ksc)) \<Longrightarrow> endpointMode ksc = EndpointModeService \<Longrightarrow>
    service_trace L (cluster_AddFinalizer L ksc) cluster l (Inl e) \<Longrightarrow>
    cluster_body L ksc cluster l (cluster_AddFinalizer L ksc) (Some (Wrapf ''ensuring control-plane Service'' e))"
| cb_waiting: "IsZero L (om_DeletionTimestamp (ksc_Meta ksc)) \<Longrightarrow> endpointMode ksc \<noteq> EndpointModeService \<Longrightarrow>
    (case kcs_ControlPlaneEndpoint (ksc_Spec ksc) of None \<Rightarrow> True | Some ep \<Rightarrow> ep_Host ep = '''') \<Longrightarrow>
    cluster_body L ksc cluster [] (markClusterNotProvisioned L (cluster_AddFinalizer L ksc)
      WaitingForControlPlaneEndpointReason ''Waiting for spec.controlPlaneEndpoint to be set'') None"
| cb_external: "IsZero L (om_DeletionTimestamp (ksc_Meta ksc)) \<Longrightarrow> endpointMode ksc \<noteq> EndpointModeService \<Longrightarrow>
    kcs_ControlPlaneEndpoint (ksc_Spec ksc) = Some ep \<Longrightarrow> ep_Host ep \<noteq> '''' \<Longrightarrow>
    cluster_body L ksc cluster [] (markClusterProvisioned L (cluster_AddFinalizer L ksc)) None"

definition cluster_branch :: "lib \<Rightarrow> 'w client \<Rightarrow> KubeSwiftCluster \<Rightarrow> CAPICluster \<Rightarrow>
    ('w, KubeSwiftCluster \<times> outcome) state" where
  "cluster_branch L C ksc cluster =
     (if \<not> IsZero L (om_DeletionTimestamp (ksc_Meta ksc)) then cluster_reconcileDelete L C ksc
      else cluster_reconcileNormal L C ksc cluster)"

lemma AddFinalizer_keeps [simp]:
  "ksc_Spec (cluster_AddFinalizer L ksc) = ksc_Spec ksc" "endpointMode (cluster_AddFinalizer L ksc) = endpointMode ksc"
  by (simp_all add: cluster_AddFinalizer_def endpointMode_def)

lemma cluster_branch_trace:
  "wp (cluster_branch L (logged C) ksc cluster) (\<lambda>r s'. \<exists>l. snd s' = snd s @ l \<and>
     (case r of (ksc', res, e) \<Rightarrow> res = done_Result \<and> cluster_body L ksc cluster l ksc' e)) s"
  unfolding cluster_branch_def cluster_reconcileDelete_def cluster_reconcileNormal_def deleteControlPlaneService_def
    reconcileServiceEndpoint_def
  by (auto simp: wp_simps Let_def split: sum.split option.split intro!: wp_logged ensureControlPlaneService_wp
      cluster_body.cb_deleted cluster_body.cb_not_deleted cluster_body.cb_waiting)
    (rule cluster_body.intros; (assumption | simp))+

lemmas cluster_branch_wp = wp_trace [OF cluster_branch_trace]

text \<open>The infrastructure is left to someone else.\<close>

definition cluster_held :: "lib \<Rightarrow> KubeSwiftCluster \<Rightarrow> CAPICluster \<Rightarrow> bool" where
  "cluster_held L ksc cluster = (IsExternallyManaged L (ksc_Meta ksc) \<or> IsPaused L cluster (ksc_Meta ksc))"

definition cluster_prefix :: "NamespacedName \<Rightarrow> KubeSwiftCluster \<Rightarrow> CAPICluster \<Rightarrow> call_log" where
  "cluster_prefix req ksc cluster =
     [(CGetCluster req, RInfraCluster ksc), (CGetOwnerCluster (ksc_Meta ksc), RCluster cluster), (CNewClusterHelper ksc, ROk)]"

inductive cluster_trace :: "lib \<Rightarrow> NamespacedName \<Rightarrow> call_log \<Rightarrow> outcome \<Rightarrow> bool" for L req where
  ct_unread: "cluster_trace L req [(CGetCluster req, fail_response e)] (done_Result, IgnoreNotFound e)"
| ct_owner_failed: "cluster_trace L req [(CGetCluster req, RInfraCluster ksc), (CGetOwnerCluster (ksc_Meta (ksc :: KubeSwiftCluster)), fail_response e)]
    (done_Result, Some e)"
| ct_no_owner: "cluster_trace L req [(CGetCluster req, RInfraCluster ksc), (CGetOwnerCluster (ksc_Meta (ksc :: KubeSwiftCluster)), ROk)]
    (done_Result, None)"
| ct_held: "cluster_held L ksc cluster \<Longrightarrow>
    cluster_trace L req [(CGetCluster req, RInfraCluster ksc), (CGetOwnerCluster (ksc_Meta ksc), RCluster cluster)] (done_Result, None)"
| ct_no_helper: "\<not> cluster_held L ksc cluster \<Longrightarrow> cluster_trace L req [(CGetCluster req, RInfraCluster ksc),
    (CGetOwnerCluster (ksc_Meta ksc), RCluster cluster), (CNewClusterHelper ksc, fail_response e)] (done_Result, Some e)"
| ct_run: "\<not> cluster_held L ksc cluster \<Longrightarrow> cluster_body L ksc cluster l ksc' rerr \<Longrightarrow>
    cluster_trace L req (cluster_prefix req ksc cluster @ l @ [(CPatchCluster ksc ksc', response_of p)])
      (done_Result, case rerr of Some e \<Rightarrow> Some e | None \<Rightarrow> err_of (p :: go_error + unit))"

lemma ct_run_error:
  "\<not> cluster_held L ksc cluster \<Longrightarrow> cluster_body L ksc cluster l ksc' (Some e) \<Longrightarrow>
    cluster_trace L req (cluster_prefix req ksc cluster @ l @ [(CPatchCluster ksc ksc', response_of (p :: go_error + unit))])
      (done_Result, Some e)"
  using ct_run [of L ksc cluster l ksc' "Some e" req p] by simp

lemma ct_run_ok:
  "\<not> cluster_held L ksc cluster \<Longrightarrow> cluster_body L ksc cluster l ksc' None \<Longrightarrow>
    cluster_trace L req (cluster_prefix req ksc cluster @ l @ [(CPatchCluster ksc ksc', response_of (p :: go_error + unit))])
      (done_Result, err_of p)"
  using ct_run [of L ksc cluster l ksc' None req p] by simp

lemma Cluster_Reconcile_trace:
  "wp (Cluster_Reconcile L (logged C) req) (\<lambda>r s'. \<exists>l. snd s' = snd s @ l \<and> cluster_trace L req l r) s"
  unfolding Cluster_Reconcile_def cluster_branch_def [symmetric] cluster_deferPatch_def
  by (auto simp: wp_simps split: sum.split option.split intro!: wp_logged cluster_branch_wp
      simp: cluster_held_def [symmetric])
    (auto simp: cluster_prefix_def cluster_held_def
      intro: cluster_trace.intros(1-5) ct_run_ok [unfolded cluster_prefix_def, simplified]
        ct_run_error [unfolded cluster_prefix_def, simplified])

lemmas Cluster_Reconcile_wp = wp_trace [OF Cluster_Reconcile_trace]

definition service_call :: "api_call \<Rightarrow> bool" where
  "service_call c = (case c of CGetService _ \<Rightarrow> True | CCreateService _ \<Rightarrow> True | CUpdateService _ \<Rightarrow> True
     | CDeleteService _ \<Rightarrow> True | _ \<Rightarrow> False)"

lemma service_trace_calls: "service_trace L ksc cluster l r \<Longrightarrow> c \<in> set l \<Longrightarrow> service_call (fst c)"
  by (drule service_trace_no_patch) (force simp: service_call_def)

lemma cluster_body_calls: "cluster_body L ksc cluster l ksc' e \<Longrightarrow> c \<in> set l \<Longrightarrow> service_call (fst c)"
  by (erule cluster_body.cases) (auto simp: service_call_def dest: service_trace_calls [unfolded service_call_def])

lemma prefix_calls: "c \<in> set (cluster_prefix req ksc cluster) \<Longrightarrow> \<not> is_write (fst c) \<and> \<not> service_call (fst c)"
  by (auto simp: cluster_prefix_def service_call_def)

text \<open>A patch in the log of \<open>Reconcile\<close> is the deferred one.\<close>

lemma cluster_trace_patch:
  assumes "cluster_trace L req log r" "(CPatchCluster ksc ksc', resp) \<in> set log"
  obtains cluster body e where "\<not> cluster_held L ksc cluster" "cluster_body L ksc cluster body ksc' e"
    "log = cluster_prefix req ksc cluster @ body @ [(CPatchCluster ksc ksc', resp)]" "e \<noteq> None \<Longrightarrow> snd r = e"
    "snd r = None \<Longrightarrow> resp = ROk"
  using assms
proof (cases rule: cluster_trace.cases)
  case (ct_run ksc1 cluster l ksc2 rerr p)
  have "(CPatchCluster ksc ksc', resp) \<notin> set l" "(CPatchCluster ksc ksc', resp) \<notin> set (cluster_prefix req ksc1 cluster)"
    using cluster_body_calls [OF ct_run(4)] by (force simp: service_call_def, simp add: cluster_prefix_def)
  then have eq: "ksc1 = ksc" "ksc2 = ksc'" "resp = response_of p"
    using ct_run(1) assms(2) by auto
  show thesis
    by (rule that [of cluster l rerr])
      (use ct_run eq in \<open>auto split: option.splits; cases p; simp\<close>)+
qed auto

text \<open>
  C15. What the cluster reconciler may touch, for every behaviour of the API server. A run that
  writes anything has read an object that is neither managed elsewhere nor paused, and its last
  call is the one patch of that object, whatever happened before it; the only other writes go to
  the endpoint Service. A run that reports no error and wrote anything has had its patch accepted.
\<close>

theorem Cluster_Reconcile_guarded:
  "wp (Cluster_Reconcile L (logged C) req) (\<lambda>r s'. \<exists>l. snd s' = snd s @ l \<and> fst r = done_Result \<and>
     (writes l = [] \<or>
      (\<exists>ksc cluster ksc' body resp. \<not> IsExternallyManaged L (ksc_Meta ksc) \<and> \<not> IsPaused L cluster (ksc_Meta ksc) \<and>
         l = cluster_prefix req ksc cluster @ body @ [(CPatchCluster ksc ksc', resp)] \<and>
         list_all (\<lambda>c. service_call (fst c)) body \<and> (snd r = None \<longrightarrow> resp = ROk)))) s"
proof (rule Cluster_Reconcile_wp, intro exI conjI)
  fix r w l
  assume t: "cluster_trace L req l r"
  show "snd (w, snd s @ l) = snd s @ l" by simp
  show "fst r = done_Result" using t by cases simp_all
  show "writes l = [] \<or>
      (\<exists>ksc cluster ksc' body resp. \<not> IsExternallyManaged L (ksc_Meta ksc) \<and> \<not> IsPaused L cluster (ksc_Meta ksc) \<and>
         l = cluster_prefix req ksc cluster @ body @ [(CPatchCluster ksc ksc', resp)] \<and>
         list_all (\<lambda>c. service_call (fst c)) body \<and> (snd r = None \<longrightarrow> resp = ROk))"
    using t
  proof cases
    case (ct_run ksc cluster body ksc' rerr p)
    have "list_all (\<lambda>c. service_call (fst c)) body"
      using cluster_body_calls [OF ct_run(4)] by (auto simp: list_all_iff)
    with ct_run show ?thesis
      by (cases p; cases rerr) (auto simp: cluster_held_def)
  qed simp_all
qed

text \<open>The deletion of the sample cluster, run in the in-memory server.\<close>

lemma ex_cluster_deletion:
  "wp (Cluster_Reconcile ref_lib (logged (mem_client ref_lib)) (nn ''ns'' ''demo''))
     (\<lambda>r s'. writes (snd s') = [CDeleteService (controlPlaneServiceRef ex_deleting_cluster),
        CPatchCluster ex_deleting_cluster (cluster_RemoveFinalizer ref_lib ex_deleting_cluster)]) (ex_deleting_store, [])"
  by (simp add: Cluster_Reconcile_def cluster_reconcileDelete_def cluster_deferPatch_def deleteControlPlaneService_def
      mem_run ex_deleting_store_def ex_deleting_cluster_def ex_defs ref_lib_def)

theorem Cluster_Reconcile_guarded_witness:
  "wp (Cluster_Reconcile ref_lib (logged (mem_client ref_lib)) (nn ''ns'' ''demo''))
     (\<lambda>r s'. \<exists>ksc cluster ksc' body resp. \<not> IsPaused ref_lib cluster (ksc_Meta ksc) \<and>
        snd s' = cluster_prefix (nn ''ns'' ''demo'') ksc cluster @ body @ [(CPatchCluster ksc ksc', resp)])
     (ex_deleting_store, [])"
  by (rule wp_mono [OF wp_conj [THEN iffD2, OF conjI [OF Cluster_Reconcile_guarded ex_cluster_deletion]]]) fastforce

lemma setReady_keeps [simp]:
  "ksc_Meta (setReady L k b c) = ksc_Meta k" "ksc_Spec (setReady L k b c) = ksc_Spec k"
  by (simp_all add: setReady_def Let_def cluster_SetConditions_def)

lemma adoptService_finalizers [simp]: "ksc_Meta (adoptService L k svc) = ksc_Meta k"
  by (simp add: adoptService_def markClusterProvisioned_def markClusterNotProvisioned_def split: prod.split)

lemma mark_keeps [simp]:
  "ksc_Meta (markClusterProvisioned L k) = ksc_Meta k" "ksc_Spec (markClusterProvisioned L k) = ksc_Spec k"
  "ksc_Meta (markClusterNotProvisioned L k a b) = ksc_Meta k" "ksc_Spec (markClusterNotProvisioned L k a b) = ksc_Spec k"
  by (simp_all add: markClusterProvisioned_def markClusterNotProvisioned_def)

lemma cluster_AddFinalizer_finalizers:
  "objects_lib L \<Longrightarrow> ClusterFinalizer \<in> set (om_Finalizers (ksc_Meta (cluster_AddFinalizer L ksc)))"
  by (simp add: cluster_AddFinalizer_def objects_lib.add_finalizer)

lemma service_trace_no_delete: "service_trace L ksc cluster l r \<Longrightarrow> (CDeleteService s, x) \<notin> set l"
  by (erule service_trace.cases) auto

lemma cluster_body_finalizer:
  assumes "objects_lib L" "cluster_body L ksc cluster l ksc' e"
  shows "(ClusterFinalizer \<in> set (om_Finalizers (ksc_Meta ksc)) - set (om_Finalizers (ksc_Meta ksc')) \<longrightarrow>
       \<not> IsZero L (om_DeletionTimestamp (ksc_Meta ksc)) \<and>
       (\<exists>resp'. resp' \<noteq> RError \<and> (CDeleteService (controlPlaneServiceRef ksc), resp') \<in> set l)) \<and>
     ((CDeleteService (controlPlaneServiceRef ksc), RError) \<in> set l \<longrightarrow> ksc' = ksc \<and> e \<noteq> None)"
  using assms(2)
  by cases (auto simp: cluster_AddFinalizer_finalizers [OF assms(1)] dest: service_trace_no_delete)

text \<open>
  C16. The cluster's finalizer comes off only after its endpoint Service: whenever a patch would drop
  the finalizer, the object is being deleted and the deletion of the Service has just succeeded or
  found nothing to delete. If deleting the Service fails, the object is patched unchanged and the
  error is returned.
\<close>

theorem cluster_finalizer_guards_service:
  assumes "k8s_lib L"
  shows "wp (Cluster_Reconcile L (logged C) req) (\<lambda>r s'. \<exists>l. snd s' = snd s @ l \<and>
     (\<forall>ksc ksc' resp. (CPatchCluster ksc ksc', resp) \<in> set l \<longrightarrow>
        (ClusterFinalizer \<in> set (om_Finalizers (ksc_Meta ksc)) - set (om_Finalizers (ksc_Meta ksc')) \<longrightarrow>
           \<not> IsZero L (om_DeletionTimestamp (ksc_Meta ksc)) \<and>
           (\<exists>resp'. resp' \<noteq> RError \<and> (CDeleteService (controlPlaneServiceRef ksc), resp') \<in> set l)) \<and>
        ((CDeleteService (controlPlaneServiceRef ksc), RError) \<in> set l \<longrightarrow> ksc' = ksc \<and> snd r \<noteq> None))) s"
proof (rule Cluster_Reconcile_wp, rule exI, rule conjI [rotated], intro allI impI)
  fix r w l ksc ksc' resp
  assume t: "cluster_trace L req l r" and p: "(CPatchCluster ksc ksc', resp) \<in> set l"
  obtain cluster body e where b: "cluster_body L ksc cluster body ksc' e"
    "l = cluster_prefix req ksc cluster @ body @ [(CPatchCluster ksc ksc', resp)]" "e \<noteq> None \<Longrightarrow> snd r = e"
    using cluster_trace_patch [OF t p] by metis
  have "(CDeleteService svc, x) \<in> set l \<longleftrightarrow> (CDeleteService svc, x) \<in> set body" for svc x
    by (simp add: b(2) cluster_prefix_def)
  then show "(ClusterFinalizer \<in> set (om_Finalizers (ksc_Meta ksc)) - set (om_Finalizers (ksc_Meta ksc')) \<longrightarrow>
           \<not> IsZero L (om_DeletionTimestamp (ksc_Meta ksc)) \<and>
           (\<exists>resp'. resp' \<noteq> RError \<and> (CDeleteService (controlPlaneServiceRef ksc), resp') \<in> set l)) \<and>
        ((CDeleteService (controlPlaneServiceRef ksc), RError) \<in> set l \<longrightarrow> ksc' = ksc \<and> snd r \<noteq> None)"
    using cluster_body_finalizer [OF _ b(1)] assms b(3) by (auto simp: k8s_lib_def)
qed simp

theorem cluster_finalizer_guards_service_witness:
  "wp (Cluster_Reconcile ref_lib (logged (mem_client ref_lib)) (nn ''ns'' ''demo''))
     (\<lambda>r s'. \<exists>resp'. resp' \<noteq> RError \<and> (CDeleteService (controlPlaneServiceRef ex_deleting_cluster), resp') \<in> set (snd s'))
     (ex_deleting_store, [])"
proof (rule wp_mono [OF wp_conj [THEN iffD2, OF conjI [OF cluster_finalizer_guards_service [OF k8s_lib_ref] ex_cluster_deletion]]],
    elim conjE exE, goal_cases)
  case (1 r s' l)
  let ?new = "cluster_RemoveFinalizer ref_lib ex_deleting_cluster"
  have "ClusterFinalizer \<in> set (om_Finalizers (ksc_Meta ex_deleting_cluster)) - set (om_Finalizers (ksc_Meta ?new))"
    by (simp add: ex_deleting_cluster_def cluster_RemoveFinalizer_def ref_lib_def)
  moreover have "CPatchCluster ex_deleting_cluster ?new \<in> set (writes (snd s'))"
    using 1 by simp
  then obtain resp where "(CPatchCluster ex_deleting_cluster ?new, resp) \<in> set l"
    using 1 by auto
  ultimately have "\<exists>resp'. resp' \<noteq> RError \<and> (CDeleteService (controlPlaneServiceRef ex_deleting_cluster), resp') \<in> set l"
    using 1 by blast
  then show ?case using 1 by auto
qed

section \<open>The reported state\<close>

text \<open>The endpoint that the object names, \<open>None\<close> if it has no host.\<close>

definition known_endpoint :: "KubeSwiftCluster \<Rightarrow> APIEndpoint option" where
  "known_endpoint ksc = (case kcs_ControlPlaneEndpoint (ksc_Spec ksc) of None \<Rightarrow> None
     | Some ep \<Rightarrow> if ep_Host ep = '''' then None else Some ep)"

text \<open>The flag of the Cluster API contract and the Ready condition say the same.\<close>

definition cluster_reports :: "KubeSwiftCluster \<Rightarrow> bool \<Rightarrow> bool" where
  "cluster_reports ksc b =
     (init_Provisioned (kct_Initialization (ksc_Status ksc)) = Some b \<and>
      (\<exists>c. condition_of (kct_Conditions (ksc_Status ksc)) ReadyConditionType = Some c \<and>
           cond_Status c = (if b then ConditionTrue else ConditionFalse)))"

lemma mark_reports:
  assumes "objects_lib L"
  shows "cluster_reports (markClusterProvisioned L ksc) True" "cluster_reports (markClusterNotProvisioned L ksc a b) False"
  by (simp_all add: cluster_reports_def markClusterProvisioned_def markClusterNotProvisioned_def setReady_def Let_def
      cluster_SetConditions_def cluster_GetConditions_def objects_lib.condition_set [OF assms])

lemma known_endpoint_spec: "ksc_Spec a = ksc_Spec b \<Longrightarrow> known_endpoint a = known_endpoint b"
  by (simp add: known_endpoint_def)

lemma adoptService_reports:
  assumes "objects_lib L" "controlPlaneServiceAddress svc = (host, ready)"
  shows "cluster_reports (adoptService L ksc svc) ready"
    "ksc_Spec (adoptService L ksc svc) = (if ready then (ksc_Spec ksc)\<lparr>kcs_ControlPlaneEndpoint :=
       Some \<lparr> ep_Host = host, ep_Port = controlPlaneServicePort ksc \<rparr>\<rparr> else ksc_Spec ksc)"
  using assms(2) by (auto simp: adoptService_def mark_reports [OF assms(1)])

lemma servicePort_AddFinalizer [simp]: "controlPlaneServicePort (cluster_AddFinalizer L ksc) = controlPlaneServicePort ksc"
  by (simp add: controlPlaneServicePort_def serviceCfg_def)

lemma cluster_body_reports:
  assumes "objects_lib L" "cluster_body L ksc cluster l ksc' None" "IsZero L (om_DeletionTimestamp (ksc_Meta ksc))"
  shows "\<exists>b. cluster_reports ksc' b \<and>
     (if endpointMode ksc = EndpointModeService
      then b \<longrightarrow> (\<exists>ep. known_endpoint ksc' = Some ep \<and> ep_Port ep = controlPlaneServicePort ksc)
      else ksc_Spec ksc' = ksc_Spec ksc \<and> l = [] \<and> (b \<longleftrightarrow> known_endpoint ksc \<noteq> None))"
  using assms(2)
proof cases
  case (cb_service svc)
  obtain host ready where a: "controlPlaneServiceAddress svc = (host, ready)" by fastforce
  show ?thesis
    unfolding cb_service(1)
    using cb_service(3) adoptService_reports [OF assms(1) a, of "cluster_AddFinalizer L ksc"]
      controlPlaneServiceAddress_ready [OF a]
    by (intro exI [of _ ready]) (auto simp: known_endpoint_def)
next
  case cb_waiting
  then show ?thesis
    by (intro exI [of _ False]) (auto simp: mark_reports [OF assms(1)] known_endpoint_def split: option.splits)
next
  case cb_external
  then show ?thesis
    by (intro exI [of _ True]) (auto simp: mark_reports [OF assms(1)] known_endpoint_def)
qed (use assms(3) in simp)


definition ex_live_cluster :: "ControlPlaneEndpointSpec option \<Rightarrow> KubeSwiftCluster" where
  "ex_live_cluster e = ex_deleting_cluster\<lparr>ksc_Meta := (ksc_Meta ex_deleting_cluster)\<lparr>om_DeletionTimestamp := None\<rparr>,
     ksc_Spec := (ksc_Spec ex_deleting_cluster)\<lparr>kcs_Endpoint := e\<rparr>\<rparr>"

definition ex_live_store :: "ControlPlaneEndpointSpec option \<Rightarrow> store" where
  "ex_live_store e = ex_deleting_store\<lparr>st_clusters := (\<lambda>k. if k = (''ns'', ''demo'')
     then Some (ex_live_cluster e) else None)\<rparr>"

definition ex_waiting_cluster :: KubeSwiftCluster where
  "ex_waiting_cluster = markClusterNotProvisioned ref_lib (cluster_AddFinalizer ref_lib (ex_live_cluster None))
     WaitingForControlPlaneEndpointReason ''Waiting for spec.controlPlaneEndpoint to be set''"

lemma ex_cluster_waits:
  "wp (Cluster_Reconcile ref_lib (logged (mem_client ref_lib)) (nn ''ns'' ''demo''))
     (\<lambda>r s'. writes (snd s') = [CPatchCluster (ex_live_cluster None) ex_waiting_cluster] \<and> snd r = None)
     (ex_live_store None, [])"
  by (simp add: Cluster_Reconcile_def cluster_reconcileNormal_def cluster_deferPatch_def endpointMode_def str_defs Let_def
      mem_run ex_live_store_def ex_live_cluster_def ex_waiting_cluster_def ex_deleting_store_def ex_deleting_cluster_def
      ex_defs ref_lib_def cluster_AddFinalizer_def)


text \<open>
  C30. Deleting a cluster makes exactly one call, the deletion of the Service named after it, and it
  does so in every endpoint mode and without looking at the Service first. The finalizer comes off
  and no error is returned if the Service was deleted or not there; otherwise the object is left as
  it is and the error is returned.
\<close>

theorem cluster_delete_in_every_mode:
  "wp (cluster_reconcileDelete L (logged C) ksc) (\<lambda>r s'. \<exists>resp.
     snd s' = snd s @ [(CDeleteService (controlPlaneServiceRef ksc), resp)] \<and>
     service_key (controlPlaneServiceRef ksc) = (om_Namespace (ksc_Meta ksc), om_Name (ksc_Meta ksc) @ ''-cp'') \<and>
     (case r of (ksc', res, err) \<Rightarrow> res = done_Result \<and>
        (if resp = RError then ksc' = ksc \<and> err \<noteq> None else ksc' = cluster_RemoveFinalizer L ksc \<and> err = None))) s"
  unfolding cluster_reconcileDelete_def deleteControlPlaneService_def
  by (auto simp: wp_simps service_key_def controlPlaneServiceRef_def controlPlaneServiceName_def fail_response_def
      split: sum.split intro!: wp_logged)

end
