(* ===== verification/Recording.thy ===== *)
theory Recording
  imports Machine_Controller Cluster_Controller
begin

text \<open>
  Recording is faithful: run with the recording client, both reconcilers return what they return with the
  client itself and leave the same world. So what is proved about logs is proved about the
  runs of the program.
\<close>

definition erases :: "('w \<times> call_log, 'a) state \<Rightarrow> ('w, 'a) state \<Rightarrow> bool" where
  "erases m n = (\<forall>s. run_state n (fst s) = (fst (run_state m s), fst (snd (run_state m s))))"

lemma erasesD: "erases m n \<Longrightarrow> run_state n (fst s) = (fst (run_state m s), fst (snd (run_state m s)))"
  unfolding erases_def by blast

named_theorems erases_intros \<open>rules that compare a recorded and an unrecorded program\<close>

lemma erases_return [erases_intros]: "erases (State_Monad.return a) (State_Monad.return a)"
  by (simp add: erases_def State_Monad.return_def)

lemma erases_record: "erases (record_with f c m) m"
  by (auto simp: erases_def record_with_def split: prod.split)

lemma erases_logged [erases_intros]:
  "erases (c_GetMachine (logged C) k) (c_GetMachine C k)" "erases (c_GetCluster (logged C) k) (c_GetCluster C k)"
  "erases (c_GetSecret (logged C) k) (c_GetSecret C k)" "erases (c_GetService (logged C) k) (c_GetService C k)"
  "erases (c_GetObject (logged C) u k) (c_GetObject C u k)" "erases (c_CreateObject (logged C) u) (c_CreateObject C u)"
  "erases (c_UpdateObject (logged C) u) (c_UpdateObject C u)" "erases (c_DeleteObject (logged C) u) (c_DeleteObject C u)"
  "erases (c_CreateService (logged C) v) (c_CreateService C v)" "erases (c_UpdateService (logged C) v) (c_UpdateService C v)"
  "erases (c_DeleteService (logged C) v) (c_DeleteService C v)"
  "erases (c_GetOwnerMachine (logged C) m) (c_GetOwnerMachine C m)"
  "erases (c_GetClusterFromMetadata (logged C) m) (c_GetClusterFromMetadata C m)"
  "erases (c_GetOwnerCluster (logged C) m) (c_GetOwnerCluster C m)"
  "erases (c_NewMachineHelper (logged C) a) (c_NewMachineHelper C a)"
  "erases (c_PatchMachine (logged C) a b) (c_PatchMachine C a b)"
  "erases (c_NewClusterHelper (logged C) x) (c_NewClusterHelper C x)"
  "erases (c_PatchCluster (logged C) x y) (c_PatchCluster C x y)"
  "erases (c_GetNode (logged C) cs n) (c_GetNode C cs n)" "erases (c_PatchNode (logged C) cs n p) (c_PatchNode C cs n p)"
  by (simp_all add: logged_def erases_record)

lemma erases_bind [erases_intros]:
  assumes "erases m n" "\<And>a. erases (f a) (g a)"
  shows "erases (State_Monad.bind m f) (State_Monad.bind n g)"
  unfolding erases_def
proof
  fix s
  show "run_state (State_Monad.bind n g) (fst s) =
      (fst (run_state (State_Monad.bind m f) s), fst (snd (run_state (State_Monad.bind m f) s)))"
    by (simp add: State_Monad.bind_def split_beta erasesD [OF assms(1)] erasesD [OF assms(2)])
qed

lemma erases_cases [erases_intros]:
  "erases m n \<Longrightarrow> erases m' n' \<Longrightarrow> erases (if b then m else m') (if b then n else n')"
  "erases m n \<Longrightarrow> (\<And>y. erases (p y) (q y)) \<Longrightarrow>
     erases (case x of None \<Rightarrow> m | Some y \<Rightarrow> p y) (case x of None \<Rightarrow> n | Some y \<Rightarrow> q y)"
  "(\<And>e. erases (i e) (j e)) \<Longrightarrow> (\<And>y. erases (p' y) (q' y)) \<Longrightarrow>
     erases (case z of Inl e \<Rightarrow> i e | Inr y \<Rightarrow> p' y) (case z of Inl e \<Rightarrow> j e | Inr y \<Rightarrow> q' y)"
  "(\<And>e y. erases (r e y) (s e y)) \<Longrightarrow> erases (case u of (e, y) \<Rightarrow> r e y) (case u of (e, y) \<Rightarrow> s e y)"
  "(\<And>y. erases (h y) (k y)) \<Longrightarrow> erases (let y = a in h y) (let y = a in k y)"
  by (auto simp: Let_def split: option.split sum.split prod.split)

lemma erases_onOk [erases_intros]:
  "erases m n \<Longrightarrow> (\<And>a. erases (f a) (g a)) \<Longrightarrow> erases (onOk m f) (onOk n g)"
  unfolding onOk_def by (intro erases_bind erases_cases erases_return)

lemma erases_wrapErr [erases_intros]: "erases m n \<Longrightarrow> erases (wrapErr t m) (wrapErr t n)"
  unfolding wrapErr_def by (intro erases_bind erases_cases erases_return)

lemma backend_erases [erases_intros]:
  "erases (b_Reconcile (NewSwiftGuestBackend L (logged C)) req) (b_Reconcile (NewSwiftGuestBackend L C) req)"
  "erases (b_Delete (NewSwiftGuestBackend L (logged C)) req) (b_Delete (NewSwiftGuestBackend L C) req)"
  unfolding NewSwiftGuestBackend_def SwiftGuest_Reconcile_def SwiftGuest_Delete_def ensureSeedProfile_def ensureSwiftGuest_def
    Backend.select_convs
  by (intro erases_intros)+

lemma backendFor_erases:
  "(\<And>e. erases (p e) (q e)) \<Longrightarrow> erases (r (NewSwiftGuestBackend L (logged C))) (s (NewSwiftGuestBackend L C)) \<Longrightarrow>
     erases (case backendFor L (logged C) t of Inl e \<Rightarrow> p e | Inr b \<Rightarrow> r b) (case backendFor L C t of Inl e \<Rightarrow> q e | Inr b \<Rightarrow> s b)"
  by (simp add: backendFor_def)

lemma Machine_Reconcile_erases: "erases (Machine_Reconcile L (logged C) req) (Machine_Reconcile L C req)"
  unfolding Machine_Reconcile_def machine_deferPatch_def machine_reconcileNormal_def machine_reconcileDelete_def
    checkBootstrapData_def controlPlaneExposure_def ensureNodeProviderID_def patchNodeProviderID_def
  by (intro backendFor_erases erases_intros)

lemma Cluster_Reconcile_erases: "erases (Cluster_Reconcile L (logged C) req) (Cluster_Reconcile L C req)"
  unfolding Cluster_Reconcile_def cluster_deferPatch_def cluster_reconcileNormal_def cluster_reconcileDelete_def
    reconcileServiceEndpoint_def ensureControlPlaneService_def deleteControlPlaneService_def
  by (intro erases_intros)

text \<open>A statement about the result and the world carries over between the two.\<close>

lemma wp_erases:
  assumes "erases m n"
  shows "wp m (\<lambda>r s'. Q r (fst s')) s \<longleftrightarrow> wp n Q (fst s)"
  by (simp add: wp_run erasesD [OF assms])

end
