(* ===== verification/Lifecycle.thy ===== *)
theory Lifecycle
  imports Interference Machine_Converge Recording
begin

text \<open>
  The life of one machine and its guest while others act on the same objects. \<open>lifecycle\<close> is what is
  promised: a guest is only there under the protection of the machine's finalizer, and the
  finalizer goes only when the machine is being deleted and the guest is gone. The system (users, Cluster API
  and KubeSwift acting at any time, runs of the reconciler interleaved with them call by call, and
  cut off anywhere) refines it, except for one kind of run, which \<open>guarded_run\<close> excludes: the finalizer is
  written by the last call, so the first run for a machine must not be lost between the creation of the
  guest and that call.
\<close>

section \<open>The promise\<close>

record life =
  lf_exists :: bool
  lf_deleting :: bool
  lf_finalizer :: bool
  lf_guest :: bool

inductive lifecycle :: "life \<Rightarrow> life \<Rightarrow> bool" where
  admitted: "\<not> lf_exists s \<Longrightarrow> \<not> lf_finalizer s \<Longrightarrow> lifecycle s (s\<lparr>lf_exists := True\<rparr>)"
| doomed: "lf_exists s \<Longrightarrow> lifecycle s (s\<lparr>lf_deleting := True\<rparr>)"
| gone: "lf_exists s \<Longrightarrow> \<not> lf_finalizer s \<Longrightarrow> lifecycle s (s\<lparr>lf_exists := False, lf_deleting := False\<rparr>)"
| protected: "lf_exists s \<Longrightarrow> lifecycle s (s\<lparr>lf_finalizer := True\<rparr>)"
| booted: "lf_finalizer s \<Longrightarrow> lifecycle s (s\<lparr>lf_guest := True\<rparr>)"
| stopped: "lifecycle s (s\<lparr>lf_guest := False\<rparr>)"
| released: "lf_deleting s \<Longrightarrow> \<not> lf_guest s \<Longrightarrow> lifecycle s (s\<lparr>lf_finalizer := False\<rparr>)"

text \<open>What the promise is worth: in every state it leads to, a guest has a machine with the finalizer.\<close>

definition life_ok :: "life \<Rightarrow> bool" where
  "life_ok s = ((lf_guest s \<longrightarrow> lf_finalizer s) \<and> (lf_finalizer s \<or> lf_deleting s \<longrightarrow> lf_exists s))"

lemma lifecycle_ok: "lifecycle s s' \<Longrightarrow> life_ok s \<Longrightarrow> life_ok s'"
  by (induction rule: lifecycle.induct) (auto simp: life_ok_def)

lemma lifecycles_ok: "lifecycle\<^sup>*\<^sup>* s s' \<Longrightarrow> life_ok s \<Longrightarrow> life_ok s'"
  by (induction rule: rtranclp_induct) (auto intro: lifecycle_ok)

section \<open>What others do\<close>

text \<open>The part of the API server that concerns one machine.\<close>

record view =
  v_machine :: "KubeSwiftMachine option"
  v_guest :: "Unstructured option"

abbreviation finalizers :: "KubeSwiftMachine \<Rightarrow> string list" where
  "finalizers m \<equiv> om_Finalizers (ksm_Meta m)"

abbreviation deleting :: "lib \<Rightarrow> KubeSwiftMachine \<Rightarrow> bool" where
  "deleting L m \<equiv> \<not> IsZero L (om_DeletionTimestamp (ksm_Meta m))"

definition persisted :: "view \<Rightarrow> bool" where
  "persisted v = (\<exists>m. v_machine v = Some m \<and> MachineFinalizer \<in> set (finalizers m))"

definition life_of :: "lib \<Rightarrow> view \<Rightarrow> life" where
  "life_of L v = \<lparr> lf_exists = (v_machine v \<noteq> None), lf_deleting = (\<exists>m. v_machine v = Some m \<and> deleting L m),
     lf_finalizer = persisted v, lf_guest = (v_guest v \<noteq> None) \<rparr>"

text \<open>
  The finalizer is the provider's: nobody else adds or removes it. A machine goes only when
  it has no finalizers, and a deletion is never taken back. Nobody else creates the machine's guest.
\<close>

inductive others :: "lib \<Rightarrow> view \<Rightarrow> view \<Rightarrow> bool" for L where
  creates: "v_machine v = None \<Longrightarrow> \<not> deleting L m \<Longrightarrow> MachineFinalizer \<notin> set (finalizers m) \<Longrightarrow>
    others L v (v\<lparr>v_machine := Some m\<rparr>)"
| changes: "v_machine v = Some m \<Longrightarrow> (MachineFinalizer \<in> set (finalizers m') \<longleftrightarrow> MachineFinalizer \<in> set (finalizers m)) \<Longrightarrow>
    (deleting L m \<longrightarrow> deleting L m') \<Longrightarrow> others L v (v\<lparr>v_machine := Some m'\<rparr>)"
| removes: "v_machine v = Some m \<Longrightarrow> finalizers m = [] \<Longrightarrow> others L v (v\<lparr>v_machine := None\<rparr>)"
| guest_acts: "v_guest v = Some g \<Longrightarrow> others L v (v\<lparr>v_guest := g'\<rparr>)"

section \<open>What a call does\<close>

text \<open>
  What may be concluded from a read of the machine, which is served from a cache: the machine shown has
  the key that was asked for; if it is shown live with the finalizer, the stored one has the finalizer;
  if it is shown being deleted, then so is the stored one, if that has the finalizer.
\<close>

definition machine_seen :: "lib \<Rightarrow> NamespacedName \<Rightarrow> KubeSwiftMachine \<Rightarrow> view \<Rightarrow> bool" where
  "machine_seen L k ksm v = (nn (om_Namespace (ksm_Meta ksm)) (om_Name (ksm_Meta ksm)) = k \<and>
     (\<not> deleting L ksm \<and> MachineFinalizer \<in> set (finalizers ksm) \<longrightarrow> persisted v) \<and>
     (deleting L ksm \<longrightarrow> persisted v \<longrightarrow> (\<exists>m. v_machine v = Some m \<and> deleting L m)))"

text \<open>A patch replaces the finalizers if the client changed them; an object without finalizers that is
  being deleted is removed.\<close>

definition patched :: "lib \<Rightarrow> KubeSwiftMachine \<Rightarrow> KubeSwiftMachine \<Rightarrow> KubeSwiftMachine \<Rightarrow> KubeSwiftMachine option \<Rightarrow> bool" where
  "patched L a b m x = (\<exists>m'. finalizers m' = (if finalizers a = finalizers b then finalizers m else finalizers b) \<and>
     (deleting L m' \<longleftrightarrow> deleting L m) \<and> x = (if deleting L m' \<and> finalizers m' = [] then None else Some m'))"

definition guest_of :: "NamespacedName \<Rightarrow> object_key" where
  "guest_of k = (g_Kind swiftGuestGVK, nn_Namespace k, nn_Name k)"

text \<open>A call that fails may have been carried out.\<close>

definition api_effect :: "lib \<Rightarrow> NamespacedName \<Rightarrow> view effect" where
  "api_effect L k c resp v v' = (case c of
       CGetMachine k' \<Rightarrow> v' = v \<and> (\<forall>ksm. k' = k \<and> resp = RInfraMachine ksm \<longrightarrow> machine_seen L k ksm v)
     | CGetObject u k' \<Rightarrow> v' = v \<and> ((u_GetKind L u, nn_Namespace k', nn_Name k') = guest_of k \<and> resp = RNotFound \<longrightarrow> v_guest v = None)
     | CCreateObject u \<Rightarrow> v' = v \<or> object_key L u = guest_of k \<and> (\<exists>g. v' = v\<lparr>v_guest := Some g\<rparr>)
     | CUpdateObject u \<Rightarrow> v' = v \<or> v_guest v \<noteq> None \<and> (\<exists>g. v' = v\<lparr>v_guest := Some g\<rparr>)
     | CDeleteObject u \<Rightarrow> v' = v \<or> v_guest v \<noteq> None \<and> (\<exists>g. v' = v\<lparr>v_guest := g\<rparr>)
     | CPatchMachine a b \<Rightarrow>
         (resp \<noteq> ROk \<or> nn (om_Namespace (ksm_Meta b)) (om_Name (ksm_Meta b)) \<noteq> k) \<and> v' = v \<or>
         (\<exists>m x. v_machine v = Some m \<and> patched L a b m x \<and> v' = v\<lparr>v_machine := x\<rparr>)
     | _ \<Rightarrow> v' = v)"

definition interfered :: "lib \<Rightarrow> NamespacedName \<Rightarrow> view effect" where
  "interfered L k c resp v v' = (\<exists>v1. (others L)\<^sup>*\<^sup>* v v1 \<and> api_effect L k c resp v1 v')"

section \<open>Steps as steps of the promise\<close>

lemma life_step: "lifecycle s t \<Longrightarrow> s' = t \<Longrightarrow> lifecycle\<^sup>*\<^sup>* s s'"
  by simp

lemma others_life:
  assumes "others L v v'"
  shows "lifecycle\<^sup>*\<^sup>* (life_of L v) (life_of L v')"
  using assms
proof cases
  case (creates m)
  then show ?thesis by (intro life_step [OF admitted]) (auto simp: life_of_def persisted_def)
next
  case (changes m m')
  show ?thesis
  proof (cases "deleting L m' \<and> \<not> deleting L m")
    case True
    with changes show ?thesis by (intro life_step [OF doomed]) (auto simp: life_of_def persisted_def)
  next
    case False
    with changes have "life_of L v' = life_of L v" by (auto simp: life_of_def persisted_def)
    then show ?thesis by simp
  qed
next
  case (removes m)
  then show ?thesis by (intro life_step [OF gone]) (auto simp: life_of_def persisted_def)
next
  case (guest_acts g g')
  show ?thesis
  proof (cases g')
    case None
    with guest_acts show ?thesis by (intro life_step [OF stopped]) (auto simp: life_of_def persisted_def)
  next
    case Some
    with guest_acts have "life_of L v' = life_of L v" by (auto simp: life_of_def persisted_def)
    then show ?thesis by simp
  qed
qed

lemma others_lives: "(others L)\<^sup>*\<^sup>* v v' \<Longrightarrow> lifecycle\<^sup>*\<^sup>* (life_of L v) (life_of L v')"
  by (induction rule: rtranclp_induct) (auto dest: others_life intro: rtranclp_trans)

text \<open>Properties that others leave alone.\<close>

lemma others_stable:
  assumes "others L v v'"
  shows "persisted v \<Longrightarrow> persisted v'" "v_guest v = None \<Longrightarrow> v_guest v' = None"
    "(persisted v \<longrightarrow> (\<exists>m. v_machine v = Some m \<and> deleting L m)) \<Longrightarrow>
      (persisted v' \<longrightarrow> (\<exists>m. v_machine v' = Some m \<and> deleting L m))"
  using assms by (cases; auto simp: persisted_def)+

lemma stable_star: "r\<^sup>*\<^sup>* v v' \<Longrightarrow> P v \<Longrightarrow> (\<And>x y. r x y \<Longrightarrow> P x \<Longrightarrow> P y) \<Longrightarrow> P v'"
  by (induction rule: rtranclp_induct) auto

text \<open>A patch that takes the finalizer away, and the creation of the guest.\<close>

definition drops :: "api_call \<Rightarrow> bool" where
  "drops c = (case c of CPatchMachine a b \<Rightarrow> finalizers a \<noteq> finalizers b \<and> MachineFinalizer \<notin> set (finalizers b) | _ \<Rightarrow> False)"

definition boots :: "lib \<Rightarrow> NamespacedName \<Rightarrow> api_call \<Rightarrow> bool" where
  "boots L k c = (case c of CCreateObject u \<Rightarrow> object_key L u = guest_of k | _ \<Rightarrow> False)"

lemma patched_life:
  assumes "v_machine v = Some m" "patched L a b m x" "\<not> drops (CPatchMachine a b)"
  shows "lifecycle\<^sup>*\<^sup>* (life_of L v) (life_of L (v\<lparr>v_machine := x\<rparr>))"
proof -
  obtain m' where m': "finalizers m' = (if finalizers a = finalizers b then finalizers m else finalizers b)"
    "deleting L m' \<longleftrightarrow> deleting L m" "x = (if deleting L m' \<and> finalizers m' = [] then None else Some m')"
    using assms(2) by (auto simp: patched_def)
  consider "x = None" "finalizers m = []" | "x = Some m'" "MachineFinalizer \<in> set (finalizers m')"
    | "x = Some m'" "finalizers m' = finalizers m"
    using m' assms(3) by (auto simp: drops_def split: if_splits)
  then show ?thesis
  proof cases
    case 1
    with assms(1) show ?thesis by (intro life_step [OF gone]) (auto simp: life_of_def persisted_def)
  next
    case 2
    with assms(1) m'(2) show ?thesis by (intro life_step [OF protected]) (auto simp: life_of_def persisted_def)
  next
    case 3
    with assms(1) m'(2) have "life_of L (v\<lparr>v_machine := x\<rparr>) = life_of L v" by (auto simp: life_of_def persisted_def)
    then show ?thesis by simp
  qed
qed

lemma dropped_life:
  assumes "v_machine v = Some m" "patched L a b m x" "drops (CPatchMachine a b)" "v_guest v = None"
    "persisted v \<longrightarrow> (\<exists>m. v_machine v = Some m \<and> deleting L m)"
  shows "lifecycle\<^sup>*\<^sup>* (life_of L v) (life_of L (v\<lparr>v_machine := x\<rparr>))"
proof -
  obtain m' where m': "finalizers m' = finalizers b" "deleting L m' \<longleftrightarrow> deleting L m" "MachineFinalizer \<notin> set (finalizers b)"
    "x = (if deleting L m' \<and> finalizers m' = [] then None else Some m')"
    using assms(2,3) by (auto simp: patched_def drops_def)
  have r: "lifecycle\<^sup>*\<^sup>* (life_of L v) ((life_of L v)\<lparr>lf_finalizer := False\<rparr>)"
  proof (cases "persisted v")
    case True
    then show ?thesis using assms(4,5) by (intro life_step [OF released]) (auto simp: life_of_def)
  next
    case False
    then have "(life_of L v)\<lparr>lf_finalizer := False\<rparr> = life_of L v" by (simp add: life_of_def)
    then show ?thesis by simp
  qed
  have "lifecycle\<^sup>*\<^sup>* ((life_of L v)\<lparr>lf_finalizer := False\<rparr>) (life_of L (v\<lparr>v_machine := x\<rparr>))"
  proof (cases x)
    case None
    with assms(1) show ?thesis by (intro life_step [OF gone]) (auto simp: life_of_def persisted_def)
  next
    case Some
    with assms(1) m' have "life_of L (v\<lparr>v_machine := x\<rparr>) = (life_of L v)\<lparr>lf_finalizer := False\<rparr>"
      by (auto simp: life_of_def persisted_def split: if_splits)
    then show ?thesis by simp
  qed
  with r show ?thesis by (rule rtranclp_trans)
qed

lemma effect_cases:
  assumes "api_effect L k c resp v v'"
  obtains (same) "v' = v" | (boot) g where "boots L k c" "v' = v\<lparr>v_guest := Some g\<rparr>"
    | (guest) g where "v_guest v \<noteq> None" "v' = v\<lparr>v_guest := g\<rparr>"
    | (patch) a b m x where "c = CPatchMachine a b" "v_machine v = Some m" "patched L a b m x" "v' = v\<lparr>v_machine := x\<rparr>"
  using assms by (auto simp: api_effect_def boots_def split: api_call.splits)

lemma guest_life:
  assumes "v_guest v \<noteq> None"
  shows "lifecycle\<^sup>*\<^sup>* (life_of L v) (life_of L (v\<lparr>v_guest := g\<rparr>))"
  using assms by (auto intro: others_life others.guest_acts)

lemma effect_life:
  assumes "api_effect L k c resp v v'" "\<not> drops c" "boots L k c \<longrightarrow> persisted v"
  shows "lifecycle\<^sup>*\<^sup>* (life_of L v) (life_of L v')"
  using assms(1)
proof (cases rule: effect_cases)
  case (boot g)
  with assms(3) show ?thesis by (intro life_step [OF booted]) (auto simp: life_of_def persisted_def)
qed (use assms(2) patched_life guest_life in auto)

lemma effect_stable:
  assumes "api_effect L k c resp v v'"
  shows "persisted v \<Longrightarrow> \<not> drops c \<Longrightarrow> persisted v'" "v_guest v = None \<Longrightarrow> \<not> boots L k c \<Longrightarrow> v_guest v' = None"
    "(persisted v \<longrightarrow> (\<exists>m. v_machine v = Some m \<and> deleting L m)) \<Longrightarrow> (\<And>a b. c \<noteq> CPatchMachine a b) \<Longrightarrow>
      (persisted v' \<longrightarrow> (\<exists>m. v_machine v' = Some m \<and> deleting L m))"
  using assms by (cases rule: effect_cases; auto simp: persisted_def patched_def drops_def)+

lemma interfered_life:
  assumes "interfered L k c resp v v'" "\<not> drops c" "boots L k c \<longrightarrow> persisted v"
  shows "lifecycle\<^sup>*\<^sup>* (life_of L v) (life_of L v')"
proof -
  obtain v1 where v1: "(others L)\<^sup>*\<^sup>* v v1" "api_effect L k c resp v1 v'" using assms(1) by (auto simp: interfered_def)
  have "persisted v \<Longrightarrow> persisted v1" using v1(1) by (rule stable_star) (auto dest: others_stable)
  with assms v1 show ?thesis by (meson effect_life others_lives rtranclp_trans)
qed

lemma interfered_stable:
  assumes "interfered L k c resp v v'"
  shows "persisted v \<Longrightarrow> \<not> drops c \<Longrightarrow> persisted v'" "v_guest v = None \<Longrightarrow> \<not> boots L k c \<Longrightarrow> v_guest v' = None"
    "(persisted v \<longrightarrow> (\<exists>m. v_machine v = Some m \<and> deleting L m)) \<Longrightarrow> (\<And>a b. c \<noteq> CPatchMachine a b) \<Longrightarrow>
      (persisted v' \<longrightarrow> (\<exists>m. v_machine v' = Some m \<and> deleting L m))"
proof -
  obtain v1 where v1: "(others L)\<^sup>*\<^sup>* v v1" "api_effect L k c resp v1 v'" using assms by (auto simp: interfered_def)
  show "persisted v \<Longrightarrow> \<not> drops c \<Longrightarrow> persisted v'"
    using stable_star [OF v1(1), of persisted] others_stable(1) effect_stable(1) [OF v1(2)] by blast
  show "v_guest v = None \<Longrightarrow> \<not> boots L k c \<Longrightarrow> v_guest v' = None"
    using stable_star [OF v1(1), of "\<lambda>v. v_guest v = None"] others_stable(2) effect_stable(2) [OF v1(2)] by blast
  show "(persisted v \<longrightarrow> (\<exists>m. v_machine v = Some m \<and> deleting L m)) \<Longrightarrow> (\<And>a b. c \<noteq> CPatchMachine a b) \<Longrightarrow>
      (persisted v' \<longrightarrow> (\<exists>m. v_machine v' = Some m \<and> deleting L m))"
    using stable_star [OF v1(1), of "\<lambda>v. persisted v \<longrightarrow> (\<exists>m. v_machine v = Some m \<and> deleting L m)"]
      others_stable(3) effect_stable(3) [OF v1(2)] by blast
qed

section \<open>Runs\<close>

text \<open>Along the calls of a log that never drops the finalizer.\<close>

lemma path_quiet:
  assumes "path (interfered L k) l v v'" "\<And>c r. (c, r) \<in> set l \<Longrightarrow> \<not> drops c \<and> \<not> boots L k c"
  shows "lifecycle\<^sup>*\<^sup>* (life_of L v) (life_of L v')"
  using assms(1)
  by (rule path_induct) (auto dest: assms(2) intro: rtranclp_trans interfered_life)

lemma path_persisted:
  assumes "path (interfered L k) l v v'" "persisted v" "\<And>c r. (c, r) \<in> set l \<Longrightarrow> \<not> drops c"
  shows "lifecycle\<^sup>*\<^sup>* (life_of L v) (life_of L v') \<and> persisted v'"
  using assms(1)
proof (rule path_induct)
  fix c r v1 v2
  assume "(c, r) \<in> set l" "interfered L k c r v1 v2" "lifecycle\<^sup>*\<^sup>* (life_of L v) (life_of L v1) \<and> persisted v1"
  with assms(3) show "lifecycle\<^sup>*\<^sup>* (life_of L v) (life_of L v2) \<and> persisted v2"
    by (meson interfered_life interfered_stable(1) rtranclp_trans)
qed (simp add: assms(2))

lemma path_no_guest:
  assumes "path (interfered L k) l v v'" "v_guest v = None" "\<And>c r. (c, r) \<in> set l \<Longrightarrow> \<not> boots L k c"
  shows "v_guest v' = None"
  using assms(1) by (rule path_induct) (use assms(2,3) interfered_stable(2) in blast)+

lemma path_deleting:
  assumes "path (interfered L k) l v v'" "persisted v \<longrightarrow> (\<exists>m. v_machine v = Some m \<and> deleting L m)"
    "\<And>c r a b. (c, r) \<in> set l \<Longrightarrow> c \<noteq> CPatchMachine a b"
  shows "persisted v' \<longrightarrow> (\<exists>m. v_machine v' = Some m \<and> deleting L m)"
  using assms(1)
proof (rule path_induct)
  show "persisted v \<longrightarrow> (\<exists>m. v_machine v = Some m \<and> deleting L m)" by (rule assms(2))
qed (use assms(3) interfered_stable(3) in blast)

text \<open>The promise with the guest left out.\<close>

definition unguested :: "life \<Rightarrow> life" where
  "unguested s = s\<lparr>lf_guest := False\<rparr>"

lemma lifecycle_unguested: "lifecycle s s' \<Longrightarrow> lifecycle\<^sup>*\<^sup>* (unguested s) (unguested s')"
  by (induction rule: lifecycle.induct)
    (auto simp: unguested_def intro: life_step [OF admitted] life_step [OF doomed] life_step [OF gone]
      life_step [OF protected] life_step [OF released])

lemma lifecycles_unguested: "lifecycle\<^sup>*\<^sup>* s s' \<Longrightarrow> lifecycle\<^sup>*\<^sup>* (unguested s) (unguested s')"
  by (induction rule: rtranclp_induct) (auto dest: lifecycle_unguested intro: rtranclp_trans)

lemma effect_unguested:
  assumes "interfered L k c resp v v'" "\<not> drops c"
  shows "lifecycle\<^sup>*\<^sup>* (unguested (life_of L v)) (unguested (life_of L v'))"
proof -
  obtain v1 where v1: "(others L)\<^sup>*\<^sup>* v v1" "api_effect L k c resp v1 v'" using assms(1) by (auto simp: interfered_def)
  have "lifecycle\<^sup>*\<^sup>* (unguested (life_of L v1)) (unguested (life_of L v'))"
    using v1(2)
  proof (cases rule: effect_cases)
    case (boot g)
    then have "unguested (life_of L v') = unguested (life_of L v1)" by (simp add: life_of_def unguested_def persisted_def)
    then show ?thesis by simp
  qed (use assms(2) patched_life guest_life in \<open>auto intro: lifecycles_unguested\<close>)
  with lifecycles_unguested [OF others_lives [OF v1(1)]] show ?thesis by (rule rtranclp_trans)
qed

lemma path_unguested:
  assumes "path (interfered L k) l v v'" "\<And>c r. (c, r) \<in> set l \<Longrightarrow> \<not> drops c"
  shows "lifecycle\<^sup>*\<^sup>* (unguested (life_of L v)) (unguested (life_of L v'))"
  using assms(1)
  by (rule path_induct) (auto dest: assms(2) intro: rtranclp_trans effect_unguested)

text \<open>A run that ends with the finalizer in place may have created the guest at any point of it.\<close>

lemma path_ends_persisted:
  assumes "path (interfered L k) l v v'" "\<And>c r. (c, r) \<in> set l \<Longrightarrow> \<not> drops c" "persisted v'"
  shows "lifecycle\<^sup>*\<^sup>* (life_of L v) (life_of L v')"
proof -
  have "lifecycle\<^sup>*\<^sup>* (life_of L v) (unguested (life_of L v))"
    unfolding unguested_def by (intro life_step [OF stopped]) simp
  also have "lifecycle\<^sup>*\<^sup>* (unguested (life_of L v)) (unguested (life_of L v'))" using assms(1,2) by (rule path_unguested)
  also have "lifecycle\<^sup>*\<^sup>* (unguested (life_of L v')) (life_of L v')"
  proof (cases "v_guest v'")
    case None
    then show ?thesis by (simp add: unguested_def life_of_def)
  next
    case Some
    with assms(3) show ?thesis by (intro life_step [OF booted]) (auto simp: unguested_def life_of_def)
  qed
  finally show ?thesis .
qed

text \<open>
  A log, possibly cut off, in which the creation of the guest is safe: the machine that was read had
  the finalizer, or the patch that adds it was accepted.
\<close>

definition guarded_run :: "lib \<Rightarrow> NamespacedName \<Rightarrow> call_log \<Rightarrow> bool" where
  "guarded_run L k l = (\<forall>ksm. (CGetMachine k, RInfraMachine ksm) \<in> set l \<longrightarrow> MachineFinalizer \<notin> set (finalizers ksm) \<longrightarrow>
     (\<exists>c \<in> set l. boots L k (fst c)) \<longrightarrow> (\<exists>a b. (CPatchMachine a b, ROk) \<in> set l))"

lemma writes_only: "drops c \<Longrightarrow> is_write c" "boots L k c \<Longrightarrow> is_write c"
  by (cases c; simp add: drops_def boots_def)+

text \<open>What is known once the machine has been read.\<close>

lemma read_seen:
  "interfered L k (CGetMachine k) (RInfraMachine ksm) v v' \<Longrightarrow> machine_seen L k ksm v'"
  by (auto simp: interfered_def api_effect_def)

lemma body_finalizers:
  assumes "objects_lib L" "guest_body L ksm machine cluster body ksm' out"
  shows "IsZero L (om_DeletionTimestamp (ksm_Meta ksm)) \<Longrightarrow> MachineFinalizer \<in> set (finalizers ksm) \<Longrightarrow>
      finalizers ksm' = finalizers ksm"
    "nn (om_Namespace (ksm_Meta ksm')) (om_Name (ksm_Meta ksm')) = nn (om_Namespace (ksm_Meta ksm)) (om_Name (ksm_Meta ksm))"
  using assms(2)
  by (cases; simp add: machine_AddFinalizer_def machine_RemoveFinalizer_def objects_lib.add_finalizer_again [OF assms(1)])+

lemma delete_no_boot: "delete_trace L req l r \<Longrightarrow> (c, resp) \<in> set l \<Longrightarrow> \<not> boots L k c"
  by (erule delete_trace.cases) (auto simp: boots_def guest_get_def)

lemma delete_body:
  assumes "deleting L ksm" "guest_body L ksm machine cluster body ksm' out"
  shows "(c, r) \<in> set body \<Longrightarrow> \<not> boots L k c"
    "drops (CPatchMachine ksm ksm') \<Longrightarrow> \<exists>resp. body = [(guest_lookup L ksm, RNotFound), (seed_deletion L ksm, resp)]"
proof -
  from assms(2,1) have "\<exists>req r. delete_trace L req body r" by cases auto
  then show "(c, r) \<in> set body \<Longrightarrow> \<not> boots L k c" using delete_no_boot by blast
  assume "drops (CPatchMachine ksm ksm')"
  with assms(2,1) show "\<exists>resp. body = [(guest_lookup L ksm, RNotFound), (seed_deletion L ksm, resp)]"
    by cases (auto simp: drops_def delete_done delete_request_calls)
qed

text \<open>A run that drops the finalizer finds no guest when it gets there.\<close>

lemma dropping_path:
  assumes "k8s_lib L" "deleting L ksm"
    "path (interfered L k) (machine_prefix k ksm machine cluster @ [(guest_lookup L ksm, RNotFound), (seed_deletion L ksm, resp)]) v v'"
  shows "v_guest v' = None" "persisted v' \<longrightarrow> (\<exists>m. v_machine v' = Some m \<and> deleting L m)"
proof -
  let ?l = "[(CGetOwnerMachine (ksm_Meta ksm), RMachine machine),
     (CGetClusterFromMetadata (ksm_Meta ksm), RCluster cluster), (CNewMachineHelper ksm, ROk)]"
  obtain v1 v2 v3 where p: "interfered L k (CGetMachine k) (RInfraMachine ksm) v v1" "path (interfered L k) ?l v1 v2"
    "interfered L k (guest_lookup L ksm) RNotFound v2 v3" "interfered L k (seed_deletion L ksm) resp v3 v'"
    using assms(3) by (simp only: machine_prefix_def append.simps path.simps fst_conv snd_conv simp_thms) blast
  have seen: "machine_seen L k ksm v1" using p(1) by (rule read_seen)
  have "v_guest v3 = None"
    using p(3) seen k8s_lib.meta_simps(1) [OF assms(1)]
    by (auto simp: interfered_def api_effect_def guest_lookup_def guest_of_def newUnstructured_def machine_seen_def nn_def)
  then show "v_guest v' = None"
    using interfered_stable(2) [OF p(4)] by (simp add: boots_def seed_deletion_def)
  have "path (interfered L k) (?l @ [(guest_lookup L ksm, RNotFound), (seed_deletion L ksm, resp)]) v1 v'"
    using p(2-4) by (auto simp: path_append)
  moreover have "persisted v1 \<longrightarrow> (\<exists>m. v_machine v1 = Some m \<and> deleting L m)"
    using seen assms(2) by (simp add: machine_seen_def)
  ultimately show "persisted v' \<longrightarrow> (\<exists>m. v_machine v' = Some m \<and> deleting L m)"
    by (rule path_deleting) (auto simp: guest_lookup_def seed_deletion_def)
qed

lemma patched_adds:
  assumes "patched L a b m x" "MachineFinalizer \<notin> set (finalizers a)" "MachineFinalizer \<in> set (finalizers b)"
  shows "persisted (v\<lparr>v_machine := x\<rparr>)"
proof -
  have "finalizers a \<noteq> finalizers b" "finalizers b \<noteq> []" using assms(2,3) by auto
  then show ?thesis using assms(1,3) by (auto simp: patched_def persisted_def)
qed

text \<open>The two branches of a run, for a log that may be cut off.\<close>

lemma cut_off: "prefix l (p @ b @ [x]) \<Longrightarrow> set l \<subseteq> set (p @ b) \<or> l = (p @ b) @ [x]"
  by (metis append_assoc prefix_snoc set_mono_prefix)

lemma deletion_life:
  assumes L: "k8s_lib L" and del: "deleting L ksm" and body: "guest_body L ksm machine cluster body ksm' out"
    and l: "prefix l (machine_prefix k ksm machine cluster @ body @ [(CPatchMachine ksm ksm', resp)])"
    and path: "path (interfered L k) l v v'"
  shows "lifecycle\<^sup>*\<^sup>* (life_of L v) (life_of L v')"
proof -
  let ?l = "machine_prefix k ksm machine cluster @ body"
  have quiet: "\<not> drops c \<and> \<not> boots L k c" if "(c, r) \<in> set ?l" for c r
  proof (cases "(c, r) \<in> set body")
    case True
    then show ?thesis
      using delete_body(1) [OF del body] machine_body_no_patch [OF body] by (auto simp: drops_def split: api_call.splits)
  next
    case False
    with that show ?thesis by (auto simp: machine_prefix_def drops_def boots_def)
  qed
  consider "set l \<subseteq> set ?l" | "l = ?l @ [(CPatchMachine ksm ksm', resp)]" "\<not> drops (CPatchMachine ksm ksm')"
    | "l = ?l @ [(CPatchMachine ksm ksm', resp)]" "drops (CPatchMachine ksm ksm')"
    using cut_off [OF l] by blast
  then show ?thesis
  proof cases
    case 1
    then show ?thesis by (intro path_quiet [OF path]) (use quiet in blast)
  next
    case 2
    have "\<not> boots L k (CPatchMachine ksm ksm')" by (simp add: boots_def)
    with 2 show ?thesis by (intro path_quiet [OF path]) (use quiet in fastforce)
  next
    case 3
    then obtain v1 v2 where p: "path (interfered L k) ?l v v1" "(others L)\<^sup>*\<^sup>* v1 v2"
      "api_effect L k (CPatchMachine ksm ksm') resp v2 v'"
      using path by (auto simp: path_snoc interfered_def simp flip: append_assoc)
    have guest: "v_guest v1 = None" "persisted v1 \<longrightarrow> (\<exists>m. v_machine v1 = Some m \<and> deleting L m)"
      using delete_body(2) [OF del body 3(2)] p(1) dropping_path [OF L del] by auto
    have "v_guest v2 = None"
      using p(2) guest(1) by (rule stable_star) (rule others_stable(2))
    moreover have "persisted v2 \<longrightarrow> (\<exists>m. v_machine v2 = Some m \<and> deleting L m)"
      using p(2) guest(2) by (rule stable_star) (rule others_stable(3))
    ultimately have "lifecycle\<^sup>*\<^sup>* (life_of L v2) (life_of L v')"
      using p(3) dropped_life [OF _ _ 3(2)] by (auto simp: api_effect_def)
    with path_quiet [OF p(1) quiet] others_lives [OF p(2)] show ?thesis by (meson rtranclp_trans)
  qed
qed

lemma accepted_persists:
  assumes body: "guest_body L ksm machine cluster body ksm' out"
    and l: "prefix l (machine_prefix k ksm machine cluster @ body @ [(CPatchMachine ksm ksm', resp)])"
    and path: "path (interfered L k) l v v'" and acc: "(CPatchMachine a b, ROk) \<in> set l"
    and fin: "MachineFinalizer \<notin> set (finalizers ksm)" "MachineFinalizer \<in> set (finalizers ksm')"
    and key: "nn (om_Namespace (ksm_Meta ksm')) (om_Name (ksm_Meta ksm')) = k"
  shows "persisted v'"
proof -
  have "l = (machine_prefix k ksm machine cluster @ body) @ [(CPatchMachine ksm ksm', resp)] \<and> resp = ROk"
    using cut_off [OF l]
  proof
    assume "set l \<subseteq> set (machine_prefix k ksm machine cluster @ body)"
    with acc machine_body_no_patch [OF body] show ?thesis by (fastforce simp: machine_prefix_def)
  next
    assume "l = (machine_prefix k ksm machine cluster @ body) @ [(CPatchMachine ksm ksm', resp)]"
    with acc machine_body_no_patch [OF body] show ?thesis by (fastforce simp: machine_prefix_def)
  qed
  then obtain v1 where "api_effect L k (CPatchMachine ksm ksm') ROk v1 v'"
    using path by (auto simp: path_snoc interfered_def simp flip: append_assoc)
  with key show ?thesis using patched_adds [OF _ fin] by (auto simp: api_effect_def)
qed

lemma live_life:
  assumes L: "k8s_lib L" and live: "\<not> deleting L ksm" and body: "guest_body L ksm machine cluster body ksm' out"
    and l: "prefix l (machine_prefix k ksm machine cluster @ body @ [(CPatchMachine ksm ksm', resp)])"
    and path: "path (interfered L k) l v v'" and guarded: "guarded_run L k l"
  shows "lifecycle\<^sup>*\<^sup>* (life_of L v) (life_of L v')"
proof -
  have lib: "objects_lib L" using L by (simp add: k8s_lib_def)
  have fin: "MachineFinalizer \<in> set (finalizers ksm')" using machine_body_live [OF lib body] live by simp
  have calls: "(c, r) \<in> set l \<Longrightarrow> \<not> drops c" for c r
    using set_mono_prefix [OF l] machine_body_no_patch [OF body] fin
    by (fastforce simp: machine_prefix_def drops_def split: api_call.splits)
  have keys: "nn (om_Namespace (ksm_Meta ksm')) (om_Name (ksm_Meta ksm')) = nn (om_Namespace (ksm_Meta ksm)) (om_Name (ksm_Meta ksm))"
    by (rule body_finalizers(2) [OF lib body])
  consider "l = []" | l2 where "l = (CGetMachine k, RInfraMachine ksm) # l2"
    using l by (cases l) (auto simp: machine_prefix_def)
  then show ?thesis
  proof cases
    case 1
    then show ?thesis using path by simp
  next
    case 2
    then obtain v1 where v1: "interfered L k (CGetMachine k) (RInfraMachine ksm) v v1" "path (interfered L k) l2 v1 v'"
      using path by auto
    have seen: "machine_seen L k ksm v1" using v1(1) by (rule read_seen)
    consider "MachineFinalizer \<in> set (finalizers ksm)" | "\<forall>c \<in> set l. \<not> boots L k (fst c)"
      | a b where "MachineFinalizer \<notin> set (finalizers ksm)" "(CPatchMachine a b, ROk) \<in> set l"
    proof -
      have "(CGetMachine k, RInfraMachine ksm) \<in> set l" using 2 by simp
      then show thesis using guarded that unfolding guarded_run_def by blast
    qed
    then show ?thesis
    proof cases
      case 1
      then have "persisted v1" using seen live by (simp add: machine_seen_def)
      with v1(2) have "lifecycle\<^sup>*\<^sup>* (life_of L v1) (life_of L v')" by (rule path_persisted [THEN conjunct1]) (use calls 2 in auto)
      moreover have "lifecycle\<^sup>*\<^sup>* (life_of L v) (life_of L v1)"
        using v1(1) by (rule interfered_life) (simp_all add: drops_def boots_def)
      ultimately show ?thesis by (meson rtranclp_trans)
    next
      case 2
      then show ?thesis using path calls by (intro path_quiet) auto
    next
      case 3
      have "persisted v'"
        using seen keys by (intro accepted_persists [OF body l path 3(2,1) fin]) (simp add: machine_seen_def)
      with path calls show ?thesis by (rule path_ends_persisted)
    qed
  qed
qed

lemma run_life:
  assumes "k8s_lib L" "machine_trace L k log r" "prefix l log" "path (interfered L k) l v v'" "guarded_run L k l"
  shows "lifecycle\<^sup>*\<^sup>* (life_of L v) (life_of L v')"
  using assms(2)
proof cases
  case (mt_idle e)
  then have "\<not> is_write c" if "(c, r) \<in> set l" for c r
    using that set_mono_prefix [OF assms(3)] by (fastforce simp: list_all_iff)
  then show ?thesis using writes_only assms(4) by (intro path_quiet) blast+
next
  case (mt_run cluster ksm machine body ksm' out p)
  show ?thesis
  proof (cases "deleting L ksm")
    case True
    then show ?thesis using deletion_life [OF assms(1) True mt_run(5)] assms(3,4) mt_run(1) by blast
  next
    case False
    then show ?thesis using live_life [OF assms(1) False mt_run(5)] assms(3-5) mt_run(1) by blast
  qed
qed

section \<open>The system\<close>

text \<open>
  Others act, a run of the reconciler takes place, or a run is lost after some of its calls. \<open>view\<close> is
  the part of the world that concerns the machine.
\<close>

inductive system_step :: "lib \<Rightarrow> 'w client \<Rightarrow> NamespacedName \<Rightarrow> ('w \<Rightarrow> view) \<Rightarrow> 'w \<Rightarrow> 'w \<Rightarrow> bool" for L C k view where
  others_act: "(others L)\<^sup>*\<^sup>* (view w) (view w') \<Longrightarrow> system_step L C k view w w'"
| run_ends: "run_state (Machine_Reconcile L (logged C) k) (w, []) = (r, (w', l)) \<Longrightarrow> guarded_run L k l \<Longrightarrow>
    system_step L C k view w w'"
| run_lost: "run_state (Machine_Reconcile L (logged C) k) (w, []) = (r, (w1, l)) \<Longrightarrow> prefix l1 l \<Longrightarrow>
    path (interfered L k) l1 (view w) (view w') \<Longrightarrow> guarded_run L k l1 \<Longrightarrow> system_step L C k view w w'"

lemma system_step_life:
  assumes "k8s_lib L" "effect_client C view (interfered L k)" "system_step L C k view w w'"
  shows "lifecycle\<^sup>*\<^sup>* (life_of L (view w)) (life_of L (view w'))"
  using assms(3)
proof cases
  case others_act
  then show ?thesis by (rule others_lives)
next
  case (run_ends r l)
  note run = effect_client.Machine_Reconcile_runs [OF assms(2) run_ends(1)]
  show ?thesis using run_life [OF assms(1) run(1) prefix_order.refl run(2) run_ends(2)] .
next
  case (run_lost r w1 l l1)
  note run = effect_client.Machine_Reconcile_runs [OF assms(2) run_lost(1)]
  show ?thesis using run_life [OF assms(1) run(1) run_lost(2-4)] .
qed

section \<open>The in-memory server\<close>

definition mem_view :: "NamespacedName \<Rightarrow> store \<Rightarrow> view" where
  "mem_view k w = \<lparr> v_machine = mem_machines w (nn_pair k), v_guest = mem_objs ref_lib w (guest_of k) \<rparr>"

lemma alone: "api_effect L k c resp v v' \<Longrightarrow> interfered L k c resp v v'"
  by (auto simp: interfered_def)

lemma meta_key_nn: "nn (om_Namespace m) (om_Name m) = k \<longleftrightarrow> meta_key m = nn_pair k"
  by (cases k) (auto simp: meta_key_def nn_pair_def nn_def)

lemma mem_machine_filed: "mem_machines w p = Some m \<Longrightarrow> meta_key (ksm_Meta m) = p"
  by (auto simp: mem_machines_def split: option.splits if_splits)

lemma mem_seen: "mem_machines w (nn_pair k) = Some m \<Longrightarrow> machine_seen ref_lib k m (mem_view k w)"
  using mem_machine_filed [of w "nn_pair k" m] by (auto simp: machine_seen_def meta_key_nn mem_view_def persisted_def)

lemma mem_patch_effect:
  "wp (mem_PatchMachine ref_lib a b)
     (\<lambda>r w'. api_effect ref_lib k (CPatchMachine a b) (response_of r) (mem_view k w) (mem_view k w')) w"
proof (cases "mem_machines w (meta_key (ksm_Meta b))")
  case None
  then show ?thesis by (simp add: wp_def mem_PatchMachine_def api_effect_def)
next
  case (Some x)
  define y where "y = patched_machine a b x"
  have y: "meta_key (ksm_Meta y) = meta_key (ksm_Meta b)" "deleting ref_lib y \<longleftrightarrow> deleting ref_lib x"
    "finalizers y = (if finalizers a = finalizers b then finalizers x else finalizers b)"
    by (simp_all add: y_def patched_machine_def meta_key_def)
  let ?z = "if deleting ref_lib y \<and> finalizers y = [] then None else Some y"
  let ?w = "w\<lparr>st_machines := (st_machines w)(meta_key (ksm_Meta b) := ?z)\<rparr>"
  have view: "mem_view k ?w = (if meta_key (ksm_Meta b) = nn_pair k then (mem_view k w)\<lparr>v_machine := ?z\<rparr> else mem_view k w)"
    using y(1) by (auto simp: mem_view_def mem_machines_def mem_objs_def)
  have "patched ref_lib a b x ?z" unfolding patched_def using y(2,3) by (intro exI [of _ y]) simp
  then have "api_effect ref_lib k (CPatchMachine a b) ROk (mem_view k w) (mem_view k ?w)"
    using Some by (auto simp: api_effect_def view meta_key_nn) (auto simp: mem_view_def)
  then show ?thesis by (simp add: wp_def mem_PatchMachine_def Some Let_def y_def [symmetric])
qed

lemma mem_object_effects:
  "wp (mem_CreateObject ref_lib u)
     (\<lambda>r w'. api_effect ref_lib k (CCreateObject u) (response_of r) (mem_view k w) (mem_view k w')) w"
  "wp (mem_UpdateObject ref_lib u)
     (\<lambda>r w'. api_effect ref_lib k (CUpdateObject u) (response_of r) (mem_view k w) (mem_view k w')) w"
  "wp (mem_DeleteObject ref_lib u)
     (\<lambda>r w'. api_effect ref_lib k (CDeleteObject u) (response_of r) (mem_view k w) (mem_view k w')) w"
  by (auto simp: wp_def mem_CreateObject_def mem_UpdateObject_def mem_DeleteObject_def api_effect_def mem_view_def
      mem_objs_update mem_machines_def)

lemma mem_read_effects:
  "wp (mem_read (\<lambda>w. mem_machines w (nn_pair k'))) (\<lambda>r w'. api_effect ref_lib k (CGetMachine k') (read_response RInfraMachine r)
     (mem_view k w) (mem_view k w')) w"
  "wp (mem_read (\<lambda>w. mem_objs ref_lib w (u_GetKind ref_lib u, nn_Namespace k', nn_Name k')))
     (\<lambda>r w'. api_effect ref_lib k (CGetObject u k') (response_of r) (mem_view k w) (mem_view k w')) w"
  by (auto simp: wp_def mem_read_def answer_def api_effect_def mem_seen split: option.splits) (auto simp: mem_view_def)

lemma mem_node_effect:
  "wp (mem_PatchNode n p) (\<lambda>r w'. api_effect ref_lib k (CPatchNode cs n p) (response_of r) (mem_view k w) (mem_view k w')) w"
  by (simp add: wp_def mem_PatchNode_def api_effect_def mem_view_def mem_machines_def mem_objs_def Let_def split: option.split)

lemma mem_other_effects:
  "wp (mem_read f) (\<lambda>r w'. api_effect ref_lib k (CGetCluster k') (g r) (mem_view k w) (mem_view k w')) w"
  "wp (mem_read h) (\<lambda>r w'. api_effect ref_lib k (CGetSecret k') (g' r) (mem_view k w) (mem_view k w')) w"
  "wp (mem_GetOwner s e m) (\<lambda>r w'. api_effect ref_lib k (CGetOwnerMachine m) (g'' r) (mem_view k w) (mem_view k w')) w"
  "wp (mem_GetClusterFromMetadata m) (\<lambda>r w'. api_effect ref_lib k (CGetClusterFromMetadata m) (j r) (mem_view k w) (mem_view k w')) w"
  "wp (State_Monad.return i) (\<lambda>r w'. api_effect ref_lib k (CNewMachineHelper a) (j' r) (mem_view k w) (mem_view k w')) w"
  "wp (mem_read q) (\<lambda>r w'. api_effect ref_lib k (CGetNode cs n) (j'' r) (mem_view k w) (mem_view k w')) w"
  by (simp_all add: wp_def mem_read_def api_effect_def mem_GetOwner_def mem_GetClusterFromMetadata_def
      State_Monad.return_def split: option.split)

lemmas mem_effects = mem_patch_effect mem_object_effects mem_read_effects mem_node_effect mem_other_effects

lemma mem_interfered:
  assumes "\<And>w. wp m (\<lambda>r w'. api_effect ref_lib k c (f r) (mem_view k w) (mem_view k w')) w"
  shows "wp m (\<lambda>r w'. interfered ref_lib k c (f r) (mem_view k w) (mem_view k w')) w"
  using assms by (rule wp_mono) (rule alone)

interpretation mem_life: effect_client "mem_client ref_lib" "mem_view k" "interfered ref_lib k" for k
  by (unfold_locales; rule mem_interfered) (simp_all add: mem_client_def mem_effects)

text \<open>
  The proviso cannot be dropped: a run for a machine without finalizers that is lost after it created
  the guest leaves a guest whose machine may go at any time.
\<close>

lemma lost_run_orphans:
  assumes "object_key L u = guest_of k" "finalizers m = []"
  shows "\<exists>v v'. path (interfered L k) [(CCreateObject u, ROk)] \<lparr> v_machine = Some m, v_guest = None \<rparr> v \<and>
     others L v v' \<and> v_guest v' \<noteq> None \<and> v_machine v' = None"
proof (intro exI conjI)
  let ?v = "\<lparr> v_machine = Some m, v_guest = Some u \<rparr>"
  show "path (interfered L k) [(CCreateObject u, ROk)] \<lparr> v_machine = Some m, v_guest = None \<rparr> ?v"
    using assms(1) by (auto simp: api_effect_def intro!: alone)
  show "others L ?v (?v\<lparr>v_machine := None\<rparr>)" by (rule others.removes [of ?v m]) (simp_all add: assms(2))
qed simp_all

section \<open>Properties\<close>


text \<open>A run in the example world that ends the life of a machine.\<close>

lemma ex_deletion_run:
  "wp (Machine_Reconcile ref_lib (logged (mem_client ref_lib)) (nn ''ns'' ''w-0''))
     (\<lambda>r s'. guarded_run ref_lib (nn ''ns'' ''w-0'') (snd s') \<and> mem_machines (fst s') (''ns'', ''w-0'') = None)
     (ex_machine_store (Some 1), [])"
  by (simp add: Machine_Reconcile_def machine_reconcileDelete_def machine_deferPatch_def backendFor_def
      NewSwiftGuestBackend_def SwiftGuest_Delete_def mem_run ex_machine_store_def ex_owned_machine_def ex_defs
      ex_node_store_def SwiftGuestBackendType_def delete_request_def ref_lib_def guarded_run_def boots_def
      machine_RemoveFinalizer_def)


text \<open>
  C2. No guest is orphaned. Start with no guest and let others act and the reconciler run, or be
  cut off, in any order and as often as they like, under the same proviso: whenever the guest is there,
  its machine is there and carries the finalizer, so it cannot go before the guest.
\<close>

theorem no_orphan_guests:
  assumes "k8s_lib L" "effect_client C view (interfered L k)" "(system_step L C k view)\<^sup>*\<^sup>* w w'"
    "v_guest (view w) = None" "v_guest (view w') = Some g"
  shows "\<exists>m. v_machine (view w') = Some m \<and> MachineFinalizer \<in> set (om_Finalizers (ksm_Meta m))"
proof -
  have "lifecycle\<^sup>*\<^sup>* (life_of L (view w)) (life_of L (view w'))"
    using assms(3)
    by (induction rule: rtranclp_induct) (auto dest: system_step_life [OF assms(1,2)] intro: rtranclp_trans)
  moreover have "life_ok (life_of L (view w))"
    using assms(4) by (auto simp: life_ok_def life_of_def persisted_def)
  ultimately have "life_ok (life_of L (view w'))" by (rule lifecycles_ok)
  then show ?thesis using assms(5) by (simp add: life_ok_def life_of_def persisted_def)
qed

text \<open>The first run in the example world: what it read, and that it leaves the guest.\<close>

definition exact_effect :: "NamespacedName \<Rightarrow> view effect" where
  "exact_effect k c resp v v' = (api_effect ref_lib k c resp v v' \<and>
     (\<forall>ksm. c = CGetMachine k \<longrightarrow> resp = RInfraMachine ksm \<longrightarrow> v_machine v = Some ksm))"

lemma mem_exact_other:
  assumes "\<And>w. wp m (\<lambda>r w'. api_effect ref_lib k c (f r) (mem_view k w) (mem_view k w')) w" "c \<noteq> CGetMachine k"
  shows "wp m (\<lambda>r w'. exact_effect k c (f r) (mem_view k w) (mem_view k w')) w"
  using assms(1) by (rule wp_mono) (use assms(2) in \<open>simp add: exact_effect_def\<close>)

lemma mem_exact_read:
  "wp (mem_read (\<lambda>w. mem_machines w (nn_pair k'))) (\<lambda>r w'. exact_effect k (CGetMachine k') (read_response RInfraMachine r)
     (mem_view k w) (mem_view k w')) w"
proof -
  have "wp (mem_read (\<lambda>w. mem_machines w (nn_pair k'))) (\<lambda>r w'. \<forall>ksm. CGetMachine k' = CGetMachine k \<longrightarrow>
      read_response RInfraMachine r = RInfraMachine ksm \<longrightarrow> v_machine (mem_view k w) = Some ksm) w"
    by (auto simp: wp_def mem_read_def answer_def mem_view_def split: option.split)
  with mem_read_effects(1) show ?thesis by (simp add: exact_effect_def wp_conj)
qed

interpretation mem_exact: effect_client "mem_client ref_lib" "mem_view k" "exact_effect k" for k
  by unfold_locales (simp_all add: mem_client_def mem_exact_read mem_exact_other mem_effects)

lemma ex_boot_run:
  assumes "run_state (Machine_Reconcile ref_lib (logged (mem_client ref_lib)) (nn ''ns'' ''w-0'')) (ex_machine_store None, []) =
    (r, (w, l))"
  shows "guarded_run ref_lib (nn ''ns'' ''w-0'') l" "\<exists>g. v_guest (mem_view (nn ''ns'' ''w-0'') w) = Some g"
proof -
  let ?k = "nn ''ns'' ''w-0''" and ?w = "ex_machine_store None"
  have run: "machine_trace ref_lib ?k l r" "path (exact_effect ?k) l (mem_view ?k ?w) (mem_view ?k w)"
    using mem_exact.Machine_Reconcile_runs [OF assms] by blast+
  have "MachineFinalizer \<in> set (finalizers ksm)" if read: "(CGetMachine ?k, RInfraMachine ksm) \<in> set l" "\<not> list_all (\<lambda>c. \<not> is_write (fst c)) l" for ksm
    using run(1)
  proof cases
    case (mt_run cluster ksm1 machine body ksm2 out p)
    have "ksm1 = ksm"
      using read(1) machine_body_calls [OF mt_run(5)]
      by (auto simp: mt_run(1) machine_prefix_def list_all_iff body_call_def object_call_def cluster_read_def node_call_def)
    moreover have "v_machine (mem_view ?k ?w) = Some ksm1"
      using run(2) by (auto simp: mt_run(1) machine_prefix_def exact_effect_def)
    ultimately show ?thesis using ex_starts(1) by (simp add: mem_view_def mem_mach_def ex_owned_machine_def)
  qed (use read(2) in simp)
  then show "guarded_run ref_lib ?k l"
    using writes_only(2) [of ref_lib ?k] by (fastforce simp: guarded_run_def list_all_iff)
  let ?Q = "\<lambda>w'. \<exists>g. mem_objs ref_lib w' (guest_key (run_request ref_lib (ex_owned_machine None) ex_inputs)) = Some g"
  have "wp (Machine_Reconcile ref_lib (mem_client ref_lib) ?k) (\<lambda>_. ?Q) ?w"
    by (rule wp_mono [OF mem_machine.Machine_Reconcile_progress [OF ex_starts(1-5)]]) (use ex_starts(6) in auto)
  then have "wp (Machine_Reconcile ref_lib (logged (mem_client ref_lib)) ?k) (\<lambda>_ s'. ?Q (fst s')) (?w, [])"
    using wp_erases [OF Machine_Reconcile_erases, where Q = "\<lambda>_. ?Q" and s = "(?w, [])"] by simp
  then have "?Q w" unfolding wp_def assms by simp
  then show "\<exists>g. v_guest (mem_view ?k w) = Some g"
    by (simp add: mem_view_def guest_of_def guest_key_def run_request_def machine_request_def nn_def
        machine_AddFinalizer_def ex_owned_machine_def ex_meta_def)
qed

theorem no_orphan_guests_witness:
  "\<exists>w g m. (system_step ref_lib (mem_client ref_lib) (nn ''ns'' ''w-0'') (mem_view (nn ''ns'' ''w-0'')))\<^sup>*\<^sup>* (ex_machine_store None) w \<and>
     v_guest (mem_view (nn ''ns'' ''w-0'') w) = Some g \<and> v_machine (mem_view (nn ''ns'' ''w-0'') w) = Some m \<and>
     MachineFinalizer \<in> set (om_Finalizers (ksm_Meta m))"
proof -
  let ?k = "nn ''ns'' ''w-0''"
  obtain r w l where run: "run_state (Machine_Reconcile ref_lib (logged (mem_client ref_lib)) ?k) (ex_machine_store None, []) = (r, (w, l))"
    by (metis prod.exhaust)
  then obtain g where g: "v_guest (mem_view ?k w) = Some g" using ex_boot_run(2) by blast
  have steps: "(system_step ref_lib (mem_client ref_lib) ?k (mem_view ?k))\<^sup>*\<^sup>* (ex_machine_store None) w"
    by (rule r_into_rtranclp, rule system_step.run_ends [OF run ex_boot_run(1) [OF run]])
  have "v_guest (mem_view ?k (ex_machine_store None)) = None" using ex_starts(6) by (simp add: mem_view_def)
  then obtain m where "v_machine (mem_view ?k w) = Some m" "MachineFinalizer \<in> set (om_Finalizers (ksm_Meta m))"
    using no_orphan_guests [of ref_lib "mem_client ref_lib" "mem_view ?k" ?k "ex_machine_store None" w g]
      k8s_lib_ref mem_life.effect_client_axioms [of ?k] steps g by blast
  with steps g show ?thesis by (intro exI conjI)
qed

end
