(* ===== verification/Webhook.thy ===== *)
theory Webhook
  imports Samples
begin

text \<open>
  \<^verbatim>\<open>src/internal/webhook/v1alpha1/kubeswiftmachinetemplate_webhook.go\<close>: the validating webhook of
  \<^verbatim>\<open>KubeSwiftMachineTemplate\<close>. The request that \<^verbatim>\<open>admission.RequestFromContext\<close> takes out of the
  context is an argument, an error if there is none.

  The specs are compared with \<^verbatim>\<open>reflect.DeepEqual\<close>, which tells a nil slice from an empty one. The
  records of \<^verbatim>\<open>API_Types\<close> do not, so a template comes here with a flag saying whether its interface
  slice is nil; the flag counts only where the slice exists and is empty.
\<close>

record template_arg =
  ta_Template :: KubeSwiftMachineTemplate
  ta_InterfacesNil :: bool

definition template_spec :: "template_arg \<Rightarrow> KubeSwiftMachineSpec" where
  "template_spec t = kmr_Spec (kmts_Template (kmtt_Spec (ta_Template t)))"

definition DeepEqual_spec :: "template_arg \<Rightarrow> template_arg \<Rightarrow> bool" where
  "DeepEqual_spec a b = (template_spec a = template_spec b \<and>
     (case mb_SwiftGuest (kms_Backend (template_spec a)) of None \<Rightarrow> True
      | Some cfg \<Rightarrow> sg_Interfaces cfg \<noteq> [] \<or> ta_InterfacesNil a = ta_InterfacesNil b))"

datatype admission_error =
    BadRequest string
  | Invalid string string string string

type_synonym verdict = "admission_error option"

definition ValidateCreate :: "template_arg \<Rightarrow> verdict" where
  "ValidateCreate t = None"

definition ValidateUpdate :: "lib \<Rightarrow> go_error + AdmissionRequest \<Rightarrow> template_arg \<Rightarrow> template_arg \<Rightarrow> verdict" where
  "ValidateUpdate L req oldTemplate newTemplate =
     (case req of
        Inl err \<Rightarrow> Some (BadRequest (''expected an admission.Request in the context: '' @ Error err))
      | Inr r \<Rightarrow>
          if \<not> IsDryRunRequest L r (ta_Template newTemplate) \<and> \<not> DeepEqual_spec oldTemplate newTemplate
          then Some (Invalid ''KubeSwiftMachineTemplate'' (om_Name (kmtt_Meta (ta_Template newTemplate)))
                 ''spec.template.spec'' ''KubeSwiftMachineTemplate spec.template.spec is immutable'')
          else None)"

definition ValidateDelete :: "template_arg \<Rightarrow> verdict" where
  "ValidateDelete t = None"

section \<open>Immutability\<close>

text \<open>The updates that reach the webhook one after another, each from the stored template.\<close>

definition admitted_update :: "lib \<Rightarrow> template_arg \<Rightarrow> template_arg \<Rightarrow> bool" where
  "admitted_update L t t' = (\<exists>r. \<not> IsDryRunRequest L r (ta_Template t') \<and> ValidateUpdate L (Inr r) t t' = None)"

lemma admitted_update_spec: "admitted_update L t t' \<Longrightarrow> template_spec t' = template_spec t"
  by (auto simp: admitted_update_def ValidateUpdate_def DeepEqual_spec_def split: if_splits)

text \<open>
  C26. Machine templates are immutable: after any number of admitted updates that are not topology
  dry runs, the template's machine spec is the one it was created with. Only metadata, and the
  labels and annotations of the template, can have changed.
\<close>

theorem template_spec_immutable:
  assumes "(admitted_update L)\<^sup>*\<^sup>* t t'"
  shows "template_spec t' = template_spec t"
  using assms by (induction rule: rtranclp_induct) (simp_all add: admitted_update_spec)

definition ex_template :: "string \<Rightarrow> string \<Rightarrow> template_arg" where
  "ex_template name img = \<lparr> ta_Template = \<lparr> kmtt_Meta = ex_meta name,
     kmtt_Spec = \<lparr> kmts_Template = \<lparr> kmr_Labels = None, kmr_Annotations = None,
       kmr_Spec = \<lparr> kms_ProviderID = '''', kms_Backend = \<lparr> mb_Type = ''SwiftGuest'',
         mb_SwiftGuest = Some (ex_cfg\<lparr>sg_ImageRef := img\<rparr>) \<rparr> \<rparr> \<rparr> \<rparr> \<rparr>, ta_InterfacesNil = True \<rparr>"

theorem template_spec_immutable_witness:
  "template_spec (ex_template ''workers-relabelled'' ''ubuntu'') = template_spec (ex_template ''workers'' ''ubuntu'')"
  by (rule template_spec_immutable [of ref_lib])
    (auto simp: admitted_update_def ValidateUpdate_def DeepEqual_spec_def template_spec_def ex_template_def
      ref_lib_def has_key_def ex_defs intro!: r_into_rtranclp exI [of _ "\<lparr> ar_DryRun = None, ar_Operation = ''UPDATE'' \<rparr>"])


end
