(* ===== verification/Go_Memory.thy ===== *)
theory Go_Memory
  imports Prelude
begin

text \<open>
  Go's memory, where aliasing matters: addresses, pointers, maps and slices as references into a
  memory of typed cells, and the object graph that hangs below a value.

  A pointer or a map is an optional address (\<open>None\<close> is nil); a slice is nil or a window into a
  backing array. The cells of a program are a type parameter. \<open>gtree\<close> is what a value unfolds to
  when all its references are followed; it records the addresses it passed. \<open>erase\<close> forgets
  them, so that two values are equal in the sense of \<^verbatim>\<open>reflect.DeepEqual\<close> (a nil map or slice
  differs from an empty one) when their erased trees are equal, and \<open>addrs\<close> collects them, so
  that two values share nothing when their address sets are disjoint.

  The locale \<open>deep_copier\<close> is the contract of a \<^verbatim>\<open>DeepCopyInto\<close> method. It is closed under the
  idioms of generated copy code, which are the combinators \<open>copy_ptr\<close>, \<open>copy_list\<close> and
  \<open>copy_slice\<close>.
\<close>

section \<open>Memory\<close>

type_synonym addr = nat

record 'c mem =
  mem_cells :: "addr \<rightharpoonup> 'c"
  mem_next :: addr

definition mem_wf :: "'c mem \<Rightarrow> bool" where
  "mem_wf m = (\<forall>a. mem_cells m a \<noteq> None \<longrightarrow> a < mem_next m)"

definition mem_empty :: "'c mem" where
  "mem_empty = \<lparr> mem_cells = (\<lambda>_. None), mem_next = 0 \<rparr>"

text \<open>\<^verbatim>\<open>new\<close> and \<^verbatim>\<open>make\<close>: a cell that was not in use, with its first contents.\<close>

definition alloc :: "'c \<Rightarrow> ('c mem, addr) state" where
  "alloc c = State (\<lambda>m. (mem_next m,
     m\<lparr>mem_cells := (mem_cells m)(mem_next m \<mapsto> c), mem_next := Suc (mem_next m)\<rparr>))"

text \<open>
  Reading through a reference. \<open>prj\<close> selects the cells of the type that the reference has; Go's
  type system excludes any other cell, and dereferencing nil panics.
\<close>

definition load :: "('c \<Rightarrow> 'v option) \<Rightarrow> addr \<Rightarrow> ('c mem, go_error + 'v) state" where
  "load prj a = State (\<lambda>m. (case Option.bind (mem_cells m a) prj of
     None \<Rightarrow> Inl (GoPanic ''invalid memory address or nil pointer dereference'') | Some v \<Rightarrow> Inr v, m))"

definition store :: "addr \<Rightarrow> 'c \<Rightarrow> ('c mem, unit) state" where
  "store a c = State (\<lambda>m. ((), m\<lparr>mem_cells := (mem_cells m)(a \<mapsto> c)\<rparr>))"

lemma wp_alloc [wp_simps]:
  "wp (alloc c) Q m = Q (mem_next m) (m\<lparr>mem_cells := (mem_cells m)(mem_next m \<mapsto> c), mem_next := Suc (mem_next m)\<rparr>)"
  by (simp add: wp_def alloc_def)

lemma wp_load: "Option.bind (mem_cells m a) prj = Some v \<Longrightarrow> wp (load prj a) Q m = Q (Inr v) m"
  by (simp add: wp_def load_def)

lemma wp_store [wp_simps]: "wp (store a c) Q m = Q () (m\<lparr>mem_cells := (mem_cells m)(a \<mapsto> c)\<rparr>)"
  by (simp add: wp_def store_def)

text \<open>Memory that has only grown: what was allocated before is as it was.\<close>

definition grows :: "'c mem \<Rightarrow> 'c mem \<Rightarrow> bool" where
  "grows m m' = (mem_wf m' \<and> mem_next m \<le> mem_next m' \<and>
     (\<forall>a. a < mem_next m \<longrightarrow> mem_cells m' a = mem_cells m a))"

lemma grows_refl: "mem_wf m \<Longrightarrow> grows m m"
  by (simp add: grows_def)

lemma grows_trans: "grows m m' \<Longrightarrow> grows m' m'' \<Longrightarrow> grows m m''"
  by (auto simp: grows_def)

lemma grows_wf: "grows m m' \<Longrightarrow> mem_wf m'"
  by (simp add: grows_def)

lemma grows_next: "grows m m' \<Longrightarrow> mem_next m \<le> mem_next m'"
  by (simp add: grows_def)

lemma grows_alloc:
  assumes "mem_wf m"
  shows "grows m (m\<lparr>mem_cells := (mem_cells m)(mem_next m \<mapsto> c), mem_next := Suc (mem_next m)\<rparr>)"
  using assms by (auto simp: grows_def mem_wf_def less_Suc_eq)

section \<open>Slices\<close>

record slice =
  sl_array :: addr
  sl_off :: nat
  sl_len :: nat
  sl_cap :: nat

definition window :: "slice \<Rightarrow> 'v list \<Rightarrow> 'v list" where
  "window s xs = take (sl_len s) (drop (sl_off s) xs)"

definition window_ok :: "slice \<Rightarrow> 'v list \<Rightarrow> bool" where
  "window_ok s xs = (sl_len s \<le> sl_cap s \<and> sl_off s + sl_cap s \<le> length xs)"

definition whole :: "addr \<Rightarrow> 'v list \<Rightarrow> slice" where
  "whole a xs = \<lparr> sl_array = a, sl_off = 0, sl_len = length xs, sl_cap = length xs \<rparr>"

lemma whole_simps [simp]:
  "window (whole a xs) xs = xs" "window_ok (whole a xs) xs" "sl_array (whole a xs) = a"
  by (simp_all add: window_def window_ok_def whole_def)

section \<open>Object graphs\<close>

datatype leaf = LString string | LBool bool | LInt int32 | LTime int

datatype gtree =
    GLeaf leaf
  | GNil
  | GPtr addr gtree
  | GMap addr "(string, string) fmap"
  | GSlice addr "gtree list"
  | GStruct "gtree list"

primrec erase :: "gtree \<Rightarrow> gtree" where
  "erase (GLeaf l) = GLeaf l"
| "erase GNil = GNil"
| "erase (GPtr a t) = GPtr 0 (erase t)"
| "erase (GMap a f) = GMap 0 f"
| "erase (GSlice a ts) = GSlice 0 (map erase ts)"
| "erase (GStruct ts) = GStruct (map erase ts)"

primrec addrs :: "gtree \<Rightarrow> addr set" where
  "addrs (GLeaf l) = {}"
| "addrs GNil = {}"
| "addrs (GPtr a t) = insert a (addrs t)"
| "addrs (GMap a f) = {a}"
| "addrs (GSlice a ts) = insert a (\<Union> (set (map addrs ts)))"
| "addrs (GStruct ts) = \<Union> (set (map addrs ts))"

text \<open>All or nothing, for the fields of a struct and the elements of a slice.\<close>

primrec sequence :: "'a option list \<Rightarrow> 'a list option" where
  "sequence [] = Some []"
| "sequence (x # xs) = (case x of None \<Rightarrow> None | Some y \<Rightarrow> map_option (Cons y) (sequence xs))"

lemma sequence_Cons_Some [simp]:
  "sequence (x # xs) = Some ys \<longleftrightarrow> (\<exists>z zs. x = Some z \<and> sequence xs = Some zs \<and> ys = z # zs)"
  by (auto split: option.splits)

declare sequence.simps(2) [simp del]

lemma sequence_Some_iff: "sequence xs = Some ys \<longleftrightarrow> xs = map Some ys"
  by (induction xs arbitrary: ys) auto

definition unfold_struct :: "gtree option list \<Rightarrow> gtree option" where
  "unfold_struct ts = map_option GStruct (sequence ts)"

definition unfold_ptr :: "('c \<Rightarrow> 'v option) \<Rightarrow> ('c mem \<Rightarrow> 'v \<Rightarrow> gtree option) \<Rightarrow> 'c mem \<Rightarrow> addr option \<Rightarrow> gtree option" where
  "unfold_ptr prj unf m p = (case p of None \<Rightarrow> Some GNil
     | Some a \<Rightarrow> Option.bind (Option.bind (mem_cells m a) prj) (\<lambda>v. map_option (GPtr a) (unf m v)))"

definition unfold_map :: "('c \<Rightarrow> (string, string) fmap option) \<Rightarrow> 'c mem \<Rightarrow> addr option \<Rightarrow> gtree option" where
  "unfold_map prj m p = (case p of None \<Rightarrow> Some GNil
     | Some a \<Rightarrow> map_option (GMap a) (Option.bind (mem_cells m a) prj))"

definition unfold_slice :: "('c \<Rightarrow> 'v list option) \<Rightarrow> ('c mem \<Rightarrow> 'v \<Rightarrow> gtree option) \<Rightarrow> 'c mem \<Rightarrow> slice option \<Rightarrow> gtree option" where
  "unfold_slice prj unf m s = (case s of None \<Rightarrow> Some GNil
     | Some sl \<Rightarrow> Option.bind (Option.bind (mem_cells m (sl_array sl)) prj) (\<lambda>xs.
         if window_ok sl xs then map_option (GSlice (sl_array sl)) (sequence (map (unf m) (window sl xs))) else None))"

abbreviation gstr :: "string \<Rightarrow> gtree option" where "gstr s \<equiv> Some (GLeaf (LString s))"
abbreviation gbool :: "bool \<Rightarrow> gtree option" where "gbool b \<equiv> Some (GLeaf (LBool b))"
abbreviation gint :: "int32 \<Rightarrow> gtree option" where "gint i \<equiv> Some (GLeaf (LInt i))"

section \<open>The contract of a deep copy\<close>

definition agree :: "addr set \<Rightarrow> 'c mem \<Rightarrow> 'c mem \<Rightarrow> bool" where
  "agree A m m' = (\<forall>a \<in> A. mem_cells m' a = mem_cells m a)"

lemma agree_simps [simp]:
  "agree {} m m'" "agree (A \<union> B) m m' \<longleftrightarrow> agree A m m' \<and> agree B m m'"
  "agree (insert a A) m m' \<longleftrightarrow> mem_cells m' a = mem_cells m a \<and> agree A m m'"
  "agree (\<Union> S) m m' \<longleftrightarrow> (\<forall>A \<in> S. agree A m m')"
  by (auto simp: agree_def)

text \<open>
  \<open>copied unf m t m' v'\<close>: in \<open>m'\<close> the value \<open>v'\<close> has the contents of the tree \<open>t\<close>, in memory
  that was not in use in \<open>m\<close>.
\<close>

definition copied :: "('c mem \<Rightarrow> 'v \<Rightarrow> gtree option) \<Rightarrow> 'c mem \<Rightarrow> gtree \<Rightarrow> 'c mem \<Rightarrow> 'v \<Rightarrow> bool" where
  "copied unf m t m' v' =
     (\<exists>t'. unf m' v' = Some t' \<and> erase t' = erase t \<and> (\<forall>a \<in> addrs t'. mem_next m \<le> a))"

lemma copied_earlier: "copied unf m t m' v' \<Longrightarrow> mem_next m0 \<le> mem_next m \<Longrightarrow> copied unf m0 t m' v'"
  unfolding copied_def by (meson le_trans)

text \<open>What unfolding a value reads is what it reports: its tree depends on the addresses in it alone.\<close>

locale unfolding_of =
  fixes unf :: "'c mem \<Rightarrow> 'v \<Rightarrow> gtree option"
  assumes frame: "unf m v = Some t \<Longrightarrow> agree (addrs t) m m' \<Longrightarrow> unf m' v = Some t"
    and allocated: "unf m v = Some t \<Longrightarrow> addrs t \<subseteq> dom (mem_cells m)"
begin

lemma unf_below: "unf m v = Some t \<Longrightarrow> mem_wf m \<Longrightarrow> a \<in> addrs t \<Longrightarrow> a < mem_next m"
  using allocated by (fastforce simp: mem_wf_def)

lemma unf_later:
  assumes "unf m v = Some t" "mem_wf m" "grows m m'"
  shows "unf m' v = Some t"
  using assms(1)
proof (rule frame)
  show "agree (addrs t) m m'"
    using assms unf_below by (auto simp: agree_def grows_def)
qed

lemma copied_later: "copied unf m0 t m v \<Longrightarrow> mem_wf m \<Longrightarrow> grows m m' \<Longrightarrow> copied unf m0 t m' v"
  unfolding copied_def using unf_later by blast

text \<open>
  A copy and what it was made from are independent: whatever is written later into the memory of
  the one, the other still unfolds to the same tree.
\<close>

lemma original_kept:
  assumes "unf m v = Some t" "mem_wf m" "grows m m'" "\<And>a. a < mem_next m \<Longrightarrow> mem_cells m'' a = mem_cells m' a"
  shows "unf m'' v = Some t"
  using assms(1)
proof (rule frame)
  show "agree (addrs t) m m''"
    using assms unf_below by (auto simp: agree_def grows_def)
qed

lemma copy_kept:
  assumes "unf m' v' = Some t'" "\<forall>a \<in> addrs t'. mem_next m \<le> a"
    "\<And>a. mem_next m \<le> a \<Longrightarrow> mem_cells m'' a = mem_cells m' a"
  shows "unf m'' v' = Some t'"
  using assms(2,3) by (intro frame [OF assms(1)]) (simp add: agree_def)

end

locale deep_copier = unfolding_of unf
  for unf :: "'c mem \<Rightarrow> 'v \<Rightarrow> gtree option" +
  fixes cp :: "'v \<Rightarrow> ('c mem, go_error + 'v) state"
  assumes copies: "unf m v = Some t \<Longrightarrow> mem_wf m \<Longrightarrow>
     wp (cp v) (\<lambda>r m'. case r of Inl e \<Rightarrow> False | Inr v' \<Rightarrow> grows m m' \<and> copied unf m t m' v') m"
begin

text \<open>The rule for a copy in the middle of others, which began in \<open>m0\<close>.\<close>

lemma copy_rule:
  assumes "grows m0 m" "mem_wf m0" "unf m0 v = Some t"
    "\<And>v' m'. grows m m' \<Longrightarrow> copied unf m0 t m' v' \<Longrightarrow> Q (Inr v') m'"
  shows "wp (cp v) Q m"
proof (rule wp_mono)
  have "unf m v = Some t" using assms(1,2,3) by (auto intro: unf_later)
  then show "wp (cp v) (\<lambda>r m'. case r of Inl e \<Rightarrow> False | Inr v' \<Rightarrow> grows m m' \<and> copied unf m t m' v') m"
    using copies grows_wf [OF assms(1)] by blast
next
  fix r :: "go_error + 'v" and m'
  assume "case r of Inl e \<Rightarrow> False | Inr v' \<Rightarrow> grows m m' \<and> copied unf m t m' v'"
  then show "Q r m'"
    by (cases r) (auto intro!: assms(4) intro: copied_earlier [OF _ grows_next [OF assms(1)]])
qed

end

section \<open>Values without references\<close>

text \<open>\<^verbatim>\<open>**out = **in\<close>, or an element of \<^verbatim>\<open>copy(*out, *in)\<close>: an assignment copies everything.\<close>

definition copy_plain :: "'v \<Rightarrow> ('c mem, go_error + 'v) state" where
  "copy_plain v = State_Monad.return (Inr v)"

definition unfold_plain :: "('v \<Rightarrow> gtree) \<Rightarrow> 'c mem \<Rightarrow> 'v \<Rightarrow> gtree option" where
  "unfold_plain f m v = Some (f v)"

lemma deep_copier_plain:
  assumes "\<And>v. addrs (f v) = {}"
  shows "deep_copier (unfold_plain f) copy_plain"
  by unfold_locales
    (auto simp: unfold_plain_def copy_plain_def assms wp_return copied_def intro: grows_refl)

section \<open>The idioms of generated copy code\<close>

text \<open>
  \<open>copy_ptr\<close> is \<^verbatim>\<open>if in.F != nil { *out = new(T); (*in).DeepCopyInto(*out) }\<close>, \<open>copy_map\<close> the loop
  over a map into one made for it, \<open>copy_slice\<close> the loop over a slice into one made with its
  length. The fresh cell is allocated together with its final contents; the address it gets is the
  only thing that depends on the order, and nothing depends on the address.
\<close>

definition copy_ptr :: "('c \<Rightarrow> 'v option) \<Rightarrow> ('v \<Rightarrow> 'c) \<Rightarrow> ('v \<Rightarrow> ('c mem, go_error + 'v) state) \<Rightarrow>
    addr option \<Rightarrow> ('c mem, go_error + addr option) state" where
  "copy_ptr prj put cp p = (case p of None \<Rightarrow> State_Monad.return (Inr None)
     | Some a \<Rightarrow> onOk (load prj a) (\<lambda>v. onOk (cp v) (\<lambda>v'.
         do { b \<leftarrow> alloc (put v'); State_Monad.return (Inr (Some b)) })))"

definition copy_map :: "('c \<Rightarrow> (string, string) fmap option) \<Rightarrow> ((string, string) fmap \<Rightarrow> 'c) \<Rightarrow>
    addr option \<Rightarrow> ('c mem, go_error + addr option) state" where
  "copy_map prj put p = (case p of None \<Rightarrow> State_Monad.return (Inr None)
     | Some a \<Rightarrow> onOk (load prj a) (\<lambda>f.
         do { b \<leftarrow> alloc (put (map_copy fmempty (Some f))); State_Monad.return (Inr (Some b)) }))"

primrec copy_list :: "('v \<Rightarrow> ('c mem, go_error + 'v) state) \<Rightarrow> 'v list \<Rightarrow> ('c mem, go_error + 'v list) state" where
  "copy_list cp [] = State_Monad.return (Inr [])"
| "copy_list cp (x # xs) = onOk (cp x) (\<lambda>y. onOk (copy_list cp xs) (\<lambda>ys. State_Monad.return (Inr (y # ys))))"

definition copy_slice :: "('c \<Rightarrow> 'v list option) \<Rightarrow> ('v list \<Rightarrow> 'c) \<Rightarrow> ('v \<Rightarrow> ('c mem, go_error + 'v) state) \<Rightarrow>
    slice option \<Rightarrow> ('c mem, go_error + slice option) state" where
  "copy_slice prj put cp s = (case s of None \<Rightarrow> State_Monad.return (Inr None)
     | Some sl \<Rightarrow> onOk (load prj (sl_array sl)) (\<lambda>xs. onOk (copy_list cp (window sl xs)) (\<lambda>ys.
         do { b \<leftarrow> alloc (put ys); State_Monad.return (Inr (Some (whole b ys))) })))"

lemma unfold_ptr_Some:
  "unfold_ptr prj unf m p = Some t \<longleftrightarrow> p = None \<and> t = GNil \<or>
     (\<exists>a v u. p = Some a \<and> Option.bind (mem_cells m a) prj = Some v \<and> unf m v = Some u \<and> t = GPtr a u)"
  by (auto simp: unfold_ptr_def bind_eq_Some_conv split: option.splits)

lemma unfold_map_Some:
  "unfold_map prj m p = Some t \<longleftrightarrow> p = None \<and> t = GNil \<or>
     (\<exists>a f. p = Some a \<and> Option.bind (mem_cells m a) prj = Some f \<and> t = GMap a f)"
  by (auto simp: unfold_map_def split: option.splits)

lemma unfold_slice_Some:
  "unfold_slice prj unf m s = Some t \<longleftrightarrow> s = None \<and> t = GNil \<or>
     (\<exists>sl xs us. s = Some sl \<and> Option.bind (mem_cells m (sl_array sl)) prj = Some xs \<and> window_ok sl xs \<and>
        map (unf m) (window sl xs) = map Some us \<and> t = GSlice (sl_array sl) us)"
  by (auto simp: unfold_slice_def bind_eq_Some_conv sequence_Some_iff split: option.splits if_splits)

lemma unfold_struct_Some:
  "unfold_struct ts = Some t \<longleftrightarrow> (\<exists>us. sequence ts = Some us \<and> t = GStruct us)"
  by (auto simp: unfold_struct_def)

lemma cell_dom: "Option.bind (mem_cells m a) prj = Some v \<Longrightarrow> a \<in> dom (mem_cells m)"
  by (auto simp: bind_eq_Some_conv)

context unfolding_of
begin

lemma unf_map_frame:
  assumes "map (unf m) xs = map Some us" "\<forall>u \<in> set us. agree (addrs u) m m'"
  shows "map (unf m') xs = map Some us"
  using assms
proof (induction xs arbitrary: us)
  case (Cons x xs)
  then show ?case by (cases us) (auto intro: frame)
qed simp

lemma unf_map_allocated: "map (unf m) xs = map Some us \<Longrightarrow> u \<in> set us \<Longrightarrow> addrs u \<subseteq> dom (mem_cells m)"
proof (induction xs arbitrary: us)
  case (Cons x xs)
  then show ?case by (cases us) (auto dest: allocated)
qed simp

lemma unfolding_of_ptr: "unfolding_of (unfold_ptr prj unf)"
proof
  fix m m' p t
  assume "unfold_ptr prj unf m p = Some t" "agree (addrs t) m m'"
  then show "unfold_ptr prj unf m' p = Some t"
    by (auto simp: unfold_ptr_Some intro: frame)
next
  fix m p t
  assume "unfold_ptr prj unf m p = Some t"
  then show "addrs t \<subseteq> dom (mem_cells m)"
    by (auto simp: unfold_ptr_Some dest: cell_dom subsetD [OF allocated])
qed

lemma unfolding_of_slice: "unfolding_of (unfold_slice prj unf)"
proof
  fix m m' s t
  assume "unfold_slice prj unf m s = Some t" "agree (addrs t) m m'"
  then show "unfold_slice prj unf m' s = Some t"
    by (fastforce simp: unfold_slice_Some intro: unf_map_frame)
next
  fix m s t
  assume "unfold_slice prj unf m s = Some t"
  then show "addrs t \<subseteq> dom (mem_cells m)"
    by (auto simp: unfold_slice_Some dest: cell_dom subsetD [OF unf_map_allocated])
qed

end

lemma unfolding_of_map: "unfolding_of (unfold_map prj)"
  by unfold_locales (auto simp: unfold_map_Some dest: cell_dom)

text \<open>Allocating a cell leaves everything else, and the cell is fresh.\<close>

lemma wp_alloc_rule:
  assumes "grows m0 m"
    "\<And>a m'. mem_next m0 \<le> a \<Longrightarrow> grows m m' \<Longrightarrow> mem_cells m' a = Some c \<Longrightarrow> Q a m'"
  shows "wp (alloc c) Q m"
  unfolding wp_alloc using grows_next [OF assms(1)] grows_alloc [OF grows_wf [OF assms(1)]]
  by (intro assms(2)) simp_all

context deep_copier
begin

lemma copy_list_rule:
  assumes "grows m0 m" "mem_wf m0" "map (unf m0) xs = map Some us"
    "\<And>ys vs m'. grows m m' \<Longrightarrow> map (unf m') ys = map Some vs \<Longrightarrow> map erase vs = map erase us \<Longrightarrow>
       (\<forall>u \<in> set vs. \<forall>a \<in> addrs u. mem_next m0 \<le> a) \<Longrightarrow> Q (Inr ys) m'"
  shows "wp (copy_list cp xs) Q m"
  using assms
proof (induction xs arbitrary: us m Q)
  case Nil
  then show ?case
    by (auto simp: wp_return intro!: Nil(4) [of _ "[]" "[]"] grows_refl dest: grows_wf)
next
  case (Cons x xs)
  then obtain u us' where us: "us = u # us'" "unf m0 x = Some u" "map (unf m0) xs = map Some us'"
    by (cases us) auto
  show ?case unfolding copy_list.simps wp_onOk
  proof (rule copy_rule [OF Cons.prems(1,2) us(2)], unfold sum.case wp_onOk)
    fix y m1
    assume 1: "grows m m1" "copied unf m0 u m1 y"
    have g1: "grows m0 m1" using Cons.prems(1) 1(1) by (rule grows_trans)
    show "wp (copy_list cp xs) (\<lambda>r. case r of Inl e \<Rightarrow> Q (Inl e)
        | Inr ys \<Rightarrow> wp (State_Monad.return (Inr (y # ys))) Q) m1"
    proof (rule Cons.IH [OF g1 Cons.prems(2) us(3)], unfold sum.case wp_return)
      fix ys vs m2
      assume 2: "grows m1 m2" "map (unf m2) ys = map Some vs" "map erase vs = map erase us'"
        "\<forall>u \<in> set vs. \<forall>a \<in> addrs u. mem_next m0 \<le> a"
      obtain v where "unf m2 y = Some v" "erase v = erase u" "\<forall>a \<in> addrs v. mem_next m0 \<le> a"
        using copied_later [OF 1(2) grows_wf [OF 1(1)] 2(1)] by (auto simp: copied_def)
      then show "Q (Inr (y # ys)) m2"
        using 2 us(1) by (intro Cons.prems(4) [OF grows_trans [OF 1(1) 2(1)], of _ "v # vs"]) auto
    qed
  qed
qed

lemma deep_copier_ptr:
  assumes "\<And>v. prj (put v) = Some v"
  shows "deep_copier (unfold_ptr prj unf) (copy_ptr prj put cp)"
proof (rule deep_copier.intro [OF unfolding_of_ptr], unfold_locales)
  fix m p t
  assume u: "unfold_ptr prj unf m p = Some t" and wf: "mem_wf m"
  show "wp (copy_ptr prj put cp p) (\<lambda>r m'. case r of Inl e \<Rightarrow> False
      | Inr p' \<Rightarrow> grows m m' \<and> copied (unfold_ptr prj unf) m t m' p') m"
    using u unfolding unfold_ptr_Some
  proof (elim disjE exE conjE, goal_cases)
    case 1
    then show ?case
      by (auto simp: copy_ptr_def wp_return copied_def unfold_ptr_def intro: grows_refl wf)
  next
    case (2 a v w)
    show ?case unfolding 2(1) copy_ptr_def option.case wp_onOk wp_load [OF 2(2)] sum.case
    proof (rule copy_rule [OF grows_refl [OF wf] wf 2(3)], unfold sum.case wp_bind)
      fix v' m1
      assume 1: "grows m m1" "copied unf m w m1 v'"
      show "wp (alloc (put v')) (\<lambda>b. wp (State_Monad.return (Inr (Some b))) (\<lambda>r m'. case r of Inl e \<Rightarrow> False
          | Inr p' \<Rightarrow> grows m m' \<and> copied (unfold_ptr prj unf) m t m' p')) m1"
      proof (rule wp_alloc_rule [OF 1(1)], unfold wp_return sum.case)
        fix b m2
        assume b: "mem_next m \<le> b" "grows m1 m2" "mem_cells m2 b = Some (put v')"
        obtain w' where "unf m2 v' = Some w'" "erase w' = erase w" "\<forall>a \<in> addrs w'. mem_next m \<le> a"
          using copied_later [OF 1(2) grows_wf [OF 1(1)] b(2)] by (auto simp: copied_def)
        then show "grows m m2 \<and> copied (unfold_ptr prj unf) m t m2 (Some b)"
          using b 1(1) 2(4) assms by (auto simp: copied_def unfold_ptr_def intro: grows_trans)
      qed
    qed
  qed
qed

lemma deep_copier_slice:
  assumes "\<And>vs. prj (put vs) = Some vs"
  shows "deep_copier (unfold_slice prj unf) (copy_slice prj put cp)"
proof (rule deep_copier.intro [OF unfolding_of_slice], unfold_locales)
  fix m s t
  assume u: "unfold_slice prj unf m s = Some t" and wf: "mem_wf m"
  show "wp (copy_slice prj put cp s) (\<lambda>r m'. case r of Inl e \<Rightarrow> False
      | Inr s' \<Rightarrow> grows m m' \<and> copied (unfold_slice prj unf) m t m' s') m"
    using u unfolding unfold_slice_Some
  proof (elim disjE exE conjE, goal_cases)
    case 1
    then show ?case
      by (auto simp: copy_slice_def wp_return copied_def unfold_slice_def intro: grows_refl wf)
  next
    case (2 sl xs us)
    show ?case unfolding 2(1) copy_slice_def option.case wp_onOk wp_load [OF 2(2)] sum.case
    proof (rule copy_list_rule [OF grows_refl [OF wf] wf 2(4)], unfold sum.case wp_bind)
      fix ys vs m1
      assume 1: "grows m m1" "map (unf m1) ys = map Some vs" "map erase vs = map erase us"
        "\<forall>u \<in> set vs. \<forall>a \<in> addrs u. mem_next m \<le> a"
      show "wp (alloc (put ys)) (\<lambda>b. wp (State_Monad.return (Inr (Some (whole b ys)))) (\<lambda>r m'. case r of
          Inl e \<Rightarrow> False | Inr s' \<Rightarrow> grows m m' \<and> copied (unfold_slice prj unf) m t m' s')) m1"
      proof (rule wp_alloc_rule [OF 1(1)], unfold wp_return sum.case)
        fix b m2
        assume b: "mem_next m \<le> b" "grows m1 m2" "mem_cells m2 b = Some (put ys)"
        have "agree (addrs u) m1 m2" if "u \<in> set vs" for u
          using that b(2) unf_map_allocated [OF 1(2)] grows_wf [OF 1(1)]
          by (fastforce simp: agree_def grows_def mem_wf_def)
        then have "map (unf m2) ys = map Some vs" by (intro unf_map_frame [OF 1(2)]) simp
        then have "unfold_slice prj unf m2 (Some (whole b ys)) = Some (GSlice b vs)"
          using b(3) assms by (simp add: unfold_slice_def sequence_Some_iff)
        then show "grows m m2 \<and> copied (unfold_slice prj unf) m t m2 (Some (whole b ys))"
          using b 1 2(5) by (auto simp: copied_def intro: grows_trans)
      qed
    qed
  qed
qed

end

lemma deep_copier_map:
  assumes "\<And>f. prj (put f) = Some f"
  shows "deep_copier (unfold_map prj) (copy_map prj put)"
proof (rule deep_copier.intro [OF unfolding_of_map], unfold_locales)
  fix m p t
  assume u: "unfold_map prj m p = Some t" and wf: "mem_wf m"
  show "wp (copy_map prj put p) (\<lambda>r m'. case r of Inl e \<Rightarrow> False
      | Inr p' \<Rightarrow> grows m m' \<and> copied (unfold_map prj) m t m' p') m"
    using u unfolding unfold_map_Some
  proof (elim disjE exE conjE, goal_cases)
    case 1
    then show ?case
      by (auto simp: copy_map_def wp_return copied_def unfold_map_def intro: grows_refl wf)
  next
    case (2 a f)
    show ?case unfolding 2(1) copy_map_def option.case wp_onOk wp_load [OF 2(2)] sum.case wp_bind
      by (rule wp_alloc_rule [OF grows_refl [OF wf]])
        (auto simp: wp_return copied_def unfold_map_def assms 2(3) map_copy_def)
  qed
qed

section \<open>Structs\<close>

text \<open>
  The tree of a struct has the fields without references, grouped as one subtree, and then a
  subtree for each field with references. \<^verbatim>\<open>*out = *in\<close> is the starting value \<open>v\<close>; each field with
  references is then overwritten by its copy.
\<close>

lemma sequence_frame:
  assumes "list_all unfolding_of fs" "sequence (map (\<lambda>f. f m v) fs) = Some us" "\<forall>u \<in> set us. agree (addrs u) m m'"
  shows "sequence (map (\<lambda>f. f m' v) fs) = Some us"
  using assms by (induction fs arbitrary: us) (auto dest: unfolding_of.frame)

lemma sequence_elem:
  assumes "sequence (map (\<lambda>f. f m v) fs) = Some us" "u \<in> set us"
  shows "\<exists>f \<in> set fs. f m v = Some u"
proof -
  have "Some u \<in> set (map (\<lambda>f. f m v) fs)"
    using assms by (simp add: sequence_Some_iff)
  then show ?thesis by auto
qed

lemma unfolding_of_struct:
  assumes "list_all unfolding_of fs"
  shows "unfolding_of (\<lambda>m v. unfold_struct (map (\<lambda>f. f m v) fs))"
proof
  fix m m' v t
  assume u: "unfold_struct (map (\<lambda>f. f m v) fs) = Some t" and a: "agree (addrs t) m m'"
  obtain us where us: "sequence (map (\<lambda>f. f m v) fs) = Some us" "t = GStruct us"
    using u by (auto simp: unfold_struct_Some)
  have "\<forall>u \<in> set us. agree (addrs u) m m'" using a us(2) by simp
  then show "unfold_struct (map (\<lambda>f. f m' v) fs) = Some t"
    using sequence_frame [OF assms us(1)] us(2) by (simp add: unfold_struct_Some)
next
  fix m v t
  assume "unfold_struct (map (\<lambda>f. f m v) fs) = Some t"
  then obtain us where us: "sequence (map (\<lambda>f. f m v) fs) = Some us" "t = GStruct us"
    by (auto simp: unfold_struct_Some)
  have "addrs u \<subseteq> dom (mem_cells m)" if u: "u \<in> set us" for u
  proof -
    obtain f where "f \<in> set fs" "f m v = Some u" using sequence_elem [OF us(1) u] by blast
    then show ?thesis using assms unfolding_of.allocated [of f m v u] by (simp add: list_all_iff)
  qed
  then show "addrs t \<subseteq> dom (mem_cells m)" using us(2) by auto
qed

lemma unfolding_of_field: "unfolding_of unf \<Longrightarrow> unfolding_of (\<lambda>m v. unf m (g v))"
  unfolding unfolding_of_def by blast

lemma unfolding_of_plain: "(\<And>v. addrs (f v) = {}) \<Longrightarrow> unfolding_of (\<lambda>m v. Some (f v))"
  by unfold_locales auto

lemma copied_fields:
  "(\<exists>us. sequence (map (\<lambda>f. f m v) fs) = Some us \<and> map erase us = map erase ts \<and>
     (\<forall>u \<in> set us. \<forall>a \<in> addrs u. mem_next m0 \<le> a)) \<longleftrightarrow> list_all2 (\<lambda>f t. copied f m0 t m v) fs ts"
proof (induction fs arbitrary: ts)
  case (Cons f fs)
  show ?case
  proof (cases ts)
    case ts: (Cons t ts')
    have "list_all2 (\<lambda>f t. copied f m0 t m v) (f # fs) ts \<longleftrightarrow> copied f m0 t m v \<and>
       (\<exists>us. sequence (map (\<lambda>f. f m v) fs) = Some us \<and> map erase us = map erase ts' \<and>
          (\<forall>u \<in> set us. \<forall>a \<in> addrs u. mem_next m0 \<le> a))"
      unfolding ts Cons.IH by simp
    then show ?thesis unfolding ts copied_def by (auto 4 4)
  qed auto
qed auto

lemma copied_struct:
  "copied (\<lambda>m v. unfold_struct (Some (pl v) # map (\<lambda>f. f m v) fs)) m0 (GStruct (p # ts)) m v \<longleftrightarrow>
     erase (pl v) = erase p \<and> (\<forall>a \<in> addrs (pl v). mem_next m0 \<le> a) \<and>
     list_all2 (\<lambda>f t. copied f m0 t m v) fs ts"
  unfolding copied_fields [symmetric] by (auto simp: copied_def unfold_struct_Some ball_Un)

lemma unfolding_of_fields:
  assumes "\<And>v. addrs (pl v) = {}" "list_all unfolding_of fs"
  shows "unfolding_of (\<lambda>m v. unfold_struct (Some (pl v) # map (\<lambda>f. f m v) fs))"
  using unfolding_of_struct [of "(\<lambda>m v. Some (pl v)) # fs"] unfolding_of_plain [of pl, OF assms(1)] assms(2)
  by simp

lemma deep_copier_struct1:
  assumes c: "deep_copier U1 c1"
    and pl: "\<And>v. addrs (pl v) = {}"
    and upd: "\<And>v x1. pl (sa x1 v) = pl v \<and> ga (sa x1 v) = x1"
  shows "deep_copier (\<lambda>m v. unfold_struct [Some (pl v), U1 m (ga v)])
    (\<lambda>v. onOk (c1 (ga v)) (\<lambda>x1. State_Monad.return (Inr (sa x1 v))))" (is "deep_copier ?U ?c")
proof (rule deep_copier.intro)
  let ?fs = "[\<lambda>m v. U1 m (ga v)]"
  note u = c [THEN deep_copier.axioms(1)]
  show "unfolding_of ?U"
    using unfolding_of_fields [of pl ?fs, OF pl] unfolding_of_field [OF u, of ga] by simp
  have fin: "grows m w \<Longrightarrow> copied U1 m t1 w x1 \<Longrightarrow>
     grows m w \<and> copied ?U m (GStruct [pl v, t1]) w (sa x1 v)"
    for m w v t1 x1
    using copied_struct [of pl ?fs m "pl v" "[t1]" w "(sa x1 v)"] by (simp add: upd pl copied_def)
  show "deep_copier_axioms ?U ?c"
  proof (unfold_locales, goal_cases)
    case (1 m v t)
    obtain t1 where t: "t = GStruct [pl v, t1]" "U1 m (ga v) = Some t1"
      using 1(1) by (auto simp: unfold_struct_Some)
    show ?case unfolding t(1) wp_onOk wp_return
      by (rule deep_copier.copy_rule [OF c grows_refl [OF 1(2)] 1(2) t(2)], unfold sum.case) (rule fin)
  qed
qed

lemma deep_copier_struct2:
  assumes c: "deep_copier U1 c1" "deep_copier U2 c2"
    and pl: "\<And>v. addrs (pl v) = {}"
    and upd: "\<And>v x1 x2. pl (sb x2 (sa x1 v)) = pl v \<and> ga (sb x2 (sa x1 v)) = x1 \<and> gb (sb x2 (sa x1 v)) = x2"
  shows "deep_copier (\<lambda>m v. unfold_struct [Some (pl v), U1 m (ga v), U2 m (gb v)])
    (\<lambda>v. onOk (c1 (ga v)) (\<lambda>x1. onOk (c2 (gb v)) (\<lambda>x2. State_Monad.return (Inr (sb x2 (sa x1 v))))))" (is "deep_copier ?U ?c")
proof (rule deep_copier.intro)
  let ?fs = "[\<lambda>m v. U1 m (ga v), \<lambda>m v. U2 m (gb v)]"
  note u = c [THEN deep_copier.axioms(1)]
  show "unfolding_of ?U"
    using unfolding_of_fields [of pl ?fs, OF pl] unfolding_of_field [OF u(1), of ga] unfolding_of_field [OF u(2), of gb] by simp
  have fin: "grows m w \<Longrightarrow> copied U1 m t1 w x1 \<Longrightarrow> copied U2 m t2 w x2 \<Longrightarrow>
     grows m w \<and> copied ?U m (GStruct [pl v, t1, t2]) w (sb x2 (sa x1 v))"
    for m w v t1 x1 t2 x2
    using copied_struct [of pl ?fs m "pl v" "[t1, t2]" w "(sb x2 (sa x1 v))"] by (simp add: upd pl copied_def)
  show "deep_copier_axioms ?U ?c"
  proof (unfold_locales, goal_cases)
    case (1 m v t)
    obtain t1 t2 where t: "t = GStruct [pl v, t1, t2]" "U1 m (ga v) = Some t1" "U2 m (gb v) = Some t2"
      using 1(1) by (auto simp: unfold_struct_Some)
    show ?case unfolding t(1) wp_onOk wp_return
      apply (rule deep_copier.copy_rule [OF c(1) grows_refl [OF 1(2)] 1(2) t(2)], unfold sum.case)
      subgoal premises p1 for x1 m1
        apply (rule deep_copier.copy_rule [OF c(2) p1(1) 1(2) t(3)], unfold sum.case)
        subgoal premises p2 for x2 m2
          using unfolding_of.copied_later [OF u(1) p1(2) grows_wf [OF p1(1)] p2(1)] p2(2) grows_trans [OF p1(1) p2(1)]
          by (intro fin)
        done
      done
  qed
qed

lemma deep_copier_struct3:
  assumes c: "deep_copier U1 c1" "deep_copier U2 c2" "deep_copier U3 c3"
    and pl: "\<And>v. addrs (pl v) = {}"
    and upd: "\<And>v x1 x2 x3. pl (sc x3 (sb x2 (sa x1 v))) = pl v \<and> ga (sc x3 (sb x2 (sa x1 v))) = x1 \<and> gb (sc x3 (sb x2 (sa x1 v))) = x2 \<and> gc (sc x3 (sb x2 (sa x1 v))) = x3"
  shows "deep_copier (\<lambda>m v. unfold_struct [Some (pl v), U1 m (ga v), U2 m (gb v), U3 m (gc v)])
    (\<lambda>v. onOk (c1 (ga v)) (\<lambda>x1. onOk (c2 (gb v)) (\<lambda>x2. onOk (c3 (gc v)) (\<lambda>x3. State_Monad.return (Inr (sc x3 (sb x2 (sa x1 v))))))))" (is "deep_copier ?U ?c")
proof (rule deep_copier.intro)
  let ?fs = "[\<lambda>m v. U1 m (ga v), \<lambda>m v. U2 m (gb v), \<lambda>m v. U3 m (gc v)]"
  note u = c [THEN deep_copier.axioms(1)]
  show "unfolding_of ?U"
    using unfolding_of_fields [of pl ?fs, OF pl] unfolding_of_field [OF u(1), of ga] unfolding_of_field [OF u(2), of gb] unfolding_of_field [OF u(3), of gc] by simp
  have fin: "grows m w \<Longrightarrow> copied U1 m t1 w x1 \<Longrightarrow> copied U2 m t2 w x2 \<Longrightarrow> copied U3 m t3 w x3 \<Longrightarrow>
     grows m w \<and> copied ?U m (GStruct [pl v, t1, t2, t3]) w (sc x3 (sb x2 (sa x1 v)))"
    for m w v t1 x1 t2 x2 t3 x3
    using copied_struct [of pl ?fs m "pl v" "[t1, t2, t3]" w "(sc x3 (sb x2 (sa x1 v)))"] by (simp add: upd pl copied_def)
  show "deep_copier_axioms ?U ?c"
  proof (unfold_locales, goal_cases)
    case (1 m v t)
    obtain t1 t2 t3 where t: "t = GStruct [pl v, t1, t2, t3]" "U1 m (ga v) = Some t1" "U2 m (gb v) = Some t2" "U3 m (gc v) = Some t3"
      using 1(1) by (auto simp: unfold_struct_Some)
    show ?case unfolding t(1) wp_onOk wp_return
      apply (rule deep_copier.copy_rule [OF c(1) grows_refl [OF 1(2)] 1(2) t(2)], unfold sum.case)
      subgoal premises p1 for x1 m1
        apply (rule deep_copier.copy_rule [OF c(2) p1(1) 1(2) t(3)], unfold sum.case)
        subgoal premises p2 for x2 m2
          using unfolding_of.copied_later [OF u(1) p1(2) grows_wf [OF p1(1)] p2(1)] p2(2) grows_trans [OF p1(1) p2(1)]
          apply (intro deep_copier.copy_rule [OF c(3) grows_trans [OF p1(1) p2(1)] 1(2) t(4)], unfold sum.case)
          subgoal premises p3 for x3 m3
            using p3 unfolding_of.copied_later [OF u(1) p3(1) _ p3(4)] unfolding_of.copied_later [OF u(2) p3(2) _ p3(4)]
              grows_trans [OF p3(3,4)] grows_wf [OF p3(3)] by (intro fin)
          done
        done
      done
  qed
qed

section \<open>Appending to a slice\<close>

text \<open>
  \<^verbatim>\<open>append(s, x)\<close>: within the capacity the element is written into the backing array in place, and
  every other slice of that array that reaches so far sees it; beyond it the elements move to a new
  array. How large the new array is the language leaves open: \<open>grow cap n\<close> is the capacity chosen
  when \<open>n\<close> elements no longer fit into \<open>cap\<close>. Elements not yet written are \<open>None\<close>.
\<close>

definition slice_elems :: "'v option list mem \<Rightarrow> slice option \<Rightarrow> 'v option list" where
  "slice_elems m s = (case s of None \<Rightarrow> []
     | Some sl \<Rightarrow> (case mem_cells m (sl_array sl) of None \<Rightarrow> [] | Some xs \<Rightarrow> window sl xs))"

definition append_slice :: "(nat \<Rightarrow> nat \<Rightarrow> nat) \<Rightarrow> slice option \<Rightarrow> 'v \<Rightarrow> ('v option list mem, slice option) state" where
  "append_slice grow s x = do {
     m \<leftarrow> State_Monad.get;
     let elems = slice_elems m s; cap = (case s of None \<Rightarrow> 0 | Some sl \<Rightarrow> sl_cap sl); n = length elems in
     (case s of
        Some sl \<Rightarrow>
          if n < cap then do {
            _ \<leftarrow> store (sl_array sl) ((case mem_cells m (sl_array sl) of None \<Rightarrow> [] | Some xs \<Rightarrow> xs)[sl_off sl + n := Some x]);
            State_Monad.return (Some (sl\<lparr>sl_len := Suc n\<rparr>)) }
          else do {
            a \<leftarrow> alloc (elems @ Some x # replicate (grow cap (Suc n) - Suc n) None);
            State_Monad.return (Some \<lparr> sl_array = a, sl_off = 0, sl_len = Suc n, sl_cap = grow cap (Suc n) \<rparr>) }
      | None \<Rightarrow> do {
            a \<leftarrow> alloc (Some x # replicate (grow 0 1 - 1) None);
            State_Monad.return (Some \<lparr> sl_array = a, sl_off = 0, sl_len = 1, sl_cap = grow 0 1 \<rparr>) }) }"

end
