(* ===== verification/Deep_Copy.thy ===== *)
theory Deep_Copy
  imports API_Types Go_Memory
begin

text \<open>
  \<^verbatim>\<open>zz_generated.deepcopy.go\<close>: the deep copies of the API types, over an explicit memory. A record
  \<open>T_m\<close> is the struct \<open>T\<close> as it lies in memory, its pointers, maps and slices being references;
  the structs without references are the records of \<^verbatim>\<open>API_Types\<close>. \<open>T_DeepCopyInto\<close> takes the value
  \<^verbatim>\<open>*in\<close> and returns the value that \<^verbatim>\<open>*out\<close> is given: \<^verbatim>\<open>*out = *in\<close> is where it starts from, and the
  fields with references are then overwritten.

  The metadata and the conditions are structs of apimachinery and Cluster API (type \<open>'e\<close>). Their
  own \<^verbatim>\<open>DeepCopyInto\<close> methods are the parameter \<open>X\<close>; what their values unfold to is \<open>U\<close>.
  \<^verbatim>\<open>DeepCopyObject\<close> of the eight root types is the method through which controller-runtime's cache
  and clients copy objects.
\<close>

section \<open>Structs in memory\<close>

record TypeMeta =
  tm_Kind :: string
  tm_APIVersion :: string

record ControlPlaneServiceSpec_m =
  cpsm_Type :: string
  cpsm_Port :: int32
  cpsm_Annotations :: "addr option"
  cpsm_LoadBalancerClass :: "addr option"

record ControlPlaneEndpointSpec_m =
  cpem_Mode :: string
  cpem_Service :: "addr option"

record InitializationStatus_m =
  initm_Provisioned :: "addr option"

record KubeSwiftClusterSpec_m =
  kcsm_GuestNamespace :: string
  kcsm_ControlPlaneEndpoint :: "addr option"
  kcsm_Endpoint :: "addr option"

record 'e KubeSwiftClusterStatus_m =
  kctm_Initialization :: InitializationStatus_m
  kctm_Conditions :: "slice option"

record 'e KubeSwiftCluster_m =
  kscm_TypeMeta :: TypeMeta
  kscm_ObjectMeta :: 'e
  kscm_Spec :: KubeSwiftClusterSpec_m
  kscm_Status :: "'e KubeSwiftClusterStatus_m"

record 'e KubeSwiftClusterList_m =
  kclm_TypeMeta :: TypeMeta
  kclm_ListMeta :: 'e
  kclm_Items :: "slice option"

record 'e KubeSwiftClusterTemplateResource_m =
  kcrm_ObjectMeta :: 'e
  kcrm_Spec :: KubeSwiftClusterSpec_m

record 'e KubeSwiftClusterTemplateSpec_m =
  kctsm_Template :: "'e KubeSwiftClusterTemplateResource_m"

record 'e KubeSwiftClusterTemplate_m =
  kcttm_TypeMeta :: TypeMeta
  kcttm_ObjectMeta :: 'e
  kcttm_Spec :: "'e KubeSwiftClusterTemplateSpec_m"

record 'e KubeSwiftClusterTemplateList_m =
  kctlm_TypeMeta :: TypeMeta
  kctlm_ListMeta :: 'e
  kctlm_Items :: "slice option"

record SwiftGuestBackend_m =
  sgm_ImageRef :: string
  sgm_GuestClassRef :: string
  sgm_NetworkRef :: string
  sgm_NodeNetworkRef :: string
  sgm_NodeName :: string
  sgm_StorageClassName :: string
  sgm_Interfaces :: "slice option"
  sgm_GPU :: "addr option"

record MachineBackend_m =
  mbm_Type :: string
  mbm_SwiftGuest :: "addr option"

record KubeSwiftMachineSpec_m =
  kmsm_ProviderID :: string
  kmsm_Backend :: MachineBackend_m

record 'e KubeSwiftMachineStatus_m =
  kmtm_FailureDomain :: string
  kmtm_Initialization :: InitializationStatus_m
  kmtm_Addresses :: "slice option"
  kmtm_Conditions :: "slice option"

record 'e KubeSwiftMachine_m =
  ksmm_TypeMeta :: TypeMeta
  ksmm_ObjectMeta :: 'e
  ksmm_Spec :: KubeSwiftMachineSpec_m
  ksmm_Status :: "'e KubeSwiftMachineStatus_m"

record 'e KubeSwiftMachineList_m =
  kmlm_TypeMeta :: TypeMeta
  kmlm_ListMeta :: 'e
  kmlm_Items :: "slice option"

record 'e KubeSwiftMachineTemplateResource_m =
  kmrm_ObjectMeta :: 'e
  kmrm_Spec :: KubeSwiftMachineSpec_m

record 'e KubeSwiftMachineTemplateSpec_m =
  kmtsm_Template :: "'e KubeSwiftMachineTemplateResource_m"

record 'e KubeSwiftMachineTemplate_m =
  kmttm_TypeMeta :: TypeMeta
  kmttm_ObjectMeta :: 'e
  kmttm_Spec :: "'e KubeSwiftMachineTemplateSpec_m"

record 'e KubeSwiftMachineTemplateList_m =
  kmtlm_TypeMeta :: TypeMeta
  kmtlm_ListMeta :: 'e
  kmtlm_Items :: "slice option"

text \<open>What a cell of memory can hold: the target of a pointer, a map, or the array behind a slice.\<close>

datatype 'e cell =
    CMap "(string, string) fmap"
  | CString string
  | CBool bool
  | CAPIEndpoint APIEndpoint
  | CSwiftGuestGPU SwiftGuestGPU
  | CSwiftGuestInterface SwiftGuestInterface
  | CControlPlaneServiceSpec ControlPlaneServiceSpec_m
  | CControlPlaneEndpointSpec ControlPlaneEndpointSpec_m
  | CInitializationStatus InitializationStatus_m
  | CKubeSwiftClusterSpec KubeSwiftClusterSpec_m
  | CKubeSwiftClusterStatus "'e KubeSwiftClusterStatus_m"
  | CKubeSwiftCluster "'e KubeSwiftCluster_m"
  | CKubeSwiftClusterList "'e KubeSwiftClusterList_m"
  | CKubeSwiftClusterTemplateResource "'e KubeSwiftClusterTemplateResource_m"
  | CKubeSwiftClusterTemplateSpec "'e KubeSwiftClusterTemplateSpec_m"
  | CKubeSwiftClusterTemplate "'e KubeSwiftClusterTemplate_m"
  | CKubeSwiftClusterTemplateList "'e KubeSwiftClusterTemplateList_m"
  | CSwiftGuestBackend SwiftGuestBackend_m
  | CMachineBackend MachineBackend_m
  | CKubeSwiftMachineSpec KubeSwiftMachineSpec_m
  | CKubeSwiftMachineStatus "'e KubeSwiftMachineStatus_m"
  | CKubeSwiftMachine "'e KubeSwiftMachine_m"
  | CKubeSwiftMachineList "'e KubeSwiftMachineList_m"
  | CKubeSwiftMachineTemplateResource "'e KubeSwiftMachineTemplateResource_m"
  | CKubeSwiftMachineTemplateSpec "'e KubeSwiftMachineTemplateSpec_m"
  | CKubeSwiftMachineTemplate "'e KubeSwiftMachineTemplate_m"
  | CKubeSwiftMachineTemplateList "'e KubeSwiftMachineTemplateList_m"
  | CConditions "'e list"
  | CAddresses "MachineAddress list"
  | CInterfaces "SwiftGuestInterface list"
  | CKubeSwiftClusters "'e KubeSwiftCluster_m list"
  | CKubeSwiftMachines "'e KubeSwiftMachine_m list"
  | CKubeSwiftClusterTemplates "'e KubeSwiftClusterTemplate_m list"
  | CKubeSwiftMachineTemplates "'e KubeSwiftMachineTemplate_m list"
  | CForeign 'e

text \<open>The cells that a reference of each type may point to.\<close>

definition prj_Map :: "'e cell \<Rightarrow> ((string, string) fmap) option" where
  "prj_Map c = (case c of CMap v \<Rightarrow> Some v | _ \<Rightarrow> None)"

definition prj_String :: "'e cell \<Rightarrow> (string) option" where
  "prj_String c = (case c of CString v \<Rightarrow> Some v | _ \<Rightarrow> None)"

definition prj_Bool :: "'e cell \<Rightarrow> (bool) option" where
  "prj_Bool c = (case c of CBool v \<Rightarrow> Some v | _ \<Rightarrow> None)"

definition prj_APIEndpoint :: "'e cell \<Rightarrow> (APIEndpoint) option" where
  "prj_APIEndpoint c = (case c of CAPIEndpoint v \<Rightarrow> Some v | _ \<Rightarrow> None)"

definition prj_SwiftGuestGPU :: "'e cell \<Rightarrow> (SwiftGuestGPU) option" where
  "prj_SwiftGuestGPU c = (case c of CSwiftGuestGPU v \<Rightarrow> Some v | _ \<Rightarrow> None)"

definition prj_SwiftGuestInterface :: "'e cell \<Rightarrow> (SwiftGuestInterface) option" where
  "prj_SwiftGuestInterface c = (case c of CSwiftGuestInterface v \<Rightarrow> Some v | _ \<Rightarrow> None)"

definition prj_ControlPlaneServiceSpec :: "'e cell \<Rightarrow> (ControlPlaneServiceSpec_m) option" where
  "prj_ControlPlaneServiceSpec c = (case c of CControlPlaneServiceSpec v \<Rightarrow> Some v | _ \<Rightarrow> None)"

definition prj_ControlPlaneEndpointSpec :: "'e cell \<Rightarrow> (ControlPlaneEndpointSpec_m) option" where
  "prj_ControlPlaneEndpointSpec c = (case c of CControlPlaneEndpointSpec v \<Rightarrow> Some v | _ \<Rightarrow> None)"

definition prj_InitializationStatus :: "'e cell \<Rightarrow> (InitializationStatus_m) option" where
  "prj_InitializationStatus c = (case c of CInitializationStatus v \<Rightarrow> Some v | _ \<Rightarrow> None)"

definition prj_KubeSwiftClusterSpec :: "'e cell \<Rightarrow> (KubeSwiftClusterSpec_m) option" where
  "prj_KubeSwiftClusterSpec c = (case c of CKubeSwiftClusterSpec v \<Rightarrow> Some v | _ \<Rightarrow> None)"

definition prj_KubeSwiftClusterStatus :: "'e cell \<Rightarrow> ('e KubeSwiftClusterStatus_m) option" where
  "prj_KubeSwiftClusterStatus c = (case c of CKubeSwiftClusterStatus v \<Rightarrow> Some v | _ \<Rightarrow> None)"

definition prj_KubeSwiftCluster :: "'e cell \<Rightarrow> ('e KubeSwiftCluster_m) option" where
  "prj_KubeSwiftCluster c = (case c of CKubeSwiftCluster v \<Rightarrow> Some v | _ \<Rightarrow> None)"

definition prj_KubeSwiftClusterList :: "'e cell \<Rightarrow> ('e KubeSwiftClusterList_m) option" where
  "prj_KubeSwiftClusterList c = (case c of CKubeSwiftClusterList v \<Rightarrow> Some v | _ \<Rightarrow> None)"

definition prj_KubeSwiftClusterTemplateResource :: "'e cell \<Rightarrow> ('e KubeSwiftClusterTemplateResource_m) option" where
  "prj_KubeSwiftClusterTemplateResource c = (case c of CKubeSwiftClusterTemplateResource v \<Rightarrow> Some v | _ \<Rightarrow> None)"

definition prj_KubeSwiftClusterTemplateSpec :: "'e cell \<Rightarrow> ('e KubeSwiftClusterTemplateSpec_m) option" where
  "prj_KubeSwiftClusterTemplateSpec c = (case c of CKubeSwiftClusterTemplateSpec v \<Rightarrow> Some v | _ \<Rightarrow> None)"

definition prj_KubeSwiftClusterTemplate :: "'e cell \<Rightarrow> ('e KubeSwiftClusterTemplate_m) option" where
  "prj_KubeSwiftClusterTemplate c = (case c of CKubeSwiftClusterTemplate v \<Rightarrow> Some v | _ \<Rightarrow> None)"

definition prj_KubeSwiftClusterTemplateList :: "'e cell \<Rightarrow> ('e KubeSwiftClusterTemplateList_m) option" where
  "prj_KubeSwiftClusterTemplateList c = (case c of CKubeSwiftClusterTemplateList v \<Rightarrow> Some v | _ \<Rightarrow> None)"

definition prj_SwiftGuestBackend :: "'e cell \<Rightarrow> (SwiftGuestBackend_m) option" where
  "prj_SwiftGuestBackend c = (case c of CSwiftGuestBackend v \<Rightarrow> Some v | _ \<Rightarrow> None)"

definition prj_MachineBackend :: "'e cell \<Rightarrow> (MachineBackend_m) option" where
  "prj_MachineBackend c = (case c of CMachineBackend v \<Rightarrow> Some v | _ \<Rightarrow> None)"

definition prj_KubeSwiftMachineSpec :: "'e cell \<Rightarrow> (KubeSwiftMachineSpec_m) option" where
  "prj_KubeSwiftMachineSpec c = (case c of CKubeSwiftMachineSpec v \<Rightarrow> Some v | _ \<Rightarrow> None)"

definition prj_KubeSwiftMachineStatus :: "'e cell \<Rightarrow> ('e KubeSwiftMachineStatus_m) option" where
  "prj_KubeSwiftMachineStatus c = (case c of CKubeSwiftMachineStatus v \<Rightarrow> Some v | _ \<Rightarrow> None)"

definition prj_KubeSwiftMachine :: "'e cell \<Rightarrow> ('e KubeSwiftMachine_m) option" where
  "prj_KubeSwiftMachine c = (case c of CKubeSwiftMachine v \<Rightarrow> Some v | _ \<Rightarrow> None)"

definition prj_KubeSwiftMachineList :: "'e cell \<Rightarrow> ('e KubeSwiftMachineList_m) option" where
  "prj_KubeSwiftMachineList c = (case c of CKubeSwiftMachineList v \<Rightarrow> Some v | _ \<Rightarrow> None)"

definition prj_KubeSwiftMachineTemplateResource :: "'e cell \<Rightarrow> ('e KubeSwiftMachineTemplateResource_m) option" where
  "prj_KubeSwiftMachineTemplateResource c = (case c of CKubeSwiftMachineTemplateResource v \<Rightarrow> Some v | _ \<Rightarrow> None)"

definition prj_KubeSwiftMachineTemplateSpec :: "'e cell \<Rightarrow> ('e KubeSwiftMachineTemplateSpec_m) option" where
  "prj_KubeSwiftMachineTemplateSpec c = (case c of CKubeSwiftMachineTemplateSpec v \<Rightarrow> Some v | _ \<Rightarrow> None)"

definition prj_KubeSwiftMachineTemplate :: "'e cell \<Rightarrow> ('e KubeSwiftMachineTemplate_m) option" where
  "prj_KubeSwiftMachineTemplate c = (case c of CKubeSwiftMachineTemplate v \<Rightarrow> Some v | _ \<Rightarrow> None)"

definition prj_KubeSwiftMachineTemplateList :: "'e cell \<Rightarrow> ('e KubeSwiftMachineTemplateList_m) option" where
  "prj_KubeSwiftMachineTemplateList c = (case c of CKubeSwiftMachineTemplateList v \<Rightarrow> Some v | _ \<Rightarrow> None)"

definition prj_Conditions :: "'e cell \<Rightarrow> ('e list) option" where
  "prj_Conditions c = (case c of CConditions v \<Rightarrow> Some v | _ \<Rightarrow> None)"

definition prj_Addresses :: "'e cell \<Rightarrow> (MachineAddress list) option" where
  "prj_Addresses c = (case c of CAddresses v \<Rightarrow> Some v | _ \<Rightarrow> None)"

definition prj_Interfaces :: "'e cell \<Rightarrow> (SwiftGuestInterface list) option" where
  "prj_Interfaces c = (case c of CInterfaces v \<Rightarrow> Some v | _ \<Rightarrow> None)"

definition prj_KubeSwiftClusters :: "'e cell \<Rightarrow> ('e KubeSwiftCluster_m list) option" where
  "prj_KubeSwiftClusters c = (case c of CKubeSwiftClusters v \<Rightarrow> Some v | _ \<Rightarrow> None)"

definition prj_KubeSwiftMachines :: "'e cell \<Rightarrow> ('e KubeSwiftMachine_m list) option" where
  "prj_KubeSwiftMachines c = (case c of CKubeSwiftMachines v \<Rightarrow> Some v | _ \<Rightarrow> None)"

definition prj_KubeSwiftClusterTemplates :: "'e cell \<Rightarrow> ('e KubeSwiftClusterTemplate_m list) option" where
  "prj_KubeSwiftClusterTemplates c = (case c of CKubeSwiftClusterTemplates v \<Rightarrow> Some v | _ \<Rightarrow> None)"

definition prj_KubeSwiftMachineTemplates :: "'e cell \<Rightarrow> ('e KubeSwiftMachineTemplate_m list) option" where
  "prj_KubeSwiftMachineTemplates c = (case c of CKubeSwiftMachineTemplates v \<Rightarrow> Some v | _ \<Rightarrow> None)"

definition prj_Foreign :: "'e cell \<Rightarrow> ('e) option" where
  "prj_Foreign c = (case c of CForeign v \<Rightarrow> Some v | _ \<Rightarrow> None)"

lemma prj_simps [simp]:
  "prj_Map (CMap v0) = Some v0"
  "prj_String (CString v1) = Some v1"
  "prj_Bool (CBool v2) = Some v2"
  "prj_APIEndpoint (CAPIEndpoint v3) = Some v3"
  "prj_SwiftGuestGPU (CSwiftGuestGPU v4) = Some v4"
  "prj_SwiftGuestInterface (CSwiftGuestInterface v5) = Some v5"
  "prj_ControlPlaneServiceSpec (CControlPlaneServiceSpec v6) = Some v6"
  "prj_ControlPlaneEndpointSpec (CControlPlaneEndpointSpec v7) = Some v7"
  "prj_InitializationStatus (CInitializationStatus v8) = Some v8"
  "prj_KubeSwiftClusterSpec (CKubeSwiftClusterSpec v9) = Some v9"
  "prj_KubeSwiftClusterStatus (CKubeSwiftClusterStatus v10) = Some v10"
  "prj_KubeSwiftCluster (CKubeSwiftCluster v11) = Some v11"
  "prj_KubeSwiftClusterList (CKubeSwiftClusterList v12) = Some v12"
  "prj_KubeSwiftClusterTemplateResource (CKubeSwiftClusterTemplateResource v13) = Some v13"
  "prj_KubeSwiftClusterTemplateSpec (CKubeSwiftClusterTemplateSpec v14) = Some v14"
  "prj_KubeSwiftClusterTemplate (CKubeSwiftClusterTemplate v15) = Some v15"
  "prj_KubeSwiftClusterTemplateList (CKubeSwiftClusterTemplateList v16) = Some v16"
  "prj_SwiftGuestBackend (CSwiftGuestBackend v17) = Some v17"
  "prj_MachineBackend (CMachineBackend v18) = Some v18"
  "prj_KubeSwiftMachineSpec (CKubeSwiftMachineSpec v19) = Some v19"
  "prj_KubeSwiftMachineStatus (CKubeSwiftMachineStatus v20) = Some v20"
  "prj_KubeSwiftMachine (CKubeSwiftMachine v21) = Some v21"
  "prj_KubeSwiftMachineList (CKubeSwiftMachineList v22) = Some v22"
  "prj_KubeSwiftMachineTemplateResource (CKubeSwiftMachineTemplateResource v23) = Some v23"
  "prj_KubeSwiftMachineTemplateSpec (CKubeSwiftMachineTemplateSpec v24) = Some v24"
  "prj_KubeSwiftMachineTemplate (CKubeSwiftMachineTemplate v25) = Some v25"
  "prj_KubeSwiftMachineTemplateList (CKubeSwiftMachineTemplateList v26) = Some v26"
  "prj_Conditions (CConditions v27) = Some v27"
  "prj_Addresses (CAddresses v28) = Some v28"
  "prj_Interfaces (CInterfaces v29) = Some v29"
  "prj_KubeSwiftClusters (CKubeSwiftClusters v30) = Some v30"
  "prj_KubeSwiftMachines (CKubeSwiftMachines v31) = Some v31"
  "prj_KubeSwiftClusterTemplates (CKubeSwiftClusterTemplates v32) = Some v32"
  "prj_KubeSwiftMachineTemplates (CKubeSwiftMachineTemplates v33) = Some v33"
  "prj_Foreign (CForeign v34) = Some v34"
  by (simp_all add: prj_Map_def prj_String_def prj_Bool_def prj_APIEndpoint_def
      prj_SwiftGuestGPU_def prj_SwiftGuestInterface_def prj_ControlPlaneServiceSpec_def prj_ControlPlaneEndpointSpec_def
      prj_InitializationStatus_def prj_KubeSwiftClusterSpec_def prj_KubeSwiftClusterStatus_def prj_KubeSwiftCluster_def
      prj_KubeSwiftClusterList_def prj_KubeSwiftClusterTemplateResource_def prj_KubeSwiftClusterTemplateSpec_def prj_KubeSwiftClusterTemplate_def
      prj_KubeSwiftClusterTemplateList_def prj_SwiftGuestBackend_def prj_MachineBackend_def prj_KubeSwiftMachineSpec_def
      prj_KubeSwiftMachineStatus_def prj_KubeSwiftMachine_def prj_KubeSwiftMachineList_def prj_KubeSwiftMachineTemplateResource_def
      prj_KubeSwiftMachineTemplateSpec_def prj_KubeSwiftMachineTemplate_def prj_KubeSwiftMachineTemplateList_def prj_Conditions_def
      prj_Addresses_def prj_Interfaces_def prj_KubeSwiftClusters_def prj_KubeSwiftMachines_def
      prj_KubeSwiftClusterTemplates_def prj_KubeSwiftMachineTemplates_def prj_Foreign_def)

section \<open>Object graphs of the structs\<close>

definition tree_TypeMeta :: "TypeMeta \<Rightarrow> gtree" where
  "tree_TypeMeta v = GStruct [GLeaf (LString (tm_Kind v)), GLeaf (LString (tm_APIVersion v))]"

definition tree_String :: "string \<Rightarrow> gtree" where
  "tree_String v = GLeaf (LString v)"

definition tree_Bool :: "bool \<Rightarrow> gtree" where
  "tree_Bool v = GLeaf (LBool v)"

definition tree_APIEndpoint :: "APIEndpoint \<Rightarrow> gtree" where
  "tree_APIEndpoint v = GStruct [GLeaf (LString (ep_Host v)), GLeaf (LInt (ep_Port v))]"

definition tree_MachineAddress :: "MachineAddress \<Rightarrow> gtree" where
  "tree_MachineAddress v = GStruct [GLeaf (LString (addr_Type v)), GLeaf (LString (addr_Address v))]"

definition tree_SwiftGuestInterface :: "SwiftGuestInterface \<Rightarrow> gtree" where
  "tree_SwiftGuestInterface v = GStruct [GLeaf (LString (if_Name v)), GLeaf (LString (if_NetworkRef v)),
     GLeaf (LBool (if_Primary v))]"

definition tree_SwiftGuestGPU :: "SwiftGuestGPU \<Rightarrow> gtree" where
  "tree_SwiftGuestGPU v = GStruct (map (\<lambda>s. GLeaf (LString s)) [gpu_ResourceClaimTemplateName v,
     gpu_ResourceClaimName v, gpu_RequestName v, gpu_GPUProfileRef v, gpu_Tier v, gpu_Hugepages v])"

lemmas tree_defs = tree_TypeMeta_def tree_String_def tree_Bool_def tree_APIEndpoint_def tree_MachineAddress_def
  tree_SwiftGuestInterface_def tree_SwiftGuestGPU_def

lemma tree_addrs [simp]:
  "addrs (tree_TypeMeta a) = {}" "addrs (tree_String b) = {}" "addrs (tree_Bool c) = {}" "addrs (tree_APIEndpoint d) = {}"
  "addrs (tree_MachineAddress e) = {}" "addrs (tree_SwiftGuestInterface f) = {}" "addrs (tree_SwiftGuestGPU g) = {}"
  by (simp_all add: tree_defs)

definition unfold_ControlPlaneServiceSpec :: "'e cell mem \<Rightarrow> ControlPlaneServiceSpec_m \<Rightarrow> gtree option" where
  "unfold_ControlPlaneServiceSpec m v = unfold_struct [Some (GStruct [GLeaf (LString (cpsm_Type v)), GLeaf (LInt (cpsm_Port v))]),
     unfold_map prj_Map m (cpsm_Annotations v),
     unfold_ptr prj_String (unfold_plain tree_String) m (cpsm_LoadBalancerClass v)]"

definition unfold_ControlPlaneEndpointSpec :: "'e cell mem \<Rightarrow> ControlPlaneEndpointSpec_m \<Rightarrow> gtree option" where
  "unfold_ControlPlaneEndpointSpec m v = unfold_struct [Some (GStruct [GLeaf (LString (cpem_Mode v))]),
     unfold_ptr prj_ControlPlaneServiceSpec unfold_ControlPlaneServiceSpec m (cpem_Service v)]"

definition unfold_InitializationStatus :: "'e cell mem \<Rightarrow> InitializationStatus_m \<Rightarrow> gtree option" where
  "unfold_InitializationStatus m v = unfold_struct [Some (GStruct []),
     unfold_ptr prj_Bool (unfold_plain tree_Bool) m (initm_Provisioned v)]"

definition unfold_KubeSwiftClusterSpec :: "'e cell mem \<Rightarrow> KubeSwiftClusterSpec_m \<Rightarrow> gtree option" where
  "unfold_KubeSwiftClusterSpec m v = unfold_struct [Some (GStruct [GLeaf (LString (kcsm_GuestNamespace v))]),
     unfold_ptr prj_APIEndpoint (unfold_plain tree_APIEndpoint) m (kcsm_ControlPlaneEndpoint v),
     unfold_ptr prj_ControlPlaneEndpointSpec unfold_ControlPlaneEndpointSpec m (kcsm_Endpoint v)]"

definition unfold_KubeSwiftClusterStatus :: "('e cell mem \<Rightarrow> 'e \<Rightarrow> gtree option) \<Rightarrow> 'e cell mem \<Rightarrow> 'e KubeSwiftClusterStatus_m \<Rightarrow> gtree option" where
  "unfold_KubeSwiftClusterStatus U m v = unfold_struct [Some (GStruct []),
     unfold_InitializationStatus m (kctm_Initialization v),
     unfold_slice prj_Conditions U m (kctm_Conditions v)]"

definition unfold_KubeSwiftCluster :: "('e cell mem \<Rightarrow> 'e \<Rightarrow> gtree option) \<Rightarrow> 'e cell mem \<Rightarrow> 'e KubeSwiftCluster_m \<Rightarrow> gtree option" where
  "unfold_KubeSwiftCluster U m v = unfold_struct [Some (GStruct [tree_TypeMeta (kscm_TypeMeta v)]),
     U m (kscm_ObjectMeta v),
     unfold_KubeSwiftClusterSpec m (kscm_Spec v),
     unfold_KubeSwiftClusterStatus U m (kscm_Status v)]"

definition unfold_KubeSwiftClusterList :: "('e cell mem \<Rightarrow> 'e \<Rightarrow> gtree option) \<Rightarrow> 'e cell mem \<Rightarrow> 'e KubeSwiftClusterList_m \<Rightarrow> gtree option" where
  "unfold_KubeSwiftClusterList U m v = unfold_struct [Some (GStruct [tree_TypeMeta (kclm_TypeMeta v)]),
     U m (kclm_ListMeta v),
     unfold_slice prj_KubeSwiftClusters (unfold_KubeSwiftCluster U) m (kclm_Items v)]"

definition unfold_KubeSwiftClusterTemplateResource :: "('e cell mem \<Rightarrow> 'e \<Rightarrow> gtree option) \<Rightarrow> 'e cell mem \<Rightarrow> 'e KubeSwiftClusterTemplateResource_m \<Rightarrow> gtree option" where
  "unfold_KubeSwiftClusterTemplateResource U m v = unfold_struct [Some (GStruct []),
     U m (kcrm_ObjectMeta v),
     unfold_KubeSwiftClusterSpec m (kcrm_Spec v)]"

definition unfold_KubeSwiftClusterTemplateSpec :: "('e cell mem \<Rightarrow> 'e \<Rightarrow> gtree option) \<Rightarrow> 'e cell mem \<Rightarrow> 'e KubeSwiftClusterTemplateSpec_m \<Rightarrow> gtree option" where
  "unfold_KubeSwiftClusterTemplateSpec U m v = unfold_struct [Some (GStruct []),
     unfold_KubeSwiftClusterTemplateResource U m (kctsm_Template v)]"

definition unfold_KubeSwiftClusterTemplate :: "('e cell mem \<Rightarrow> 'e \<Rightarrow> gtree option) \<Rightarrow> 'e cell mem \<Rightarrow> 'e KubeSwiftClusterTemplate_m \<Rightarrow> gtree option" where
  "unfold_KubeSwiftClusterTemplate U m v = unfold_struct [Some (GStruct [tree_TypeMeta (kcttm_TypeMeta v)]),
     U m (kcttm_ObjectMeta v),
     unfold_KubeSwiftClusterTemplateSpec U m (kcttm_Spec v)]"

definition unfold_KubeSwiftClusterTemplateList :: "('e cell mem \<Rightarrow> 'e \<Rightarrow> gtree option) \<Rightarrow> 'e cell mem \<Rightarrow> 'e KubeSwiftClusterTemplateList_m \<Rightarrow> gtree option" where
  "unfold_KubeSwiftClusterTemplateList U m v = unfold_struct [Some (GStruct [tree_TypeMeta (kctlm_TypeMeta v)]),
     U m (kctlm_ListMeta v),
     unfold_slice prj_KubeSwiftClusterTemplates (unfold_KubeSwiftClusterTemplate U) m (kctlm_Items v)]"

definition unfold_SwiftGuestBackend :: "'e cell mem \<Rightarrow> SwiftGuestBackend_m \<Rightarrow> gtree option" where
  "unfold_SwiftGuestBackend m v = unfold_struct [Some (GStruct [GLeaf (LString (sgm_ImageRef v)), GLeaf (LString (sgm_GuestClassRef v)), GLeaf (LString (sgm_NetworkRef v)), GLeaf (LString (sgm_NodeNetworkRef v)), GLeaf (LString (sgm_NodeName v)), GLeaf (LString (sgm_StorageClassName v))]),
     unfold_slice prj_Interfaces (unfold_plain tree_SwiftGuestInterface) m (sgm_Interfaces v),
     unfold_ptr prj_SwiftGuestGPU (unfold_plain tree_SwiftGuestGPU) m (sgm_GPU v)]"

definition unfold_MachineBackend :: "'e cell mem \<Rightarrow> MachineBackend_m \<Rightarrow> gtree option" where
  "unfold_MachineBackend m v = unfold_struct [Some (GStruct [GLeaf (LString (mbm_Type v))]),
     unfold_ptr prj_SwiftGuestBackend unfold_SwiftGuestBackend m (mbm_SwiftGuest v)]"

definition unfold_KubeSwiftMachineSpec :: "'e cell mem \<Rightarrow> KubeSwiftMachineSpec_m \<Rightarrow> gtree option" where
  "unfold_KubeSwiftMachineSpec m v = unfold_struct [Some (GStruct [GLeaf (LString (kmsm_ProviderID v))]),
     unfold_MachineBackend m (kmsm_Backend v)]"

definition unfold_KubeSwiftMachineStatus :: "('e cell mem \<Rightarrow> 'e \<Rightarrow> gtree option) \<Rightarrow> 'e cell mem \<Rightarrow> 'e KubeSwiftMachineStatus_m \<Rightarrow> gtree option" where
  "unfold_KubeSwiftMachineStatus U m v = unfold_struct [Some (GStruct [GLeaf (LString (kmtm_FailureDomain v))]),
     unfold_InitializationStatus m (kmtm_Initialization v),
     unfold_slice prj_Addresses (unfold_plain tree_MachineAddress) m (kmtm_Addresses v),
     unfold_slice prj_Conditions U m (kmtm_Conditions v)]"

definition unfold_KubeSwiftMachine :: "('e cell mem \<Rightarrow> 'e \<Rightarrow> gtree option) \<Rightarrow> 'e cell mem \<Rightarrow> 'e KubeSwiftMachine_m \<Rightarrow> gtree option" where
  "unfold_KubeSwiftMachine U m v = unfold_struct [Some (GStruct [tree_TypeMeta (ksmm_TypeMeta v)]),
     U m (ksmm_ObjectMeta v),
     unfold_KubeSwiftMachineSpec m (ksmm_Spec v),
     unfold_KubeSwiftMachineStatus U m (ksmm_Status v)]"

definition unfold_KubeSwiftMachineList :: "('e cell mem \<Rightarrow> 'e \<Rightarrow> gtree option) \<Rightarrow> 'e cell mem \<Rightarrow> 'e KubeSwiftMachineList_m \<Rightarrow> gtree option" where
  "unfold_KubeSwiftMachineList U m v = unfold_struct [Some (GStruct [tree_TypeMeta (kmlm_TypeMeta v)]),
     U m (kmlm_ListMeta v),
     unfold_slice prj_KubeSwiftMachines (unfold_KubeSwiftMachine U) m (kmlm_Items v)]"

definition unfold_KubeSwiftMachineTemplateResource :: "('e cell mem \<Rightarrow> 'e \<Rightarrow> gtree option) \<Rightarrow> 'e cell mem \<Rightarrow> 'e KubeSwiftMachineTemplateResource_m \<Rightarrow> gtree option" where
  "unfold_KubeSwiftMachineTemplateResource U m v = unfold_struct [Some (GStruct []),
     U m (kmrm_ObjectMeta v),
     unfold_KubeSwiftMachineSpec m (kmrm_Spec v)]"

definition unfold_KubeSwiftMachineTemplateSpec :: "('e cell mem \<Rightarrow> 'e \<Rightarrow> gtree option) \<Rightarrow> 'e cell mem \<Rightarrow> 'e KubeSwiftMachineTemplateSpec_m \<Rightarrow> gtree option" where
  "unfold_KubeSwiftMachineTemplateSpec U m v = unfold_struct [Some (GStruct []),
     unfold_KubeSwiftMachineTemplateResource U m (kmtsm_Template v)]"

definition unfold_KubeSwiftMachineTemplate :: "('e cell mem \<Rightarrow> 'e \<Rightarrow> gtree option) \<Rightarrow> 'e cell mem \<Rightarrow> 'e KubeSwiftMachineTemplate_m \<Rightarrow> gtree option" where
  "unfold_KubeSwiftMachineTemplate U m v = unfold_struct [Some (GStruct [tree_TypeMeta (kmttm_TypeMeta v)]),
     U m (kmttm_ObjectMeta v),
     unfold_KubeSwiftMachineTemplateSpec U m (kmttm_Spec v)]"

definition unfold_KubeSwiftMachineTemplateList :: "('e cell mem \<Rightarrow> 'e \<Rightarrow> gtree option) \<Rightarrow> 'e cell mem \<Rightarrow> 'e KubeSwiftMachineTemplateList_m \<Rightarrow> gtree option" where
  "unfold_KubeSwiftMachineTemplateList U m v = unfold_struct [Some (GStruct [tree_TypeMeta (kmtlm_TypeMeta v)]),
     U m (kmtlm_ListMeta v),
     unfold_slice prj_KubeSwiftMachineTemplates (unfold_KubeSwiftMachineTemplate U) m (kmtlm_Items v)]"

section \<open>The copy methods\<close>

text \<open>The \<^verbatim>\<open>DeepCopyInto\<close> methods of the foreign structs that are embedded.\<close>

record 'e foreign =
  fr_ObjectMeta :: "'e \<Rightarrow> ('e cell mem, go_error + 'e) state"
  fr_TemplateMeta :: "'e \<Rightarrow> ('e cell mem, go_error + 'e) state"
  fr_ListMeta :: "'e \<Rightarrow> ('e cell mem, go_error + 'e) state"
  fr_Condition :: "'e \<Rightarrow> ('e cell mem, go_error + 'e) state"

definition SwiftGuestGPU_DeepCopyInto :: "SwiftGuestGPU \<Rightarrow> ('e cell mem, go_error + SwiftGuestGPU) state" where
  "SwiftGuestGPU_DeepCopyInto inp = copy_plain inp"

definition SwiftGuestGPU_DeepCopy :: "addr option \<Rightarrow> ('e cell mem, go_error + addr option) state" where
  "SwiftGuestGPU_DeepCopy inp = copy_ptr prj_SwiftGuestGPU CSwiftGuestGPU SwiftGuestGPU_DeepCopyInto inp"

definition SwiftGuestInterface_DeepCopyInto :: "SwiftGuestInterface \<Rightarrow> ('e cell mem, go_error + SwiftGuestInterface) state" where
  "SwiftGuestInterface_DeepCopyInto inp = copy_plain inp"

definition SwiftGuestInterface_DeepCopy :: "addr option \<Rightarrow> ('e cell mem, go_error + addr option) state" where
  "SwiftGuestInterface_DeepCopy inp = copy_ptr prj_SwiftGuestInterface CSwiftGuestInterface SwiftGuestInterface_DeepCopyInto inp"

definition ControlPlaneServiceSpec_DeepCopyInto :: "ControlPlaneServiceSpec_m \<Rightarrow> ('e cell mem, go_error + ControlPlaneServiceSpec_m) state" where
  "ControlPlaneServiceSpec_DeepCopyInto inp =
     onOk (copy_map prj_Map CMap (cpsm_Annotations inp)) (\<lambda>annotations.
     onOk (copy_ptr prj_String CString copy_plain (cpsm_LoadBalancerClass inp)) (\<lambda>loadBalancerClass.
     State_Monad.return (Inr (inp\<lparr>cpsm_Annotations := annotations, cpsm_LoadBalancerClass := loadBalancerClass\<rparr>))))"

definition ControlPlaneServiceSpec_DeepCopy :: "addr option \<Rightarrow> ('e cell mem, go_error + addr option) state" where
  "ControlPlaneServiceSpec_DeepCopy inp = copy_ptr prj_ControlPlaneServiceSpec CControlPlaneServiceSpec ControlPlaneServiceSpec_DeepCopyInto inp"

definition ControlPlaneEndpointSpec_DeepCopyInto :: "ControlPlaneEndpointSpec_m \<Rightarrow> ('e cell mem, go_error + ControlPlaneEndpointSpec_m) state" where
  "ControlPlaneEndpointSpec_DeepCopyInto inp =
     onOk (copy_ptr prj_ControlPlaneServiceSpec CControlPlaneServiceSpec ControlPlaneServiceSpec_DeepCopyInto (cpem_Service inp)) (\<lambda>service.
     State_Monad.return (Inr (inp\<lparr>cpem_Service := service\<rparr>)))"

definition ControlPlaneEndpointSpec_DeepCopy :: "addr option \<Rightarrow> ('e cell mem, go_error + addr option) state" where
  "ControlPlaneEndpointSpec_DeepCopy inp = copy_ptr prj_ControlPlaneEndpointSpec CControlPlaneEndpointSpec ControlPlaneEndpointSpec_DeepCopyInto inp"

definition InitializationStatus_DeepCopyInto :: "InitializationStatus_m \<Rightarrow> ('e cell mem, go_error + InitializationStatus_m) state" where
  "InitializationStatus_DeepCopyInto inp =
     onOk (copy_ptr prj_Bool CBool copy_plain (initm_Provisioned inp)) (\<lambda>provisioned.
     State_Monad.return (Inr (inp\<lparr>initm_Provisioned := provisioned\<rparr>)))"

definition InitializationStatus_DeepCopy :: "addr option \<Rightarrow> ('e cell mem, go_error + addr option) state" where
  "InitializationStatus_DeepCopy inp = copy_ptr prj_InitializationStatus CInitializationStatus InitializationStatus_DeepCopyInto inp"

definition KubeSwiftClusterSpec_DeepCopyInto :: "KubeSwiftClusterSpec_m \<Rightarrow> ('e cell mem, go_error + KubeSwiftClusterSpec_m) state" where
  "KubeSwiftClusterSpec_DeepCopyInto inp =
     onOk (copy_ptr prj_APIEndpoint CAPIEndpoint copy_plain (kcsm_ControlPlaneEndpoint inp)) (\<lambda>controlPlaneEndpoint.
     onOk (copy_ptr prj_ControlPlaneEndpointSpec CControlPlaneEndpointSpec ControlPlaneEndpointSpec_DeepCopyInto (kcsm_Endpoint inp)) (\<lambda>endpoint.
     State_Monad.return (Inr (inp\<lparr>kcsm_ControlPlaneEndpoint := controlPlaneEndpoint, kcsm_Endpoint := endpoint\<rparr>))))"

definition KubeSwiftClusterSpec_DeepCopy :: "addr option \<Rightarrow> ('e cell mem, go_error + addr option) state" where
  "KubeSwiftClusterSpec_DeepCopy inp = copy_ptr prj_KubeSwiftClusterSpec CKubeSwiftClusterSpec KubeSwiftClusterSpec_DeepCopyInto inp"

definition KubeSwiftClusterStatus_DeepCopyInto :: "'e foreign \<Rightarrow> 'e KubeSwiftClusterStatus_m \<Rightarrow> ('e cell mem, go_error + 'e KubeSwiftClusterStatus_m) state" where
  "KubeSwiftClusterStatus_DeepCopyInto X inp =
     onOk (InitializationStatus_DeepCopyInto (kctm_Initialization inp)) (\<lambda>initialization.
     onOk (copy_slice prj_Conditions CConditions (fr_Condition X) (kctm_Conditions inp)) (\<lambda>conditions.
     State_Monad.return (Inr (inp\<lparr>kctm_Initialization := initialization, kctm_Conditions := conditions\<rparr>))))"

definition KubeSwiftClusterStatus_DeepCopy :: "'e foreign \<Rightarrow> addr option \<Rightarrow> ('e cell mem, go_error + addr option) state" where
  "KubeSwiftClusterStatus_DeepCopy X inp = copy_ptr prj_KubeSwiftClusterStatus CKubeSwiftClusterStatus (KubeSwiftClusterStatus_DeepCopyInto X) inp"

definition KubeSwiftCluster_DeepCopyInto :: "'e foreign \<Rightarrow> 'e KubeSwiftCluster_m \<Rightarrow> ('e cell mem, go_error + 'e KubeSwiftCluster_m) state" where
  "KubeSwiftCluster_DeepCopyInto X inp =
     onOk (fr_ObjectMeta X (kscm_ObjectMeta inp)) (\<lambda>objectMeta.
     onOk (KubeSwiftClusterSpec_DeepCopyInto (kscm_Spec inp)) (\<lambda>spec.
     onOk (KubeSwiftClusterStatus_DeepCopyInto X (kscm_Status inp)) (\<lambda>status.
     State_Monad.return (Inr (inp\<lparr>kscm_ObjectMeta := objectMeta, kscm_Spec := spec, kscm_Status := status\<rparr>)))))"

definition KubeSwiftCluster_DeepCopy :: "'e foreign \<Rightarrow> addr option \<Rightarrow> ('e cell mem, go_error + addr option) state" where
  "KubeSwiftCluster_DeepCopy X inp = copy_ptr prj_KubeSwiftCluster CKubeSwiftCluster (KubeSwiftCluster_DeepCopyInto X) inp"

definition KubeSwiftClusterList_DeepCopyInto :: "'e foreign \<Rightarrow> 'e KubeSwiftClusterList_m \<Rightarrow> ('e cell mem, go_error + 'e KubeSwiftClusterList_m) state" where
  "KubeSwiftClusterList_DeepCopyInto X inp =
     onOk (fr_ListMeta X (kclm_ListMeta inp)) (\<lambda>listMeta.
     onOk (copy_slice prj_KubeSwiftClusters CKubeSwiftClusters (KubeSwiftCluster_DeepCopyInto X) (kclm_Items inp)) (\<lambda>items.
     State_Monad.return (Inr (inp\<lparr>kclm_ListMeta := listMeta, kclm_Items := items\<rparr>))))"

definition KubeSwiftClusterList_DeepCopy :: "'e foreign \<Rightarrow> addr option \<Rightarrow> ('e cell mem, go_error + addr option) state" where
  "KubeSwiftClusterList_DeepCopy X inp = copy_ptr prj_KubeSwiftClusterList CKubeSwiftClusterList (KubeSwiftClusterList_DeepCopyInto X) inp"

definition KubeSwiftClusterTemplateResource_DeepCopyInto :: "'e foreign \<Rightarrow> 'e KubeSwiftClusterTemplateResource_m \<Rightarrow> ('e cell mem, go_error + 'e KubeSwiftClusterTemplateResource_m) state" where
  "KubeSwiftClusterTemplateResource_DeepCopyInto X inp =
     onOk (fr_TemplateMeta X (kcrm_ObjectMeta inp)) (\<lambda>objectMeta.
     onOk (KubeSwiftClusterSpec_DeepCopyInto (kcrm_Spec inp)) (\<lambda>spec.
     State_Monad.return (Inr (inp\<lparr>kcrm_ObjectMeta := objectMeta, kcrm_Spec := spec\<rparr>))))"

definition KubeSwiftClusterTemplateResource_DeepCopy :: "'e foreign \<Rightarrow> addr option \<Rightarrow> ('e cell mem, go_error + addr option) state" where
  "KubeSwiftClusterTemplateResource_DeepCopy X inp = copy_ptr prj_KubeSwiftClusterTemplateResource CKubeSwiftClusterTemplateResource (KubeSwiftClusterTemplateResource_DeepCopyInto X) inp"

definition KubeSwiftClusterTemplateSpec_DeepCopyInto :: "'e foreign \<Rightarrow> 'e KubeSwiftClusterTemplateSpec_m \<Rightarrow> ('e cell mem, go_error + 'e KubeSwiftClusterTemplateSpec_m) state" where
  "KubeSwiftClusterTemplateSpec_DeepCopyInto X inp =
     onOk (KubeSwiftClusterTemplateResource_DeepCopyInto X (kctsm_Template inp)) (\<lambda>template.
     State_Monad.return (Inr (inp\<lparr>kctsm_Template := template\<rparr>)))"

definition KubeSwiftClusterTemplateSpec_DeepCopy :: "'e foreign \<Rightarrow> addr option \<Rightarrow> ('e cell mem, go_error + addr option) state" where
  "KubeSwiftClusterTemplateSpec_DeepCopy X inp = copy_ptr prj_KubeSwiftClusterTemplateSpec CKubeSwiftClusterTemplateSpec (KubeSwiftClusterTemplateSpec_DeepCopyInto X) inp"

definition KubeSwiftClusterTemplate_DeepCopyInto :: "'e foreign \<Rightarrow> 'e KubeSwiftClusterTemplate_m \<Rightarrow> ('e cell mem, go_error + 'e KubeSwiftClusterTemplate_m) state" where
  "KubeSwiftClusterTemplate_DeepCopyInto X inp =
     onOk (fr_ObjectMeta X (kcttm_ObjectMeta inp)) (\<lambda>objectMeta.
     onOk (KubeSwiftClusterTemplateSpec_DeepCopyInto X (kcttm_Spec inp)) (\<lambda>spec.
     State_Monad.return (Inr (inp\<lparr>kcttm_ObjectMeta := objectMeta, kcttm_Spec := spec\<rparr>))))"

definition KubeSwiftClusterTemplate_DeepCopy :: "'e foreign \<Rightarrow> addr option \<Rightarrow> ('e cell mem, go_error + addr option) state" where
  "KubeSwiftClusterTemplate_DeepCopy X inp = copy_ptr prj_KubeSwiftClusterTemplate CKubeSwiftClusterTemplate (KubeSwiftClusterTemplate_DeepCopyInto X) inp"

definition KubeSwiftClusterTemplateList_DeepCopyInto :: "'e foreign \<Rightarrow> 'e KubeSwiftClusterTemplateList_m \<Rightarrow> ('e cell mem, go_error + 'e KubeSwiftClusterTemplateList_m) state" where
  "KubeSwiftClusterTemplateList_DeepCopyInto X inp =
     onOk (fr_ListMeta X (kctlm_ListMeta inp)) (\<lambda>listMeta.
     onOk (copy_slice prj_KubeSwiftClusterTemplates CKubeSwiftClusterTemplates (KubeSwiftClusterTemplate_DeepCopyInto X) (kctlm_Items inp)) (\<lambda>items.
     State_Monad.return (Inr (inp\<lparr>kctlm_ListMeta := listMeta, kctlm_Items := items\<rparr>))))"

definition KubeSwiftClusterTemplateList_DeepCopy :: "'e foreign \<Rightarrow> addr option \<Rightarrow> ('e cell mem, go_error + addr option) state" where
  "KubeSwiftClusterTemplateList_DeepCopy X inp = copy_ptr prj_KubeSwiftClusterTemplateList CKubeSwiftClusterTemplateList (KubeSwiftClusterTemplateList_DeepCopyInto X) inp"

definition SwiftGuestBackend_DeepCopyInto :: "SwiftGuestBackend_m \<Rightarrow> ('e cell mem, go_error + SwiftGuestBackend_m) state" where
  "SwiftGuestBackend_DeepCopyInto inp =
     onOk (copy_slice prj_Interfaces CInterfaces copy_plain (sgm_Interfaces inp)) (\<lambda>interfaces.
     onOk (copy_ptr prj_SwiftGuestGPU CSwiftGuestGPU copy_plain (sgm_GPU inp)) (\<lambda>gPU.
     State_Monad.return (Inr (inp\<lparr>sgm_Interfaces := interfaces, sgm_GPU := gPU\<rparr>))))"

definition SwiftGuestBackend_DeepCopy :: "addr option \<Rightarrow> ('e cell mem, go_error + addr option) state" where
  "SwiftGuestBackend_DeepCopy inp = copy_ptr prj_SwiftGuestBackend CSwiftGuestBackend SwiftGuestBackend_DeepCopyInto inp"

definition MachineBackend_DeepCopyInto :: "MachineBackend_m \<Rightarrow> ('e cell mem, go_error + MachineBackend_m) state" where
  "MachineBackend_DeepCopyInto inp =
     onOk (copy_ptr prj_SwiftGuestBackend CSwiftGuestBackend SwiftGuestBackend_DeepCopyInto (mbm_SwiftGuest inp)) (\<lambda>swiftGuest.
     State_Monad.return (Inr (inp\<lparr>mbm_SwiftGuest := swiftGuest\<rparr>)))"

definition MachineBackend_DeepCopy :: "addr option \<Rightarrow> ('e cell mem, go_error + addr option) state" where
  "MachineBackend_DeepCopy inp = copy_ptr prj_MachineBackend CMachineBackend MachineBackend_DeepCopyInto inp"

definition KubeSwiftMachineSpec_DeepCopyInto :: "KubeSwiftMachineSpec_m \<Rightarrow> ('e cell mem, go_error + KubeSwiftMachineSpec_m) state" where
  "KubeSwiftMachineSpec_DeepCopyInto inp =
     onOk (MachineBackend_DeepCopyInto (kmsm_Backend inp)) (\<lambda>backend.
     State_Monad.return (Inr (inp\<lparr>kmsm_Backend := backend\<rparr>)))"

definition KubeSwiftMachineSpec_DeepCopy :: "addr option \<Rightarrow> ('e cell mem, go_error + addr option) state" where
  "KubeSwiftMachineSpec_DeepCopy inp = copy_ptr prj_KubeSwiftMachineSpec CKubeSwiftMachineSpec KubeSwiftMachineSpec_DeepCopyInto inp"

definition KubeSwiftMachineStatus_DeepCopyInto :: "'e foreign \<Rightarrow> 'e KubeSwiftMachineStatus_m \<Rightarrow> ('e cell mem, go_error + 'e KubeSwiftMachineStatus_m) state" where
  "KubeSwiftMachineStatus_DeepCopyInto X inp =
     onOk (InitializationStatus_DeepCopyInto (kmtm_Initialization inp)) (\<lambda>initialization.
     onOk (copy_slice prj_Addresses CAddresses copy_plain (kmtm_Addresses inp)) (\<lambda>addresses.
     onOk (copy_slice prj_Conditions CConditions (fr_Condition X) (kmtm_Conditions inp)) (\<lambda>conditions.
     State_Monad.return (Inr (inp\<lparr>kmtm_Initialization := initialization, kmtm_Addresses := addresses, kmtm_Conditions := conditions\<rparr>)))))"

definition KubeSwiftMachineStatus_DeepCopy :: "'e foreign \<Rightarrow> addr option \<Rightarrow> ('e cell mem, go_error + addr option) state" where
  "KubeSwiftMachineStatus_DeepCopy X inp = copy_ptr prj_KubeSwiftMachineStatus CKubeSwiftMachineStatus (KubeSwiftMachineStatus_DeepCopyInto X) inp"

definition KubeSwiftMachine_DeepCopyInto :: "'e foreign \<Rightarrow> 'e KubeSwiftMachine_m \<Rightarrow> ('e cell mem, go_error + 'e KubeSwiftMachine_m) state" where
  "KubeSwiftMachine_DeepCopyInto X inp =
     onOk (fr_ObjectMeta X (ksmm_ObjectMeta inp)) (\<lambda>objectMeta.
     onOk (KubeSwiftMachineSpec_DeepCopyInto (ksmm_Spec inp)) (\<lambda>spec.
     onOk (KubeSwiftMachineStatus_DeepCopyInto X (ksmm_Status inp)) (\<lambda>status.
     State_Monad.return (Inr (inp\<lparr>ksmm_ObjectMeta := objectMeta, ksmm_Spec := spec, ksmm_Status := status\<rparr>)))))"

definition KubeSwiftMachine_DeepCopy :: "'e foreign \<Rightarrow> addr option \<Rightarrow> ('e cell mem, go_error + addr option) state" where
  "KubeSwiftMachine_DeepCopy X inp = copy_ptr prj_KubeSwiftMachine CKubeSwiftMachine (KubeSwiftMachine_DeepCopyInto X) inp"

definition KubeSwiftMachineList_DeepCopyInto :: "'e foreign \<Rightarrow> 'e KubeSwiftMachineList_m \<Rightarrow> ('e cell mem, go_error + 'e KubeSwiftMachineList_m) state" where
  "KubeSwiftMachineList_DeepCopyInto X inp =
     onOk (fr_ListMeta X (kmlm_ListMeta inp)) (\<lambda>listMeta.
     onOk (copy_slice prj_KubeSwiftMachines CKubeSwiftMachines (KubeSwiftMachine_DeepCopyInto X) (kmlm_Items inp)) (\<lambda>items.
     State_Monad.return (Inr (inp\<lparr>kmlm_ListMeta := listMeta, kmlm_Items := items\<rparr>))))"

definition KubeSwiftMachineList_DeepCopy :: "'e foreign \<Rightarrow> addr option \<Rightarrow> ('e cell mem, go_error + addr option) state" where
  "KubeSwiftMachineList_DeepCopy X inp = copy_ptr prj_KubeSwiftMachineList CKubeSwiftMachineList (KubeSwiftMachineList_DeepCopyInto X) inp"

definition KubeSwiftMachineTemplateResource_DeepCopyInto :: "'e foreign \<Rightarrow> 'e KubeSwiftMachineTemplateResource_m \<Rightarrow> ('e cell mem, go_error + 'e KubeSwiftMachineTemplateResource_m) state" where
  "KubeSwiftMachineTemplateResource_DeepCopyInto X inp =
     onOk (fr_TemplateMeta X (kmrm_ObjectMeta inp)) (\<lambda>objectMeta.
     onOk (KubeSwiftMachineSpec_DeepCopyInto (kmrm_Spec inp)) (\<lambda>spec.
     State_Monad.return (Inr (inp\<lparr>kmrm_ObjectMeta := objectMeta, kmrm_Spec := spec\<rparr>))))"

definition KubeSwiftMachineTemplateResource_DeepCopy :: "'e foreign \<Rightarrow> addr option \<Rightarrow> ('e cell mem, go_error + addr option) state" where
  "KubeSwiftMachineTemplateResource_DeepCopy X inp = copy_ptr prj_KubeSwiftMachineTemplateResource CKubeSwiftMachineTemplateResource (KubeSwiftMachineTemplateResource_DeepCopyInto X) inp"

definition KubeSwiftMachineTemplateSpec_DeepCopyInto :: "'e foreign \<Rightarrow> 'e KubeSwiftMachineTemplateSpec_m \<Rightarrow> ('e cell mem, go_error + 'e KubeSwiftMachineTemplateSpec_m) state" where
  "KubeSwiftMachineTemplateSpec_DeepCopyInto X inp =
     onOk (KubeSwiftMachineTemplateResource_DeepCopyInto X (kmtsm_Template inp)) (\<lambda>template.
     State_Monad.return (Inr (inp\<lparr>kmtsm_Template := template\<rparr>)))"

definition KubeSwiftMachineTemplateSpec_DeepCopy :: "'e foreign \<Rightarrow> addr option \<Rightarrow> ('e cell mem, go_error + addr option) state" where
  "KubeSwiftMachineTemplateSpec_DeepCopy X inp = copy_ptr prj_KubeSwiftMachineTemplateSpec CKubeSwiftMachineTemplateSpec (KubeSwiftMachineTemplateSpec_DeepCopyInto X) inp"

definition KubeSwiftMachineTemplate_DeepCopyInto :: "'e foreign \<Rightarrow> 'e KubeSwiftMachineTemplate_m \<Rightarrow> ('e cell mem, go_error + 'e KubeSwiftMachineTemplate_m) state" where
  "KubeSwiftMachineTemplate_DeepCopyInto X inp =
     onOk (fr_ObjectMeta X (kmttm_ObjectMeta inp)) (\<lambda>objectMeta.
     onOk (KubeSwiftMachineTemplateSpec_DeepCopyInto X (kmttm_Spec inp)) (\<lambda>spec.
     State_Monad.return (Inr (inp\<lparr>kmttm_ObjectMeta := objectMeta, kmttm_Spec := spec\<rparr>))))"

definition KubeSwiftMachineTemplate_DeepCopy :: "'e foreign \<Rightarrow> addr option \<Rightarrow> ('e cell mem, go_error + addr option) state" where
  "KubeSwiftMachineTemplate_DeepCopy X inp = copy_ptr prj_KubeSwiftMachineTemplate CKubeSwiftMachineTemplate (KubeSwiftMachineTemplate_DeepCopyInto X) inp"

definition KubeSwiftMachineTemplateList_DeepCopyInto :: "'e foreign \<Rightarrow> 'e KubeSwiftMachineTemplateList_m \<Rightarrow> ('e cell mem, go_error + 'e KubeSwiftMachineTemplateList_m) state" where
  "KubeSwiftMachineTemplateList_DeepCopyInto X inp =
     onOk (fr_ListMeta X (kmtlm_ListMeta inp)) (\<lambda>listMeta.
     onOk (copy_slice prj_KubeSwiftMachineTemplates CKubeSwiftMachineTemplates (KubeSwiftMachineTemplate_DeepCopyInto X) (kmtlm_Items inp)) (\<lambda>items.
     State_Monad.return (Inr (inp\<lparr>kmtlm_ListMeta := listMeta, kmtlm_Items := items\<rparr>))))"

definition KubeSwiftMachineTemplateList_DeepCopy :: "'e foreign \<Rightarrow> addr option \<Rightarrow> ('e cell mem, go_error + addr option) state" where
  "KubeSwiftMachineTemplateList_DeepCopy X inp = copy_ptr prj_KubeSwiftMachineTemplateList CKubeSwiftMachineTemplateList (KubeSwiftMachineTemplateList_DeepCopyInto X) inp"

section \<open>Root objects\<close>

text \<open>
  A \<^verbatim>\<open>runtime.Object\<close>: the dynamic type of the interface value and the pointer in it, which may be nil.
\<close>

datatype runtime_Object =
    OKubeSwiftCluster "addr option"
  | OKubeSwiftClusterList "addr option"
  | OKubeSwiftClusterTemplate "addr option"
  | OKubeSwiftClusterTemplateList "addr option"
  | OKubeSwiftMachine "addr option"
  | OKubeSwiftMachineList "addr option"
  | OKubeSwiftMachineTemplate "addr option"
  | OKubeSwiftMachineTemplateList "addr option"

primrec object_ptr :: "runtime_Object \<Rightarrow> addr option" where
  "object_ptr (OKubeSwiftCluster p) = p"
| "object_ptr (OKubeSwiftClusterList p) = p"
| "object_ptr (OKubeSwiftClusterTemplate p) = p"
| "object_ptr (OKubeSwiftClusterTemplateList p) = p"
| "object_ptr (OKubeSwiftMachine p) = p"
| "object_ptr (OKubeSwiftMachineList p) = p"
| "object_ptr (OKubeSwiftMachineTemplate p) = p"
| "object_ptr (OKubeSwiftMachineTemplateList p) = p"

primrec with_ptr :: "runtime_Object \<Rightarrow> addr option \<Rightarrow> runtime_Object" where
  "with_ptr (OKubeSwiftCluster _) p = OKubeSwiftCluster p"
| "with_ptr (OKubeSwiftClusterList _) p = OKubeSwiftClusterList p"
| "with_ptr (OKubeSwiftClusterTemplate _) p = OKubeSwiftClusterTemplate p"
| "with_ptr (OKubeSwiftClusterTemplateList _) p = OKubeSwiftClusterTemplateList p"
| "with_ptr (OKubeSwiftMachine _) p = OKubeSwiftMachine p"
| "with_ptr (OKubeSwiftMachineList _) p = OKubeSwiftMachineList p"
| "with_ptr (OKubeSwiftMachineTemplate _) p = OKubeSwiftMachineTemplate p"
| "with_ptr (OKubeSwiftMachineTemplateList _) p = OKubeSwiftMachineTemplateList p"

text \<open>\<^verbatim>\<open>if c := in.DeepCopy(); c != nil { return c }; return nil\<close>: the interface value is nil if the copy is.\<close>

definition object_of :: "(addr option \<Rightarrow> runtime_Object) \<Rightarrow> ('e cell mem, go_error + addr option) state \<Rightarrow>
    ('e cell mem, go_error + runtime_Object option) state" where
  "object_of wrap cp = onOk cp (\<lambda>c. State_Monad.return (Inr (if c \<noteq> None then Some (wrap c) else None)))"

definition KubeSwiftCluster_DeepCopyObject :: "'e foreign \<Rightarrow> addr option \<Rightarrow> ('e cell mem, go_error + runtime_Object option) state" where
  "KubeSwiftCluster_DeepCopyObject X inp = object_of OKubeSwiftCluster (KubeSwiftCluster_DeepCopy X inp)"

definition KubeSwiftClusterList_DeepCopyObject :: "'e foreign \<Rightarrow> addr option \<Rightarrow> ('e cell mem, go_error + runtime_Object option) state" where
  "KubeSwiftClusterList_DeepCopyObject X inp = object_of OKubeSwiftClusterList (KubeSwiftClusterList_DeepCopy X inp)"

definition KubeSwiftClusterTemplate_DeepCopyObject :: "'e foreign \<Rightarrow> addr option \<Rightarrow> ('e cell mem, go_error + runtime_Object option) state" where
  "KubeSwiftClusterTemplate_DeepCopyObject X inp = object_of OKubeSwiftClusterTemplate (KubeSwiftClusterTemplate_DeepCopy X inp)"

definition KubeSwiftClusterTemplateList_DeepCopyObject :: "'e foreign \<Rightarrow> addr option \<Rightarrow> ('e cell mem, go_error + runtime_Object option) state" where
  "KubeSwiftClusterTemplateList_DeepCopyObject X inp = object_of OKubeSwiftClusterTemplateList (KubeSwiftClusterTemplateList_DeepCopy X inp)"

definition KubeSwiftMachine_DeepCopyObject :: "'e foreign \<Rightarrow> addr option \<Rightarrow> ('e cell mem, go_error + runtime_Object option) state" where
  "KubeSwiftMachine_DeepCopyObject X inp = object_of OKubeSwiftMachine (KubeSwiftMachine_DeepCopy X inp)"

definition KubeSwiftMachineList_DeepCopyObject :: "'e foreign \<Rightarrow> addr option \<Rightarrow> ('e cell mem, go_error + runtime_Object option) state" where
  "KubeSwiftMachineList_DeepCopyObject X inp = object_of OKubeSwiftMachineList (KubeSwiftMachineList_DeepCopy X inp)"

definition KubeSwiftMachineTemplate_DeepCopyObject :: "'e foreign \<Rightarrow> addr option \<Rightarrow> ('e cell mem, go_error + runtime_Object option) state" where
  "KubeSwiftMachineTemplate_DeepCopyObject X inp = object_of OKubeSwiftMachineTemplate (KubeSwiftMachineTemplate_DeepCopy X inp)"

definition KubeSwiftMachineTemplateList_DeepCopyObject :: "'e foreign \<Rightarrow> addr option \<Rightarrow> ('e cell mem, go_error + runtime_Object option) state" where
  "KubeSwiftMachineTemplateList_DeepCopyObject X inp = object_of OKubeSwiftMachineTemplateList (KubeSwiftMachineTemplateList_DeepCopy X inp)"

text \<open>A call of the interface method runs the method of the dynamic type.\<close>

primrec DeepCopyObject :: "'e foreign \<Rightarrow> runtime_Object \<Rightarrow> ('e cell mem, go_error + runtime_Object option) state" where
  "DeepCopyObject X (OKubeSwiftCluster p) = KubeSwiftCluster_DeepCopyObject X p"
| "DeepCopyObject X (OKubeSwiftClusterList p) = KubeSwiftClusterList_DeepCopyObject X p"
| "DeepCopyObject X (OKubeSwiftClusterTemplate p) = KubeSwiftClusterTemplate_DeepCopyObject X p"
| "DeepCopyObject X (OKubeSwiftClusterTemplateList p) = KubeSwiftClusterTemplateList_DeepCopyObject X p"
| "DeepCopyObject X (OKubeSwiftMachine p) = KubeSwiftMachine_DeepCopyObject X p"
| "DeepCopyObject X (OKubeSwiftMachineList p) = KubeSwiftMachineList_DeepCopyObject X p"
| "DeepCopyObject X (OKubeSwiftMachineTemplate p) = KubeSwiftMachineTemplate_DeepCopyObject X p"
| "DeepCopyObject X (OKubeSwiftMachineTemplateList p) = KubeSwiftMachineTemplateList_DeepCopyObject X p"

primrec unfold_Object :: "('e cell mem \<Rightarrow> 'e \<Rightarrow> gtree option) \<Rightarrow> 'e cell mem \<Rightarrow> runtime_Object \<Rightarrow> gtree option" where
  "unfold_Object U m (OKubeSwiftCluster p) = unfold_ptr prj_KubeSwiftCluster (unfold_KubeSwiftCluster U) m p"
| "unfold_Object U m (OKubeSwiftClusterList p) = unfold_ptr prj_KubeSwiftClusterList (unfold_KubeSwiftClusterList U) m p"
| "unfold_Object U m (OKubeSwiftClusterTemplate p) = unfold_ptr prj_KubeSwiftClusterTemplate (unfold_KubeSwiftClusterTemplate U) m p"
| "unfold_Object U m (OKubeSwiftClusterTemplateList p) = unfold_ptr prj_KubeSwiftClusterTemplateList (unfold_KubeSwiftClusterTemplateList U) m p"
| "unfold_Object U m (OKubeSwiftMachine p) = unfold_ptr prj_KubeSwiftMachine (unfold_KubeSwiftMachine U) m p"
| "unfold_Object U m (OKubeSwiftMachineList p) = unfold_ptr prj_KubeSwiftMachineList (unfold_KubeSwiftMachineList U) m p"
| "unfold_Object U m (OKubeSwiftMachineTemplate p) = unfold_ptr prj_KubeSwiftMachineTemplate (unfold_KubeSwiftMachineTemplate U) m p"
| "unfold_Object U m (OKubeSwiftMachineTemplateList p) = unfold_ptr prj_KubeSwiftMachineTemplateList (unfold_KubeSwiftMachineTemplateList U) m p"

end
