(* ===== verification/Deep_Copy_Props.thy ===== *)
theory Deep_Copy_Props
  imports Deep_Copy
begin

text \<open>
  The copy methods of \<^verbatim>\<open>Deep_Copy\<close> are deep copies. One lemma \<open>T_copies\<close> per struct, from the
  lemmas of \<^verbatim>\<open>Go_Memory\<close> for the idioms its method uses and the lemmas of the structs it contains;
  for the structs with metadata or conditions these are lemmas of the locale \<open>foreign_lib\<close>, the contract
  of the foreign \<^verbatim>\<open>DeepCopyInto\<close> methods. The properties are about \<^verbatim>\<open>DeepCopyObject\<close>.
\<close>

section \<open>They are deep copies\<close>

locale foreign_lib =
  fixes X :: "'e foreign" and U :: "'e cell mem \<Rightarrow> 'e \<Rightarrow> gtree option"
  assumes ObjectMeta_copies: "deep_copier U (fr_ObjectMeta X)"
    and TemplateMeta_copies: "deep_copier U (fr_TemplateMeta X)"
    and ListMeta_copies: "deep_copier U (fr_ListMeta X)"
    and Condition_copies: "deep_copier U (fr_Condition X)"

lemmas ptr_copies = deep_copier.deep_copier_ptr
lemmas slice_copies = deep_copier.deep_copier_slice

lemma plain_copies:
  "deep_copier (unfold_plain tree_String) copy_plain" "deep_copier (unfold_plain tree_Bool) copy_plain"
  "deep_copier (unfold_plain tree_APIEndpoint) copy_plain" "deep_copier (unfold_plain tree_MachineAddress) copy_plain"
  "deep_copier (unfold_plain tree_SwiftGuestInterface) copy_plain" "deep_copier (unfold_plain tree_SwiftGuestGPU) copy_plain"
  by (auto intro: deep_copier_plain)

lemma ControlPlaneServiceSpec_copies: "deep_copier unfold_ControlPlaneServiceSpec ControlPlaneServiceSpec_DeepCopyInto"
  unfolding unfold_ControlPlaneServiceSpec_def [abs_def] ControlPlaneServiceSpec_DeepCopyInto_def [abs_def]
  by (rule deep_copier_struct2 [where pl = "\<lambda>v. GStruct [GLeaf (LString (cpsm_Type v)), GLeaf (LInt (cpsm_Port v))]"
      and ga = cpsm_Annotations
      and sa = "\<lambda>x v. v\<lparr>cpsm_Annotations := x\<rparr>"
      and gb = cpsm_LoadBalancerClass
      and sb = "\<lambda>x v. v\<lparr>cpsm_LoadBalancerClass := x\<rparr>"])
    (auto intro!: deep_copier_map ptr_copies [OF plain_copies(1)])

lemma ControlPlaneEndpointSpec_copies: "deep_copier unfold_ControlPlaneEndpointSpec ControlPlaneEndpointSpec_DeepCopyInto"
  unfolding unfold_ControlPlaneEndpointSpec_def [abs_def] ControlPlaneEndpointSpec_DeepCopyInto_def [abs_def]
  by (rule deep_copier_struct1 [where pl = "\<lambda>v. GStruct [GLeaf (LString (cpem_Mode v))]"
      and ga = cpem_Service
      and sa = "\<lambda>x v. v\<lparr>cpem_Service := x\<rparr>"])
    (auto intro!: ptr_copies [OF ControlPlaneServiceSpec_copies])

lemma InitializationStatus_copies: "deep_copier unfold_InitializationStatus InitializationStatus_DeepCopyInto"
  unfolding unfold_InitializationStatus_def [abs_def] InitializationStatus_DeepCopyInto_def [abs_def]
  by (rule deep_copier_struct1 [where pl = "\<lambda>v. GStruct []"
      and ga = initm_Provisioned
      and sa = "\<lambda>x v. v\<lparr>initm_Provisioned := x\<rparr>"])
    (auto intro!: ptr_copies [OF plain_copies(2)])

lemma KubeSwiftClusterSpec_copies: "deep_copier unfold_KubeSwiftClusterSpec KubeSwiftClusterSpec_DeepCopyInto"
  unfolding unfold_KubeSwiftClusterSpec_def [abs_def] KubeSwiftClusterSpec_DeepCopyInto_def [abs_def]
  by (rule deep_copier_struct2 [where pl = "\<lambda>v. GStruct [GLeaf (LString (kcsm_GuestNamespace v))]"
      and ga = kcsm_ControlPlaneEndpoint
      and sa = "\<lambda>x v. v\<lparr>kcsm_ControlPlaneEndpoint := x\<rparr>"
      and gb = kcsm_Endpoint
      and sb = "\<lambda>x v. v\<lparr>kcsm_Endpoint := x\<rparr>"])
    (auto intro!: ptr_copies [OF ControlPlaneEndpointSpec_copies] ptr_copies [OF plain_copies(3)])

lemma SwiftGuestBackend_copies: "deep_copier unfold_SwiftGuestBackend SwiftGuestBackend_DeepCopyInto"
  unfolding unfold_SwiftGuestBackend_def [abs_def] SwiftGuestBackend_DeepCopyInto_def [abs_def]
  by (rule deep_copier_struct2 [where pl = "\<lambda>v. GStruct [GLeaf (LString (sgm_ImageRef v)), GLeaf (LString (sgm_GuestClassRef v)), GLeaf (LString (sgm_NetworkRef v)), GLeaf (LString (sgm_NodeNetworkRef v)), GLeaf (LString (sgm_NodeName v)), GLeaf (LString (sgm_StorageClassName v))]"
      and ga = sgm_Interfaces
      and sa = "\<lambda>x v. v\<lparr>sgm_Interfaces := x\<rparr>"
      and gb = sgm_GPU
      and sb = "\<lambda>x v. v\<lparr>sgm_GPU := x\<rparr>"])
    (auto intro!: ptr_copies [OF plain_copies(6)] slice_copies [OF plain_copies(5)])

lemma MachineBackend_copies: "deep_copier unfold_MachineBackend MachineBackend_DeepCopyInto"
  unfolding unfold_MachineBackend_def [abs_def] MachineBackend_DeepCopyInto_def [abs_def]
  by (rule deep_copier_struct1 [where pl = "\<lambda>v. GStruct [GLeaf (LString (mbm_Type v))]"
      and ga = mbm_SwiftGuest
      and sa = "\<lambda>x v. v\<lparr>mbm_SwiftGuest := x\<rparr>"])
    (auto intro!: ptr_copies [OF SwiftGuestBackend_copies])

lemma KubeSwiftMachineSpec_copies: "deep_copier unfold_KubeSwiftMachineSpec KubeSwiftMachineSpec_DeepCopyInto"
  unfolding unfold_KubeSwiftMachineSpec_def [abs_def] KubeSwiftMachineSpec_DeepCopyInto_def [abs_def]
  by (rule deep_copier_struct1 [where pl = "\<lambda>v. GStruct [GLeaf (LString (kmsm_ProviderID v))]"
      and ga = kmsm_Backend
      and sa = "\<lambda>x v. v\<lparr>kmsm_Backend := x\<rparr>"])
    (auto intro!: MachineBackend_copies)

context foreign_lib
begin

lemma KubeSwiftClusterStatus_copies: "deep_copier (unfold_KubeSwiftClusterStatus U) (KubeSwiftClusterStatus_DeepCopyInto X)"
  unfolding unfold_KubeSwiftClusterStatus_def [abs_def] KubeSwiftClusterStatus_DeepCopyInto_def [abs_def]
  by (rule deep_copier_struct2 [where pl = "\<lambda>v. GStruct []"
      and ga = kctm_Initialization
      and sa = "\<lambda>x v. v\<lparr>kctm_Initialization := x\<rparr>"
      and gb = kctm_Conditions
      and sb = "\<lambda>x v. v\<lparr>kctm_Conditions := x\<rparr>"])
    (auto intro!: InitializationStatus_copies slice_copies [OF Condition_copies])

lemma KubeSwiftCluster_copies: "deep_copier (unfold_KubeSwiftCluster U) (KubeSwiftCluster_DeepCopyInto X)"
  unfolding unfold_KubeSwiftCluster_def [abs_def] KubeSwiftCluster_DeepCopyInto_def [abs_def]
  by (rule deep_copier_struct3 [where pl = "\<lambda>v. GStruct [tree_TypeMeta (kscm_TypeMeta v)]"
      and ga = kscm_ObjectMeta
      and sa = "\<lambda>x v. v\<lparr>kscm_ObjectMeta := x\<rparr>"
      and gb = kscm_Spec
      and sb = "\<lambda>x v. v\<lparr>kscm_Spec := x\<rparr>"
      and gc = kscm_Status
      and sc = "\<lambda>x v. v\<lparr>kscm_Status := x\<rparr>"])
    (auto intro!: KubeSwiftClusterSpec_copies KubeSwiftClusterStatus_copies ObjectMeta_copies)

lemma KubeSwiftClusterList_copies: "deep_copier (unfold_KubeSwiftClusterList U) (KubeSwiftClusterList_DeepCopyInto X)"
  unfolding unfold_KubeSwiftClusterList_def [abs_def] KubeSwiftClusterList_DeepCopyInto_def [abs_def]
  by (rule deep_copier_struct2 [where pl = "\<lambda>v. GStruct [tree_TypeMeta (kclm_TypeMeta v)]"
      and ga = kclm_ListMeta
      and sa = "\<lambda>x v. v\<lparr>kclm_ListMeta := x\<rparr>"
      and gb = kclm_Items
      and sb = "\<lambda>x v. v\<lparr>kclm_Items := x\<rparr>"])
    (auto intro!: ListMeta_copies slice_copies [OF KubeSwiftCluster_copies])

lemma KubeSwiftClusterTemplateResource_copies: "deep_copier (unfold_KubeSwiftClusterTemplateResource U) (KubeSwiftClusterTemplateResource_DeepCopyInto X)"
  unfolding unfold_KubeSwiftClusterTemplateResource_def [abs_def] KubeSwiftClusterTemplateResource_DeepCopyInto_def [abs_def]
  by (rule deep_copier_struct2 [where pl = "\<lambda>v. GStruct []"
      and ga = kcrm_ObjectMeta
      and sa = "\<lambda>x v. v\<lparr>kcrm_ObjectMeta := x\<rparr>"
      and gb = kcrm_Spec
      and sb = "\<lambda>x v. v\<lparr>kcrm_Spec := x\<rparr>"])
    (auto intro!: KubeSwiftClusterSpec_copies TemplateMeta_copies)

lemma KubeSwiftClusterTemplateSpec_copies: "deep_copier (unfold_KubeSwiftClusterTemplateSpec U) (KubeSwiftClusterTemplateSpec_DeepCopyInto X)"
  unfolding unfold_KubeSwiftClusterTemplateSpec_def [abs_def] KubeSwiftClusterTemplateSpec_DeepCopyInto_def [abs_def]
  by (rule deep_copier_struct1 [where pl = "\<lambda>v. GStruct []"
      and ga = kctsm_Template
      and sa = "\<lambda>x v. v\<lparr>kctsm_Template := x\<rparr>"])
    (auto intro!: KubeSwiftClusterTemplateResource_copies)

lemma KubeSwiftClusterTemplate_copies: "deep_copier (unfold_KubeSwiftClusterTemplate U) (KubeSwiftClusterTemplate_DeepCopyInto X)"
  unfolding unfold_KubeSwiftClusterTemplate_def [abs_def] KubeSwiftClusterTemplate_DeepCopyInto_def [abs_def]
  by (rule deep_copier_struct2 [where pl = "\<lambda>v. GStruct [tree_TypeMeta (kcttm_TypeMeta v)]"
      and ga = kcttm_ObjectMeta
      and sa = "\<lambda>x v. v\<lparr>kcttm_ObjectMeta := x\<rparr>"
      and gb = kcttm_Spec
      and sb = "\<lambda>x v. v\<lparr>kcttm_Spec := x\<rparr>"])
    (auto intro!: KubeSwiftClusterTemplateSpec_copies ObjectMeta_copies)

lemma KubeSwiftClusterTemplateList_copies: "deep_copier (unfold_KubeSwiftClusterTemplateList U) (KubeSwiftClusterTemplateList_DeepCopyInto X)"
  unfolding unfold_KubeSwiftClusterTemplateList_def [abs_def] KubeSwiftClusterTemplateList_DeepCopyInto_def [abs_def]
  by (rule deep_copier_struct2 [where pl = "\<lambda>v. GStruct [tree_TypeMeta (kctlm_TypeMeta v)]"
      and ga = kctlm_ListMeta
      and sa = "\<lambda>x v. v\<lparr>kctlm_ListMeta := x\<rparr>"
      and gb = kctlm_Items
      and sb = "\<lambda>x v. v\<lparr>kctlm_Items := x\<rparr>"])
    (auto intro!: ListMeta_copies slice_copies [OF KubeSwiftClusterTemplate_copies])

lemma KubeSwiftMachineStatus_copies: "deep_copier (unfold_KubeSwiftMachineStatus U) (KubeSwiftMachineStatus_DeepCopyInto X)"
  unfolding unfold_KubeSwiftMachineStatus_def [abs_def] KubeSwiftMachineStatus_DeepCopyInto_def [abs_def]
  by (rule deep_copier_struct3 [where pl = "\<lambda>v. GStruct [GLeaf (LString (kmtm_FailureDomain v))]"
      and ga = kmtm_Initialization
      and sa = "\<lambda>x v. v\<lparr>kmtm_Initialization := x\<rparr>"
      and gb = kmtm_Addresses
      and sb = "\<lambda>x v. v\<lparr>kmtm_Addresses := x\<rparr>"
      and gc = kmtm_Conditions
      and sc = "\<lambda>x v. v\<lparr>kmtm_Conditions := x\<rparr>"])
    (auto intro!: InitializationStatus_copies slice_copies [OF Condition_copies] slice_copies [OF plain_copies(4)])

lemma KubeSwiftMachine_copies: "deep_copier (unfold_KubeSwiftMachine U) (KubeSwiftMachine_DeepCopyInto X)"
  unfolding unfold_KubeSwiftMachine_def [abs_def] KubeSwiftMachine_DeepCopyInto_def [abs_def]
  by (rule deep_copier_struct3 [where pl = "\<lambda>v. GStruct [tree_TypeMeta (ksmm_TypeMeta v)]"
      and ga = ksmm_ObjectMeta
      and sa = "\<lambda>x v. v\<lparr>ksmm_ObjectMeta := x\<rparr>"
      and gb = ksmm_Spec
      and sb = "\<lambda>x v. v\<lparr>ksmm_Spec := x\<rparr>"
      and gc = ksmm_Status
      and sc = "\<lambda>x v. v\<lparr>ksmm_Status := x\<rparr>"])
    (auto intro!: KubeSwiftMachineSpec_copies KubeSwiftMachineStatus_copies ObjectMeta_copies)

lemma KubeSwiftMachineList_copies: "deep_copier (unfold_KubeSwiftMachineList U) (KubeSwiftMachineList_DeepCopyInto X)"
  unfolding unfold_KubeSwiftMachineList_def [abs_def] KubeSwiftMachineList_DeepCopyInto_def [abs_def]
  by (rule deep_copier_struct2 [where pl = "\<lambda>v. GStruct [tree_TypeMeta (kmlm_TypeMeta v)]"
      and ga = kmlm_ListMeta
      and sa = "\<lambda>x v. v\<lparr>kmlm_ListMeta := x\<rparr>"
      and gb = kmlm_Items
      and sb = "\<lambda>x v. v\<lparr>kmlm_Items := x\<rparr>"])
    (auto intro!: ListMeta_copies slice_copies [OF KubeSwiftMachine_copies])

lemma KubeSwiftMachineTemplateResource_copies: "deep_copier (unfold_KubeSwiftMachineTemplateResource U) (KubeSwiftMachineTemplateResource_DeepCopyInto X)"
  unfolding unfold_KubeSwiftMachineTemplateResource_def [abs_def] KubeSwiftMachineTemplateResource_DeepCopyInto_def [abs_def]
  by (rule deep_copier_struct2 [where pl = "\<lambda>v. GStruct []"
      and ga = kmrm_ObjectMeta
      and sa = "\<lambda>x v. v\<lparr>kmrm_ObjectMeta := x\<rparr>"
      and gb = kmrm_Spec
      and sb = "\<lambda>x v. v\<lparr>kmrm_Spec := x\<rparr>"])
    (auto intro!: KubeSwiftMachineSpec_copies TemplateMeta_copies)

lemma KubeSwiftMachineTemplateSpec_copies: "deep_copier (unfold_KubeSwiftMachineTemplateSpec U) (KubeSwiftMachineTemplateSpec_DeepCopyInto X)"
  unfolding unfold_KubeSwiftMachineTemplateSpec_def [abs_def] KubeSwiftMachineTemplateSpec_DeepCopyInto_def [abs_def]
  by (rule deep_copier_struct1 [where pl = "\<lambda>v. GStruct []"
      and ga = kmtsm_Template
      and sa = "\<lambda>x v. v\<lparr>kmtsm_Template := x\<rparr>"])
    (auto intro!: KubeSwiftMachineTemplateResource_copies)

lemma KubeSwiftMachineTemplate_copies: "deep_copier (unfold_KubeSwiftMachineTemplate U) (KubeSwiftMachineTemplate_DeepCopyInto X)"
  unfolding unfold_KubeSwiftMachineTemplate_def [abs_def] KubeSwiftMachineTemplate_DeepCopyInto_def [abs_def]
  by (rule deep_copier_struct2 [where pl = "\<lambda>v. GStruct [tree_TypeMeta (kmttm_TypeMeta v)]"
      and ga = kmttm_ObjectMeta
      and sa = "\<lambda>x v. v\<lparr>kmttm_ObjectMeta := x\<rparr>"
      and gb = kmttm_Spec
      and sb = "\<lambda>x v. v\<lparr>kmttm_Spec := x\<rparr>"])
    (auto intro!: KubeSwiftMachineTemplateSpec_copies ObjectMeta_copies)

lemma KubeSwiftMachineTemplateList_copies: "deep_copier (unfold_KubeSwiftMachineTemplateList U) (KubeSwiftMachineTemplateList_DeepCopyInto X)"
  unfolding unfold_KubeSwiftMachineTemplateList_def [abs_def] KubeSwiftMachineTemplateList_DeepCopyInto_def [abs_def]
  by (rule deep_copier_struct2 [where pl = "\<lambda>v. GStruct [tree_TypeMeta (kmtlm_TypeMeta v)]"
      and ga = kmtlm_ListMeta
      and sa = "\<lambda>x v. v\<lparr>kmtlm_ListMeta := x\<rparr>"
      and gb = kmtlm_Items
      and sb = "\<lambda>x v. v\<lparr>kmtlm_Items := x\<rparr>"])
    (auto intro!: ListMeta_copies slice_copies [OF KubeSwiftMachineTemplate_copies])

end

interpretation copy_cpsm: deep_copier unfold_ControlPlaneServiceSpec ControlPlaneServiceSpec_DeepCopyInto
  by (rule ControlPlaneServiceSpec_copies)

interpretation copy_cpem: deep_copier unfold_ControlPlaneEndpointSpec ControlPlaneEndpointSpec_DeepCopyInto
  by (rule ControlPlaneEndpointSpec_copies)

interpretation copy_initm: deep_copier unfold_InitializationStatus InitializationStatus_DeepCopyInto
  by (rule InitializationStatus_copies)

interpretation copy_kcsm: deep_copier unfold_KubeSwiftClusterSpec KubeSwiftClusterSpec_DeepCopyInto
  by (rule KubeSwiftClusterSpec_copies)

interpretation copy_sgm: deep_copier unfold_SwiftGuestBackend SwiftGuestBackend_DeepCopyInto
  by (rule SwiftGuestBackend_copies)

interpretation copy_mbm: deep_copier unfold_MachineBackend MachineBackend_DeepCopyInto
  by (rule MachineBackend_copies)

interpretation copy_kmsm: deep_copier unfold_KubeSwiftMachineSpec KubeSwiftMachineSpec_DeepCopyInto
  by (rule KubeSwiftMachineSpec_copies)

lemmas DeepCopyObject_defs =
  KubeSwiftCluster_DeepCopyObject_def KubeSwiftCluster_DeepCopy_def
  KubeSwiftClusterList_DeepCopyObject_def KubeSwiftClusterList_DeepCopy_def
  KubeSwiftClusterTemplate_DeepCopyObject_def KubeSwiftClusterTemplate_DeepCopy_def
  KubeSwiftClusterTemplateList_DeepCopyObject_def KubeSwiftClusterTemplateList_DeepCopy_def
  KubeSwiftMachine_DeepCopyObject_def KubeSwiftMachine_DeepCopy_def
  KubeSwiftMachineList_DeepCopyObject_def KubeSwiftMachineList_DeepCopy_def
  KubeSwiftMachineTemplate_DeepCopyObject_def KubeSwiftMachineTemplate_DeepCopy_def
  KubeSwiftMachineTemplateList_DeepCopyObject_def KubeSwiftMachineTemplateList_DeepCopy_def

text \<open>What holds of the pointer copy of every root type holds of the method.\<close>

lemma object_of_ptr:
  assumes "deep_copier unf (copy_ptr prj put cp)" "unf = unfold_ptr prj u" "unf m p = Some t" "mem_wf m"
  shows "wp (object_of wrap (copy_ptr prj put cp p)) (\<lambda>r m'. grows m m' \<and> (case p of None \<Rightarrow> r = Inr None
     | Some _ \<Rightarrow> \<exists>b t'. r = Inr (Some (wrap (Some b))) \<and> unf m' (Some b) = Some t' \<and> erase t' = erase t \<and>
         (\<forall>a \<in> addrs t'. mem_next m \<le> a))) m"
  unfolding object_of_def wp_onOk
proof (rule deep_copier.copy_rule [OF assms(1) grows_refl [OF assms(4)] assms(4,3)], unfold sum.case wp_return)
  fix p' m'
  assume g: "grows m m'" and c: "copied unf m t m' p'"
  then obtain t' where t': "unf m' p' = Some t'" "erase t' = erase t" "\<forall>a \<in> addrs t'. mem_next m \<le> a"
    by (auto simp: copied_def)
  have "p' = None \<longleftrightarrow> p = None"
    using t'(1,2) assms(2,3) by (auto simp: unfold_ptr_Some)
  then show "grows m m' \<and> (case p of None \<Rightarrow> Inr (if p' \<noteq> None then Some (wrap p') else None) = Inr None
     | Some _ \<Rightarrow> \<exists>b t'. Inr (if p' \<noteq> None then Some (wrap p') else None) = Inr (Some (wrap (Some b))) \<and>
         unf m' (Some b) = Some t' \<and> erase t' = erase t \<and> (\<forall>a \<in> addrs t'. mem_next m \<le> a))"
    using g t' by (cases p') (auto split: option.splits)
qed

context foreign_lib
begin


lemma root_copies:
  "deep_copier (unfold_ptr prj_KubeSwiftCluster (unfold_KubeSwiftCluster U)) (copy_ptr prj_KubeSwiftCluster CKubeSwiftCluster (KubeSwiftCluster_DeepCopyInto X))"
  "deep_copier (unfold_ptr prj_KubeSwiftClusterList (unfold_KubeSwiftClusterList U)) (copy_ptr prj_KubeSwiftClusterList CKubeSwiftClusterList (KubeSwiftClusterList_DeepCopyInto X))"
  "deep_copier (unfold_ptr prj_KubeSwiftClusterTemplate (unfold_KubeSwiftClusterTemplate U)) (copy_ptr prj_KubeSwiftClusterTemplate CKubeSwiftClusterTemplate (KubeSwiftClusterTemplate_DeepCopyInto X))"
  "deep_copier (unfold_ptr prj_KubeSwiftClusterTemplateList (unfold_KubeSwiftClusterTemplateList U)) (copy_ptr prj_KubeSwiftClusterTemplateList CKubeSwiftClusterTemplateList (KubeSwiftClusterTemplateList_DeepCopyInto X))"
  "deep_copier (unfold_ptr prj_KubeSwiftMachine (unfold_KubeSwiftMachine U)) (copy_ptr prj_KubeSwiftMachine CKubeSwiftMachine (KubeSwiftMachine_DeepCopyInto X))"
  "deep_copier (unfold_ptr prj_KubeSwiftMachineList (unfold_KubeSwiftMachineList U)) (copy_ptr prj_KubeSwiftMachineList CKubeSwiftMachineList (KubeSwiftMachineList_DeepCopyInto X))"
  "deep_copier (unfold_ptr prj_KubeSwiftMachineTemplate (unfold_KubeSwiftMachineTemplate U)) (copy_ptr prj_KubeSwiftMachineTemplate CKubeSwiftMachineTemplate (KubeSwiftMachineTemplate_DeepCopyInto X))"
  "deep_copier (unfold_ptr prj_KubeSwiftMachineTemplateList (unfold_KubeSwiftMachineTemplateList U)) (copy_ptr prj_KubeSwiftMachineTemplateList CKubeSwiftMachineTemplateList (KubeSwiftMachineTemplateList_DeepCopyInto X))"
  by (auto intro: ptr_copies [OF KubeSwiftCluster_copies]
      ptr_copies [OF KubeSwiftClusterList_copies]
      ptr_copies [OF KubeSwiftClusterTemplate_copies]
      ptr_copies [OF KubeSwiftClusterTemplateList_copies]
      ptr_copies [OF KubeSwiftMachine_copies]
      ptr_copies [OF KubeSwiftMachineList_copies]
      ptr_copies [OF KubeSwiftMachineTemplate_copies]
      ptr_copies [OF KubeSwiftMachineTemplateList_copies])

lemmas root_unfolding = root_copies [THEN deep_copier.axioms(1)]

lemma object_copies:
  assumes "unfold_Object U m obj = Some t" "mem_wf m"
  shows "wp (DeepCopyObject X obj) (\<lambda>r m'. grows m m' \<and> (case object_ptr obj of None \<Rightarrow> r = Inr None
     | Some _ \<Rightarrow> \<exists>b t'. r = Inr (Some (with_ptr obj (Some b))) \<and> unfold_Object U m' (with_ptr obj (Some b)) = Some t' \<and>
         erase t' = erase t \<and> (\<forall>a \<in> addrs t'. mem_next m \<le> a))) m"
proof (cases obj)
  case (OKubeSwiftCluster p)
  then show ?thesis using object_of_ptr [OF root_copies(1) refl, of m p t OKubeSwiftCluster] assms
    by (simp add: DeepCopyObject_defs cong: option.case_cong)
next
  case (OKubeSwiftClusterList p)
  then show ?thesis using object_of_ptr [OF root_copies(2) refl, of m p t OKubeSwiftClusterList] assms
    by (simp add: DeepCopyObject_defs cong: option.case_cong)
next
  case (OKubeSwiftClusterTemplate p)
  then show ?thesis using object_of_ptr [OF root_copies(3) refl, of m p t OKubeSwiftClusterTemplate] assms
    by (simp add: DeepCopyObject_defs cong: option.case_cong)
next
  case (OKubeSwiftClusterTemplateList p)
  then show ?thesis using object_of_ptr [OF root_copies(4) refl, of m p t OKubeSwiftClusterTemplateList] assms
    by (simp add: DeepCopyObject_defs cong: option.case_cong)
next
  case (OKubeSwiftMachine p)
  then show ?thesis using object_of_ptr [OF root_copies(5) refl, of m p t OKubeSwiftMachine] assms
    by (simp add: DeepCopyObject_defs cong: option.case_cong)
next
  case (OKubeSwiftMachineList p)
  then show ?thesis using object_of_ptr [OF root_copies(6) refl, of m p t OKubeSwiftMachineList] assms
    by (simp add: DeepCopyObject_defs cong: option.case_cong)
next
  case (OKubeSwiftMachineTemplate p)
  then show ?thesis using object_of_ptr [OF root_copies(7) refl, of m p t OKubeSwiftMachineTemplate] assms
    by (simp add: DeepCopyObject_defs cong: option.case_cong)
next
  case (OKubeSwiftMachineTemplateList p)
  then show ?thesis using object_of_ptr [OF root_copies(8) refl, of m p t OKubeSwiftMachineTemplateList] assms
    by (simp add: DeepCopyObject_defs cong: option.case_cong)
qed

lemma object_unfolding: "unfolding_of (unfold_Object U)"
proof
  fix m m' obj t
  assume "unfold_Object U m obj = Some t" "agree (addrs t) m m'"
  then show "unfold_Object U m' obj = Some t"
    by (cases obj) (simp_all add: root_unfolding [THEN unfolding_of.frame, of m _ t m'])
next
  fix m obj t
  assume "unfold_Object U m obj = Some t"
  then show "addrs t \<subseteq> dom (mem_cells m)"
    by (cases obj) (auto dest: root_unfolding [THEN unfolding_of.allocated, THEN subsetD])
qed

end

section \<open>Reference metadata\<close>

text \<open>
  A reference instance of the foreign structs, on which \<open>foreign_lib\<close> is interpreted: metadata with a
  name and a map of labels, and conditions.
\<close>

datatype ref_ext = RMeta string "addr option" | RCondition Condition

primrec ref_unfold :: "ref_ext cell mem \<Rightarrow> ref_ext \<Rightarrow> gtree option" where
  "ref_unfold m (RMeta n p) = unfold_struct [Some (GLeaf (LString n)), unfold_map prj_Map m p]"
| "ref_unfold m (RCondition c) = Some (GStruct (map (\<lambda>s. GLeaf (LString s))
     [cond_Type c, cond_Status c, cond_Reason c, cond_Message c]))"

primrec ref_copy :: "ref_ext \<Rightarrow> (ref_ext cell mem, go_error + ref_ext) state" where
  "ref_copy (RMeta n p) = onOk (copy_map prj_Map CMap p) (\<lambda>q. State_Monad.return (Inr (RMeta n q)))"
| "ref_copy (RCondition c) = State_Monad.return (Inr (RCondition c))"

definition ref_foreign :: "ref_ext foreign" where
  "ref_foreign = \<lparr> fr_ObjectMeta = ref_copy, fr_TemplateMeta = ref_copy, fr_ListMeta = ref_copy, fr_Condition = ref_copy \<rparr>"

lemma ref_copies: "deep_copier ref_unfold ref_copy"
proof -
  have labels: "deep_copier (unfold_map prj_Map) (copy_map prj_Map (CMap :: _ \<Rightarrow> ref_ext cell))"
    by (rule deep_copier_map) simp
  note u = deep_copier.axioms(1) [OF labels]
  show ?thesis
  proof (unfold_locales, goal_cases)
    case (1 m v t m')
    then show ?case
      by (cases v) (auto simp: unfold_struct_Some intro: unfolding_of.frame [OF u])
  next
    case (2 m v t)
    then show ?case
      by (cases v) (auto simp: unfold_struct_Some dest: subsetD [OF unfolding_of.allocated [OF u]])
  next
    case (3 m v t)
    then show ?case
    proof (cases v)
      case (RMeta n p)
      then obtain l where "unfold_map prj_Map m p = Some l" "t = GStruct [GLeaf (LString n), l]"
        using 3(1) by (auto simp: unfold_struct_Some)
      then show ?thesis unfolding RMeta ref_copy.simps wp_onOk
        by (intro deep_copier.copy_rule [OF labels grows_refl [OF 3(2)] 3(2)])
          (auto simp: wp_return copied_def unfold_struct_Some)
    qed (auto simp: wp_return copied_def intro: grows_refl)
  qed
qed

interpretation ref_foreign: foreign_lib ref_foreign ref_unfold
  by (rule foreign_lib.intro) (simp_all add: ref_foreign_def ref_copies)

text \<open>
  C33. \<^verbatim>\<open>DeepCopyObject\<close> of any of the eight root types always returns: for a nil pointer the nil
  interface value, otherwise a pointer of the same type to an object that is equal to the original
  in the sense of \<^verbatim>\<open>reflect.DeepEqual\<close>, nil and empty maps and slices told apart, and that lies
  entirely in memory that was not in use before. No memory that was in use is changed.
\<close>

theorem DeepCopyObject_deep_equal:
  assumes "foreign_lib X U" "mem_wf m" "unfold_Object U m obj = Some t"
  shows "wp (DeepCopyObject X obj) (\<lambda>r m'. mem_wf m' \<and>
     (\<forall>a. a < mem_next m \<longrightarrow> mem_cells m' a = mem_cells m a) \<and>
     (if object_ptr obj = None then r = Inr None
      else \<exists>b t'. r = Inr (Some (with_ptr obj (Some b))) \<and>
        unfold_Object U m' (with_ptr obj (Some b)) = Some t' \<and> erase t' = erase t \<and>
        (\<forall>a \<in> addrs t'. mem_next m \<le> a \<and> mem_cells m a = None))) m"
proof (rule wp_mono [OF foreign_lib.object_copies [OF assms(1,3,2)]])
  fix r m'
  assume "grows m m' \<and> (case object_ptr obj of None \<Rightarrow> r = Inr None
     | Some _ \<Rightarrow> \<exists>b t'. r = Inr (Some (with_ptr obj (Some b))) \<and> unfold_Object U m' (with_ptr obj (Some b)) = Some t' \<and>
         erase t' = erase t \<and> (\<forall>a \<in> addrs t'. mem_next m \<le> a))"
  moreover have "mem_cells m a = None" if "mem_next m \<le> a" for a
    using assms(2) that by (fastforce simp: mem_wf_def)
  ultimately show "mem_wf m' \<and> (\<forall>a. a < mem_next m \<longrightarrow> mem_cells m' a = mem_cells m a) \<and>
     (if object_ptr obj = None then r = Inr None
      else \<exists>b t'. r = Inr (Some (with_ptr obj (Some b))) \<and>
        unfold_Object U m' (with_ptr obj (Some b)) = Some t' \<and> erase t' = erase t \<and>
        (\<forall>a \<in> addrs t'. mem_next m \<le> a \<and> mem_cells m a = None))"
    by (auto simp: grows_def split: option.splits)
qed

text \<open>
  C34. An object and its copy are independent. After \<^verbatim>\<open>DeepCopyObject\<close>, whatever is written into the
  memory of the copy, to any depth, leaves the original as it was; and whatever is written into
  memory that the copy does not reach leaves the copy with the original's contents, even if the
  original is overwritten completely.
\<close>

theorem DeepCopyObject_independent:
  assumes "foreign_lib X U" "mem_wf m" "unfold_Object U m obj = Some t" "object_ptr obj \<noteq> None"
  shows "wp (DeepCopyObject X obj) (\<lambda>r m'. \<exists>b t'. r = Inr (Some (with_ptr obj (Some b))) \<and>
     addrs t \<inter> addrs t' = {} \<and>
     (\<forall>m''. agree (- addrs t') m' m'' \<longrightarrow> unfold_Object U m'' obj = Some t) \<and>
     (\<forall>m''. agree (addrs t') m' m'' \<longrightarrow>
        map_option erase (unfold_Object U m'' (with_ptr obj (Some b))) = Some (erase t))) m"
proof (rule wp_mono [OF foreign_lib.object_copies [OF assms(1,3,2)]])
  fix r m'
  assume "grows m m' \<and> (case object_ptr obj of None \<Rightarrow> r = Inr None
     | Some _ \<Rightarrow> \<exists>b t'. r = Inr (Some (with_ptr obj (Some b))) \<and> unfold_Object U m' (with_ptr obj (Some b)) = Some t' \<and>
         erase t' = erase t \<and> (\<forall>a \<in> addrs t'. mem_next m \<le> a))"
  then obtain b t' where g: "grows m m'" and b: "r = Inr (Some (with_ptr obj (Some b)))"
    "unfold_Object U m' (with_ptr obj (Some b)) = Some t'" "erase t' = erase t" "\<forall>a \<in> addrs t'. mem_next m \<le> a"
    using assms(4) by auto
  note u = foreign_lib.object_unfolding [OF assms(1)]
  have below: "a < mem_next m" if "a \<in> addrs t" for a
    using unfolding_of.unf_below [OF u assms(3,2) that] .
  have "unfold_Object U m'' obj = Some t" if "agree (- addrs t') m' m''" for m''
    using that b(4) by (intro unfolding_of.original_kept [OF u assms(3,2) g]) (force simp: agree_def)
  moreover have "unfold_Object U m'' (with_ptr obj (Some b)) = Some t'" if "agree (addrs t') m' m''" for m''
    using unfolding_of.frame [OF u b(2) that] .
  moreover have "addrs t \<inter> addrs t' = {}" using below b(4) by fastforce
  ultimately show "\<exists>b t'. r = Inr (Some (with_ptr obj (Some b))) \<and> addrs t \<inter> addrs t' = {} \<and>
     (\<forall>m''. agree (- addrs t') m' m'' \<longrightarrow> unfold_Object U m'' obj = Some t) \<and>
     (\<forall>m''. agree (addrs t') m' m'' \<longrightarrow>
        map_option erase (unfold_Object U m'' (with_ptr obj (Some b))) = Some (erase t))"
    using b(1,3) by (intro exI [of _ b] exI [of _ t']) simp
qed

definition ex_cluster_m :: "ref_ext KubeSwiftCluster_m" where
  "ex_cluster_m = \<lparr> kscm_TypeMeta = \<lparr> tm_Kind = ''KubeSwiftCluster'', tm_APIVersion = ''v1alpha1'' \<rparr>,
     kscm_ObjectMeta = RMeta ''demo'' (Some 1),
     kscm_Spec = \<lparr> kcsm_GuestNamespace = '''', kcsm_ControlPlaneEndpoint = None, kcsm_Endpoint = Some 2 \<rparr>,
     kscm_Status = \<lparr> kctm_Initialization = \<lparr> initm_Provisioned = Some 5 \<rparr>,
       kctm_Conditions = Some \<lparr> sl_array = 6, sl_off = 1, sl_len = 1, sl_cap = 1 \<rparr> \<rparr> \<rparr>"

definition ex_condition :: "string \<Rightarrow> ref_ext" where
  "ex_condition t = RCondition \<lparr> cond_Type = t, cond_Status = ''True'', cond_Reason = '''', cond_Message = '''' \<rparr>"

definition ex_mem :: "ref_ext cell mem" where
  "ex_mem = \<lparr> mem_cells = [0 \<mapsto> CKubeSwiftCluster ex_cluster_m, 1 \<mapsto> CMap fmempty,
       2 \<mapsto> CControlPlaneEndpointSpec \<lparr> cpem_Mode = ''Service'', cpem_Service = Some 3 \<rparr>,
       3 \<mapsto> CControlPlaneServiceSpec \<lparr> cpsm_Type = ''ClusterIP'', cpsm_Port = 6443, cpsm_Annotations = None,
              cpsm_LoadBalancerClass = Some 4 \<rparr>,
       4 \<mapsto> CString ''metallb'', 5 \<mapsto> CBool True, 6 \<mapsto> CConditions [ex_condition ''Old'', ex_condition ''Ready'']],
     mem_next = 7 \<rparr>"

lemma ex_mem_wf: "mem_wf ex_mem"
  by (auto simp: mem_wf_def ex_mem_def split: if_splits)

lemma ex_mem_unfolds: "\<exists>t. unfold_Object ref_unfold ex_mem (OKubeSwiftCluster (Some 0)) = Some t"
  by (simp add: ex_mem_def ex_cluster_m_def ex_condition_def unfold_ptr_def unfold_map_def unfold_slice_def unfold_plain_def
      unfold_KubeSwiftCluster_def unfold_KubeSwiftClusterSpec_def unfold_KubeSwiftClusterStatus_def
      unfold_InitializationStatus_def unfold_ControlPlaneEndpointSpec_def unfold_ControlPlaneServiceSpec_def
      unfold_struct_def sequence.simps window_def window_ok_def)

theorem DeepCopyObject_deep_equal_witness:
  "wp (DeepCopyObject ref_foreign (OKubeSwiftCluster (Some 0))) (\<lambda>r m'. \<exists>b t t'. r = Inr (Some (OKubeSwiftCluster (Some b))) \<and>
     unfold_Object ref_unfold ex_mem (OKubeSwiftCluster (Some 0)) = Some t \<and>
     unfold_Object ref_unfold m' (OKubeSwiftCluster (Some b)) = Some t' \<and> erase t' = erase t) ex_mem"
proof -
  obtain t where t: "unfold_Object ref_unfold ex_mem (OKubeSwiftCluster (Some 0)) = Some t"
    using ex_mem_unfolds by blast
  show ?thesis
    by (rule wp_mono [OF DeepCopyObject_deep_equal [OF ref_foreign.foreign_lib_axioms ex_mem_wf t]])
      (use t in \<open>auto\<close>)
qed

theorem DeepCopyObject_independent_witness:
  "wp (DeepCopyObject ref_foreign (OKubeSwiftCluster (Some 0))) (\<lambda>r m'. \<exists>b t t'. r = Inr (Some (OKubeSwiftCluster (Some b))) \<and>
     unfold_Object ref_unfold ex_mem (OKubeSwiftCluster (Some 0)) = Some t \<and> addrs t \<inter> addrs t' = {} \<and>
     unfold_Object ref_unfold m' (OKubeSwiftCluster (Some 0)) = Some t) ex_mem"
proof -
  obtain t where t: "unfold_Object ref_unfold ex_mem (OKubeSwiftCluster (Some 0)) = Some t"
    using ex_mem_unfolds by blast
  show ?thesis
    by (rule wp_mono [OF DeepCopyObject_independent [OF ref_foreign.foreign_lib_axioms ex_mem_wf t]])
      (use t in \<open>auto simp: agree_def\<close>)
qed

end
