(* ===== verification/Go_Flag.thy ===== *)
theory Go_Flag
  imports Prelude
begin

text \<open>
  The parts of Go's standard library that \<^verbatim>\<open>cmd/main.go\<close> reads its configuration with: \<^verbatim>\<open>flag\<close>
  (\<^verbatim>\<open>FlagSet.Parse\<close> on the command line), \<^verbatim>\<open>strconv.ParseBool\<close> and \<^verbatim>\<open>filepath.Join\<close>.

  A flag is bound to a variable of the program. Here the variables are the fields of a record
  \<open>'o\<close>, and a flag carries the function that sets its field. \<open>ForeignVar\<close> is a flag that another
  package has bound to variables of its own: whether it is a boolean flag, and which values its
  \<^verbatim>\<open>Set\<close> method accepts.
\<close>

section \<open>Flags\<close>

datatype 'o flag_var =
    StringVar "string \<Rightarrow> 'o \<Rightarrow> 'o"
  | BoolVar "bool \<Rightarrow> 'o \<Rightarrow> 'o"
  | ForeignVar bool "string \<Rightarrow> bool"

type_synonym 'o flag_set = "(string \<times> 'o flag_var) list"

datatype flag_error = ErrHelp | BadSyntax string | NotDefined string | NeedsArgument string | InvalidValue string string

definition ParseBool :: "string \<Rightarrow> bool option" where
  "ParseBool s =
     (if s \<in> {''1'', ''t'', ''T'', ''TRUE'', ''true'', ''True''} then Some True
      else if s \<in> {''0'', ''f'', ''F'', ''FALSE'', ''false'', ''False''} then Some False
      else None)"

primrec is_bool_flag :: "'o flag_var \<Rightarrow> bool" where
  "is_bool_flag (StringVar f) = False"
| "is_bool_flag (BoolVar f) = True"
| "is_bool_flag (ForeignVar b p) = b"

text \<open>\<^verbatim>\<open>Value.Set\<close>: \<open>None\<close> when the value is refused.\<close>

primrec flag_Set :: "'o flag_var \<Rightarrow> string \<Rightarrow> 'o \<Rightarrow> 'o option" where
  "flag_Set (StringVar f) v opts = Some (f v opts)"
| "flag_Set (BoolVar f) v opts = map_option (\<lambda>b. f b opts) (ParseBool v)"
| "flag_Set (ForeignVar b p) v opts = (if p v then Some opts else None)"

text \<open>The name and the value of an argument without its dashes; an equals sign cannot be first.\<close>

definition split_flag :: "string \<Rightarrow> string \<times> string option" where
  "split_flag s = (case s of [] \<Rightarrow> ([], None)
     | c # cs \<Rightarrow> (case dropWhile (\<lambda>x. x \<noteq> CHR ''='') cs of
         [] \<Rightarrow> (s, None)
       | _ # v \<Rightarrow> (c # takeWhile (\<lambda>x. x \<noteq> CHR ''='') cs, Some v)))"

text \<open>
  \<^verbatim>\<open>parseOne\<close>: \<open>Stop\<close> when the remaining arguments hold no further flag, with what remains.
\<close>

datatype 'o parsed = Stop "string list" | Next "string list" 'o | Fail flag_error

definition parse_value :: "'o flag_set \<Rightarrow> string \<Rightarrow> string option \<Rightarrow> string list \<Rightarrow> 'o \<Rightarrow> 'o parsed" where
  "parse_value fs name arg args opts = (case map_of fs name of
       None \<Rightarrow> Fail (if name = ''help'' \<or> name = ''h'' then ErrHelp else NotDefined name)
     | Some var \<Rightarrow>
         let (arg, args) =
           (if is_bool_flag var then (case arg of None \<Rightarrow> (Some ''true'', args) | Some v \<Rightarrow> (Some v, args))
            else (case (arg, args) of (None, a # args') \<Rightarrow> (Some a, args') | _ \<Rightarrow> (arg, args)))
         in (case arg of None \<Rightarrow> Fail (NeedsArgument name)
             | Some v \<Rightarrow> (case flag_Set var v opts of None \<Rightarrow> Fail (InvalidValue name v) | Some o' \<Rightarrow> Next args o')))"

definition parseOne :: "'o flag_set \<Rightarrow> string list \<Rightarrow> 'o \<Rightarrow> 'o parsed" where
  "parseOne fs args opts = (case args of [] \<Rightarrow> Stop []
     | s # rest \<Rightarrow>
         (case s of
            c # d # cs \<Rightarrow>
              if c \<noteq> CHR ''-'' then Stop args
              else if d = CHR ''-'' \<and> cs = [] then Stop rest
              else let name = (if d = CHR ''-'' then cs else d # cs) in
                if name = [] \<or> hd name = CHR ''-'' \<or> hd name = CHR ''='' then Fail (BadSyntax s)
                else let (name, arg) = split_flag name in parse_value fs name arg rest opts
          | _ \<Rightarrow> Stop args))"

lemma parseOne_decreases: "parseOne fs args opts = Next args' opts' \<Longrightarrow> length args' < length args"
  by (auto simp: parseOne_def parse_value_def Let_def split: list.splits if_splits prod.splits option.splits)

text \<open>\<^verbatim>\<open>Parse\<close>: one flag after another, until an argument is not a flag.\<close>

function flag_Parse :: "'o flag_set \<Rightarrow> string list \<Rightarrow> 'o \<Rightarrow> flag_error + (string list \<times> 'o)" where
  "flag_Parse fs args opts = (case parseOne fs args opts of
       Stop rest \<Rightarrow> Inr (rest, opts)
     | Next args' opts' \<Rightarrow> flag_Parse fs args' opts'
     | Fail e \<Rightarrow> Inl e)"
  by pat_completeness auto
termination
  by (relation "measure (\<lambda>(fs, args, opts). length args)") (auto dest: parseOne_decreases)

declare flag_Parse.simps [simp del]

lemma flag_Parse_Nil: "flag_Parse fs [] opts = Inr ([], opts)"
  by (simp add: flag_Parse.simps parseOne_def)

text \<open>An argument \<^verbatim>\<open>--name=value\<close>, for a name that can be written down.\<close>

definition flag_name_ok :: "string \<Rightarrow> bool" where
  "flag_name_ok n = (n \<noteq> [] \<and> CHR ''='' \<notin> set n \<and> hd n \<noteq> CHR ''-'')"

definition flag_arg :: "string \<Rightarrow> string \<Rightarrow> string" where
  "flag_arg name arg = ''--'' @ name @ ''='' @ arg"

lemma split_flag_eq: "flag_name_ok n \<Longrightarrow> split_flag (n @ CHR ''='' # v) = (n, Some v)"
  by (cases n) (auto simp: split_flag_def flag_name_ok_def dropWhile_append takeWhile_append split: list.splits)

lemma flag_Parse_arg:
  assumes "flag_name_ok name" "map_of fs name = Some var" "flag_Set var arg opts = Some opts'"
  shows "flag_Parse fs (flag_arg name arg # args) opts = flag_Parse fs args opts'"
proof -
  have "parseOne fs (flag_arg name arg # args) opts = Next args opts'"
    using assms split_flag_eq [OF assms(1), of arg]
    by (cases name) (auto simp: parseOne_def flag_arg_def parse_value_def flag_name_ok_def Let_def split: option.splits)
  then show ?thesis by (subst flag_Parse.simps) simp
qed

text \<open>How a boolean is printed, and that it is read back.\<close>

definition FormatBool :: "bool \<Rightarrow> string" where
  "FormatBool b = (if b then ''true'' else ''false'')"

lemma ParseBool_FormatBool [simp]: "ParseBool (FormatBool b) = Some b"
  by (simp add: ParseBool_def FormatBool_def)

section \<open>Paths\<close>

text \<open>The elements between the slashes of a path.\<close>

fun split_path :: "string \<Rightarrow> string list" where
  "split_path [] = [[]]"
| "split_path (c # cs) = (if c = CHR ''/'' then [] # split_path cs
     else (case split_path cs of [] \<Rightarrow> [[c]] | e # es \<Rightarrow> (c # e) # es))"

text \<open>\<^verbatim>\<open>filepath.Clean\<close> on slash-separated paths: the elements kept so far are in reverse.\<close>

fun clean_elems :: "bool \<Rightarrow> string list \<Rightarrow> string list \<Rightarrow> string list" where
  "clean_elems rooted kept [] = rev kept"
| "clean_elems rooted kept (e # es) =
     (if e = [] \<or> e = ''.'' then clean_elems rooted kept es
      else if e = ''..'' then
        (case kept of
           k # ks \<Rightarrow> if k = ''..'' then clean_elems rooted (e # kept) es else clean_elems rooted ks es
         | [] \<Rightarrow> clean_elems rooted (if rooted then [] else [e]) es)
      else clean_elems rooted (e # kept) es)"

fun join_path :: "string list \<Rightarrow> string" where
  "join_path [] = []"
| "join_path [e] = e"
| "join_path (e # es) = e @ ''/'' @ join_path es"

definition Clean :: "string \<Rightarrow> string" where
  "Clean p = (if p = [] then ''.'' else
     let rooted = (hd p = CHR ''/''); es = join_path (clean_elems rooted [] (split_path p)) in
     if rooted then CHR ''/'' # es else if es = [] then ''.'' else es)"

definition Join :: "string \<Rightarrow> string \<Rightarrow> string" where
  "Join a b = (if a = [] \<and> b = [] then [] else if a = [] then Clean b else if b = [] then Clean a else Clean (a @ ''/'' @ b))"

end
