(* ===== verification/Wiring.thy ===== *)
theory Wiring
  imports Machine_Props Cluster_Controller
begin

text \<open>
  How the program is tied to controller-runtime: the \<^verbatim>\<open>SetupWithManager\<close> functions of the two controllers,
  by which they are woken, and the registration of the webhook. Each is
  a chain of calls of controller-runtime's builder that ends with
  \<^verbatim>\<open>Complete\<close>; a chain is modelled as the list of its calls. \<open>requests\<close> is what such a
  registration is documented to mean: which requests an event on a watched object queues.
\<close>

section \<open>The builder\<close>

text \<open>The types whose events a controller can ask for, as the zero values passed to the builder.\<close>

datatype watched =
    TKubeSwiftCluster
  | TKubeSwiftMachine
  | TMachine
  | TService
  | TUnstructured Unstructured

text \<open>The two arguments of \<^verbatim>\<open>handler.EnqueueRequestsFromMapFunc\<close> that occur.\<close>

datatype map_func =
    MachineToInfrastructureMapFunc GroupVersionKind
  | SwiftGuestToKubeSwiftMachine

datatype builder_call =
    For watched
  | Owns watched
  | Watches watched map_func
  | Named string

type_synonym chain = "builder_call list"

text \<open>\<^verbatim>\<open>infrav1.GroupVersion.WithKind\<close>.\<close>

definition GroupVersion_WithKind :: "string \<Rightarrow> GroupVersionKind" where
  "GroupVersion_WithKind k = \<lparr> g_Group = ''infrastructure.cluster.x-k8s.io'', g_Version = ''v1alpha1'', g_Kind = k \<rparr>"

definition Machine_SetupWithManager :: "lib \<Rightarrow> chain" where
  "Machine_SetupWithManager L =
     [For TKubeSwiftMachine,
      Watches TMachine (MachineToInfrastructureMapFunc (GroupVersion_WithKind ''KubeSwiftMachine'')),
      Watches (TUnstructured (NewSwiftGuestObject L)) SwiftGuestToKubeSwiftMachine,
      Named ''kubeswiftmachine'']"

definition Cluster_SetupWithManager :: chain where
  "Cluster_SetupWithManager = [For TKubeSwiftCluster, Owns TService, Named ''kubeswiftcluster'']"

text \<open>
  The registration of the webhook of machine templates, in
  \<^verbatim>\<open>src/internal/webhook/v1alpha1/kubeswiftmachinetemplate_webhook.go\<close>: the type it is for and the validator.
\<close>

datatype webhook_call =
    NewWebhookManagedBy string
  | WithValidator string

definition SetupKubeSwiftMachineTemplateWebhookWithManager :: "webhook_call list" where
  "SetupKubeSwiftMachineTemplateWebhookWithManager =
     [NewWebhookManagedBy ''KubeSwiftMachineTemplate'', WithValidator ''KubeSwiftMachineTemplateCustomValidator'']"

section \<open>Events\<close>

text \<open>An object that was created, changed or deleted.\<close>

datatype event =
    EvCluster ObjectMeta
  | EvMachine ObjectMeta
  | EvCAPIMachine CAPIMachine
  | EvService Service
  | EvObject Unstructured

definition key_of :: "ObjectMeta \<Rightarrow> NamespacedName" where
  "key_of m = nn (om_Namespace m) (om_Name m)"

text \<open>\<^verbatim>\<open>metav1.GetControllerOf\<close>: the owner reference that is marked as the controller.\<close>

definition GetControllerOf :: "ObjectMeta \<Rightarrow> OwnerReference option" where
  "GetControllerOf m = find or_Controller (om_OwnerReferences m)"

text \<open>
  \<open>M2I\<close> is \<^verbatim>\<open>util.MachineToInfrastructureMapFunc\<close>. A \<^verbatim>\<open>For\<close> queues the object itself, an \<^verbatim>\<open>Owns\<close> the
  controlling owner if it is of the kind that the controller is for, and a \<^verbatim>\<open>Watches\<close> what its
  function returns.
\<close>

fun kind_of :: "watched \<Rightarrow> string" where
  "kind_of TKubeSwiftCluster = ''KubeSwiftCluster''"
| "kind_of TKubeSwiftMachine = ''KubeSwiftMachine''"
| "kind_of TMachine = ''Machine''"
| "kind_of TService = ''Service''"
| "kind_of (TUnstructured u) = []"

fun for_kind :: "chain \<Rightarrow> string" where
  "for_kind (For t # _) = kind_of t"
| "for_kind (_ # cs) = for_kind cs"
| "for_kind [] = []"

fun call_requests :: "lib \<Rightarrow> (GroupVersionKind \<Rightarrow> CAPIMachine \<Rightarrow> NamespacedName list) \<Rightarrow> string \<Rightarrow>
    builder_call \<Rightarrow> event \<Rightarrow> NamespacedName list" where
  "call_requests L M2I k (For TKubeSwiftCluster) (EvCluster m) = [key_of m]"
| "call_requests L M2I k (For TKubeSwiftMachine) (EvMachine m) = [key_of m]"
| "call_requests L M2I k (Owns TService) (EvService s) =
     (case GetControllerOf (svc_Meta s) of None \<Rightarrow> []
      | Some r \<Rightarrow> if or_Kind r = k then [nn (om_Namespace (svc_Meta s)) (or_Name r)] else [])"
| "call_requests L M2I k (Watches TMachine (MachineToInfrastructureMapFunc g)) (EvCAPIMachine m) = M2I g m"
| "call_requests L M2I k (Watches (TUnstructured t) SwiftGuestToKubeSwiftMachine) (EvObject u) =
     (if u_GetKind L u = u_GetKind L t then swiftGuestToKubeSwiftMachine L u else [])"
| "call_requests L M2I k _ _ = []"

definition requests :: "lib \<Rightarrow> (GroupVersionKind \<Rightarrow> CAPIMachine \<Rightarrow> NamespacedName list) \<Rightarrow> chain \<Rightarrow> event \<Rightarrow>
    NamespacedName list" where
  "requests L M2I cs ev = concat (map (\<lambda>c. call_requests L M2I (for_kind cs) c ev) cs)"

lemma requests_cluster:
  "requests L M2I Cluster_SetupWithManager ev = (case ev of EvCluster m \<Rightarrow> [key_of m]
     | EvService s \<Rightarrow> (case GetControllerOf (svc_Meta s) of None \<Rightarrow> []
         | Some r \<Rightarrow> if or_Kind r = ''KubeSwiftCluster'' then [nn (om_Namespace (svc_Meta s)) (or_Name r)] else [])
     | _ \<Rightarrow> [])"
  by (cases ev) (simp_all add: requests_def Cluster_SetupWithManager_def)

lemma requests_machine:
  "requests L M2I (Machine_SetupWithManager L) ev = (case ev of EvMachine m \<Rightarrow> [key_of m]
     | EvCAPIMachine m \<Rightarrow> M2I (GroupVersion_WithKind ''KubeSwiftMachine'') m
     | EvObject u \<Rightarrow> if u_GetKind L u = u_GetKind L (NewSwiftGuestObject L) then swiftGuestToKubeSwiftMachine L u else []
     | _ \<Rightarrow> [])"
  by (cases ev) (simp_all add: requests_def Machine_SetupWithManager_def)

section \<open>Who is woken\<close>

lemma desired_wakes:
  assumes "k8s_lib L" "SetControllerReference L ksc (buildControlPlaneService ksc cluster) = Inr d"
  shows "requests L M2I Cluster_SetupWithManager (EvService d) = [key_of (ksc_Meta ksc)]"
proof -
  have L: "objects_lib L" using assms(1) by (simp add: k8s_lib_def)
  obtain r where r: "om_OwnerReferences (svc_Meta d) = [r]" "or_Controller r" "or_Kind r = ''KubeSwiftCluster''"
    "or_Name r = om_Name (ksc_Meta ksc)"
    using objects_lib.controller_reference_owner [OF L assms(2)] by (auto simp: buildControlPlaneService_fields)
  have "om_Namespace (svc_Meta d) = om_Namespace (ksc_Meta ksc)"
    using objects_lib.controller_reference [OF L assms(2)] by (auto simp: buildControlPlaneService_fields)
  then show ?thesis using r by (simp add: requests_cluster GetControllerOf_def key_of_def)
qed

lemma updatedService_meta:
  "om_OwnerReferences (svc_Meta (updatedService e d)) = om_OwnerReferences (svc_Meta e) \<and>
   om_Namespace (svc_Meta (updatedService e d)) = om_Namespace (svc_Meta e)"
  by (simp add: updatedService_def Let_def)

lemma updated_wakes:
  "requests L M2I Cluster_SetupWithManager (EvService (updatedService e d)) =
   requests L M2I Cluster_SetupWithManager (EvService e)"
  by (simp add: requests_cluster GetControllerOf_def updatedService_meta split: option.split)


lemma ex_service_created:
  "wp (ensureControlPlaneService ref_lib (logged (mem_client ref_lib)) (ex_cluster (Some ex_service_mode)) ex_capi_cluster)
     (\<lambda>r s'. \<exists>d. map fst (snd s') = [CGetService (nn ''ns'' ''demo-cp''), CCreateService d]) (empty_store, [])"
proof -
  obtain d where d: "SetControllerReference ref_lib (ex_cluster (Some ex_service_mode))
      (buildControlPlaneService (ex_cluster (Some ex_service_mode)) ex_capi_cluster) = Inr d"
    "wanted (ex_cluster (Some ex_service_mode)) ex_capi_cluster d"
    using wanted_desired [OF objects_ref] by blast
  have "om_Namespace (svc_Meta d) = ''ns''" "om_Name (svc_Meta d) = ''demo-cp''"
    using d(2) by (auto simp: wanted_def buildControlPlaneService_fields controlPlaneServiceName_def ex_defs)
  then show ?thesis
    by (simp add: ensureControlPlaneService_def d(1) mem_run mem_CreateService_def)
qed


end
