(* ===== verification/Manager.thy ===== *)
theory Manager
  imports Go_Flag Deep_Copy Wiring
begin

text \<open>
  The start of the process, \<^verbatim>\<open>src/cmd/main.go\<close>, and the scheme registration of
  \<^verbatim>\<open>src/api/v1alpha1/groupversion_info.go\<close>.

  Everything \<^verbatim>\<open>main\<close> asks of controller-runtime is one \<open>boot_call\<close>; the parameter \<open>D\<close> performs
  it and says whether it failed. \<^verbatim>\<open>main\<close> returns the exit status of the process. The slices of TLS
  options are kept in an explicit memory (\<^verbatim>\<open>Go_Memory\<close>), since two of them start from a common one
  and both are appended to; the servers read them when the manager starts.
\<close>

section \<open>The scheme\<close>

text \<open>\<^verbatim>\<open>runtime.Scheme\<close> and the registrations of other packages, over a type \<open>'s\<close> of schemes.\<close>

record 's scheme_lib =
  AddKnownTypes :: "string \<times> string \<Rightarrow> string list \<Rightarrow> 's \<Rightarrow> 's"
  AddToGroupVersion :: "string \<times> string \<Rightarrow> 's \<Rightarrow> 's"
  clientgo_AddToScheme :: "'s \<Rightarrow> go_error + 's"
  clusterv1_AddToScheme :: "'s \<Rightarrow> go_error + 's"

definition GroupVersion :: "string \<times> string" where
  "GroupVersion = (''infrastructure.cluster.x-k8s.io'', ''v1alpha1'')"

text \<open>The \<^verbatim>\<open>init\<close> functions of the four files of types, run in the order of the file names.\<close>

definition cluster_types_init :: "string list \<Rightarrow> string list" where
  "cluster_types_init ts = ts @ [''KubeSwiftCluster'', ''KubeSwiftClusterList'']"

definition clustertemplate_types_init :: "string list \<Rightarrow> string list" where
  "clustertemplate_types_init ts = ts @ [''KubeSwiftClusterTemplate'', ''KubeSwiftClusterTemplateList'']"

definition machine_types_init :: "string list \<Rightarrow> string list" where
  "machine_types_init ts = ts @ [''KubeSwiftMachine'', ''KubeSwiftMachineList'']"

definition machinetemplate_types_init :: "string list \<Rightarrow> string list" where
  "machinetemplate_types_init ts = ts @ [''KubeSwiftMachineTemplate'', ''KubeSwiftMachineTemplateList'']"

definition objectTypes :: "string list" where
  "objectTypes = machinetemplate_types_init (machine_types_init (clustertemplate_types_init (cluster_types_init [])))"

definition addKnownTypes :: "'s scheme_lib \<Rightarrow> 's \<Rightarrow> go_error + 's" where
  "addKnownTypes S scheme = Inr (AddToGroupVersion S GroupVersion (AddKnownTypes S GroupVersion objectTypes scheme))"

text \<open>The \<^verbatim>\<open>init\<close> of the main package: \<^verbatim>\<open>utilruntime.Must\<close> panics on an error.\<close>

definition main_init :: "'s scheme_lib \<Rightarrow> 's \<Rightarrow> go_error + 's" where
  "main_init S scheme = (case clientgo_AddToScheme S scheme of
       Inl e \<Rightarrow> Inl (GoPanic (Error e))
     | Inr scheme \<Rightarrow> (case clusterv1_AddToScheme S scheme of
           Inl e \<Rightarrow> Inl (GoPanic (Error e))
         | Inr scheme \<Rightarrow> (case addKnownTypes S scheme of Inl e \<Rightarrow> Inl (GoPanic (Error e)) | Inr scheme \<Rightarrow> Inr scheme)))"

section \<open>Flags\<close>

record options =
  o_metricsAddr :: string
  o_metricsCertPath :: string
  o_metricsCertName :: string
  o_metricsCertKey :: string
  o_webhookCertPath :: string
  o_webhookCertName :: string
  o_webhookCertKey :: string
  o_enableLeaderElection :: bool
  o_probeAddr :: string
  o_secureMetrics :: bool
  o_enableHTTP2 :: bool

definition default_options :: options where
  "default_options = \<lparr> o_metricsAddr = ''0'', o_metricsCertPath = '''', o_metricsCertName = ''tls.crt'',
     o_metricsCertKey = ''tls.key'', o_webhookCertPath = '''', o_webhookCertName = ''tls.crt'',
     o_webhookCertKey = ''tls.key'', o_enableLeaderElection = False, o_probeAddr = '':8081'',
     o_secureMetrics = True, o_enableHTTP2 = False \<rparr>"

definition main_flags :: "options flag_set" where
  "main_flags = [
     (''metrics-bind-address'', StringVar (\<lambda>v opts. opts\<lparr>o_metricsAddr := v\<rparr>)),
     (''health-probe-bind-address'', StringVar (\<lambda>v opts. opts\<lparr>o_probeAddr := v\<rparr>)),
     (''leader-elect'', BoolVar (\<lambda>v opts. opts\<lparr>o_enableLeaderElection := v\<rparr>)),
     (''metrics-secure'', BoolVar (\<lambda>v opts. opts\<lparr>o_secureMetrics := v\<rparr>)),
     (''webhook-cert-path'', StringVar (\<lambda>v opts. opts\<lparr>o_webhookCertPath := v\<rparr>)),
     (''webhook-cert-name'', StringVar (\<lambda>v opts. opts\<lparr>o_webhookCertName := v\<rparr>)),
     (''webhook-cert-key'', StringVar (\<lambda>v opts. opts\<lparr>o_webhookCertKey := v\<rparr>)),
     (''metrics-cert-path'', StringVar (\<lambda>v opts. opts\<lparr>o_metricsCertPath := v\<rparr>)),
     (''metrics-cert-name'', StringVar (\<lambda>v opts. opts\<lparr>o_metricsCertName := v\<rparr>)),
     (''metrics-cert-key'', StringVar (\<lambda>v opts. opts\<lparr>o_metricsCertKey := v\<rparr>)),
     (''enable-http2'', BoolVar (\<lambda>v opts. opts\<lparr>o_enableHTTP2 := v\<rparr>))]"

section \<open>TLS options\<close>

datatype cert_watcher = WebhookCert | MetricsCert

text \<open>What the functions in a slice of TLS options do to a \<^verbatim>\<open>tls.Config\<close>.\<close>

datatype tls_opt = DisableHTTP2 | GetCertificateFrom cert_watcher

type_synonym tls_mem = "tls_opt option list mem"

definition initial_tls :: "(nat \<Rightarrow> nat \<Rightarrow> nat) \<Rightarrow> options \<Rightarrow> slice option \<times> tls_mem" where
  "initial_tls grow opts = (if \<not> o_enableHTTP2 opts then run_state (append_slice grow None DisableHTTP2) mem_empty
     else (None, mem_empty))"

section \<open>What main asks of controller-runtime\<close>

record metrics_options =
  mo_BindAddress :: string
  mo_SecureServing :: bool
  mo_TLSOpts :: "slice option"
  mo_FilterProvider :: bool

record manager_options =
  mgo_Metrics :: metrics_options
  mgo_WebhookTLSOpts :: "slice option"
  mgo_HealthProbeBindAddress :: string
  mgo_LeaderElection :: bool
  mgo_LeaderElectionID :: string

datatype boot_call =
    NewCertWatcher cert_watcher string string
  | GetConfigOrDie
  | NewManager manager_options
  | SetupController chain
  | SetupWebhook "webhook_call list"
  | AddCertWatcher cert_watcher
  | AddHealthzCheck string
  | AddReadyzCheck string
  | StartManager "tls_opt option list" "tls_opt option list"

text \<open>\<^verbatim>\<open>if err := ...; err != nil { os.Exit(1) }\<close>, and on.\<close>

definition orExit :: "('w, go_error + unit) state \<Rightarrow> ('w, nat) state \<Rightarrow> ('w, nat) state" where
  "orExit m k = do { r \<leftarrow> m; (case r of Inl e \<Rightarrow> State_Monad.return 1 | Inr _ \<Rightarrow> k) }"

text \<open>The certificate watcher of one server, and the option that uses it, if a path is given.\<close>

definition with_cert :: "(boot_call \<Rightarrow> ('w, go_error + unit) state) \<Rightarrow> (nat \<Rightarrow> nat \<Rightarrow> nat) \<Rightarrow> cert_watcher \<Rightarrow>
    string \<Rightarrow> string \<Rightarrow> string \<Rightarrow> slice option \<Rightarrow> tls_mem \<Rightarrow>
    (slice option \<Rightarrow> tls_mem \<Rightarrow> ('w, nat) state) \<Rightarrow> ('w, nat) state" where
  "with_cert D grow watcher path name key s m k =
     (if path \<noteq> '''' then orExit (D (NewCertWatcher watcher (Join path name) (Join path key)))
        (case run_state (append_slice grow s (GetCertificateFrom watcher)) m of (s', m') \<Rightarrow> k s' m')
      else k s m)"

definition metrics_of :: "options \<Rightarrow> slice option \<Rightarrow> metrics_options" where
  "metrics_of opts tls = \<lparr> mo_BindAddress = o_metricsAddr opts, mo_SecureServing = o_secureMetrics opts,
     mo_TLSOpts = tls, mo_FilterProvider = o_secureMetrics opts \<rparr>"

definition manager_of :: "options \<Rightarrow> slice option \<Rightarrow> slice option \<Rightarrow> manager_options" where
  "manager_of opts webhookTLS metricsTLS = \<lparr> mgo_Metrics = metrics_of opts metricsTLS, mgo_WebhookTLSOpts = webhookTLS,
     mgo_HealthProbeBindAddress = o_probeAddr opts, mgo_LeaderElection = o_enableLeaderElection opts,
     mgo_LeaderElectionID = ''d0e23914.cluster.x-k8s.io'' \<rparr>"

text \<open>From the registration of the controllers to the end; \<open>env\<close> is \<^verbatim>\<open>ENABLE_WEBHOOKS\<close>.\<close>

definition main_register :: "(boot_call \<Rightarrow> ('w, go_error + unit) state) \<Rightarrow> lib \<Rightarrow> string \<Rightarrow> options \<Rightarrow>
    ('w, nat) state \<Rightarrow> ('w, nat) state" where
  "main_register D L env opts k =
     orExit (D (SetupController Cluster_SetupWithManager)) (
     orExit (D (SetupController (Machine_SetupWithManager L))) (
     (if env \<noteq> ''false'' then orExit (D (SetupWebhook SetupKubeSwiftMachineTemplateWebhookWithManager)) else (\<lambda>k. k)) (
     (if o_metricsCertPath opts \<noteq> '''' then orExit (D (AddCertWatcher MetricsCert)) else (\<lambda>k. k)) (
     (if o_webhookCertPath opts \<noteq> '''' then orExit (D (AddCertWatcher WebhookCert)) else (\<lambda>k. k)) (
     orExit (D (AddHealthzCheck ''healthz'')) (
     orExit (D (AddReadyzCheck ''readyz'')) k))))))"

definition main_start :: "(boot_call \<Rightarrow> ('w, go_error + unit) state) \<Rightarrow> lib \<Rightarrow> (nat \<Rightarrow> nat \<Rightarrow> nat) \<Rightarrow> string \<Rightarrow> options \<Rightarrow>
    ('w, nat) state" where
  "main_start D L grow env opts = (case initial_tls grow opts of (tlsOpts, m) \<Rightarrow>
     with_cert D grow WebhookCert (o_webhookCertPath opts) (o_webhookCertName opts) (o_webhookCertKey opts) tlsOpts m
       (\<lambda>webhookTLSOpts m.
     with_cert D grow MetricsCert (o_metricsCertPath opts) (o_metricsCertName opts) (o_metricsCertKey opts) tlsOpts m
       (\<lambda>metricsTLSOpts m.
     orExit (D GetConfigOrDie) (
     orExit (D (NewManager (manager_of opts webhookTLSOpts metricsTLSOpts))) (
     main_register D L env opts (
     orExit (D (StartManager (slice_elems m webhookTLSOpts) (slice_elems m metricsTLSOpts))) (
     State_Monad.return 0)))))))"

text \<open>
  \<^verbatim>\<open>main\<close>: a parse error ends the process with status 2 and a request for help with status 0, as
  \<^verbatim>\<open>flag.ExitOnError\<close> says. \<open>zap\<close> are the flags that \<^verbatim>\<open>opts.BindFlags\<close> adds.
\<close>

definition main :: "(boot_call \<Rightarrow> ('w, go_error + unit) state) \<Rightarrow> lib \<Rightarrow> (nat \<Rightarrow> nat \<Rightarrow> nat) \<Rightarrow> options flag_set \<Rightarrow>
    string \<Rightarrow> string list \<Rightarrow> ('w, nat) state" where
  "main D L grow zap env args = (case flag_Parse (main_flags @ zap) args default_options of
       Inl ErrHelp \<Rightarrow> State_Monad.return 0
     | Inl _ \<Rightarrow> State_Monad.return 2
     | Inr (_, opts) \<Rightarrow> main_start D L grow env opts)"

end
