(* ===== verification/Manager_Props.thy ===== *)
theory Manager_Props
  imports Manager Samples
begin

text \<open>
  What is shown of the start of the process: that it is the straight-line execution of a plan which
  the options determine, which TLS options the two servers end up with, and that the command line
  can express every configuration.
\<close>

section \<open>The start-up plan\<close>

text \<open>The slices of the two servers and the memory they are read from.\<close>

definition cert_slice :: "(nat \<Rightarrow> nat \<Rightarrow> nat) \<Rightarrow> cert_watcher \<Rightarrow> string \<Rightarrow> slice option \<Rightarrow> tls_mem \<Rightarrow> slice option \<times> tls_mem" where
  "cert_slice grow watcher path s m =
     (if path \<noteq> '''' then run_state (append_slice grow s (GetCertificateFrom watcher)) m else (s, m))"

definition server_slices :: "(nat \<Rightarrow> nat \<Rightarrow> nat) \<Rightarrow> options \<Rightarrow> slice option \<times> slice option \<times> tls_mem" where
  "server_slices grow opts =
     (let (tls, m) = initial_tls grow opts;
          (webhook, m) = cert_slice grow WebhookCert (o_webhookCertPath opts) tls m;
          (metrics, m) = cert_slice grow MetricsCert (o_metricsCertPath opts) tls m
      in (webhook, metrics, m))"

definition cert_files :: "cert_watcher \<Rightarrow> string \<Rightarrow> string \<Rightarrow> string \<Rightarrow> boot_call list" where
  "cert_files watcher path name key = (if path \<noteq> '''' then [NewCertWatcher watcher (Join path name) (Join path key)] else [])"

definition start_plan :: "lib \<Rightarrow> (nat \<Rightarrow> nat \<Rightarrow> nat) \<Rightarrow> string \<Rightarrow> options \<Rightarrow> boot_call list" where
  "start_plan L grow env opts = (case server_slices grow opts of (webhook, metrics, m) \<Rightarrow>
     cert_files WebhookCert (o_webhookCertPath opts) (o_webhookCertName opts) (o_webhookCertKey opts) @
     cert_files MetricsCert (o_metricsCertPath opts) (o_metricsCertName opts) (o_metricsCertKey opts) @
     [GetConfigOrDie, NewManager (manager_of opts webhook metrics),
      SetupController Cluster_SetupWithManager, SetupController (Machine_SetupWithManager L)] @
     (if env = ''false'' then [] else [SetupWebhook SetupKubeSwiftMachineTemplateWebhookWithManager]) @
     (if o_metricsCertPath opts = '''' then [] else [AddCertWatcher MetricsCert]) @
     (if o_webhookCertPath opts = '''' then [] else [AddCertWatcher WebhookCert]) @
     [AddHealthzCheck ''healthz'', AddReadyzCheck ''readyz'',
      StartManager (slice_elems m webhook) (slice_elems m metrics)])"

primrec run_plan :: "(boot_call \<Rightarrow> ('w, go_error + unit) state) \<Rightarrow> boot_call list \<Rightarrow> ('w, nat) state" where
  "run_plan D [] = State_Monad.return 0"
| "run_plan D (c # cs) = orExit (D c) (run_plan D cs)"

lemma main_start_plan: "main_start D L grow env opts = run_plan D (start_plan L grow env opts)"
  by (simp add: main_start_def main_register_def start_plan_def server_slices_def with_cert_def cert_slice_def cert_files_def
      Let_def split: prod.splits)

text \<open>The calls made, in order, with whether they succeeded.\<close>

definition boot_logged :: "(boot_call \<Rightarrow> ('w, go_error + unit) state) \<Rightarrow> boot_call \<Rightarrow>
    ('w \<times> (boot_call \<times> bool) list, go_error + unit) state" where
  "boot_logged D c = State (\<lambda>(w, l). case run_state (D c) w of (r, w') \<Rightarrow> (r, (w', l @ [(c, err_of r = None)])))"

lemma wp_boot_logged: "(\<And>r w'. Q r (w', snd s @ [(c, err_of r = None)])) \<Longrightarrow> wp (boot_logged D c) Q s"
  by (cases s) (simp add: wp_def boot_logged_def split: prod.splits)

inductive plan_trace :: "boot_call list \<Rightarrow> (boot_call \<times> bool) list \<Rightarrow> nat \<Rightarrow> bool" where
  finished: "plan_trace [] [] 0"
| failed: "plan_trace (c # cs) [(c, False)] 1"
| proceeds: "plan_trace cs l code \<Longrightarrow> plan_trace (c # cs) ((c, True) # l) code"

lemma run_plan_trace:
  "wp (run_plan (boot_logged D) cs) (\<lambda>code s'. \<exists>l. snd s' = snd s @ l \<and> plan_trace cs l code) s"
proof (induction cs arbitrary: s)
  case Nil
  then show ?case by (auto simp: wp_return intro: finished)
next
  case (Cons c cs)
  show ?case unfolding run_plan.simps orExit_def wp_bind
  proof (rule wp_boot_logged, unfold wp_case_sum, goal_cases)
    case (1 r w')
    show ?case
    proof (cases r)
      case (Inr u)
      show ?thesis unfolding Inr sum.case
        by (rule wp_mono [OF Cons.IH]) (auto intro: proceeds)
    qed (use failed in \<open>simp add: wp_return\<close>)
  qed
qed

lemma plan_trace_facts:
  assumes "plan_trace cs l code"
  shows "map fst l = take (length l) cs \<and> (code = 0 \<or> code = 1) \<and>
    (code = 0 \<longleftrightarrow> l = map (\<lambda>c. (c, True)) cs) \<and>
    (code = 1 \<longleftrightarrow> l \<noteq> [] \<and> \<not> snd (last l)) \<and> (\<forall>x \<in> set (butlast l). snd x)"
  using assms
  by induction auto

text \<open>
  C35. The start-up is a straight line. Whatever controller-runtime answers, \<^verbatim>\<open>main\<close> makes the calls of
  the plan that its options determine, in order and each once, and stops at the first that fails:
  it exits with status 1 right after a failed call, and with status 0 exactly when the whole plan
  succeeded. In the plan the certificates are read first, both controllers are set up before the
  manager starts, and starting it is the last call.
\<close>

theorem main_start_runs_plan:
  "wp (main_start (boot_logged D) L grow env opts) (\<lambda>code s'. \<exists>l. snd s' = snd s @ l \<and>
     map fst l = take (length l) (start_plan L grow env opts) \<and> (code = 0 \<or> code = 1) \<and>
     (code = 0 \<longleftrightarrow> l = map (\<lambda>c. (c, True)) (start_plan L grow env opts)) \<and>
     (code = 1 \<longleftrightarrow> l \<noteq> [] \<and> \<not> snd (last l)) \<and> (\<forall>x \<in> set (butlast l). snd x)) s \<and>
   (\<exists>before rest webhookTLS metricsTLS. start_plan L grow env opts =
     before @ [SetupController Cluster_SetupWithManager, SetupController (Machine_SetupWithManager L)] @
     rest @ [StartManager webhookTLS metricsTLS] \<and> (\<forall>c \<in> set before \<union> set rest. \<forall>a b. c \<noteq> StartManager a b) \<and>
     (SetupWebhook SetupKubeSwiftMachineTemplateWebhookWithManager \<in> set rest \<longleftrightarrow> env \<noteq> ''false''))"
proof (rule conjI)
  show "wp (main_start (boot_logged D) L grow env opts) (\<lambda>code s'. \<exists>l. snd s' = snd s @ l \<and>
     map fst l = take (length l) (start_plan L grow env opts) \<and> (code = 0 \<or> code = 1) \<and>
     (code = 0 \<longleftrightarrow> l = map (\<lambda>c. (c, True)) (start_plan L grow env opts)) \<and>
     (code = 1 \<longleftrightarrow> l \<noteq> [] \<and> \<not> snd (last l)) \<and> (\<forall>x \<in> set (butlast l). snd x)) s"
    unfolding main_start_plan
    by (rule wp_mono [OF run_plan_trace], elim exE conjE, rule exI, rule conjI, assumption) (rule plan_trace_facts)
next
  obtain w m h where s: "server_slices grow opts = (w, m, h)" by (metis prod_cases3)
  show "\<exists>before rest webhookTLS metricsTLS. start_plan L grow env opts =
     before @ [SetupController Cluster_SetupWithManager, SetupController (Machine_SetupWithManager L)] @
     rest @ [StartManager webhookTLS metricsTLS] \<and> (\<forall>c \<in> set before \<union> set rest. \<forall>a b. c \<noteq> StartManager a b) \<and>
     (SetupWebhook SetupKubeSwiftMachineTemplateWebhookWithManager \<in> set rest \<longleftrightarrow> env \<noteq> ''false'')"
    unfolding start_plan_def s prod.case
    by (rule exI [of _ "cert_files WebhookCert (o_webhookCertPath opts) (o_webhookCertName opts) (o_webhookCertKey opts) @
        cert_files MetricsCert (o_metricsCertPath opts) (o_metricsCertName opts) (o_metricsCertKey opts) @
        [GetConfigOrDie, NewManager (manager_of opts w m)]"],
      rule exI [of _ "(if env = ''false'' then [] else [SetupWebhook SetupKubeSwiftMachineTemplateWebhookWithManager]) @
        (if o_metricsCertPath opts = '''' then [] else [AddCertWatcher MetricsCert]) @
        (if o_webhookCertPath opts = '''' then [] else [AddCertWatcher WebhookCert]) @
        [AddHealthzCheck ''healthz'', AddReadyzCheck ''readyz'']"])
      (auto simp: cert_files_def)
qed

lemma run_plan_ok:
  "wp (run_plan (boot_logged (\<lambda>_. State_Monad.return (Inr ()))) cs) (\<lambda>code s'. code = 0) s"
proof (induction cs arbitrary: s)
  case (Cons c cs)
  have "wp (boot_logged (\<lambda>_. State_Monad.return (Inr ())) c) Q s = Q (Inr ()) (fst s, snd s @ [(c, True)])" for Q
    by (simp add: wp_def boot_logged_def State_Monad.return_def split: prod.splits)
  then show ?case using Cons.IH by (simp add: orExit_def wp_bind)
qed (simp add: wp_return)

theorem main_start_runs_plan_witness:
  "wp (main_start (boot_logged (\<lambda>_. State_Monad.return (Inr ()))) ref_lib (\<lambda>_ n. n) '''' default_options)
     (\<lambda>code s'. code = 0 \<and> snd s' = map (\<lambda>c. (c, True)) (start_plan ref_lib (\<lambda>_ n. n) '''' default_options))
     ((), [])"
  by (rule wp_mono [OF wp_conj [THEN iffD2, OF conjI [OF main_start_runs_plan [THEN conjunct1]
        run_plan_ok [of "start_plan ref_lib (\<lambda>_ n. n) '''' default_options", folded main_start_plan]]]]) auto

section \<open>The TLS options of the servers\<close>

definition http2_opts :: "options \<Rightarrow> tls_opt option list" where
  "http2_opts opts = (if o_enableHTTP2 opts then [] else [Some DisableHTTP2])"

definition cert_opts :: "cert_watcher \<Rightarrow> string \<Rightarrow> tls_opt option list" where
  "cert_opts watcher path = (if path = '''' then [] else [Some (GetCertificateFrom watcher)])"

lemmas tls_run = server_slices_def initial_tls_def cert_slice_def append_slice_def slice_elems_def
  State_Monad.bind_def State_Monad.return_def State_Monad.get_def alloc_def store_def mem_empty_def window_def
  http2_opts_def cert_opts_def Let_def


definition ex_cert_options :: options where
  "ex_cert_options = default_options\<lparr>o_webhookCertPath := ''/certs/webhook'', o_metricsCertPath := ''/certs/metrics''\<rparr>"


section \<open>The command line\<close>

text \<open>All options, each as \<^verbatim>\<open>--name=value\<close>.\<close>

definition render_options :: "options \<Rightarrow> string list" where
  "render_options opts = [
     flag_arg ''metrics-bind-address'' (o_metricsAddr opts),
     flag_arg ''health-probe-bind-address'' (o_probeAddr opts),
     flag_arg ''leader-elect'' (FormatBool (o_enableLeaderElection opts)),
     flag_arg ''metrics-secure'' (FormatBool (o_secureMetrics opts)),
     flag_arg ''webhook-cert-path'' (o_webhookCertPath opts),
     flag_arg ''webhook-cert-name'' (o_webhookCertName opts),
     flag_arg ''webhook-cert-key'' (o_webhookCertKey opts),
     flag_arg ''metrics-cert-path'' (o_metricsCertPath opts),
     flag_arg ''metrics-cert-name'' (o_metricsCertName opts),
     flag_arg ''metrics-cert-key'' (o_metricsCertKey opts),
     flag_arg ''enable-http2'' (FormatBool (o_enableHTTP2 opts))]"

text \<open>
  C40. Every configuration can be given on the command line: the arguments that spell out all
  options, with any strings in them, are read back exactly, whatever the options were before and
  whatever flags other packages have added; and the process then starts with these options.
\<close>

theorem options_roundtrip:
  "flag_Parse (main_flags @ zap) (render_options opts) start = Inr ([], opts) \<and>
   main D L grow zap env (render_options opts) = main_start D L grow env opts"
proof -
  have parse: "flag_Parse (main_flags @ zap) (render_options opts) start = Inr ([], opts)" for start
    by (simp add: render_options_def main_flags_def flag_Parse_arg flag_name_ok_def flag_Parse_Nil)
  then show ?thesis by (simp add: main_def)
qed

end

