(* ===== verification/Api_Schema.thy ===== *)
theory Api_Schema
  imports Machine_Props Cluster_Controller
begin

text \<open>
  The enum, length, range, list and default markers on the API types
  (\<^verbatim>\<open>src/api/v1alpha1/kubeswiftcluster_types.go\<close>, \<^verbatim>\<open>kubeswiftmachine_types.go\<close>), which the API server
  checks beside the \<^verbatim>\<open>XValidation\<close> rules of \<^verbatim>\<open>API_Types\<close>, and what they give the controllers:
  bounds on what they read, and the obligation not to write anything the server would refuse.

  A marker on an optional field holds when the field is absent; a string field with \<^verbatim>\<open>omitempty\<close>
  is absent when it is empty. Lengths are counted in bytes.
\<close>

section \<open>The endpoint of a cluster\<close>

record json_service =
  js_type :: "string option"
  js_port :: "int option"
  js_annotations :: go_map
  js_loadBalancerClass :: "string option"

record json_endpoint =
  je_mode :: "string option"
  je_service :: "json_service option"

definition or_default :: "'a \<Rightarrow> 'a option \<Rightarrow> 'a option" where
  "or_default d x = (case x of None \<Rightarrow> Some d | Some y \<Rightarrow> Some y)"

definition default_service :: "json_service \<Rightarrow> json_service" where
  "default_service j = j\<lparr>js_type := or_default ''ClusterIP'' (js_type j), js_port := or_default 6443 (js_port j)\<rparr>"

definition default_endpoint :: "json_endpoint \<Rightarrow> json_endpoint" where
  "default_endpoint j = j\<lparr>je_mode := or_default ''External'' (je_mode j), je_service := map_option default_service (je_service j)\<rparr>"

definition in_enum :: "'a list \<Rightarrow> 'a option \<Rightarrow> bool" where
  "in_enum vs x = (case x of None \<Rightarrow> True | Some v \<Rightarrow> v \<in> set vs)"

definition schema_service :: "json_service \<Rightarrow> bool" where
  "schema_service j = (in_enum [''ClusterIP'', ''LoadBalancer''] (js_type j) \<and>
     (case js_port j of None \<Rightarrow> True | Some p \<Rightarrow> 1 \<le> p \<and> p \<le> 65535))"

definition schema_endpoint :: "json_endpoint \<Rightarrow> bool" where
  "schema_endpoint j = (in_enum [''External'', ''Service''] (je_mode j) \<and>
     (case je_service j of None \<Rightarrow> True | Some s \<Rightarrow> schema_service s))"

text \<open>What the Go structs hold after decoding; the number becomes an \<^verbatim>\<open>int32\<close>.\<close>

definition decode_service :: "json_service \<Rightarrow> ControlPlaneServiceSpec" where
  "decode_service j = \<lparr> cps_Type = json_string (js_type j),
     cps_Port = (case js_port j of None \<Rightarrow> 0 | Some p \<Rightarrow> word_of_int p),
     cps_Annotations = js_annotations j, cps_LoadBalancerClass = js_loadBalancerClass j \<rparr>"

definition decode_endpoint :: "json_endpoint \<Rightarrow> ControlPlaneEndpointSpec" where
  "decode_endpoint j = \<lparr> cpe_Mode = json_string (je_mode j), cpe_Service = map_option decode_service (je_service j) \<rparr>"

text \<open>The port a user asked for.\<close>

definition requested_port :: "json_endpoint \<Rightarrow> int" where
  "requested_port j = (case je_service j of None \<Rightarrow> 6443 | Some s \<Rightarrow> (case js_port s of None \<Rightarrow> 6443 | Some p \<Rightarrow> p))"

lemma sint_port: "1 \<le> p \<Longrightarrow> p \<le> 65535 \<Longrightarrow> sint (word_of_int p :: int32) = p"
  by (simp add: sint_sbintrunc' signed_take_bit_int_eq_self)

lemma port_not_0: "1 \<le> p \<Longrightarrow> p \<le> 65535 \<Longrightarrow> (word_of_int p :: int32) \<noteq> 0"
  using sint_port [of p] by auto

text \<open>
  C38. The bounds of an admitted endpoint. For every endpoint configuration that the API server
  admits, with its defaults filled in, the port that the Service, the guests and the reported
  endpoint use is the number the user wrote, or 6443 if none: it is between 1 and 65535, and neither
  the \<^verbatim>\<open>int32\<close> of the struct nor the \<^verbatim>\<open>int64\<close> in the guest loses anything of it. The mode is one of
  the two that the controllers tell apart, and the Service type one of the two that they support.
\<close>

theorem admitted_endpoint_bounds:
  assumes "schema_endpoint (default_endpoint j)"
    "kcs_Endpoint (ksc_Spec ksc) = Some (decode_endpoint (default_endpoint j))"
  shows "sint (controlPlaneServicePort ksc) = requested_port j \<and> 1 \<le> requested_port j \<and> requested_port j \<le> 65535 \<and>
    sint (int64_of_int32 (controlPlaneServicePort ksc)) = requested_port j \<and>
    (endpointMode ksc = EndpointModeExternal \<or> endpointMode ksc = EndpointModeService) \<and>
    (controlPlaneServiceType ksc = ServiceTypeClusterIP \<or> controlPlaneServiceType ksc = ServiceTypeLoadBalancer)"
proof -
  have mode: "endpointMode ksc = EndpointModeExternal \<or> endpointMode ksc = EndpointModeService"
    using assms by (auto simp: endpointMode_def schema_endpoint_def default_endpoint_def or_default_def in_enum_def
        decode_endpoint_def json_string_def str_defs split: option.splits)
  show ?thesis
  proof (cases "je_service j")
    case None
    then show ?thesis using assms mode
      by (simp add: controlPlaneServicePort_def controlPlaneServiceType_def serviceCfg_def decode_endpoint_def
          default_endpoint_def requested_port_def defaultAPIServerPort_def)
  next
    case (Some s)
    define p where "p = requested_port j"
    have p: "js_port (default_service s) = Some p" "1 \<le> p" "p \<le> 65535"
      using assms(1) Some
      by (auto simp: p_def requested_port_def default_service_def or_default_def schema_endpoint_def default_endpoint_def
          schema_service_def split: option.splits)
    have ty: "js_type (default_service s) = Some ''ClusterIP'' \<or> js_type (default_service s) = Some ''LoadBalancer''"
      using assms(1) Some
      by (auto simp: default_service_def or_default_def schema_endpoint_def default_endpoint_def schema_service_def
          in_enum_def split: option.splits)
    have cfg: "serviceCfg ksc = Some (decode_service (default_service s))"
      using assms(2) Some by (simp add: serviceCfg_def decode_endpoint_def default_endpoint_def)
    have "controlPlaneServicePort ksc = word_of_int p"
      using p by (simp add: controlPlaneServicePort_def cfg decode_service_def port_not_0)
    moreover have "controlPlaneServiceType ksc = ServiceTypeClusterIP \<or> controlPlaneServiceType ksc = ServiceTypeLoadBalancer"
      using ty by (auto simp: controlPlaneServiceType_def cfg decode_service_def json_string_def str_defs)
    ultimately show ?thesis
      using mode p(2,3) sint_port by (simp add: p_def)
  qed
qed

definition ex_json_endpoint :: json_endpoint where
  "ex_json_endpoint = \<lparr> je_mode = Some ''Service'', je_service = Some \<lparr> js_type = None, js_port = Some 8443,
     js_annotations = None, js_loadBalancerClass = None \<rparr> \<rparr>"

theorem admitted_endpoint_bounds_witness:
  "sint (controlPlaneServicePort (ex_cluster (Some (decode_endpoint (default_endpoint ex_json_endpoint))))) = 8443 \<and>
   endpointMode (ex_cluster (Some (decode_endpoint (default_endpoint ex_json_endpoint)))) = EndpointModeService"
  using admitted_endpoint_bounds [of ex_json_endpoint "ex_cluster (Some (decode_endpoint (default_endpoint ex_json_endpoint)))"]
  by (simp add: ex_json_endpoint_def schema_endpoint_def default_endpoint_def schema_service_def default_service_def
      or_default_def in_enum_def requested_port_def ex_cluster_def endpointMode_def decode_endpoint_def json_string_def str_defs)

section \<open>Machines\<close>

text \<open>A string with \<^verbatim>\<open>omitempty\<close>, and the length markers on it.\<close>

definition omitempty :: "string \<Rightarrow> string option" where
  "omitempty s = (if s = '''' then None else Some s)"

definition schema_string :: "nat \<Rightarrow> nat \<Rightarrow> string option \<Rightarrow> bool" where
  "schema_string lo hi x = (case x of None \<Rightarrow> True | Some s \<Rightarrow> lo \<le> length s \<and> length s \<le> hi)"

definition schema_interface :: "SwiftGuestInterface \<Rightarrow> bool" where
  "schema_interface i = schema_string 1 63 (Some (if_Name i))"

definition schema_gpu :: "SwiftGuestGPU \<Rightarrow> bool" where
  "schema_gpu g = (in_enum [''pcie''] (omitempty (gpu_Tier g)) \<and> in_enum ['''', ''1Gi'', ''2Mi''] (omitempty (gpu_Hugepages g)))"

definition schema_swiftguest :: "SwiftGuestBackend \<Rightarrow> bool" where
  "schema_swiftguest c = (length (sg_Interfaces c) \<le> 16 \<and> distinct (map if_Name (sg_Interfaces c)) \<and>
     list_all schema_interface (sg_Interfaces c) \<and> schema_string 1 253 (omitempty (sg_NodeName c)) \<and>
     (case sg_GPU c of None \<Rightarrow> True | Some g \<Rightarrow> schema_gpu g))"

definition schema_machine_spec :: "KubeSwiftMachineSpec \<Rightarrow> bool" where
  "schema_machine_spec s = (schema_string 1 512 (omitempty (kms_ProviderID s)) \<and>
     in_enum [''SwiftGuest''] (Some (mb_Type (kms_Backend s))) \<and>
     (case mb_SwiftGuest (kms_Backend s) of None \<Rightarrow> True | Some c \<Rightarrow> schema_swiftguest c))"

definition schema_machine_status :: "KubeSwiftMachineStatus \<Rightarrow> bool" where
  "schema_machine_status s = (schema_string 1 256 (omitempty (kmt_FailureDomain s)) \<and>
     distinct (map cond_Type (kmt_Conditions s)))"

definition schema_machine :: "KubeSwiftMachine \<Rightarrow> bool" where
  "schema_machine m = (schema_machine_spec (ksm_Spec m) \<and> schema_machine_status (ksm_Status m))"

text \<open>The limits of Kubernetes on the names of namespaces and objects.\<close>

definition names_ok :: "ObjectMeta \<Rightarrow> bool" where
  "names_ok m = (om_Name m \<noteq> '''' \<and> length (om_Namespace m) \<le> 63 \<and> length (om_Name m) \<le> 253)"

lemma schema_string_empty [simp]: "schema_string lo hi (omitempty '''')"
  by (simp add: schema_string_def omitempty_def)

lemma schema_string_omitempty: "length s \<le> hi \<Longrightarrow> schema_string 1 hi (omitempty s)"
  by (cases s) (simp_all add: schema_string_def omitempty_def)

lemma providerID_length: "names_ok m \<Longrightarrow> length (providerID_of (om_Namespace m) (om_Name m)) \<le> 512"
  by (simp add: names_ok_def providerID_of_def ProviderIDScheme_def)

lemma schema_setReady:
  assumes "objects_lib L" "schema_machine k"
  shows "schema_machine (machine_setReady L k b c)"
  using assms(2) objects_lib.condition_set_distinct [OF assms(1)]
  by (simp add: schema_machine_def schema_machine_status_def machine_setReady_def Let_def machine_SetConditions_def
      machine_GetConditions_def)

lemma schema_frame:
  "schema_machine (machine_AddFinalizer L k) = schema_machine k"
  "schema_machine (machine_RemoveFinalizer L k) = schema_machine k"
  by (simp_all add: schema_machine_def machine_AddFinalizer_def machine_RemoveFinalizer_def)

lemma schema_notReady:
  assumes "objects_lib L" "schema_machine k"
  shows "schema_machine (notReady L k a b)" "schema_machine (machineWaiting L k res)"
  using schema_setReady [OF assms] by (simp_all add: notReady_def machineWaiting_def)

lemma schema_provisioned:
  assumes "objects_lib L" "schema_machine k" "names_ok (ksm_Meta k)" "length (ma_FailureDomain machine) \<le> 256"
  shows "schema_machine (machineProvisioned L k machine res)"
  unfolding machineProvisioned_def Let_def
  using assms(2) providerID_length [OF assms(3)] schema_string_omitempty assms(4)
  by (intro schema_setReady [OF assms(1)]) (simp add: schema_machine_def schema_machine_spec_def schema_machine_status_def)


lemma ex_owner_read:
  "wp (Machine_Reconcile ref_lib (logged (mem_client ref_lib)) (nn ''ns'' ''w-0''))
     (\<lambda>r s'. \<forall>m machine. (CGetOwnerMachine m, RMachine machine) \<in> set (snd s') \<longrightarrow> length (ma_FailureDomain machine) \<le> 256)
     (ex_waiting_store, [])"
  by (simp add: Machine_Reconcile_def machine_reconcileNormal_def machine_deferPatch_def backendFor_def
      mem_run ex_waiting_store_def ex_machine_store_def ex_owned_machine_def ex_defs
      ex_node_store_def SwiftGuestBackendType_def ref_lib_def)


end
