(* ===== verification/Spec2Isabelle.thy ===== *)
theory Spec2Isabelle
  imports Lifecycle Cluster_Controller Webhook Deep_Copy_Props Manager_Props Api_Schema
begin

text \<open>
  Verification of the Cluster API infrastructure provider for KubeSwift
  (\<^verbatim>\<open>cluster-api-provider-kubeswift\<close>).

  \<^bold>\<open>The program.\<close> The provider is a Kubernetes controller manager. Cluster API's core controllers
  create a \<^verbatim>\<open>KubeSwiftCluster\<close> per cluster and a \<^verbatim>\<open>KubeSwiftMachine\<close> per machine; the provider's two
  reconcilers drive KubeSwift, through the API server alone, until these objects report what the
  Cluster API contract asks for. Its parts, and the theories that model them:

  \<^item> \<^verbatim>\<open>api/v1alpha1\<close>, the custom resources: \<^verbatim>\<open>API_Types\<close>. One record per struct, the constants,
    the condition accessors, and the \<^verbatim>\<open>XValidation\<close> admission rules of the machine types, which
    are evaluated on the JSON form of an object. \<open>conditions_object\<close> is the contract of the
    condition accessors, interpreted on both resources. The enum, length, range, list and default
    markers are in \<^verbatim>\<open>Api_Schema\<close>.
  \<^item> \<^verbatim>\<open>api/v1alpha1/zz_generated.deepcopy.go\<close>, the copy functions of the resources: \<^verbatim>\<open>Deep_Copy\<close>, over
    the model of pointers, maps and slices of \<^verbatim>\<open>Go_Memory\<close>. There a struct is a record whose pointers
    are addresses, and each of the 23 types has its \<^verbatim>\<open>DeepCopyInto\<close> and \<^verbatim>\<open>DeepCopy\<close>, composed as in the code.
  \<^item> \<^verbatim>\<open>internal/backend/backend.go\<close>, the interface between the machine reconciler and what backs a
    machine: \<^verbatim>\<open>Backend\<close>. The Go interface is a record of methods; the locale \<open>machine_backend\<close>
    is what a caller may rely on.
  \<^item> \<^verbatim>\<open>internal/backend/swiftguest.go\<close>, the only backend: \<^verbatim>\<open>SwiftGuest_Validate\<close> (the four
    checks), \<^verbatim>\<open>SwiftGuest_Render\<close> (the objects it builds, one definition per block of
    \<^verbatim>\<open>renderSwiftGuest\<close>), \<^verbatim>\<open>SwiftGuest_Backend\<close> (\<^verbatim>\<open>Reconcile\<close>, \<^verbatim>\<open>Delete\<close> and the ensure functions; the
    interpretation of \<open>machine_backend\<close>).
  \<^item> \<^verbatim>\<open>internal/controller/endpoint_service.go\<close>, the Service in front of the control plane:
    \<^verbatim>\<open>Endpoint_Service\<close>. \<^verbatim>\<open>internal/controller/kubeswiftcluster_controller.go\<close>, the cluster
    reconciler: \<^verbatim>\<open>Cluster_Controller\<close>.
  \<^item> \<^verbatim>\<open>internal/controller/workload_node.go\<close>, the patch of the workload cluster's Node:
    \<^verbatim>\<open>Workload_Node\<close>. \<^verbatim>\<open>internal/controller/kubeswiftmachine_controller.go\<close>, the machine reconciler:
    \<^verbatim>\<open>Machine_Controller\<close>.
  \<^item> \<^verbatim>\<open>internal/webhook/v1alpha1\<close>, the validating webhook of machine templates: \<^verbatim>\<open>Webhook\<close>.
  \<^item> The \<^verbatim>\<open>SetupWithManager\<close> functions, by which the reconcilers are woken, and the registration of the
    webhook: \<^verbatim>\<open>Wiring\<close>. A chain of builder
    calls is a list, and \<open>requests\<close> is what controller-runtime documents it to mean.
  \<^item> \<^verbatim>\<open>cmd/main.go\<close> and \<^verbatim>\<open>api/v1alpha1/groupversion_info.go\<close>, the start of the process: \<^verbatim>\<open>Manager\<close>, with the
    standard library's command line and path functions in \<^verbatim>\<open>Go_Flag\<close>. What \<^verbatim>\<open>main\<close> asks of
    controller-runtime is a \<open>boot_call\<close>, and the result is the exit status.

  \<^bold>\<open>How code becomes definitions.\<close> A struct is a record, an optional pointer an \<open>option\<close>, an
  \<^verbatim>\<open>int32\<close> a 32-bit word, a possibly nil map an optional finite map, an error a value of \<open>go_error\<close>
  on the left of a sum. A method with effects is a program of the state monad over a world \<open>'w\<close>
  that the model never looks into (\<^verbatim>\<open>Prelude\<close>, which also holds the weakest-precondition calculus).
  In the deep copies and in the TLS options of \<^verbatim>\<open>main\<close>, where sharing decides what is right, pointers, maps and slices live in
  an explicit memory; everywhere else they are values.
  An object that Go mutates through a pointer is returned updated; the deferred patch of a
  reconciler receives it on every way out. Assigning into a nil map would be the error \<open>GoPanic\<close>;
  no run has it, since rendering always succeeds. Log calls are left out. There are no loops other than those
  over lists, which are structural recursions, and the parsing of arguments, whose termination is
  proved, so nothing needs fuel and every program returns.

  \<^bold>\<open>Code that is not in the repository\<close> is a parameter (\<^verbatim>\<open>Platform\<close>): \<open>lib\<close> holds the pure helpers
  of apimachinery, controller-runtime, client-go and Cluster API that the sources call, \<open>'w client\<close>
  the calls to an API server, each of which may fail and change the world in any way. What the
  helpers are documented to do is stated as locales in \<^verbatim>\<open>Lib_Laws\<close> (\<open>k8s_lib\<close> is all of it), and what an API
  server does for a client that is alone as locales in \<^verbatim>\<open>Api_Server\<close>. A theorem that relies on them has
  them as its hypothesis. \<^verbatim>\<open>Ref_Lib\<close> and \<^verbatim>\<open>Mem_Server\<close> are a reference library and an in-memory server
  on which all these locales are interpreted and in which the witnesses run, on the objects
  of \<^verbatim>\<open>Samples\<close>.

  \<^bold>\<open>What is shown.\<close>
  \<^item> About the calls a program makes, for every behaviour of the servers: \<open>logged\<close> wraps a client so
    that calls and answers are recorded, and an inductive relation per program
    (\<open>seed_trace\<close>, \<open>guest_trace\<close>, \<open>delete_trace\<close>, \<open>reconcile_trace\<close>, \<open>service_trace\<close>,
    \<open>cluster_body\<close>, \<open>cluster_trace\<close>, and in \<^verbatim>\<open>Machine_Trace\<close> \<open>machine_body\<close>, \<open>machine_trace\<close>) describes every log it
    can produce. From them follow the orders of calls, what guards a finalizer, what a paused or
    unready object protects, which namespaces are touched, and that credentials are passed by
    reference (\<^verbatim>\<open>SwiftGuest_Props\<close>, \<^verbatim>\<open>Cluster_Controller\<close>, \<^verbatim>\<open>Machine_Props\<close>). \<^verbatim>\<open>Machine_Trace\<close> does
    this for any backend that keeps the contract \<open>traced_backend\<close>, of which the SwiftGuest backend is an interpretation.
    \<^verbatim>\<open>Recording\<close> shows that the recorded run and the run itself agree.
  \<^item> About the objects written: the shape of a rendered guest, the reported state of both
    resources, the exactness of the comparison that decides whether to update the Service.
  \<^item> About convergence, under the server contracts: one run of the backend or of the Service code
    reaches the wanted state and a second one writes nothing; deletion makes progress
    (\<^verbatim>\<open>SwiftGuest_Converge\<close>, \<^verbatim>\<open>Endpoint_Service\<close>); one run of the machine reconciler brings the guest into
    being and the machine to report what the guest shows (\<^verbatim>\<open>Machine_Converge\<close>, contract \<open>machine_server\<close>).
  \<^item> About runs among others: \<^verbatim>\<open>Lifecycle\<close> states the life of a machine and its guest as an abstract
    step relation \<open>lifecycle\<close> and shows that the system, in which users, Cluster API and KubeSwift act between any
    two calls (\<open>others\<close>) and runs may be lost after any call, refines it; so no guest is left without a machine that
    carries the finalizer. The proviso \<open>guarded_run\<close> names the one gap the code leaves. What a call does to
    the stored objects is the relation \<open>api_effect\<close>, a hypothesis on the client (\<open>effect_client\<close>,
    theory \<^verbatim>\<open>Interference\<close>), interpreted on the in-memory server; \<^verbatim>\<open>Preservation\<close> carries it through the program.
  \<^item> About copies: a copy is deeply equal to the original, shares no memory with it and leaves it
    unchanged (\<^verbatim>\<open>Deep_Copy_Props\<close>). \<open>deep_copier\<close> is the contract of a copy function; the type constructors preserve it, it is
    assumed of apimachinery's three functions in \<open>foreign_lib\<close>, and interpreted for each type.
  \<^item> About the start: \<^verbatim>\<open>main\<close> makes the calls of a plan computed from its options and stops at the first
    that fails; the options can all be set by flags; exactly when the TLS options reach the servers they are
    meant for (\<^verbatim>\<open>Manager_Props\<close>).
  \<^item> About the limits of the API types: what the server admits is in range for the controllers, and
    what the machine controller writes is admitted again (\<^verbatim>\<open>Api_Schema\<close>).
  \<^item> About agreement between parts: the interface checks and the admission rules
    (\<^verbatim>\<open>SwiftGuest_Validate\<close>), the watch handler and the labels of a guest (\<^verbatim>\<open>Machine_Props\<close>), the Service and the watch on it
    (\<^verbatim>\<open>Wiring\<close>), and in this
    theory the exposure of a guest and the Service that selects it.

  \<^bold>\<open>What is not modelled.\<close> Log
  calls, the logger and the printer columns are left out, and so are the end-to-end test
  helpers. In the reconcilers maps and slices are values, so aliasing between objects
  is not represented there. The rate limiting and the retry on error of the
  work queue belong to controller-runtime.

  \<^bold>\<open>Plan.\<close> Next: the cluster reconciler among others, in the manner of \<^verbatim>\<open>Lifecycle\<close>, with the endpoint
  Service in the place of the guest; a run of the cluster reconciler up to a provisioned cluster, in the
  manner of \<^verbatim>\<open>Machine_Converge\<close>; both reconcilers with aliased objects over
  \<^verbatim>\<open>Go_Memory\<close>.
\<close>

section \<open>The endpoint Service and the guests behind it\<close>

text \<open>A Service selects an object with the given labels.\<close>

definition selects :: "Service \<Rightarrow> go_map \<Rightarrow> bool" where
  "selects svc labels = (case svc_Selector svc of None \<Rightarrow> False
     | Some sel \<Rightarrow> fmpred (\<lambda>k v. map_entry labels k = Some v) sel)"

text \<open>The port that a rendered guest forwards to its API server.\<close>

definition forwards :: "json_obj \<Rightarrow> int \<Rightarrow> bool" where
  "forwards spec port = (\<exists>net p w. fmlookup spec ''network'' = Some (VMap net) \<and>
     fmlookup net ''ports'' = Some (VSlice [VMap p]) \<and> fmlookup p ''port'' = Some (VInt w) \<and>
     fmlookup p ''targetPort'' = Some (VInt w) \<and> sint w = port)"

lemma selects_endpoint:
  "selects (buildControlPlaneService ksc cluster) labels \<longleftrightarrow>
     map_entry labels ControlPlanePoolLabelKey = Some (ControlPlaneServiceSelectorValue (om_Name (cl_Meta cluster)))"
  by (auto simp: selects_def buildControlPlaneService_fields fmpred_iff split: if_splits)

lemma exposure_of_cluster:
  assumes "IsControlPlaneMachine L machine" "cl_InfrastructureRefName cluster \<noteq> ''''"
    "wp (c_GetCluster C (nn (om_Namespace (cl_Meta cluster)) (cl_InfrastructureRefName cluster))) (\<lambda>r _. r = Inr ksc) w"
  shows "wp (controlPlaneExposure L C machine cluster) (\<lambda>r _. r = Inr
     (if endpointMode ksc = EndpointModeService
      then Some \<lparr> cx_PoolLabel = ControlPlaneServiceSelectorValue (om_Name (cl_Meta cluster)),
                  cx_Port = controlPlaneServicePort ksc \<rparr>
      else None)) w"
  unfolding controlPlaneExposure_def using assms(1,2)
  by (auto simp: wp_simps endpointMode_def controlPlaneServicePort_def serviceCfg_def str_defs Let_def
      split: option.split intro!: wp_mono [OF assms(3)])


definition ex_cp_machine :: CAPIMachine where
  "ex_cp_machine = (ex_capi_machine ''cp-0'')\<lparr>ma_Meta := (ex_meta ''cp-0'')\<lparr>
     om_Labels := Some (fmap_of_list [(''cluster.x-k8s.io/control-plane'', '''')])\<rparr>\<rparr>"


end
